(* ===== verification/Entra_Prelude.thy ===== *)
theory Entra_Prelude
  imports Complex_Main "HOL-Library.State_Monad" "HOL-Library.Word"
begin

text \<open>
  Shared vocabulary of the development: the Go scalar types, the error values that Go functions
  return, the state monad in which every handler is written, the two program logics used by
  all component theories (weakest preconditions \<open>wp\<close> and preservation \<open>keeps\<close> / \<open>unchanged\<close>), the
  decimal conversions of Go's \<open>strconv\<close> and \<open>fmt\<close>, and tables as lists of rows.
\<close>

section \<open>Scalars\<close>

text \<open>
  \<^item> \<open>uuid.UUID\<close> is an array of 16 bytes; the zero value is \<open>uuid.Nil\<close>.
  \<^item> \<open>int32\<close> wraps around; comparisons are signed.
  \<^item> \<open>time.Time\<close> is the number of nanoseconds since the epoch; a duration is a difference of times.
\<close>

type_synonym uuid = "128 word"
type_synonym int32 = "32 word"
type_synonym time = int

abbreviation uuid_Nil :: uuid where "uuid_Nil \<equiv> 0"

definition Second :: time where "Second = 1000000000"
definition Minute :: time where "Minute = 60 * Second"
definition Hour :: time where "Hour = 60 * Minute"

lemmas duration_defs = Second_def Minute_def Hour_def

text \<open>\<open>t.Unix()\<close>: whole seconds, rounded down.\<close>

definition Unix :: "time \<Rightarrow> int" where
  "Unix t = t div Second"

text \<open>A \<open>timestamptz\<close> column keeps microseconds: the driver drops the rest.\<close>

definition pg_time :: "time \<Rightarrow> time" where
  "pg_time t = (t div 1000) * 1000"

lemma pg_time_le: "pg_time t \<le> t"
  by (simp add: pg_time_def minus_mod_eq_div_mult [symmetric])

lemma pg_time_gt: "t - 1000 < pg_time t"
proof -
  have "t mod 1000 < 1000" by simp
  then show ?thesis by (simp add: pg_time_def minus_mod_eq_div_mult [symmetric])
qed

lemma Unix_mono: "t \<le> u \<Longrightarrow> Unix t \<le> Unix u"
  by (simp add: Unix_def Second_def zdiv_mono1)

lemma Unix_add_seconds: "Unix (t + n * Second) = Unix t + n"
  by (simp add: Unix_def Second_def)

section \<open>Error values\<close>

text \<open>
  A Go function returning \<open>(T, error)\<close> is a computation returning \<open>gerr + 'a\<close>. Sentinel errors are
  constructors, because the code compares them by identity with \<open>errors.Is\<close>; \<open>Err_New\<close> is a value
  built by \<open>errors.New\<close> on the spot, \<open>Err_Wrap\<close> one built by \<open>fmt.Errorf("...: %w", ...)\<close>.
\<close>

datatype gerr =
    ErrNoRows
  | ErrRedisNil
  | ErrWrongType
  | ErrConstraint
  | ErrOutOfRange
  | ErrTransport
  | ErrParse
  | ErrBinding
  | ErrSoldOut
  | ErrActivePendingOrderExists
  | ErrOrderProcessing
  | ErrSaleEnded
  | ErrSaleNotStarted
  | ErrEventEnded
  | ErrTicketInactive
  | ErrInsufficientBalance
  | ErrWithdrawalNotFound
  | ErrUnauthorizedAccess
  | ErrInvalidAmount
  | ErrInvalidCredentials
  | ErrEmailAlreadyExists
  | ErrUserNotFound
  | ErrInvalidToken
  | ErrEventNotFound
  | ErrUnauthorized
  | ErrVenueNotFound
  | Err_Status nat
  | Err_New string
  | Err_Wrap string gerr

fun errors_Is :: "gerr \<Rightarrow> gerr \<Rightarrow> bool" where
  "errors_Is (Err_Wrap m e) target = (Err_Wrap m e = target \<or> errors_Is e target)"
| "errors_Is e target = (e = target)"

lemma errors_Is_refl [simp]: "errors_Is e e"
  by (cases e) auto

text \<open>The value component of a \<open>(T, error)\<close> result: the zero value when an error came back.\<close>

definition value_or :: "'a \<Rightarrow> gerr + 'a \<Rightarrow> 'a" where
  "value_or z r = (case r of Inl _ \<Rightarrow> z | Inr x \<Rightarrow> x)"

lemma value_or_simps [simp]: "value_or z (Inl e) = z" "value_or z (Inr x) = x"
  by (simp_all add: value_or_def)

definition is_ok :: "gerr + 'a \<Rightarrow> bool" where
  "is_ok r = (case r of Inl _ \<Rightarrow> False | Inr _ \<Rightarrow> True)"

lemma is_ok_simps [simp]: "\<not> is_ok (Inl e)" "is_ok (Inr x)"
  by (simp_all add: is_ok_def)

section \<open>The monad of handlers\<close>

type_synonym ('s, 'a) go = "('s, gerr + 'a) state"

abbreviation ret :: "'a \<Rightarrow> ('s, 'a) state" where
  "ret \<equiv> State_Monad.return"

abbreviation ok :: "'a \<Rightarrow> ('s, 'a) go" where
  "ok x \<equiv> ret (Inr x)"

abbreviation err :: "gerr \<Rightarrow> ('s, 'a) go" where
  "err e \<equiv> ret (Inl e)"

text \<open>\<open>x, err := m; if err != nil { return h(err) }\<close> followed by \<open>f x\<close>.\<close>

definition bindE :: "(gerr \<Rightarrow> gerr) \<Rightarrow> ('s, 'a) go \<Rightarrow> ('a \<Rightarrow> ('s, 'b) go) \<Rightarrow> ('s, 'b) go" where
  "bindE h m f = do { r \<leftarrow> m; case r of Inl e \<Rightarrow> err (h e) | Inr x \<Rightarrow> f x }"

abbreviation check :: "('s, 'a) go \<Rightarrow> ('a \<Rightarrow> ('s, 'b) go) \<Rightarrow> ('s, 'b) go" where
  "check m f \<equiv> bindE (\<lambda>e. e) m f"

text \<open>A \<open>for\<close> loop over a slice.\<close>

fun for_each :: "'a list \<Rightarrow> ('a \<Rightarrow> ('s, unit) state) \<Rightarrow> ('s, unit) state" where
  "for_each [] body = ret ()"
| "for_each (x # xs) body = do { body x; for_each xs body }"

subsection \<open>Weakest preconditions\<close>

definition wp :: "('s, 'a) state \<Rightarrow> ('a \<Rightarrow> 's \<Rightarrow> bool) \<Rightarrow> 's \<Rightarrow> bool" where
  "wp m Q s = (case run_state m s of (x, s') \<Rightarrow> Q x s')"

lemma wp_return [simp]: "wp (ret x) Q s = Q x s"
  by (simp add: wp_def)

lemma wp_bind [simp]: "wp (State_Monad.bind m f) Q s = wp m (\<lambda>x. wp (f x) Q) s"
  by (simp add: wp_def split: prod.splits)

lemma wp_return_fun [simp]: "wp (ret x) Q = Q x"
  by (rule ext) simp

lemma wp_bind_fun [simp]: "wp (State_Monad.bind m f) Q = wp m (\<lambda>x. wp (f x) Q)"
  by (rule ext) simp

lemma wp_get [simp]: "wp State_Monad.get Q s = Q s s"
  by (simp add: wp_def)

lemma wp_set [simp]: "wp (State_Monad.set s') Q s = Q () s'"
  by (simp add: wp_def)

lemma wp_State [simp]: "wp (State f) Q s = (case f s of (x, s') \<Rightarrow> Q x s')"
  by (simp add: wp_def)

lemma wp_bindE [simp]:
  "wp (bindE h m f) Q s = wp m (\<lambda>r t. case r of Inl e \<Rightarrow> Q (Inl (h e)) t | Inr x \<Rightarrow> wp (f x) Q t) s"
  by (auto simp: bindE_def wp_def split: prod.splits sum.splits)

lemma wp_mono: "wp m Q s \<Longrightarrow> (\<And>x t. Q x t \<Longrightarrow> R x t) \<Longrightarrow> wp m R s"
  by (auto simp: wp_def split: prod.splits)

lemma wp_conj: "wp m (\<lambda>x t. P x t \<and> Q x t) s \<longleftrightarrow> wp m P s \<and> wp m Q s"
  by (auto simp: wp_def split: prod.splits)

lemma wp_mono2: "wp m P s \<Longrightarrow> wp m P' s \<Longrightarrow> (\<And>x t. P x t \<Longrightarrow> P' x t \<Longrightarrow> R x t) \<Longrightarrow> wp m R s"
  by (auto simp: wp_def split: prod.splits)

lemma wpI: "(\<And>x t. run_state m s = (x, t) \<Longrightarrow> Q x t) \<Longrightarrow> wp m Q s"
  by (auto simp: wp_def split: prod.splits)

lemma wp_True [simp]: "wp m (\<lambda>x t. True) s"
  by (simp add: wp_def case_prod_beta)

lemma wp_run: "run_state m s = (x, t) \<Longrightarrow> wp m Q s = Q x t"
  by (simp add: wp_def)

subsection \<open>Preservation\<close>

text \<open>\<open>keeps I m\<close>: every run of \<open>m\<close> from a state in \<open>I\<close> ends in \<open>I\<close>, whatever it returns.\<close>

definition keeps :: "('s \<Rightarrow> bool) \<Rightarrow> ('s, 'a) state \<Rightarrow> bool" where
  "keeps I m \<longleftrightarrow> (\<forall>s. I s \<longrightarrow> I (snd (run_state m s)))"

text \<open>\<open>unchanged f m\<close>: no run of \<open>m\<close> changes the part \<open>f\<close> of the state.\<close>

definition unchanged :: "('s \<Rightarrow> 'b) \<Rightarrow> ('s, 'a) state \<Rightarrow> bool" where
  "unchanged f m \<longleftrightarrow> (\<forall>s. f (snd (run_state m s)) = f s)"

named_theorems keeps_rules and frame_rules and yields_rules

lemma keepsI:
  assumes "\<And>s x t. I s \<Longrightarrow> run_state m s = (x, t) \<Longrightarrow> I t"
  shows "keeps I m"
  unfolding keeps_def
proof (intro allI impI)
  fix s assume "I s"
  then show "I (snd (run_state m s))" by (rule assms [OF _ prod.collapse [symmetric]])
qed

lemma keepsD: "keeps I m \<Longrightarrow> I s \<Longrightarrow> run_state m s = (x, t) \<Longrightarrow> I t"
  unfolding keeps_def by (metis snd_conv)

lemma keeps_wp: "keeps I m \<Longrightarrow> I s \<Longrightarrow> wp m (\<lambda>_. I) s"
  by (auto simp: wp_def dest: keepsD split: prod.splits)

lemma keeps_iff_wp: "keeps I m \<longleftrightarrow> (\<forall>s. I s \<longrightarrow> wp m (\<lambda>_. I) s)"
  by (simp add: keeps_def wp_def case_prod_beta)

lemma unchangedD: "unchanged f m \<Longrightarrow> run_state m s = (x, t) \<Longrightarrow> f t = f s"
  unfolding unchanged_def by (metis snd_conv)

lemma unchanged_iff_keeps: "unchanged f m \<longleftrightarrow> (\<forall>c. keeps (\<lambda>s. f s = c) m)"
  by (auto simp: unchanged_def keeps_def)

lemma unchanged_keeps: "unchanged f m \<Longrightarrow> keeps (\<lambda>s. P (f s)) m"
  by (simp add: unchanged_def keeps_def)

lemma unchanged_snd: "unchanged f m \<Longrightarrow> f (snd (run_state m s)) = f s"
  by (simp add: unchanged_def)

lemma keeps_return [keeps_rules]: "keeps I (ret x)"
  by (simp add: keeps_def)

lemma keeps_get [keeps_rules]: "keeps I State_Monad.get"
  by (simp add: keeps_def)

lemma keeps_bind [keeps_rules]:
  "keeps I m \<Longrightarrow> (\<And>x. keeps I (f x)) \<Longrightarrow> keeps I (State_Monad.bind m f)"
  by (simp add: keeps_iff_wp) (blast intro: wp_mono)

lemma keeps_if [keeps_rules]: "(b \<Longrightarrow> keeps I m) \<Longrightarrow> (\<not> b \<Longrightarrow> keeps I n) \<Longrightarrow> keeps I (if b then m else n)"
  by simp

lemma keeps_sum [keeps_rules]:
  "(\<And>e. keeps I (f e)) \<Longrightarrow> (\<And>x. keeps I (g x)) \<Longrightarrow> keeps I (case r of Inl e \<Rightarrow> f e | Inr x \<Rightarrow> g x)"
  by (simp split: sum.split)

lemma keeps_option [keeps_rules]:
  "keeps I m \<Longrightarrow> (\<And>x. keeps I (g x)) \<Longrightarrow> keeps I (case r of None \<Rightarrow> m | Some x \<Rightarrow> g x)"
  by (simp split: option.split)

lemma keeps_prod [keeps_rules]: "(\<And>x y. keeps I (g x y)) \<Longrightarrow> keeps I (case r of (x, y) \<Rightarrow> g x y)"
  by (simp split: prod.split)

lemma keeps_let [keeps_rules]: "(\<And>x. keeps I (g x)) \<Longrightarrow> keeps I (let x = r in g x)"
  by (simp add: Let_def)

lemma keeps_bindE [keeps_rules]:
  "keeps I m \<Longrightarrow> (\<And>x. keeps I (f x)) \<Longrightarrow> keeps I (bindE h m f)"
  unfolding bindE_def by (intro keeps_rules)

lemma keeps_for_each [keeps_rules]: "(\<And>x. keeps I (body x)) \<Longrightarrow> keeps I (for_each xs body)"
  by (induction xs) (auto intro: keeps_rules)

lemma frame_return [frame_rules]: "unchanged f (ret x)"
  by (simp add: unchanged_def)

lemma frame_get [frame_rules]: "unchanged f State_Monad.get"
  by (simp add: unchanged_def)

lemma frame_bind [frame_rules]:
  "unchanged f m \<Longrightarrow> (\<And>x. unchanged f (g x)) \<Longrightarrow> unchanged f (State_Monad.bind m g)"
  by (auto simp: unchanged_def split: prod.splits) (metis snd_conv)

lemma frame_if [frame_rules]:
  "(b \<Longrightarrow> unchanged f m) \<Longrightarrow> (\<not> b \<Longrightarrow> unchanged f n) \<Longrightarrow> unchanged f (if b then m else n)"
  by simp

lemma frame_sum [frame_rules]:
  "(\<And>e. unchanged f (g e)) \<Longrightarrow> (\<And>x. unchanged f (h x)) \<Longrightarrow> unchanged f (case r of Inl e \<Rightarrow> g e | Inr x \<Rightarrow> h x)"
  by (simp split: sum.split)

lemma frame_option [frame_rules]:
  "unchanged f m \<Longrightarrow> (\<And>x. unchanged f (g x)) \<Longrightarrow> unchanged f (case r of None \<Rightarrow> m | Some x \<Rightarrow> g x)"
  by (simp split: option.split)

lemma frame_prod [frame_rules]: "(\<And>x y. unchanged f (g x y)) \<Longrightarrow> unchanged f (case r of (x, y) \<Rightarrow> g x y)"
  by (simp split: prod.split)

lemma frame_let [frame_rules]: "(\<And>x. unchanged f (g x)) \<Longrightarrow> unchanged f (let x = r in g x)"
  by (simp add: Let_def)

lemma frame_bindE [frame_rules]:
  "unchanged f m \<Longrightarrow> (\<And>x. unchanged f (g x)) \<Longrightarrow> unchanged f (bindE h m g)"
  unfolding bindE_def by (intro frame_rules)

lemma frame_for_each [frame_rules]: "(\<And>x. unchanged f (body x)) \<Longrightarrow> unchanged f (for_each xs body)"
  by (induction xs) (auto intro: frame_rules)

subsection \<open>Results\<close>

text \<open>\<open>yields P m\<close>: every run of \<open>m\<close>, from any state, returns a value in \<open>P\<close>.\<close>

definition yields :: "('a \<Rightarrow> bool) \<Rightarrow> ('s, 'a) state \<Rightarrow> bool" where
  "yields P m \<longleftrightarrow> (\<forall>s. P (fst (run_state m s)))"

lemma yields_wp: "yields P m \<Longrightarrow> wp m (\<lambda>x t. P x) s"
  by (simp add: yields_def wp_def case_prod_beta)

lemma yields_iff_wp: "yields P m \<longleftrightarrow> (\<forall>s. wp m (\<lambda>x t. P x) s)"
  by (simp add: yields_def wp_def case_prod_beta)

lemma yields_mono: "yields P m \<Longrightarrow> (\<And>x. P x \<Longrightarrow> Q x) \<Longrightarrow> yields Q m"
  by (simp add: yields_def)

lemma yields_return [yields_rules]: "P x \<Longrightarrow> yields P (ret x)"
  by (simp add: yields_def)

lemma yields_bind [yields_rules]: "(\<And>x. yields P (f x)) \<Longrightarrow> yields P (State_Monad.bind m f)"
  by (simp add: yields_def case_prod_beta)

lemma yields_if [yields_rules]: "(b \<Longrightarrow> yields P m) \<Longrightarrow> (\<not> b \<Longrightarrow> yields P n) \<Longrightarrow> yields P (if b then m else n)"
  by simp

lemma yields_sum [yields_rules]:
  "(\<And>e. yields P (f e)) \<Longrightarrow> (\<And>x. yields P (g x)) \<Longrightarrow> yields P (case r of Inl e \<Rightarrow> f e | Inr x \<Rightarrow> g x)"
  by (simp split: sum.split)

lemma yields_option [yields_rules]:
  "yields P m \<Longrightarrow> (\<And>x. yields P (g x)) \<Longrightarrow> yields P (case r of None \<Rightarrow> m | Some x \<Rightarrow> g x)"
  by (simp split: option.split)

lemma yields_let [yields_rules]: "(\<And>x. yields P (g x)) \<Longrightarrow> yields P (let x = r in g x)"
  by (simp add: Let_def)

lemma yields_bindE: "yields (\<lambda>r. \<forall>e. r = Inl e \<longrightarrow> P (Inl (h e))) m \<Longrightarrow> (\<And>x. yields P (f x)) \<Longrightarrow> yields P (bindE h m f)"
  by (auto simp: yields_iff_wp elim!: wp_mono [rotated] split: sum.split)

section \<open>Decimal strings\<close>

text \<open>\<open>%d\<close> and \<open>strconv.FormatInt\<close>.\<close>

definition digit_char :: "nat \<Rightarrow> char" where
  "digit_char d = char_of (48 + d)"

definition is_digit :: "char \<Rightarrow> bool" where
  "is_digit c \<longleftrightarrow> 48 \<le> (of_char c :: nat) \<and> (of_char c :: nat) \<le> 57"

definition digit_val :: "char \<Rightarrow> nat" where
  "digit_val c = of_char c - 48"

fun show_nat :: "nat \<Rightarrow> string" where
  "show_nat n = (if n < 10 then [digit_char n] else show_nat (n div 10) @ [digit_char (n mod 10)])"

declare show_nat.simps [simp del]

definition show_int :: "int \<Rightarrow> string" where
  "show_int i = (if i < 0 then CHR ''-'' # show_nat (nat (- i)) else show_nat (nat i))"

text \<open>\<open>strconv.ParseInt(s, 10, 64)\<close>: the value alone, which is 0 on a syntax error and the nearest
  bound on a range error, as the callers drop the error.\<close>

definition parse_digits :: "string \<Rightarrow> nat option" where
  "parse_digits s = (if s \<noteq> [] \<and> list_all is_digit s then Some (foldl (\<lambda>a c. 10 * a + digit_val c) 0 s) else None)"

definition parse_int :: "string \<Rightarrow> int option" where
  "parse_int s = (case s of [] \<Rightarrow> None
     | c # cs \<Rightarrow> if c = CHR ''-'' then map_option (\<lambda>n. - int n) (parse_digits cs)
               else if c = CHR ''+'' then map_option int (parse_digits cs)
               else map_option int (parse_digits s))"

definition ParseInt :: "string \<Rightarrow> int" where
  "ParseInt s = (case parse_int s of None \<Rightarrow> 0 | Some i \<Rightarrow> max (- (2 ^ 63)) (min (2 ^ 63 - 1) i))"

lemma of_char_digit_char: "d < 10 \<Longrightarrow> of_char (digit_char d) = (48 + d :: nat)"
  by (simp add: digit_char_def)

lemma digit_char_props:
  assumes "d < 10"
  shows "is_digit (digit_char d)" and "digit_val (digit_char d) = d"
    and "digit_char d \<noteq> CHR ''-''" and "digit_char d \<noteq> CHR ''+''"
proof -
  note d = of_char_digit_char [OF assms]
  show "is_digit (digit_char d)" and "digit_val (digit_char d) = d"
    using assms d by (simp_all add: is_digit_def digit_val_def)
  have "of_char CHR ''-'' = (45 :: nat)" and "of_char CHR ''+'' = (43 :: nat)" by simp_all
  with d show "digit_char d \<noteq> CHR ''-''" and "digit_char d \<noteq> CHR ''+''" by auto
qed

lemma show_nat_nonempty [simp]: "show_nat n \<noteq> []"
  by (subst show_nat.simps) simp

lemma show_nat_digits: "list_all is_digit (show_nat n)"
proof (induction n rule: show_nat.induct)
  case (1 n)
  then show ?case
    by (subst show_nat.simps) (auto simp: digit_char_props)
qed

lemma show_nat_value: "foldl (\<lambda>a c. 10 * a + digit_val c) 0 (show_nat n) = n"
proof (induction n rule: show_nat.induct)
  case (1 n)
  then show ?case
    by (subst show_nat.simps) (auto simp: digit_char_props)
qed

lemma parse_digits_show_nat [simp]: "parse_digits (show_nat n) = Some n"
  by (simp add: parse_digits_def show_nat_digits show_nat_value)

lemma show_nat_hd: "hd (show_nat n) \<noteq> CHR ''-'' \<and> hd (show_nat n) \<noteq> CHR ''+''"
proof -
  have "is_digit (hd (show_nat n))"
    using show_nat_digits [of n] by (cases "show_nat n") auto
  then show ?thesis by (auto simp: is_digit_def)
qed

lemma parse_int_show_int [simp]: "parse_int (show_int i) = Some i"
proof (cases "i < 0")
  case True
  then show ?thesis by (simp add: show_int_def parse_int_def)
next
  case False
  then obtain c cs where c: "show_nat (nat i) = c # cs" by (cases "show_nat (nat i)") auto
  with show_nat_hd [of "nat i"] have "c \<noteq> CHR ''-''" "c \<noteq> CHR ''+''" by auto
  with False c show ?thesis
    using parse_digits_show_nat [of "nat i"] by (simp add: show_int_def parse_int_def)
qed

lemma ParseInt_show_int: "- (2 ^ 63) \<le> i \<Longrightarrow> i < 2 ^ 63 \<Longrightarrow> ParseInt (show_int i) = i"
  by (simp add: ParseInt_def)

lemma ParseInt_Nil [simp]: "ParseInt [] = 0"
  by (simp add: ParseInt_def parse_int_def)

lemma show_int_nonempty [simp]: "show_int i \<noteq> []"
  by (simp add: show_int_def)

section \<open>Signed 32-bit arithmetic\<close>

lemma sint32_bounds: "- (2 ^ 31) \<le> sint (w :: int32) \<and> sint w < 2 ^ 31"
  using sint_greater_eq [of w] sint_less [of w] by simp

lemma sint32_of_int: "- (2 ^ 31) \<le> i \<Longrightarrow> i < 2 ^ 31 \<Longrightarrow> sint (word_of_int i :: int32) = i"
  by (simp add: sint_sbintrunc' signed_take_bit_int_eq_self)

section \<open>Tables\<close>

text \<open>
  A table is the list of its rows in insertion order. \<open>find_row\<close> is a \<open>SELECT ... :one\<close>,
  \<open>update_rows\<close> an \<open>UPDATE ... WHERE\<close>.
\<close>

definition find_row :: "('r \<Rightarrow> bool) \<Rightarrow> 'r list \<Rightarrow> 'r option" where
  "find_row p rows = find p rows"

definition update_rows :: "('r \<Rightarrow> bool) \<Rightarrow> ('r \<Rightarrow> 'r) \<Rightarrow> 'r list \<Rightarrow> 'r list" where
  "update_rows p f rows = map (\<lambda>r. if p r then f r else r) rows"

lemma find_row_simps [simp]:
  "find_row p [] = None"
  "find_row p (r # rs) = (if p r then Some r else find_row p rs)"
  by (simp_all add: find_row_def)

lemma update_rows_simps [simp]:
  "update_rows p f [] = []"
  "update_rows p f (r # rs) = (if p r then f r else r) # update_rows p f rs"
  by (simp_all add: update_rows_def)

lemma find_row_Some: "find_row p rows = Some r \<Longrightarrow> r \<in> set rows \<and> p r"
  by (induction rows) (auto split: if_splits)

lemma find_row_None: "find_row p rows = None \<longleftrightarrow> (\<forall>r \<in> set rows. \<not> p r)"
  by (induction rows) auto

lemma find_row_append:
  "find_row p (xs @ ys) = (case find_row p xs of None \<Rightarrow> find_row p ys | Some r \<Rightarrow> Some r)"
  by (induction xs) auto

lemma length_update_rows [simp]: "length (update_rows p f rows) = length rows"
  by (simp add: update_rows_def)

text \<open>
  The contract between a table and the statements that update it: an update keeps the key
  column, so a row is found after the update where it was found before.
\<close>

locale keyed_update =
  fixes key :: "'r \<Rightarrow> 'k" and upd :: "'r \<Rightarrow> 'r"
  assumes key_upd: "key (upd r) = key r"
begin

lemma find_updated:
  "find_row (\<lambda>r. key r = k) (update_rows (\<lambda>r. key r = k) upd rows) =
   map_option upd (find_row (\<lambda>r. key r = k) rows)"
  by (induction rows) (auto simp: key_upd)

lemma find_other:
  "k \<noteq> k' \<Longrightarrow> find_row (\<lambda>r. key r = k') (update_rows (\<lambda>r. key r = k) upd rows) =
   find_row (\<lambda>r. key r = k') rows"
  by (induction rows) (auto simp: key_upd)

lemma find_guarded:
  "find_row (\<lambda>r. key r = k) (update_rows (\<lambda>r. key r = k \<and> g r) upd rows) =
   map_option (\<lambda>r. if g r then upd r else r) (find_row (\<lambda>r. key r = k) rows)"
  by (induction rows) (auto simp: key_upd)

lemma keys_updated: "map key (update_rows p upd rows) = map key rows"
  by (induction rows) (auto simp: key_upd)

end

text \<open>A row invariant survives an update that establishes it on the rows it touches.\<close>

lemma update_rows_all:
  "(\<forall>r \<in> set rows. P r) \<Longrightarrow> (\<And>r. r \<in> set rows \<Longrightarrow> p r \<Longrightarrow> P r \<Longrightarrow> P (f r)) \<Longrightarrow> \<forall>r \<in> set (update_rows p f rows). P r"
  by (auto simp: update_rows_def)

end
