(* ===== verification/Float64.thy ===== *)
theory Float64
  imports Entra_Prelude "HOL-Library.Log_Nat"
begin

text \<open>
  Go's \<open>float64\<close> (IEEE 754 binary64, round to nearest, ties to even) over exact rationals, and the
  PostgreSQL \<open>numeric\<close> values the services convert it to and from. Negative zero is identified with
  zero: no operation the program uses tells them apart.
\<close>

datatype f64 = Fin rat | PInf | NInf | NaN

section \<open>Rounding\<close>

definition pow2 :: "int \<Rightarrow> rat" where
  "pow2 e = (if 0 \<le> e then 2 ^ nat e else 1 / 2 ^ nat (- e))"

text \<open>The binary exponent of a positive rational: \<open>pow2 (ilog2 a) \<le> a < pow2 (ilog2 a + 1)\<close>.\<close>

definition ilog2 :: "rat \<Rightarrow> int" where
  "ilog2 a = (let (n, d) = quotient_of a;
                  k = int (floorlog 2 (nat n)) - int (floorlog 2 (nat d))
              in if pow2 k \<le> a then k else k - 1)"

definition round_half_even :: "rat \<Rightarrow> int" where
  "round_half_even q = (let f = \<lfloor>q\<rfloor>; r = q - of_int f in
     if r < 1 / 2 then f else if 1 / 2 < r then f + 1 else if even f then f else f + 1)"

text \<open>The spacing of the doubles around a rational of magnitude \<open>a\<close>.\<close>

definition ulp :: "rat \<Rightarrow> rat" where
  "ulp a = pow2 (max (ilog2 a) (- 1022) - 52)"

definition fround :: "rat \<Rightarrow> f64" where
  "fround q = (if q = 0 then Fin 0
     else let v = of_int (round_half_even (\<bar>q\<bar> / ulp \<bar>q\<bar>)) * ulp \<bar>q\<bar> in
       if pow2 1024 \<le> v then (if 0 < q then PInf else NInf)
       else Fin (if 0 < q then v else - v))"

section \<open>Arithmetic and comparison\<close>

fun fneg :: "f64 \<Rightarrow> f64" where
  "fneg (Fin a) = Fin (- a)"
| "fneg PInf = NInf"
| "fneg NInf = PInf"
| "fneg NaN = NaN"

definition finf :: "bool \<Rightarrow> f64" where
  "finf neg = (if neg then NInf else PInf)"

fun fsign :: "f64 \<Rightarrow> int" where
  "fsign (Fin a) = (if 0 < a then 1 else if a < 0 then - 1 else 0)"
| "fsign PInf = 1"
| "fsign NInf = - 1"
| "fsign NaN = 0"

fun fadd :: "f64 \<Rightarrow> f64 \<Rightarrow> f64" where
  "fadd (Fin a) (Fin b) = fround (a + b)"
| "fadd NaN y = NaN"
| "fadd x NaN = NaN"
| "fadd PInf NInf = NaN"
| "fadd NInf PInf = NaN"
| "fadd (Fin a) y = y"
| "fadd x y = x"

definition fsub :: "f64 \<Rightarrow> f64 \<Rightarrow> f64" where
  "fsub x y = fadd x (fneg y)"

fun fmul :: "f64 \<Rightarrow> f64 \<Rightarrow> f64" where
  "fmul (Fin a) (Fin b) = fround (a * b)"
| "fmul x y = (if x = NaN \<or> y = NaN \<or> fsign x = 0 \<or> fsign y = 0 then NaN
               else finf (fsign x * fsign y < 0))"

text \<open>Division of finite values; a zero divisor gives an infinity or NaN.\<close>

fun fdiv :: "f64 \<Rightarrow> f64 \<Rightarrow> f64" where
  "fdiv (Fin a) (Fin b) = (if b = 0 then (if a = 0 then NaN else finf (a < 0)) else fround (a / b))"
| "fdiv NaN y = NaN"
| "fdiv x NaN = NaN"
| "fdiv (Fin a) y = Fin 0"
| "fdiv x (Fin b) = finf (fsign x * (if b < 0 then - 1 else 1) < 0)"
| "fdiv x y = NaN"

fun flt :: "f64 \<Rightarrow> f64 \<Rightarrow> bool" where
  "flt (Fin a) (Fin b) = (a < b)"
| "flt NaN y = False"
| "flt x NaN = False"
| "flt PInf y = False"
| "flt x NInf = False"
| "flt x y = True"

definition fle :: "f64 \<Rightarrow> f64 \<Rightarrow> bool" where
  "fle x y \<longleftrightarrow> flt x y \<or> (x = y \<and> x \<noteq> NaN)"

definition f_of_int :: "int \<Rightarrow> f64" where
  "f_of_int i = fround (of_int i)"

text \<open>\<open>int64(x)\<close> truncates towards zero; out of range the result is implementation-defined, here the
  value amd64 gives.\<close>

fun f_int64 :: "f64 \<Rightarrow> int" where
  "f_int64 (Fin a) = (let i = (if 0 \<le> a then \<lfloor>a\<rfloor> else \<lceil>a\<rceil>) in
     if - (2 ^ 63) \<le> i \<and> i < 2 ^ 63 then i else - (2 ^ 63))"
| "f_int64 _ = - (2 ^ 63)"

section \<open>Rounding, evaluated\<close>

text \<open>\<open>ilog2\<close> is the binary exponent, so rounding is known from a bracket of powers of two.\<close>

lemma pow2_powi: "pow2 e = 2 powi e"
  by (simp add: pow2_def power_int_def field_simps)

lemma pow2_mono: "e \<le> f \<Longrightarrow> pow2 e \<le> pow2 f"
  by (simp add: pow2_powi power_int_increasing)

lemma pow2_pos [simp]: "0 < pow2 e"
  by (simp add: pow2_def)

lemma pow2_diff: "pow2 (int a - int b) = 2 ^ a / 2 ^ b"
  by (simp add: pow2_powi power_int_diff)

lemma pow2_add: "pow2 (a + b) = pow2 a * pow2 b"
  by (simp add: pow2_powi power_int_add)

lemma ilog2_bounds:
  assumes "0 < a"
  shows "pow2 (ilog2 a) \<le> a" and "a < pow2 (ilog2 a + 1)"
proof -
  obtain n d where q: "quotient_of a = (n, d)" by fastforce
  have d: "0 < d" using quotient_of_denom_pos [OF q] .
  have a: "a = of_int n / of_int d" using quotient_of_div [OF q] .
  have n: "0 < n" using assms d by (simp add: a zero_less_divide_iff)
  let ?k = "int (floorlog 2 (nat n)) - int (floorlog 2 (nat d))"
  have b: "int (2 ^ (floorlog 2 (nat m) - 1)) \<le> m \<and> m < int (2 ^ floorlog 2 (nat m))" if "0 < m" for m
    using that floorlog_bounds [of "nat m" 2] by (metis int_nat_eq nat_int_comparison(2) of_nat_le_iff one_less_numeral_iff order_less_imp_le semiring_norm(76) zero_less_nat_eq zle_int)
  have up: "of_int n < (2 ^ floorlog 2 (nat n) :: rat)" "of_int d < (2 ^ floorlog 2 (nat d) :: rat)"
    using b [OF n] b [OF d] by (metis of_int_less_iff of_int_of_nat_eq of_nat_numeral of_nat_power)+
  have "(of_int (int (2 ^ (floorlog 2 (nat n) - 1))) :: rat) \<le> of_int n" "(of_int (int (2 ^ (floorlog 2 (nat d) - 1))) :: rat) \<le> of_int d"
    using b [OF n] b [OF d] by (simp_all only: of_int_le_iff)
  moreover have "0 < floorlog 2 (nat n)" "0 < floorlog 2 (nat d)" using n d by (simp_all add: floorlog_def)
  ultimately have lo: "(2 ^ floorlog 2 (nat n) :: rat) \<le> 2 * of_int n" "(2 ^ floorlog 2 (nat d) :: rat) \<le> 2 * of_int d"
    by (cases "floorlog 2 (nat n)"; cases "floorlog 2 (nat d)"; simp)+
  have hi: "a < pow2 (?k + 1)" and lw: "pow2 (?k - 1) \<le> a"
  proof -
    let ?N = "2 ^ floorlog 2 (nat n) :: rat" and ?D = "2 ^ floorlog 2 (nat d) :: rat"
    have k: "pow2 (?k + 1) = 2 * ?N / ?D" "pow2 (?k - 1) = ?N / ?D / 2"
      using pow2_add [of ?k 1] pow2_add [of ?k "- 1"] by (simp_all only: pow2_diff) (simp_all add: pow2_def)
    have d': "0 < (of_int d :: rat)" and n': "0 < (of_int n :: rat)" using d n by simp_all
    have "of_int n * ?D \<le> of_int n * (2 * of_int d)" using lo(2) n' by (intro mult_left_mono) simp_all
    also have "\<dots> < ?N * (2 * of_int d)" using up(1) d' by (intro mult_strict_right_mono) simp_all
    finally show "a < pow2 (?k + 1)" unfolding k a using d' by (simp add: field_simps)
    have "?N * of_int d \<le> (2 * of_int n) * ?D" using lo(1) up(2) d' n' by (intro mult_mono) simp_all
    then show "pow2 (?k - 1) \<le> a" unfolding k a using d' by (simp add: field_simps)
  qed
  show "pow2 (ilog2 a) \<le> a" "a < pow2 (ilog2 a + 1)"
    using hi lw by (auto simp: ilog2_def q Let_def)
qed

lemma ilog2_unique:
  assumes "pow2 k \<le> a" and "a < pow2 (k + 1)"
  shows "ilog2 a = k"
proof -
  have "0 < a" using assms(1) pow2_pos less_le_trans by blast
  note b = ilog2_bounds [OF this]
  have "k < ilog2 a + 1" "ilog2 a < k + 1"
    using assms b pow2_mono [of "ilog2 a + 1" k] pow2_mono [of "k + 1" "ilog2 a"] by (fastforce simp: not_le [symmetric])+
  then show ?thesis by simp
qed

lemma fround_eqI:
  assumes "pow2 k \<le> q" and "q < pow2 (k + 1)" and "- 1022 \<le> k" and "u = pow2 (k - 52)"
    and "round_half_even (q / u) = m" and "of_int m * u < pow2 1024"
  shows "fround q = Fin (of_int m * u)"
proof -
  have "0 < q" using assms(1) pow2_pos less_le_trans by blast
  then show ?thesis
    using assms by (simp add: fround_def ulp_def ilog2_unique [OF assms(1,2)] max_def Let_def)
qed

lemma round_half_evenI:
  assumes "\<bar>q - of_int m\<bar> < 1 / 2"
  shows "round_half_even q = m"
proof (cases "of_int m \<le> q")
  case True
  then have "\<lfloor>q\<rfloor> = m" using assms by (intro floor_unique) auto
  then show ?thesis using assms True by (simp add: round_half_even_def Let_def)
next
  case False
  then have "\<lfloor>q\<rfloor> = m - 1" using assms by (intro floor_unique) auto
  then show ?thesis using assms False by (simp add: round_half_even_def Let_def)
qed

section \<open>Whole numbers are exact\<close>

lemma floorlog_two:
  assumes "0 < n"
  shows "0 < floorlog 2 n" and "2 ^ (floorlog 2 n - 1) \<le> n"
  using floorlog_bounds [of n 2] assms by (simp add: floorlog_def, simp)

lemma ilog2_of_nat:
  assumes "0 < n"
  shows "ilog2 (of_nat n) = int (floorlog 2 n) - 1"
proof -
  have q: "quotient_of (of_nat n) = (int n, 1)" using quotient_of_int [of "int n"] by simp
  have "of_nat (2 ^ (floorlog 2 n - 1)) \<le> (of_nat n :: rat)" using floorlog_two(2) [OF assms] by (simp only: of_nat_le_iff)
  moreover have "nat (int (floorlog 2 n) - 1) = floorlog 2 n - 1" using floorlog_two(1) [OF assms] by simp
  ultimately have "pow2 (int (floorlog 2 n) - 1) \<le> (of_nat n :: rat)" using floorlog_two(1) [OF assms] by (simp add: pow2_def)
  moreover have "floorlog 2 (nat 1) = 1" by (simp add: floorlog_def)
  ultimately show ?thesis by (simp add: ilog2_def q Let_def)
qed

lemma round_half_even_of_int [simp]: "round_half_even (of_int i) = i"
  by (simp add: round_half_even_def)

lemma fround_of_nat:
  assumes "0 < n" and "n < 2 ^ 53"
  shows "fround (of_nat n) = Fin (of_nat n)"
proof -
  have le: "floorlog 2 n \<le> 53" using assms floorlog_leI [of n 2 53] by simp
  let ?u = "2 ^ (53 - floorlog 2 n) :: int"
  have "int (floorlog 2 n) - 1 - 52 = - int (53 - floorlog 2 n)" using le by simp
  then have ulp: "ulp (of_nat n) = 1 / of_int ?u"
    using floorlog_two(1) [OF assms(1)] by (simp add: ulp_def ilog2_of_nat [OF assms(1)] pow2_def del: of_nat_diff)
  have "(of_nat n :: rat) / ulp (of_nat n) = of_int (int n * ?u)" by (simp add: ulp)
  then have r: "of_int (round_half_even (of_nat n / ulp (of_nat n))) * ulp (of_nat n) = (of_nat n :: rat)"
    by (simp only: round_half_even_of_int) (simp add: ulp)
  have "(of_nat n :: rat) < of_nat (2 ^ 53)" using assms(2) by (simp only: of_nat_less_iff)
  also have "\<dots> \<le> pow2 1024" by (simp add: pow2_def)
  finally show ?thesis using assms(1) by (simp add: fround_def r Let_def)
qed

lemma fround_whole:
  assumes "\<bar>i\<bar> < 2 ^ 53"
  shows "fround (of_int i) = Fin (of_int i)"
proof -
  have neg: "fround (- of_nat n) = Fin (- of_nat n)" if "0 < n" "n < 2 ^ 53" for n
    using fround_of_nat [OF that] that(1) by (auto simp: fround_def Let_def split: if_splits)
  show ?thesis
  proof (cases i)
    case (nonneg n)
    then show ?thesis using fround_of_nat [of n] assms by (cases "n = 0") (auto simp: fround_def)
  next
    case (neg n)
    have "fround (- of_nat (Suc n)) = Fin (- of_nat (Suc n))"
      using neg assms by (intro \<open>\<And>n. 0 < n \<Longrightarrow> n < 2 ^ 53 \<Longrightarrow> fround (- of_nat n) = Fin (- of_nat n)\<close>) auto
    with neg show ?thesis by simp
  qed
qed

section \<open>PostgreSQL numerics\<close>

text \<open>
  \<open>pgtype.Numeric\<close>: \<open>NumNull\<close> is \<open>Valid == false\<close>. \<open>n.Scan(fmt.Sprintf("%.kf", x))\<close> reads the decimal
  text of \<open>x\<close> back exactly; the text of an infinity (\<open>"+Inf"\<close>) is rejected by \<open>Scan\<close>, whose error the
  callers drop, so the numeric stays invalid.
\<close>

datatype numeric = NumNull | NumNaN | Num rat

fun numeric_of_f64 :: "nat \<Rightarrow> f64 \<Rightarrow> numeric" where
  "numeric_of_f64 k (Fin a) = Num (of_int (round_half_even (a * 10 ^ k)) / 10 ^ k)"
| "numeric_of_f64 k NaN = NumNaN"
| "numeric_of_f64 k _ = NumNull"

text \<open>\<open>n.Float64Value()\<close>: the double nearest to the decimal; \<open>None\<close> for an invalid value.\<close>

fun Float64Value :: "numeric \<Rightarrow> f64 option" where
  "Float64Value NumNull = None"
| "Float64Value NumNaN = Some NaN"
| "Float64Value (Num q) = Some (fround q)"

text \<open>A \<open>DECIMAL(15, 2) NOT NULL\<close> column: rounds half away from zero to cents, rejects NULL and
  values of more than 13 integer digits.\<close>

definition round_cents :: "rat \<Rightarrow> rat" where
  "round_cents q = (if 0 \<le> q then of_int \<lfloor>q * 100 + 1 / 2\<rfloor> / 100 else - (of_int \<lfloor>- q * 100 + 1 / 2\<rfloor> / 100))"

fun decimal_15_2 :: "numeric \<Rightarrow> gerr + numeric" where
  "decimal_15_2 NumNull = Inl ErrConstraint"
| "decimal_15_2 NumNaN = Inr NumNaN"
| "decimal_15_2 (Num q) = (if \<bar>round_cents q\<bar> < 10 ^ 13 then Inr (Num (round_cents q)) else Inl ErrOutOfRange)"

text \<open>\<open>COALESCE(SUM(x), 0)\<close>.\<close>

fun num_add :: "numeric \<Rightarrow> numeric \<Rightarrow> numeric" where
  "num_add NumNull y = y"
| "num_add x NumNull = x"
| "num_add (Num a) (Num b) = Num (a + b)"
| "num_add _ _ = NumNaN"

definition num_sum :: "numeric list \<Rightarrow> numeric" where
  "num_sum xs = foldl num_add (Num 0) xs"

end
