(* ===== verification/Entra_Infra.thy ===== *)
theory Entra_Infra
  imports Float64
begin

text \<open>
  The world outside a handler: the clock, identifier generation and the faults of the network
  (\<open>env\<close>), and the state shared through Redis and Kafka (\<open>infra\<close>). Every call that leaves the process
  (a SQL statement, a Redis command or script, an HTTP request, a Kafka publish) and every
  \<open>time.Now()\<close> takes one \<open>tick\<close>. The environment fixes for each tick whether the call is answered,
  is lost on the way out, or takes effect and loses its reply, so a theorem over all
  environments covers every schedule of faults and every clock.
\<close>

section \<open>Environment\<close>

datatype outcome = Delivered | Lost_request | Lost_reply

text \<open>
  \<open>uuid_Parse\<close> and \<open>uuid_String\<close> stand for \<open>github.com/google/uuid\<close>, \<open>fresh\<close> for \<open>uuid.New\<close> and
  \<open>gen_random_uuid()\<close>. \<open>has_redis\<close> and \<open>has_events\<close> say whether \<open>redisClient\<close> and \<open>eventClient\<close> are
  non-nil; \<open>client_secret\<close> and \<open>server_secret\<close> are \<open>INTERNAL_SERVICE_SECRET\<close> as the calling and the
  called service read it; \<open>app_env\<close> is \<open>APP_ENV\<close>.
\<close>

record env =
  outcome :: "nat \<Rightarrow> outcome"
  clock :: "nat \<Rightarrow> time"
  fresh :: "nat \<Rightarrow> uuid"
  uuid_Parse :: "string \<Rightarrow> uuid option"
  uuid_String :: "uuid \<Rightarrow> string"
  has_redis :: bool
  has_events :: bool
  client_secret :: string
  server_secret :: string
  app_env :: string

text \<open>What the code relies on in the uuid library: printing is non-empty and parses back.\<close>

definition uuid_laws :: "env \<Rightarrow> bool" where
  "uuid_laws E \<longleftrightarrow> (\<forall>u. uuid_Parse E (uuid_String E u) = Some u \<and> uuid_String E u \<noteq> [])"

text \<open>An environment in which no call fails.\<close>

definition reliable :: "env \<Rightarrow> bool" where
  "reliable E \<longleftrightarrow> (\<forall>n. outcome E n = Delivered)"

lemma uuid_roundtrip: "uuid_laws E \<Longrightarrow> uuid_Parse E (uuid_String E u) = Some u"
  by (simp add: uuid_laws_def)

lemma uuid_String_nonempty: "uuid_laws E \<Longrightarrow> uuid_String E u \<noteq> []"
  by (simp add: uuid_laws_def)

lemma uuid_String_inject: "uuid_laws E \<Longrightarrow> uuid_String E u = uuid_String E v \<longleftrightarrow> u = v"
  by (metis option.inject uuid_roundtrip)

section \<open>Redis\<close>

datatype rval = RStr string | RList "string list"

type_synonym rstore = "string \<Rightarrow> (rval \<times> time option) option"

text \<open>A key past its deadline reads as missing.\<close>

definition rlookup :: "rstore \<Rightarrow> time \<Rightarrow> string \<Rightarrow> (rval \<times> time option) option" where
  "rlookup rd t k = (case rd k of None \<Rightarrow> None
     | Some (v, None) \<Rightarrow> Some (v, None)
     | Some (v, Some d) \<Rightarrow> if t < d then Some (v, Some d) else None)"

definition do_get :: "string \<Rightarrow> time \<Rightarrow> rstore \<Rightarrow> (gerr + string) \<times> rstore" where
  "do_get k t rd = (case rlookup rd t k of None \<Rightarrow> (Inl ErrRedisNil, rd)
     | Some (RStr v, d) \<Rightarrow> (Inr v, rd)
     | Some (RList xs, d) \<Rightarrow> (Inl ErrWrongType, rd))"

text \<open>\<open>SET k v\<close> with a time to live, \<open>None\<close> for the duration 0 of the client call.\<close>

definition do_set :: "string \<Rightarrow> string \<Rightarrow> time option \<Rightarrow> time \<Rightarrow> rstore \<Rightarrow> (gerr + unit) \<times> rstore" where
  "do_set k v ttl t rd = (Inr (), rd(k \<mapsto> (RStr v, map_option (\<lambda>d. t + d) ttl)))"

definition do_setnx :: "string \<Rightarrow> string \<Rightarrow> time \<Rightarrow> time \<Rightarrow> rstore \<Rightarrow> (gerr + bool) \<times> rstore" where
  "do_setnx k v ttl t rd = (if rlookup rd t k = None then (Inr True, rd(k \<mapsto> (RStr v, Some (t + ttl)))) else (Inr False, rd))"

definition do_del :: "string list \<Rightarrow> time \<Rightarrow> rstore \<Rightarrow> (gerr + unit) \<times> rstore" where
  "do_del ks t rd = (Inr (), \<lambda>k. if k \<in> set ks then None else rd k)"

text \<open>The list a key holds: a missing key is the empty list, a string is an error.\<close>

definition rlist :: "rstore \<Rightarrow> time \<Rightarrow> string \<Rightarrow> gerr + string list" where
  "rlist rd t k = (case rlookup rd t k of None \<Rightarrow> Inr [] | Some (RList xs, d) \<Rightarrow> Inr xs | Some (RStr v, d) \<Rightarrow> Inl ErrWrongType)"

text \<open>Writing a list back: Redis removes a key whose list becomes empty; a deadline stays.\<close>

definition put_list :: "string \<Rightarrow> string list \<Rightarrow> time \<Rightarrow> rstore \<Rightarrow> rstore" where
  "put_list k xs t rd = rd(k := (if xs = [] then None
     else Some (RList xs, case rlookup rd t k of None \<Rightarrow> None | Some (v, d) \<Rightarrow> d)))"

definition do_lpop :: "string \<Rightarrow> time \<Rightarrow> rstore \<Rightarrow> (gerr + string) \<times> rstore" where
  "do_lpop k t rd = (case rlist rd t k of Inl e \<Rightarrow> (Inl e, rd)
     | Inr [] \<Rightarrow> (Inl ErrRedisNil, rd)
     | Inr (x # xs) \<Rightarrow> (Inr x, put_list k xs t rd))"

definition do_rpush :: "string \<Rightarrow> string \<Rightarrow> time \<Rightarrow> rstore \<Rightarrow> (gerr + nat) \<times> rstore" where
  "do_rpush k v t rd = (case rlist rd t k of Inl e \<Rightarrow> (Inl e, rd)
     | Inr xs \<Rightarrow> (Inr (Suc (length xs)), put_list k (xs @ [v]) t rd))"

text \<open>\<open>LREM k 0 v\<close> removes every occurrence.\<close>

definition do_lrem :: "string \<Rightarrow> string \<Rightarrow> time \<Rightarrow> rstore \<Rightarrow> (gerr + nat) \<times> rstore" where
  "do_lrem k v t rd = (case rlist rd t k of Inl e \<Rightarrow> (Inl e, rd)
     | Inr xs \<Rightarrow> (Inr (length (filter (\<lambda>x. x = v) xs)), put_list k (removeAll v xs) t rd))"

definition do_llen :: "string \<Rightarrow> time \<Rightarrow> rstore \<Rightarrow> (gerr + nat) \<times> rstore" where
  "do_llen k t rd = (map_sum id length (rlist rd t k), rd)"

definition do_lrange :: "string \<Rightarrow> time \<Rightarrow> rstore \<Rightarrow> (gerr + string list) \<times> rstore" where
  "do_lrange k t rd = (rlist rd t k, rd)"

lemmas redis_defs = do_get_def do_set_def do_setnx_def do_del_def do_lpop_def do_rpush_def
  do_lrem_def do_llen_def do_lrange_def

section \<open>JSON and Kafka\<close>

text \<open>
  A message body is its JSON value; \<open>None\<close> stands for bytes that are not JSON.
  \<open>json.Marshal\<close> fails on infinities and NaN, and the callers publish the nil slice then.
\<close>

datatype json = JNull | JBool bool | JNum f64 | JStr string | JObj "(string \<times> json) list"

fun json_finite :: "json \<Rightarrow> bool" where
  "json_finite (JNum (Fin q)) = True"
| "json_finite (JNum x) = False"
| "json_finite (JObj kvs) = list_all (\<lambda>kv. json_finite (snd kv)) kvs"
| "json_finite _ = True"

definition Marshal :: "json \<Rightarrow> json option" where
  "Marshal j = (if json_finite j then Some j else None)"

text \<open>\<open>json.Unmarshal\<close> into a \<open>map[string]interface{}\<close>, a later duplicate key winning.\<close>

fun Unmarshal_map :: "json option \<Rightarrow> (string \<Rightarrow> json option) option" where
  "Unmarshal_map (Some (JObj kvs)) = Some (map_of (rev kvs))"
| "Unmarshal_map (Some JNull) = Some Map.empty"
| "Unmarshal_map _ = None"

text \<open>The type assertions \<open>payload[k].(string)\<close> and \<open>payload[k].(float64)\<close>.\<close>

fun as_string :: "json option \<Rightarrow> string option" where
  "as_string (Some (JStr v)) = Some v"
| "as_string _ = None"

fun as_float :: "json option \<Rightarrow> f64 option" where
  "as_float (Some (JNum x)) = Some x"
| "as_float _ = None"

definition string_or_empty :: "json option \<Rightarrow> string" where
  "string_or_empty j = (case as_string j of None \<Rightarrow> [] | Some v \<Rightarrow> v)"

record message =
  msg_Topic :: string
  msg_Key :: string
  msg_Value :: "json option"

section \<open>State and calls\<close>

record infra =
  tick :: nat
  redis :: rstore
  kafka :: "message list"

text \<open>Updates in one order: the tick first, then Redis, then Kafka, then the tables.\<close>

lemma infra_update_order [simp]:
  "s\<lparr>redis := rd, tick := n\<rparr> = s\<lparr>tick := n, redis := rd\<rparr>"
  "s\<lparr>kafka := ms, tick := n\<rparr> = s\<lparr>tick := n, kafka := ms\<rparr>"
  "s\<lparr>kafka := ms, redis := rd\<rparr> = s\<lparr>redis := rd, kafka := ms\<rparr>"
  by simp_all

definition step :: "('z infra_scheme, nat) state" where
  "step = State (\<lambda>s. (tick s, s\<lparr>tick := Suc (tick s)\<rparr>))"

definition external :: "env \<Rightarrow> (nat \<Rightarrow> ('z infra_scheme, 'a) go) \<Rightarrow> ('z infra_scheme, 'a) go" where
  "external E body = do {
     n \<leftarrow> step;
     case outcome E n of
       Delivered \<Rightarrow> body n
     | Lost_request \<Rightarrow> err ErrTransport
     | Lost_reply \<Rightarrow> do { body n; err ErrTransport } }"

definition Now :: "env \<Rightarrow> ('z infra_scheme, time) state" where
  "Now E = do { n \<leftarrow> step; ret (clock E n) }"

definition redis_cmd :: "env \<Rightarrow> (time \<Rightarrow> rstore \<Rightarrow> (gerr + 'a) \<times> rstore) \<Rightarrow> ('z infra_scheme, 'a) go" where
  "redis_cmd E f = external E (\<lambda>n. State (\<lambda>s. case f (clock E n) (redis s) of (r, rd) \<Rightarrow> (r, s\<lparr>redis := rd\<rparr>)))"

text \<open>One SQL statement, run as a transaction of its own at the time of the call; the identifier is
  the one \<open>gen_random_uuid()\<close> would give.\<close>

definition sql :: "env \<Rightarrow> (time \<Rightarrow> uuid \<Rightarrow> 'z infra_scheme \<Rightarrow> (gerr + 'a) \<times> 'z infra_scheme) \<Rightarrow> ('z infra_scheme, 'a) go" where
  "sql E f = external E (\<lambda>n. State (f (pg_time (clock E n)) (fresh E n)))"

text \<open>\<open>Producer.Publish\<close>: one synchronous send, acknowledged by the broker.\<close>

definition Publish :: "env \<Rightarrow> string \<Rightarrow> string \<Rightarrow> json option \<Rightarrow> ('z infra_scheme, unit) go" where
  "Publish E topic key body =
     external E (\<lambda>n. State (\<lambda>s. (Inr (), s\<lparr>kafka := kafka s @ [\<lparr>msg_Topic = topic, msg_Key = key, msg_Value = body\<rparr>]\<rparr>)))"

subsection \<open>Rules for calls\<close>

lemma wp_step [simp]: "wp step Q s = Q (tick s) (s\<lparr>tick := Suc (tick s)\<rparr>)"
  by (simp add: step_def)

lemma wp_Now [simp]: "wp (Now E) Q s = Q (clock E (tick s)) (s\<lparr>tick := Suc (tick s)\<rparr>)"
  by (simp add: Now_def)

lemma wp_external:
  "wp (external E body) Q s =
     (case outcome E (tick s) of
        Delivered \<Rightarrow> wp (body (tick s)) Q (s\<lparr>tick := Suc (tick s)\<rparr>)
      | Lost_request \<Rightarrow> Q (Inl ErrTransport) (s\<lparr>tick := Suc (tick s)\<rparr>)
      | Lost_reply \<Rightarrow> wp (body (tick s)) (\<lambda>_. Q (Inl ErrTransport)) (s\<lparr>tick := Suc (tick s)\<rparr>))"
  by (simp add: external_def split: outcome.split)

lemma wp_external_reliable [simp]:
  "reliable E \<Longrightarrow> wp (external E body) Q s = wp (body (tick s)) Q (s\<lparr>tick := Suc (tick s)\<rparr>)"
  by (simp add: wp_external reliable_def)

lemma wp_redis_reliable [simp]:
  "reliable E \<Longrightarrow> wp (redis_cmd E f) Q s =
     (case f (clock E (tick s)) (redis s) of (r, rd) \<Rightarrow> Q r (s\<lparr>tick := Suc (tick s), redis := rd\<rparr>))"
  by (simp add: redis_cmd_def case_prod_beta)

lemma wp_sql_reliable [simp]:
  "reliable E \<Longrightarrow> wp (sql E f) Q s =
     (case f (pg_time (clock E (tick s))) (fresh E (tick s)) (s\<lparr>tick := Suc (tick s)\<rparr>) of (r, t) \<Rightarrow> Q r t)"
  by (simp add: sql_def)

lemma wp_Publish_reliable [simp]:
  "reliable E \<Longrightarrow> wp (Publish E topic key body) Q s =
     Q (Inr ()) (s\<lparr>tick := Suc (tick s), kafka := kafka s @ [\<lparr>msg_Topic = topic, msg_Key = key, msg_Value = body\<rparr>]\<rparr>)"
  by (simp add: Publish_def)

text \<open>A predicate or a projection that does not read the tick.\<close>

definition tick_free :: "('z infra_scheme \<Rightarrow> 'b) \<Rightarrow> bool" where
  "tick_free f \<longleftrightarrow> (\<forall>s n. f (s\<lparr>tick := n\<rparr>) = f s)"

lemma tick_freeI: "(\<And>s n. f (s\<lparr>tick := n\<rparr>) = f s) \<Longrightarrow> tick_free f"
  by (simp add: tick_free_def)

lemma keeps_step: "tick_free I \<Longrightarrow> keeps I step"
  by (simp add: keeps_iff_wp tick_free_def)

lemma keeps_external: "tick_free I \<Longrightarrow> (\<And>n. keeps I (body n)) \<Longrightarrow> keeps I (external E body)"
  unfolding external_def
  by (intro keeps_rules keeps_step) (auto split: outcome.split intro: keeps_rules)

lemma keeps_Now: "tick_free I \<Longrightarrow> keeps I (Now E)"
  unfolding Now_def by (intro keeps_rules keeps_step)

lemma keeps_redis_cmd:
  assumes "tick_free I"
    and "\<And>s t. I s \<Longrightarrow> I (s\<lparr>redis := snd (f t (redis s))\<rparr>)"
  shows "keeps I (redis_cmd E f)"
  unfolding redis_cmd_def
  by (rule keeps_external [OF assms(1)]) (auto simp: keeps_def assms(2) case_prod_beta)

lemma keeps_sql:
  assumes "tick_free I" and "\<And>s now u. I s \<Longrightarrow> I (snd (f now u s))"
  shows "keeps I (sql E f)"
  unfolding sql_def
  by (rule keeps_external [OF assms(1)]) (simp add: keeps_def assms(2))

lemma keeps_Publish:
  assumes "tick_free I" and "\<And>s ms. I s \<Longrightarrow> I (s\<lparr>kafka := ms\<rparr>)"
  shows "keeps I (Publish E topic key body)"
  unfolding Publish_def
  by (rule keeps_external [OF assms(1)]) (auto simp: keeps_def assms(2))

lemma frame_step: "tick_free f \<Longrightarrow> unchanged f step"
  by (simp add: unchanged_def step_def tick_free_def)

lemma frame_external: "tick_free f \<Longrightarrow> (\<And>n. unchanged f (body n)) \<Longrightarrow> unchanged f (external E body)"
  unfolding external_def
  by (intro frame_rules frame_step) (auto split: outcome.split intro: frame_rules)

lemma frame_Now: "tick_free f \<Longrightarrow> unchanged f (Now E)"
  unfolding Now_def by (intro frame_rules frame_step)

lemma frame_redis_cmd:
  assumes "tick_free f" and "\<And>s rd. f (s\<lparr>redis := rd\<rparr>) = f s"
  shows "unchanged f (redis_cmd E g)"
  unfolding redis_cmd_def
  by (rule frame_external [OF assms(1)]) (auto simp: unchanged_def assms(2) case_prod_beta)

lemma frame_sql:
  assumes "tick_free f" and "\<And>s now u. f (snd (g now u s)) = f s"
  shows "unchanged f (sql E g)"
  unfolding sql_def
  by (rule frame_external [OF assms(1)]) (simp add: unchanged_def assms(2))

lemma frame_Publish:
  assumes "tick_free f" and "\<And>s ms. f (s\<lparr>kafka := ms\<rparr>) = f s"
  shows "unchanged f (Publish E topic key body)"
  unfolding Publish_def
  by (rule frame_external [OF assms(1)]) (auto simp: unchanged_def assms(2))

subsection \<open>Calls that only read\<close>

text \<open>Nothing but the tick differs.\<close>

definition same_but_tick :: "'z infra_scheme \<Rightarrow> 'z infra_scheme \<Rightarrow> bool" where
  "same_but_tick s t \<longleftrightarrow> t\<lparr>tick := 0\<rparr> = s\<lparr>tick := 0\<rparr>"

lemma same_but_tick_refl [simp]: "same_but_tick s s"
  by (simp add: same_but_tick_def)

lemma same_but_tick_upd [simp]: "same_but_tick s (t\<lparr>tick := n\<rparr>) \<longleftrightarrow> same_but_tick s t"
  by (simp add: same_but_tick_def)

lemma same_but_tickD: "same_but_tick s t \<Longrightarrow> t = s\<lparr>tick := tick t\<rparr>"
proof -
  assume "same_but_tick s t"
  then have "t\<lparr>tick := 0\<rparr>\<lparr>tick := tick t\<rparr> = s\<lparr>tick := 0\<rparr>\<lparr>tick := tick t\<rparr>" by (simp add: same_but_tick_def)
  then show ?thesis by simp
qed

text \<open>Under every schedule of faults a call that reads changes nothing, and what it returns is right.\<close>

definition reads :: "('z infra_scheme, 'a) go \<Rightarrow> ('a \<Rightarrow> bool) \<Rightarrow> 'z infra_scheme \<Rightarrow> bool" where
  "reads m P s \<longleftrightarrow> wp m (\<lambda>r t. (\<exists>n. t = s\<lparr>tick := n\<rparr>) \<and> (\<forall>x. r = Inr x \<longrightarrow> P x)) s"

lemma reads_wp:
  assumes "reads m P s" and "\<And>e n. Q (Inl e) (s\<lparr>tick := n\<rparr>)" and "\<And>x n. P x \<Longrightarrow> Q (Inr x) (s\<lparr>tick := n\<rparr>)"
  shows "wp m Q s"
  by (rule wp_mono [OF assms(1) [unfolded reads_def]]) (metis assms(2,3) sum.exhaust)

lemma reads_returns [simp]: "reads (err e) P s" "reads (ok x) P s = P x"
proof -
  have "\<exists>n. s = s\<lparr>tick := n\<rparr>" by (rule exI [of _ "tick s"]) simp
  then show "reads (err e) P s" "reads (ok x) P s = P x" by (simp_all add: reads_def)
qed

lemma reads_bindE:
  assumes "reads m P s" and "\<And>x n. P x \<Longrightarrow> reads (f x) R (s\<lparr>tick := n\<rparr>)"
  shows "reads (bindE h m f) R s"
  unfolding reads_def wp_bindE
  by (rule reads_wp [OF assms(1)]) (auto elim!: reads_wp [OF assms(2)])

section \<open>HTTP responses\<close>

text \<open>The envelope of \<open>shared/response\<close>; \<open>resp_Errors\<close> is present for validation failures.\<close>

record 'd response =
  resp_Code :: nat
  resp_Success :: bool
  resp_Message :: string
  resp_Data :: "'d option"
  resp_Errors :: "gerr option"

definition Success :: "nat \<Rightarrow> string \<Rightarrow> 'd option \<Rightarrow> 'd response" where
  "Success c m d = \<lparr>resp_Code = c, resp_Success = True, resp_Message = m, resp_Data = d, resp_Errors = None\<rparr>"

definition Error :: "nat \<Rightarrow> string \<Rightarrow> 'd response" where
  "Error c m = \<lparr>resp_Code = c, resp_Success = False, resp_Message = m, resp_Data = None, resp_Errors = None\<rparr>"

definition ValidationError :: "gerr \<Rightarrow> 'd response" where
  "ValidationError e = \<lparr>resp_Code = 422, resp_Success = False, resp_Message = ''validation failed'', resp_Data = None, resp_Errors = Some e\<rparr>"

definition NotFound :: "string \<Rightarrow> 'd response" where
  "NotFound m = \<lparr>resp_Code = 404, resp_Success = False, resp_Message = m, resp_Data = None, resp_Errors = None\<rparr>"

definition InternalError :: "string \<Rightarrow> 'd response" where
  "InternalError m = \<lparr>resp_Code = 500, resp_Success = False, resp_Message = m, resp_Data = None, resp_Errors = None\<rparr>"

lemmas response_defs = Success_def Error_def ValidationError_def NotFound_def InternalError_def

text \<open>The middleware \<open>RequireInternalSecret\<close>: \<open>None\<close> lets the request through.\<close>

definition RequireInternalSecret :: "string \<Rightarrow> string \<Rightarrow> string \<Rightarrow> 'd response option" where
  "RequireInternalSecret secret appenv provided =
     (if secret = [] then
        (if appenv = ''production'' then Some (Error 500 ''internal security configuration error'') else None)
      else if provided = [] \<or> provided \<noteq> secret
        then Some (Error 403 ''access denied: invalid or missing internal service secret'')
      else None)"

text \<open>The calling service presents what the called service expects.\<close>

definition secret_accepted :: "env \<Rightarrow> bool" where
  "secret_accepted E \<longleftrightarrow> (if server_secret E = [] then app_env E \<noteq> ''production'' else client_secret E = server_secret E)"

lemma RequireInternalSecret_None_iff:
  "RequireInternalSecret secret appenv provided = None \<longleftrightarrow>
     (if secret = [] then appenv \<noteq> ''production'' else provided = secret)"
  by (auto simp: RequireInternalSecret_def)

lemma secret_accepted_None [simp]:
  "secret_accepted E \<Longrightarrow> RequireInternalSecret (server_secret E) (app_env E) (client_secret E) = None"
  by (simp add: RequireInternalSecret_None_iff secret_accepted_def)

section \<open>A concrete environment\<close>

text \<open>
  The environment the witnesses run in: no call fails, the clock counts seconds, and a uuid prints
  as one character more than its value.
\<close>

definition demo_name :: "uuid \<Rightarrow> string" where
  "demo_name u = replicate (Suc (unat u)) CHR ''u''"

definition demo_parse :: "string \<Rightarrow> uuid option" where
  "demo_parse v = (if v \<noteq> [] \<and> list_all (\<lambda>c. c = CHR ''u'') v then Some (of_nat (length v - 1)) else None)"

definition calm_env :: env where
  "calm_env = \<lparr>outcome = (\<lambda>n. Delivered), clock = (\<lambda>n. int n * 1000000000), fresh = (\<lambda>n. of_nat (Suc n)),
     uuid_Parse = demo_parse, uuid_String = demo_name,
     has_redis = True, has_events = True, client_secret = ''k'', server_secret = ''k'', app_env = ''production''\<rparr>"

lemma demo_parse_name [simp]: "demo_parse (demo_name u) = Some u"
  by (simp add: demo_parse_def demo_name_def list_all_iff del: replicate.simps)

lemma demo_name_inject [simp]: "demo_name u = demo_name v \<longleftrightarrow> u = v"
  by (metis demo_parse_name option.inject)

lemma demo_name_nonempty [simp]: "demo_name u \<noteq> []" "[] \<noteq> demo_name u"
  by (simp_all add: demo_name_def)

lemma calm_env_simps [simp]:
  "outcome calm_env n = Delivered" "clock calm_env n = int n * 1000000000" "fresh calm_env n = of_nat (Suc n)"
  "uuid_Parse calm_env = demo_parse" "uuid_String calm_env = demo_name"
  "has_redis calm_env" "has_events calm_env" "client_secret calm_env = ''k''" "server_secret calm_env = ''k''"
  "app_env calm_env = ''production''"
  by (simp_all add: calm_env_def)

lemma calm_env_laws [simp]: "reliable calm_env" "uuid_laws calm_env" "secret_accepted calm_env"
  by (simp_all add: reliable_def uuid_laws_def secret_accepted_def)

text \<open>The same with a clock that stands still at second 1000.\<close>

definition still_env :: env where
  "still_env = calm_env\<lparr>clock := (\<lambda>n. 1000 * Second)\<rparr>"

lemma still_env_simps [simp]:
  "outcome still_env n = Delivered" "clock still_env n = 1000 * Second" "uuid_Parse still_env = demo_parse"
  "uuid_String still_env = demo_name" "has_redis still_env" "has_events still_env"
  "reliable still_env" "uuid_laws still_env" "secret_accepted still_env"
  by (simp_all add: still_env_def reliable_def secret_accepted_def uuid_laws_def)

end
