(* ===== verification/Entra_Ledger.thy ===== *)
theory Entra_Ledger
  imports Entra_Infra
begin

text \<open>
  The contract of a reservation counter: what the order flow relies on in the two places that
  count tickets, the Redis key \<open>ticket_stock:<id>\<close> behind the Lua scripts and the columns
  \<open>quantity\<close> / \<open>sold\<close> of the event service. Each request is one atomic operation, so a list of
  requests is any interleaving of any number of concurrent clients; \<open>'e\<close> is what a request reads
  of its surroundings (the clock).
\<close>

datatype ledger_op = Take int32 | Give int32

fun op_amount :: "ledger_op \<Rightarrow> int" where
  "op_amount (Take q) = sint q"
| "op_amount (Give q) = sint q"

text \<open>A run returns the tickets granted, the tickets given back, and the last state.\<close>

fun ledger_run :: "('e \<Rightarrow> int32 \<Rightarrow> 's \<Rightarrow> bool \<times> 's) \<Rightarrow> ('e \<Rightarrow> int32 \<Rightarrow> 's \<Rightarrow> bool \<times> 's) \<Rightarrow>
    ('e \<times> ledger_op) list \<Rightarrow> 's \<Rightarrow> int \<times> int \<times> 's" where
  "ledger_run tk gv [] s = (0, 0, s)"
| "ledger_run tk gv ((e, Take q) # ops) s =
     (case tk e q s of (g, t) \<Rightarrow> case ledger_run tk gv ops t of (a, b, u) \<Rightarrow> ((if g then sint q else 0) + a, b, u))"
| "ledger_run tk gv ((e, Give q) # ops) s =
     (case gv e q s of (g, t) \<Rightarrow> case ledger_run tk gv ops t of (a, b, u) \<Rightarrow> (a, (if g then sint q else 0) + b, u))"

definition positive_ops :: "('e \<times> ledger_op) list \<Rightarrow> bool" where
  "positive_ops ops \<longleftrightarrow> (\<forall>p \<in> set ops. 0 < op_amount (snd p))"

lemma positive_ops_simps [simp]:
  "positive_ops []"
  "positive_ops (p # ops) \<longleftrightarrow> 0 < op_amount (snd p) \<and> positive_ops ops"
  by (auto simp: positive_ops_def)

text \<open>Rivals for single tickets.\<close>

definition rivals :: "'e list \<Rightarrow> ('e \<times> ledger_op) list" where
  "rivals es = map (\<lambda>e. (e, Take 1)) es"

locale stock_ledger =
  fixes valid :: "'s \<Rightarrow> bool"
    and avail :: "'s \<Rightarrow> int"
    and take_stock :: "'e \<Rightarrow> int32 \<Rightarrow> 's \<Rightarrow> bool \<times> 's"
    and give_stock :: "'e \<Rightarrow> int32 \<Rightarrow> 's \<Rightarrow> bool \<times> 's"
  assumes avail_nonneg: "valid s \<Longrightarrow> 0 \<le> avail s"
    and take_granted: "valid s \<Longrightarrow> 0 < sint q \<Longrightarrow> sint q \<le> avail s \<Longrightarrow>
      fst (take_stock e q s) \<and> avail (snd (take_stock e q s)) = avail s - sint q \<and> valid (snd (take_stock e q s))"
    and take_refused: "valid s \<Longrightarrow> 0 < sint q \<Longrightarrow> avail s < sint q \<Longrightarrow>
      \<not> fst (take_stock e q s) \<and> avail (snd (take_stock e q s)) = avail s \<and> valid (snd (take_stock e q s))"
    and give_back: "valid s \<Longrightarrow> 0 < sint q \<Longrightarrow>
      valid (snd (give_stock e q s)) \<and>
      avail (snd (give_stock e q s)) = avail s + (if fst (give_stock e q s) then sint q else 0)"
begin

lemma take_effect:
  assumes "valid s" and "0 < sint q" and "take_stock e q s = (g, t)"
  shows "valid t \<and> avail t = avail s - (if g then sint q else 0) \<and> (g \<longleftrightarrow> sint q \<le> avail s)"
  using take_granted [OF assms(1,2), of e] take_refused [OF assms(1,2), of e] assms(3)
  by (cases "sint q \<le> avail s") auto

lemma give_effect:
  assumes "valid s" and "0 < sint q" and "give_stock e q s = (g, t)"
  shows "valid t \<and> avail t = avail s + (if g then sint q else 0)"
  using give_back [OF assms(1,2), of e] assms(3) by simp

lemma run_conserves:
  "valid s \<Longrightarrow> positive_ops ops \<Longrightarrow> ledger_run take_stock give_stock ops s = (granted, returned, t) \<Longrightarrow>
   valid t \<and> avail t = avail s - granted + returned"
proof (induction ops arbitrary: s granted returned t)
  case Nil
  then show ?case by simp
next
  case (Cons p ops)
  obtain e r where p: "p = (e, r)" by (cases p)
  from Cons.prems(2) have pos: "positive_ops ops" and q: "0 < op_amount r" by (simp_all add: p)
  show ?case
  proof (cases r)
    case (Take q)
    obtain g s' where tk: "take_stock e q s = (g, s')" by fastforce
    obtain a b u where r: "ledger_run take_stock give_stock ops s' = (a, b, u)" by (metis prod_cases3)
    have eff: "valid s' \<and> avail s' = avail s - (if g then sint q else 0)"
      using take_effect [OF Cons.prems(1) _ tk] q Take by simp
    then have "valid u \<and> avail u = avail s' - a + b" using Cons.IH [OF _ pos r] by simp
    then show ?thesis using Cons.prems(3) p Take tk r eff by auto
  next
    case (Give q)
    obtain g s' where gv: "give_stock e q s = (g, s')" by fastforce
    obtain a b u where r: "ledger_run take_stock give_stock ops s' = (a, b, u)" by (metis prod_cases3)
    have eff: "valid s' \<and> avail s' = avail s + (if g then sint q else 0)"
      using give_effect [OF Cons.prems(1) _ gv] q Give by simp
    then have "valid u \<and> avail u = avail s' - a + b" using Cons.IH [OF _ pos r] by simp
    then show ?thesis using Cons.prems(3) p Give gv r eff by auto
  qed
qed

text \<open>No oversell: what is granted never exceeds what was there plus what came back.\<close>

lemma run_no_oversell:
  assumes "valid s" and "positive_ops ops" and "ledger_run take_stock give_stock ops s = (granted, returned, t)"
  shows "granted \<le> avail s + returned"
  using run_conserves [OF assms] avail_nonneg [of t] by simp

text \<open>Of rivals for single tickets exactly as many are served as there are tickets.\<close>

lemma rivals_exact:
  "valid s \<Longrightarrow> ledger_run take_stock give_stock (rivals es) s = (granted, returned, t) \<Longrightarrow>
   granted = min (int (length es)) (avail s) \<and> avail t = avail s - granted"
proof (induction es arbitrary: s granted returned t)
  case Nil
  then show ?case using avail_nonneg [of s] by (simp add: rivals_def)
next
  case (Cons e es)
  obtain g s' where tk: "take_stock e 1 s = (g, s')" by fastforce
  obtain a b u where r: "ledger_run take_stock give_stock (rivals es) s' = (a, b, u)" by (metis prod_cases3)
  have eff: "valid s'" "avail s' = avail s - (if g then 1 else 0)" "g \<longleftrightarrow> 1 \<le> avail s"
    using take_effect [OF Cons.prems(1) _ tk] by simp_all
  have "granted = (if g then 1 else 0) + a" and "t = u"
    using Cons.prems(2) tk r by (auto simp: rivals_def)
  moreover have "a = min (int (length es)) (avail s')" and "avail u = avail s' - a"
    using Cons.IH [OF eff(1) r] by auto
  ultimately show ?case
    using eff(2,3) avail_nonneg [OF Cons.prems(1)] by (cases g) auto
qed

end

end
