(* ===== verification/Event_Inventory.thy ===== *)
theory Event_Inventory
  imports Entra_Ledger
begin

text \<open>
  The inventory side of the event service: the tables \<open>ticket_types\<close> and \<open>events\<close>, the statements of
  \<open>ticket_types.sql.go\<close> and the ones of \<open>events.sql.go\<close> the order flow needs, the internal HTTP
  handlers \<open>ReserveTickets\<close> / \<open>ReleaseTickets\<close> / \<open>GetTicketType\<close> that the ticket service calls, and
  \<open>EventClient\<close>, through which it calls them. The invariant is \<open>inventory_ok\<close>: no ticket type has
  sold a negative number of tickets or more than its quantity.
\<close>

section \<open>Rows and state\<close>

record TicketType =
  tt_ID :: uuid
  tt_EventID :: uuid
  tt_Name :: string
  tt_Description :: "string option"
  tt_Price :: numeric
  tt_Quantity :: int32
  tt_Sold :: int32
  tt_MaxPerOrder :: "int32 option"
  tt_SaleStart :: "time option"
  tt_SaleEnd :: "time option"
  tt_IsActive :: bool
  tt_CreatedAt :: time
  tt_UpdatedAt :: time

record Event =
  ev_ID :: uuid
  ev_OrganizerID :: uuid
  ev_VenueID :: "uuid option"
  ev_CategoryID :: "uuid option"
  ev_Title :: string
  ev_Slug :: string
  ev_Description :: "string option"
  ev_BannerUrl :: "string option"
  ev_StartDate :: "time option"
  ev_EndDate :: "time option"
  ev_Status :: string
  ev_IsOnline :: bool
  ev_OnlineUrl :: "string option"
  ev_MaxAttendees :: "int32 option"
  ev_CreatedAt :: time
  ev_UpdatedAt :: time

record event_db = infra +
  ticket_types :: "TicketType list"
  events :: "Event list"

lemma event_update_order [simp]:
  "s\<lparr>ticket_types := x, tick := n\<rparr> = s\<lparr>tick := n, ticket_types := x\<rparr>"
  "s\<lparr>ticket_types := x, redis := rd\<rparr> = s\<lparr>redis := rd, ticket_types := x\<rparr>"
  "s\<lparr>ticket_types := x, kafka := ms\<rparr> = s\<lparr>kafka := ms, ticket_types := x\<rparr>"
  by simp_all

section \<open>Statements\<close>

text \<open>An \<open>INT\<close> expression out of range fails the statement.\<close>

definition in_int4 :: "int \<Rightarrow> bool" where
  "in_int4 i \<longleftrightarrow> - (2 ^ 31) \<le> i \<and> i < 2 ^ 31"

definition row_result :: "'r option \<Rightarrow> gerr + 'r" where
  "row_result r = (case r of None \<Rightarrow> Inl ErrNoRows | Some x \<Rightarrow> Inr x)"

lemma row_result_simps [simp]: "row_result None = Inl ErrNoRows" "row_result (Some x) = Inr x"
  by (simp_all add: row_result_def)

definition GetTicketTypeByID :: "env \<Rightarrow> uuid \<Rightarrow> ('z event_db_scheme, TicketType) go" where
  "GetTicketTypeByID E tid =
     sql E (\<lambda>now u s. (row_result (find_row (\<lambda>r. tt_ID r = tid) (ticket_types s)), s))"

definition GetEventByID :: "env \<Rightarrow> uuid \<Rightarrow> ('z event_db_scheme, Event) go" where
  "GetEventByID E tid =
     sql E (\<lambda>now u s. (row_result (find_row (\<lambda>r. ev_ID r = tid) (events s)), s))"

definition ListEventIDsByOrganizer :: "env \<Rightarrow> uuid \<Rightarrow> ('z event_db_scheme, uuid list) go" where
  "ListEventIDsByOrganizer E org =
     sql E (\<lambda>now u s. (Inr (map ev_ID (filter (\<lambda>r. ev_OrganizerID r = org) (events s))), s))"

text \<open>\<open>UPDATE ticket_types SET sold = sold + $2 WHERE id = $1 AND (quantity - sold) >= $2\<close>.\<close>

definition can_take :: "int32 \<Rightarrow> TicketType \<Rightarrow> bool" where
  "can_take q r \<longleftrightarrow> sint q \<le> sint (tt_Quantity r) - sint (tt_Sold r)"

definition take_row :: "time \<Rightarrow> int32 \<Rightarrow> TicketType \<Rightarrow> TicketType" where
  "take_row now q r = r\<lparr>tt_Sold := tt_Sold r + q, tt_UpdatedAt := now\<rparr>"

definition increment_sold :: "uuid \<Rightarrow> int32 \<Rightarrow> time \<Rightarrow> TicketType list \<Rightarrow> (gerr + TicketType) \<times> TicketType list" where
  "increment_sold tid q now rows =
     (case find_row (\<lambda>r. tt_ID r = tid) rows of
        None \<Rightarrow> (Inl ErrNoRows, rows)
      | Some r \<Rightarrow>
          if \<not> in_int4 (sint (tt_Quantity r) - sint (tt_Sold r)) then (Inl ErrOutOfRange, rows)
          else if \<not> can_take q r then (Inl ErrNoRows, rows)
          else if \<not> in_int4 (sint (tt_Sold r) + sint q) then (Inl ErrOutOfRange, rows)
          else (Inr (take_row now q r), update_rows (\<lambda>x. tt_ID x = tid \<and> can_take q x) (take_row now q) rows))"

definition IncrementTicketSold :: "env \<Rightarrow> uuid \<Rightarrow> int32 \<Rightarrow> ('z event_db_scheme, TicketType) go" where
  "IncrementTicketSold E tid q = sql E (\<lambda>now u s.
     case increment_sold tid q now (ticket_types s) of (r, rows) \<Rightarrow> (r, s\<lparr>ticket_types := rows\<rparr>))"

text \<open>\<open>UPDATE ticket_types SET sold = sold - $2 WHERE id = $1 AND sold >= $2\<close>.\<close>

definition can_give :: "int32 \<Rightarrow> TicketType \<Rightarrow> bool" where
  "can_give q r \<longleftrightarrow> sint q \<le> sint (tt_Sold r)"

definition give_row :: "time \<Rightarrow> int32 \<Rightarrow> TicketType \<Rightarrow> TicketType" where
  "give_row now q r = r\<lparr>tt_Sold := tt_Sold r - q, tt_UpdatedAt := now\<rparr>"

definition decrement_sold :: "uuid \<Rightarrow> int32 \<Rightarrow> time \<Rightarrow> TicketType list \<Rightarrow> (gerr + TicketType) \<times> TicketType list" where
  "decrement_sold tid q now rows =
     (case find_row (\<lambda>r. tt_ID r = tid) rows of
        None \<Rightarrow> (Inl ErrNoRows, rows)
      | Some r \<Rightarrow>
          if \<not> can_give q r then (Inl ErrNoRows, rows)
          else if \<not> in_int4 (sint (tt_Sold r) - sint q) then (Inl ErrOutOfRange, rows)
          else (Inr (give_row now q r), update_rows (\<lambda>x. tt_ID x = tid \<and> can_give q x) (give_row now q) rows))"

definition DecrementTicketSold :: "env \<Rightarrow> uuid \<Rightarrow> int32 \<Rightarrow> ('z event_db_scheme, TicketType) go" where
  "DecrementTicketSold E tid q = sql E (\<lambda>now u s.
     case decrement_sold tid q now (ticket_types s) of (r, rows) \<Rightarrow> (r, s\<lparr>ticket_types := rows\<rparr>))"

section \<open>Internal handlers\<close>

text \<open>The body of a reservation request: \<open>None\<close> when it is not the expected JSON, and
  \<open>binding:"required,min=1"\<close> otherwise.\<close>

definition bind_reservation :: "int32 option \<Rightarrow> gerr + int32" where
  "bind_reservation body = (case body of None \<Rightarrow> Inl ErrBinding | Some q \<Rightarrow> if sint q < 1 then Inl ErrBinding else Inr q)"

definition sale_refusal :: "time \<Rightarrow> TicketType \<Rightarrow> string option" where
  "sale_refusal now r =
     (if (case tt_SaleStart r of None \<Rightarrow> False | Some t \<Rightarrow> now < t) then Some ''ticket sales have not started yet''
      else if (case tt_SaleEnd r of None \<Rightarrow> False | Some t \<Rightarrow> t < now) then Some ''ticket sales period has ended''
      else None)"

definition event_refusal :: "time \<Rightarrow> gerr + Event \<Rightarrow> string option" where
  "event_refusal now ev = (case ev of Inl e \<Rightarrow> None
     | Inr v \<Rightarrow> if ev_Status v \<noteq> ''published'' then Some ''event is not published''
               else if (case ev_EndDate v of None \<Rightarrow> False | Some t \<Rightarrow> t < now) then Some ''event has already ended''
               else None)"

definition ReserveTickets :: "env \<Rightarrow> string \<Rightarrow> int32 option \<Rightarrow> ('z event_db_scheme, TicketType response) state" where
  "ReserveTickets E param body =
     (case uuid_Parse E param of
        None \<Rightarrow> ret (ValidationError ErrParse)
      | Some tid \<Rightarrow>
        (case bind_reservation body of
           Inl e \<Rightarrow> ret (ValidationError e)
         | Inr q \<Rightarrow> do {
             r \<leftarrow> GetTicketTypeByID E tid;
             case r of
               Inl e \<Rightarrow> ret (if e = ErrNoRows then Error 404 ''ticket type not found'' else InternalError ''failed to get ticket type'')
             | Inr t \<Rightarrow>
                 if \<not> tt_IsActive t then ret (Error 409 ''ticket type is not active'')
                 else do {
                   now \<leftarrow> Now E;
                   case sale_refusal now t of
                     Some m \<Rightarrow> ret (Error 409 m)
                   | None \<Rightarrow> do {
                       ev \<leftarrow> GetEventByID E (tt_EventID t);
                       case event_refusal now ev of
                         Some m \<Rightarrow> ret (Error 409 m)
                       | None \<Rightarrow> do {
                           u \<leftarrow> IncrementTicketSold E tid q;
                           case u of
                             Inl e \<Rightarrow> ret (if e = ErrNoRows then Error 409 ''insufficient ticket inventory or invalid ticket type''
                                          else InternalError ''failed to reserve tickets'')
                           | Inr t' \<Rightarrow> ret (Success 200 ''tickets reserved'' (Some t')) } } } }))"

definition ReleaseTickets :: "env \<Rightarrow> string \<Rightarrow> int32 option \<Rightarrow> ('z event_db_scheme, TicketType response) state" where
  "ReleaseTickets E param body =
     (case uuid_Parse E param of
        None \<Rightarrow> ret (ValidationError ErrParse)
      | Some tid \<Rightarrow>
        (case bind_reservation body of
           Inl e \<Rightarrow> ret (ValidationError e)
         | Inr q \<Rightarrow> do {
             u \<leftarrow> DecrementTicketSold E tid q;
             case u of
               Inl e \<Rightarrow> ret (if e = ErrNoRows then Error 409 ''cannot release more tickets than sold or invalid ticket type''
                            else InternalError ''failed to release tickets'')
             | Inr t' \<Rightarrow> ret (Success 200 ''tickets released'' (Some t')) }))"

record InternalTicketType =
  itt_ID :: string
  itt_EventID :: string
  itt_Name :: string
  itt_Quantity :: int32
  itt_Sold :: int32
  itt_IsActive :: bool
  itt_SaleStart :: "time option"
  itt_SaleEnd :: "time option"
  itt_EventStatus :: string
  itt_EventEndDate :: "time option"

text \<open>The error of the event lookup is dropped: the zero event has an empty status and no end date.\<close>

definition internal_ticket_type :: "env \<Rightarrow> TicketType \<Rightarrow> gerr + Event \<Rightarrow> InternalTicketType" where
  "internal_ticket_type E t ev =
     \<lparr>itt_ID = uuid_String E (tt_ID t), itt_EventID = uuid_String E (tt_EventID t), itt_Name = tt_Name t,
      itt_Quantity = tt_Quantity t, itt_Sold = tt_Sold t, itt_IsActive = tt_IsActive t,
      itt_SaleStart = tt_SaleStart t, itt_SaleEnd = tt_SaleEnd t,
      itt_EventStatus = (case ev of Inl e \<Rightarrow> [] | Inr v \<Rightarrow> ev_Status v),
      itt_EventEndDate = (case ev of Inl e \<Rightarrow> None | Inr v \<Rightarrow> ev_EndDate v)\<rparr>"

definition GetTicketType :: "env \<Rightarrow> string \<Rightarrow> ('z event_db_scheme, InternalTicketType response) state" where
  "GetTicketType E param =
     (case uuid_Parse E param of
        None \<Rightarrow> ret (ValidationError ErrParse)
      | Some tid \<Rightarrow> do {
          r \<leftarrow> GetTicketTypeByID E tid;
          case r of
            Inl e \<Rightarrow> ret (if e = ErrNoRows then NotFound ''ticket type not found'' else InternalError ''failed to get ticket type'')
          | Inr t \<Rightarrow> do {
              ev \<leftarrow> GetEventByID E (tt_EventID t);
              ret (Success 200 ''ticket type retrieved'' (Some (internal_ticket_type E t ev))) } })"

section \<open>The client of the internal handlers\<close>

text \<open>One HTTP request to an internal route: the secret is checked first, then the handler runs.\<close>

definition http_internal :: "env \<Rightarrow> ('z infra_scheme, 'd response) state \<Rightarrow> ('z infra_scheme, 'd response) go" where
  "http_internal E handler = external E (\<lambda>n.
     case RequireInternalSecret (server_secret E) (app_env E) (client_secret E) of
       Some r \<Rightarrow> ok r
     | None \<Rightarrow> do { r \<leftarrow> handler; ok r })"

definition sendReservationRequest :: "env \<Rightarrow> ('z infra_scheme, 'd response) state \<Rightarrow> ('z infra_scheme, unit) go" where
  "sendReservationRequest E handler =
     check (http_internal E handler) (\<lambda>r. if resp_Code r \<noteq> 200 then err (Err_Status (resp_Code r)) else ok ())"

definition Client_ReserveTickets :: "env \<Rightarrow> string \<Rightarrow> int32 \<Rightarrow> ('z event_db_scheme, unit) go" where
  "Client_ReserveTickets E tid q = sendReservationRequest E (ReserveTickets E tid (Some q))"

definition Client_ReleaseTickets :: "env \<Rightarrow> string \<Rightarrow> int32 \<Rightarrow> ('z event_db_scheme, unit) go" where
  "Client_ReleaseTickets E tid q = sendReservationRequest E (ReleaseTickets E tid (Some q))"

definition Client_GetTicketType :: "env \<Rightarrow> string \<Rightarrow> ('z event_db_scheme, InternalTicketType) go" where
  "Client_GetTicketType E tid =
     check (http_internal E (GetTicketType E tid))
       (\<lambda>r. if resp_Code r \<noteq> 200 then err (Err_Status (resp_Code r))
            else case resp_Data r of None \<Rightarrow> err ErrParse | Some d \<Rightarrow> ok d)"

section \<open>Facts\<close>

lemma sint32_add: "in_int4 (sint (a :: int32) + sint b) \<Longrightarrow> sint (a + b) = sint a + sint b"
  using sint32_of_int [of "sint a + sint b"] by (simp add: in_int4_def)

lemma sint32_diff: "in_int4 (sint (a :: int32) - sint b) \<Longrightarrow> sint (a - b) = sint a - sint b"
  using sint32_of_int [of "sint a - sint b"] by (simp add: in_int4_def)

definition row_ok :: "TicketType \<Rightarrow> bool" where
  "row_ok r \<longleftrightarrow> 0 \<le> sint (tt_Sold r) \<and> sint (tt_Sold r) \<le> sint (tt_Quantity r)"

definition inventory_ok :: "'z event_db_scheme \<Rightarrow> bool" where
  "inventory_ok s \<longleftrightarrow> (\<forall>r \<in> set (ticket_types s). row_ok r)"

lemma row_ok_avail_in_int4: "row_ok r \<Longrightarrow> in_int4 (sint (tt_Quantity r) - sint (tt_Sold r))"
  using sint32_bounds [of "tt_Quantity r"] by (simp add: row_ok_def in_int4_def)

lemma take_row_sold:
  assumes "row_ok r" and "0 < sint q" and "can_take q r"
  shows "in_int4 (sint (tt_Sold r) + sint q)"
    and "sint (tt_Sold (take_row now q r)) = sint (tt_Sold r) + sint q"
    and "row_ok (take_row now q r)"
proof -
  show i: "in_int4 (sint (tt_Sold r) + sint q)"
    using assms sint32_bounds [of "tt_Quantity r"] by (simp add: row_ok_def in_int4_def can_take_def)
  show s: "sint (tt_Sold (take_row now q r)) = sint (tt_Sold r) + sint q"
    using sint32_add [OF i] by (simp add: take_row_def)
  show "row_ok (take_row now q r)"
    using assms s by (simp add: row_ok_def can_take_def) (simp add: take_row_def)
qed

lemma give_row_sold:
  assumes "row_ok r" and "0 < sint q" and "can_give q r"
  shows "in_int4 (sint (tt_Sold r) - sint q)"
    and "sint (tt_Sold (give_row now q r)) = sint (tt_Sold r) - sint q"
    and "row_ok (give_row now q r)"
proof -
  show i: "in_int4 (sint (tt_Sold r) - sint q)"
    using assms sint32_bounds [of "tt_Sold r"] by (simp add: row_ok_def in_int4_def can_give_def)
  show s: "sint (tt_Sold (give_row now q r)) = sint (tt_Sold r) - sint q"
    using sint32_diff [OF i] by (simp add: give_row_def)
  show "row_ok (give_row now q r)"
    using assms s by (simp add: row_ok_def can_give_def) (simp add: give_row_def)
qed

interpretation take_keyed: keyed_update tt_ID "take_row now q" for now q
  by unfold_locales (simp add: take_row_def)

interpretation give_keyed: keyed_update tt_ID "give_row now q" for now q
  by unfold_locales (simp add: give_row_def)

lemma increment_sold_rows_ok:
  assumes "\<forall>r \<in> set rows. row_ok r" and "0 < sint q"
  shows "\<forall>r \<in> set (snd (increment_sold tid q now rows)). row_ok r"
  using assms update_rows_all [of rows row_ok "\<lambda>x. tt_ID x = tid \<and> can_take q x" "take_row now q"]
  by (auto simp: increment_sold_def take_row_sold split: option.splits)

lemma decrement_sold_rows_ok:
  assumes "\<forall>r \<in> set rows. row_ok r" and "0 < sint q"
  shows "\<forall>r \<in> set (snd (decrement_sold tid q now rows)). row_ok r"
  using assms update_rows_all [of rows row_ok "\<lambda>x. tt_ID x = tid \<and> can_give q x" "give_row now q"]
  by (auto simp: decrement_sold_def give_row_sold split: option.splits)

lemma increment_sold_found:
  assumes "find_row (\<lambda>r. tt_ID r = tid) rows = Some t" and "row_ok t" and "0 < sint q"
  shows "fst (increment_sold tid q now rows) = (if can_take q t then Inr (take_row now q t) else Inl ErrNoRows)"
    and "find_row (\<lambda>r. tt_ID r = tid) (snd (increment_sold tid q now rows)) =
         Some (if can_take q t then take_row now q t else t)"
    and "\<not> can_take q t \<Longrightarrow> snd (increment_sold tid q now rows) = rows"
  using assms
  by (auto simp: increment_sold_def row_ok_avail_in_int4 take_row_sold take_keyed.find_guarded)

lemma decrement_sold_found:
  assumes "find_row (\<lambda>r. tt_ID r = tid) rows = Some t" and "row_ok t" and "0 < sint q"
  shows "fst (decrement_sold tid q now rows) = (if can_give q t then Inr (give_row now q t) else Inl ErrNoRows)"
    and "find_row (\<lambda>r. tt_ID r = tid) (snd (decrement_sold tid q now rows)) =
         Some (if can_give q t then give_row now q t else t)"
    and "\<not> can_give q t \<Longrightarrow> snd (decrement_sold tid q now rows) = rows"
  using assms
  by (auto simp: decrement_sold_def give_row_sold give_keyed.find_guarded)

section \<open>The columns as a reservation ledger\<close>

text \<open>One ticket type of the table, with the two statements as its operations.\<close>

definition db_valid :: "uuid \<Rightarrow> TicketType list \<Rightarrow> bool" where
  "db_valid tid rows \<longleftrightarrow> (case find_row (\<lambda>r. tt_ID r = tid) rows of None \<Rightarrow> False | Some t \<Rightarrow> row_ok t)"

definition db_avail :: "uuid \<Rightarrow> TicketType list \<Rightarrow> int" where
  "db_avail tid rows = (case find_row (\<lambda>r. tt_ID r = tid) rows of None \<Rightarrow> 0
     | Some t \<Rightarrow> sint (tt_Quantity t) - sint (tt_Sold t))"

definition db_take :: "uuid \<Rightarrow> time \<Rightarrow> int32 \<Rightarrow> TicketType list \<Rightarrow> bool \<times> TicketType list" where
  "db_take tid now q rows = apfst is_ok (increment_sold tid q now rows)"

definition db_give :: "uuid \<Rightarrow> time \<Rightarrow> int32 \<Rightarrow> TicketType list \<Rightarrow> bool \<times> TicketType list" where
  "db_give tid now q rows = apfst is_ok (decrement_sold tid q now rows)"

interpretation db_stock: stock_ledger "db_valid tid" "db_avail tid" "db_take tid" "db_give tid" for tid
proof
  fix s :: "TicketType list" and q :: int32 and e :: time
  assume v: "db_valid tid s"
  then obtain t where t: "find_row (\<lambda>r. tt_ID r = tid) s = Some t" and ok: "row_ok t"
    by (auto simp: db_valid_def split: option.splits)
  show "0 \<le> db_avail tid s" using t ok by (simp add: db_avail_def row_ok_def)
  assume q: "0 < sint q"
  note inc = increment_sold_found [OF t ok q, of e] and dec = decrement_sold_found [OF t ok q, of e]
  show "sint q \<le> db_avail tid s \<Longrightarrow> fst (db_take tid e q s) \<and>
      db_avail tid (snd (db_take tid e q s)) = db_avail tid s - sint q \<and> db_valid tid (snd (db_take tid e q s))"
    using t ok q inc take_row_sold [OF ok q]
    by (simp add: db_take_def db_avail_def db_valid_def can_take_def) (simp add: take_row_def)
  show "db_avail tid s < sint q \<Longrightarrow> \<not> fst (db_take tid e q s) \<and>
      db_avail tid (snd (db_take tid e q s)) = db_avail tid s \<and> db_valid tid (snd (db_take tid e q s))"
    using t ok inc by (simp add: db_take_def db_avail_def db_valid_def can_take_def)
  show "db_valid tid (snd (db_give tid e q s)) \<and>
      db_avail tid (snd (db_give tid e q s)) = db_avail tid s + (if fst (db_give tid e q s) then sint q else 0)"
    using t ok q dec give_row_sold [OF ok q]
    by (cases "can_give q t") (simp_all add: db_give_def db_avail_def db_valid_def give_row_def)
qed

section \<open>Handlers: invariant and effect\<close>

lemma inventory_ok_tick_free [simp]: "tick_free inventory_ok"
  by (simp add: tick_free_def inventory_ok_def)

lemma keeps_GetTicketTypeByID: "tick_free I \<Longrightarrow> keeps I (GetTicketTypeByID E tid)"
  unfolding GetTicketTypeByID_def by (rule keeps_sql) auto

lemma keeps_GetEventByID: "tick_free I \<Longrightarrow> keeps I (GetEventByID E eid)"
  unfolding GetEventByID_def by (rule keeps_sql) auto

lemma keeps_inventory_Increment: "0 < sint q \<Longrightarrow> keeps inventory_ok (IncrementTicketSold E tid q)"
  unfolding IncrementTicketSold_def
  by (rule keeps_sql) (auto simp: inventory_ok_def increment_sold_rows_ok case_prod_beta)

lemma keeps_inventory_Decrement: "0 < sint q \<Longrightarrow> keeps inventory_ok (DecrementTicketSold E tid q)"
  unfolding DecrementTicketSold_def
  by (rule keeps_sql) (auto simp: inventory_ok_def decrement_sold_rows_ok case_prod_beta)

lemma bind_reservation_pos: "bind_reservation body = Inr q \<Longrightarrow> 0 < sint q"
  by (auto simp: bind_reservation_def split: option.splits if_splits)

lemma keeps_ReserveTickets: "keeps inventory_ok (ReserveTickets E param body)"
  unfolding ReserveTickets_def
  by (cases "bind_reservation body")
    (auto intro!: keeps_rules keeps_GetTicketTypeByID keeps_GetEventByID keeps_Now keeps_inventory_Increment
      split: option.splits simp: bind_reservation_pos)

lemma keeps_ReleaseTickets: "keeps inventory_ok (ReleaseTickets E param body)"
  unfolding ReleaseTickets_def
  by (cases "bind_reservation body")
    (auto intro!: keeps_rules keeps_inventory_Decrement split: option.splits simp: bind_reservation_pos)

lemma keeps_http_internal: "tick_free I \<Longrightarrow> keeps I handler \<Longrightarrow> keeps I (http_internal E handler)"
  unfolding http_internal_def by (intro keeps_external keeps_rules) auto

lemma keeps_sendReservationRequest: "tick_free I \<Longrightarrow> keeps I handler \<Longrightarrow> keeps I (sendReservationRequest E handler)"
  unfolding sendReservationRequest_def by (intro keeps_rules keeps_http_internal)

lemma keeps_Client_ReserveTickets: "keeps inventory_ok (Client_ReserveTickets E tid q)"
  unfolding Client_ReserveTickets_def by (intro keeps_sendReservationRequest keeps_ReserveTickets) simp

lemma keeps_Client_ReleaseTickets: "keeps inventory_ok (Client_ReleaseTickets E tid q)"
  unfolding Client_ReleaseTickets_def by (intro keeps_sendReservationRequest keeps_ReleaseTickets) simp

lemma frame_GetTicketTypeByID: "tick_free f \<Longrightarrow> unchanged f (GetTicketTypeByID E tid)"
  unfolding GetTicketTypeByID_def by (rule frame_sql) auto

lemma frame_GetEventByID: "tick_free f \<Longrightarrow> unchanged f (GetEventByID E eid)"
  unfolding GetEventByID_def by (rule frame_sql) auto

lemma frame_http_internal: "tick_free f \<Longrightarrow> unchanged f handler \<Longrightarrow> unchanged f (http_internal E handler)"
  unfolding http_internal_def by (intro frame_external frame_rules) auto

lemma frame_Client_GetTicketType: "tick_free f \<Longrightarrow> unchanged f (Client_GetTicketType E tid)"
  unfolding Client_GetTicketType_def GetTicketType_def
  by (intro frame_rules frame_http_internal frame_GetTicketTypeByID frame_GetEventByID)

text \<open>Reservations touch nothing but the table of ticket types.\<close>

lemma frame_ReserveTickets:
  assumes "tick_free f" and "\<And>s rows. f (s\<lparr>ticket_types := rows\<rparr>) = f s"
  shows "unchanged f (ReserveTickets E param body)" and "unchanged f (ReleaseTickets E param body)"
  unfolding ReserveTickets_def ReleaseTickets_def IncrementTicketSold_def DecrementTicketSold_def
  by (auto intro!: frame_rules frame_GetTicketTypeByID frame_GetEventByID frame_Now frame_sql assms
      simp: case_prod_beta split: option.splits)

lemma frame_Client:
  assumes "tick_free f" and "\<And>s rows. f (s\<lparr>ticket_types := rows\<rparr>) = f s"
  shows "unchanged f (Client_ReserveTickets E tid q)" and "unchanged f (Client_ReleaseTickets E tid q)"
  unfolding Client_ReserveTickets_def Client_ReleaseTickets_def sendReservationRequest_def
  by (intro frame_rules frame_http_internal frame_ReserveTickets assms)+

lemma wp_http_internal [simp]:
  "reliable E \<Longrightarrow> secret_accepted E \<Longrightarrow>
   wp (http_internal E handler) Q s = wp handler (\<lambda>r. Q (Inr r)) (s\<lparr>tick := Suc (tick s)\<rparr>)"
  by (simp add: http_internal_def)

text \<open>When a ticket type can be sold, at every moment of the call.\<close>

definition on_sale :: "env \<Rightarrow> TicketType \<Rightarrow> Event option \<Rightarrow> bool" where
  "on_sale E t ev \<longleftrightarrow> tt_IsActive t \<and>
     (\<forall>n. sale_refusal (clock E n) t = None \<and> event_refusal (clock E n) (row_result ev) = None)"

lemma wp_ReserveTickets:
  assumes "reliable E" and "uuid_Parse E param = Some tid" and "0 < sint q"
    and "find_row (\<lambda>r. tt_ID r = tid) (ticket_types s) = Some t" and "row_ok t"
    and "on_sale E t (find_row (\<lambda>v. ev_ID v = tt_EventID t) (events s))"
  shows "wp (ReserveTickets E param (Some q)) Q s \<longleftrightarrow>
    (\<exists>now. let n = tick s + 4 in now = pg_time (clock E (tick s + 3)) \<and>
      (if can_take q t
       then Q (Success 200 ''tickets reserved'' (Some (take_row now q t)))
              (s\<lparr>tick := n, ticket_types := snd (increment_sold tid q now (ticket_types s))\<rparr>)
       else Q (Error 409 ''insufficient ticket inventory or invalid ticket type'') (s\<lparr>tick := n\<rparr>)))"
proof -
  note inc = increment_sold_found [OF assms(4,5,3)]
  have b: "bind_reservation (Some q) = Inr q" using assms(3) by (simp add: bind_reservation_def)
  show ?thesis
    using assms inc b
    by (auto simp: ReserveTickets_def GetTicketTypeByID_def GetEventByID_def IncrementTicketSold_def
        on_sale_def case_prod_beta Let_def eval_nat_numeral)
qed

lemma wp_ReleaseTickets:
  assumes "reliable E" and "uuid_Parse E param = Some tid" and "0 < sint q"
    and "find_row (\<lambda>r. tt_ID r = tid) (ticket_types s) = Some t" and "row_ok t"
  shows "wp (ReleaseTickets E param (Some q)) Q s \<longleftrightarrow>
    (\<exists>now. now = pg_time (clock E (tick s)) \<and>
      (if can_give q t
       then Q (Success 200 ''tickets released'' (Some (give_row now q t)))
              (s\<lparr>tick := Suc (tick s), ticket_types := snd (decrement_sold tid q now (ticket_types s))\<rparr>)
       else Q (Error 409 ''cannot release more tickets than sold or invalid ticket type'') (s\<lparr>tick := Suc (tick s)\<rparr>)))"
proof -
  note dec = decrement_sold_found [OF assms(4,5,3)]
  have b: "bind_reservation (Some q) = Inr q" using assms(3) by (simp add: bind_reservation_def)
  show ?thesis
    using assms dec b by (auto simp: ReleaseTickets_def DecrementTicketSold_def case_prod_beta)
qed

text \<open>What a reservation request can report.\<close>

lemma yields_sendReservationRequest:
  "yields (\<lambda>r. r = Inr () \<or> r = Inl ErrTransport \<or> (\<exists>c. r = Inl (Err_Status c))) (sendReservationRequest E handler)"
  by (simp add: yields_iff_wp sendReservationRequest_def http_internal_def wp_external split: outcome.split option.split)

section \<open>A concrete catalogue\<close>

text \<open>One published event without dates, with one ticket type of three tickets, as witnesses use it.\<close>

definition demo_type :: TicketType where
  "demo_type = \<lparr>tt_ID = 1, tt_EventID = 2, tt_Name = ''VIP'', tt_Description = None, tt_Price = Num 100000,
     tt_Quantity = 3, tt_Sold = 0, tt_MaxPerOrder = None, tt_SaleStart = None, tt_SaleEnd = None,
     tt_IsActive = True, tt_CreatedAt = 0, tt_UpdatedAt = 0\<rparr>"

definition demo_event :: Event where
  "demo_event = \<lparr>ev_ID = 2, ev_OrganizerID = 3, ev_VenueID = None, ev_CategoryID = None, ev_Title = ''Concert'',
     ev_Slug = ''concert'', ev_Description = None, ev_BannerUrl = None, ev_StartDate = None, ev_EndDate = None,
     ev_Status = ''published'', ev_IsOnline = False, ev_OnlineUrl = None, ev_MaxAttendees = None,
     ev_CreatedAt = 0, ev_UpdatedAt = 0\<rparr>"

definition demo_db :: event_db where
  "demo_db = \<lparr>tick = 0, redis = Map.empty, kafka = [], ticket_types = [demo_type], events = [demo_event]\<rparr>"

lemma demo_row_ok [simp]: "row_ok demo_type"
  by (simp add: row_ok_def demo_type_def)

lemma demo_on_sale [simp]: "on_sale E demo_type (Some demo_event)"
  by (simp add: on_sale_def sale_refusal_def event_refusal_def demo_type_def demo_event_def)

lemma demo_find [simp]:
  "find_row (\<lambda>r. tt_ID r = 1) (ticket_types demo_db) = Some demo_type"
  "find_row (\<lambda>v. ev_ID v = tt_EventID demo_type) (events demo_db) = Some demo_event"
  by (simp_all add: demo_db_def demo_type_def demo_event_def)

lemma demo_inventory_ok [simp]: "inventory_ok demo_db"
  by (simp add: inventory_ok_def demo_db_def)

section \<open>Properties\<close>

text \<open>
  C7. No oversell in the database. Any interleaving of the guarded statements
  \<open>IncrementTicketSold\<close> and \<open>DecrementTicketSold\<close> on one ticket type whose row is consistent leaves
  the row consistent (\<open>0 \<le> sold \<le> quantity\<close>, without 32-bit wrap-around), changes the tickets left by
  exactly what was granted and returned, and never grants more than was left plus what came back.
\<close>

theorem db_no_oversell:
  assumes "find_row (\<lambda>r. tt_ID r = tid) rows = Some t" and "row_ok t" and "positive_ops ops"
    and "ledger_run (db_take tid) (db_give tid) ops rows = (granted, returned, rows')"
  shows "db_valid tid rows' \<and> db_avail tid rows' = sint (tt_Quantity t) - sint (tt_Sold t) - granted + returned \<and>
    granted \<le> sint (tt_Quantity t) - sint (tt_Sold t) + returned"
proof -
  have v: "db_valid tid rows" and a: "db_avail tid rows = sint (tt_Quantity t) - sint (tt_Sold t)"
    using assms(1,2) by (simp_all add: db_valid_def db_avail_def)
  show ?thesis
    using db_stock.run_conserves [OF v assms(3,4)] db_stock.run_no_oversell [OF v assms(3,4)] a by simp
qed

theorem db_no_oversell_witness:
  "db_valid 1 (snd (snd (ledger_run (db_take 1) (db_give 1) [(0, Take 2), (0, Take 2), (0, Give 1), (1, Take 2)] [demo_type])))"
proof -
  let ?ops = "[(0, Take 2), (0, Take 2), (0, Give 1), (1, Take 2)] :: (time \<times> ledger_op) list"
  obtain g b rows where r: "ledger_run (db_take 1) (db_give 1) ?ops [demo_type] = (g, b, rows)" by (metis prod_cases3)
  have f: "find_row (\<lambda>r. tt_ID r = 1) [demo_type] = Some demo_type" by (simp add: demo_type_def)
  show ?thesis using db_no_oversell [OF f demo_row_ok _ r] r by simp
qed

end
