(* ===== verification/Ticket_Stock.thy ===== *)
theory Ticket_Stock
  imports Event_Inventory
begin

text \<open>
  Stock reservation in the ticket service (\<open>ticket_service.go\<close>): the Lua scripts \<open>reserveStockLua\<close>
  and \<open>releaseStockLua\<close> as atomic Redis commands, \<open>ReserveTicketStock\<close> with its cold-start load
  from the event service, and \<open>ReleaseTicketStock\<close>. The scripts are a \<open>stock_ledger\<close>; the
  invariant \<open>stock_ok\<close> says that every stock key holds a non-negative counter that never expires.
\<close>

section \<open>The scripts\<close>

definition stock_key :: "string \<Rightarrow> string" where
  "stock_key tid = ''ticket_stock:'' @ tid"

definition in_int64 :: "int \<Rightarrow> bool" where
  "in_int64 i \<longleftrightarrow> - (2 ^ 63) \<le> i \<and> i < 2 ^ 63"

text \<open>\<open>INCRBY\<close> (and \<open>DECRBY\<close>, with the amount negated): only canonical 64-bit decimals count.\<close>

definition incr_by :: "string \<Rightarrow> int \<Rightarrow> time \<Rightarrow> rstore \<Rightarrow> (gerr + int) \<times> rstore" where
  "incr_by k i t rd = (case rlookup rd t k of
     None \<Rightarrow> (Inr i, rd(k \<mapsto> (RStr (show_int i), None)))
   | Some (RList xs, d) \<Rightarrow> (Inl ErrWrongType, rd)
   | Some (RStr v, d) \<Rightarrow> (case parse_int v of
       None \<Rightarrow> (Inl ErrWrongType, rd)
     | Some n \<Rightarrow> if show_int n \<noteq> v \<or> \<not> in_int64 n then (Inl ErrWrongType, rd)
                 else if \<not> in_int64 (n + i) then (Inl ErrOutOfRange, rd)
                 else (Inr (n + i), rd(k \<mapsto> (RStr (show_int (n + i)), d)))))"

text \<open>\<open>reserveStockLua\<close>: -1 for a missing or non-numeric key, 1 for a reservation, 0 for too little.\<close>

definition do_reserve :: "string \<Rightarrow> int32 \<Rightarrow> time \<Rightarrow> rstore \<Rightarrow> (gerr + int) \<times> rstore" where
  "do_reserve k q t rd = (case rlookup rd t k of
     None \<Rightarrow> (Inr (- 1), rd)
   | Some (RList xs, d) \<Rightarrow> (Inl ErrWrongType, rd)
   | Some (RStr v, d) \<Rightarrow> (case parse_int v of
       None \<Rightarrow> (Inr (- 1), rd)
     | Some stock \<Rightarrow> if sint q \<le> stock
         then (case incr_by k (- sint q) t rd of (Inl e, rd') \<Rightarrow> (Inl e, rd') | (Inr n, rd') \<Rightarrow> (Inr 1, rd'))
         else (Inr 0, rd)))"

text \<open>\<open>releaseStockLua\<close>: only an existing counter is incremented.\<close>

definition do_release :: "string \<Rightarrow> int32 \<Rightarrow> time \<Rightarrow> rstore \<Rightarrow> (gerr + int) \<times> rstore" where
  "do_release k q t rd = (if rlookup rd t k = None then (Inr 0, rd)
     else case incr_by k (sint q) t rd of (Inl e, rd') \<Rightarrow> (Inl e, rd') | (Inr n, rd') \<Rightarrow> (Inr 1, rd'))"

section \<open>Reservation and release\<close>

definition int32_avail :: "int32 \<Rightarrow> int32 \<Rightarrow> int32" where
  "int32_avail quantity sold = (let a = quantity - sold in if sint a < 0 then 0 else a)"

text \<open>The closure of \<open>singleflight\<close>: read the ticket type, check that it is on sale, cache the stock.\<close>

definition load_stock :: "env \<Rightarrow> string \<Rightarrow> ('z event_db_scheme, int32) go" where
  "load_stock E tid =
     (if \<not> has_events E then err (Err_New ''event client not configured'')
      else check (Client_GetTicketType E tid) (\<lambda>tt. do {
        now \<leftarrow> Now E;
        if (case itt_SaleEnd tt of None \<Rightarrow> False | Some t \<Rightarrow> t < now) then err ErrSaleEnded
        else if (case itt_SaleStart tt of None \<Rightarrow> False | Some t \<Rightarrow> now < t) then err ErrSaleNotStarted
        else if (case itt_EventEndDate tt of None \<Rightarrow> False | Some t \<Rightarrow> t < now) then err ErrEventEnded
        else if \<not> itt_IsActive tt then err ErrTicketInactive
        else do {
          let avail = int32_avail (itt_Quantity tt) (itt_Sold tt);
          redis_cmd E (do_set (stock_key tid) (show_int (sint avail)) None);
          ok avail } }))"

text \<open>After a granted script the event service is told; its answer is ignored.\<close>

definition confirm_reserve :: "env \<Rightarrow> string \<Rightarrow> int32 \<Rightarrow> ('z event_db_scheme, unit) go" where
  "confirm_reserve E tid q = (if has_events E then do { Client_ReserveTickets E tid q; ok () } else ok ())"

definition ReserveTicketStock :: "env \<Rightarrow> string \<Rightarrow> int32 \<Rightarrow> ('z event_db_scheme, unit) go" where
  "ReserveTicketStock E tid q =
     (if \<not> has_redis E then (if has_events E then Client_ReserveTickets E tid q else ok ())
      else do {
        res \<leftarrow> redis_cmd E (do_reserve (stock_key tid) q);
        if res = Inr 1 then confirm_reserve E tid q
        else if res = Inr 0 then err ErrSoldOut
        else do {
          v \<leftarrow> load_stock E tid;
          case v of
            Inl e \<Rightarrow> if has_events E then Client_ReserveTickets E tid q else err e
          | Inr avail \<Rightarrow>
              if sint avail < sint q then err ErrSoldOut
              else do {
                retry \<leftarrow> redis_cmd E (do_reserve (stock_key tid) q);
                if retry = Inr 1 then confirm_reserve E tid q else err ErrSoldOut } } })"

definition ReleaseTicketStock :: "env \<Rightarrow> string \<Rightarrow> int32 \<Rightarrow> ('z event_db_scheme, unit) state" where
  "ReleaseTicketStock E tid q = do {
     (if has_redis E then do { redis_cmd E (do_release (stock_key tid) q); ret () } else ret ());
     (if has_events E then do { Client_ReleaseTickets E tid q; ret () } else ret ()) }"

section \<open>The scripts are a ledger\<close>

definition counter :: "rstore \<Rightarrow> string \<Rightarrow> int option" where
  "counter rd k = (case rd k of Some (RStr v, None) \<Rightarrow>
     (case parse_int v of Some i \<Rightarrow> if show_int i = v \<and> 0 \<le> i \<and> in_int64 i then Some i else None | None \<Rightarrow> None)
   | _ \<Rightarrow> None)"

lemma counter_Some_iff:
  "counter rd k = Some i \<longleftrightarrow> rd k = Some (RStr (show_int i), None) \<and> 0 \<le> i \<and> in_int64 i"
proof
  assume l: "counter rd k = Some i"
  obtain v where v: "rd k = Some (RStr v, None)"
    using l unfolding counter_def by (auto split: option.splits rval.splits simp del: split_paired_Ex)
  show "rd k = Some (RStr (show_int i), None) \<and> 0 \<le> i \<and> in_int64 i"
    using l unfolding counter_def v by (cases "parse_int v") (simp_all split: if_split_asm)
next
  assume "rd k = Some (RStr (show_int i), None) \<and> 0 \<le> i \<and> in_int64 i"
  then show "counter rd k = Some i" by (simp add: counter_def)
qed

definition redis_avail :: "string \<Rightarrow> rstore \<Rightarrow> int" where
  "redis_avail k rd = (case counter rd k of None \<Rightarrow> 0 | Some i \<Rightarrow> i)"

definition redis_take :: "string \<Rightarrow> time \<Rightarrow> int32 \<Rightarrow> rstore \<Rightarrow> bool \<times> rstore" where
  "redis_take k t q rd = apfst (\<lambda>r. r = Inr 1) (do_reserve k q t rd)"

definition redis_give :: "string \<Rightarrow> time \<Rightarrow> int32 \<Rightarrow> rstore \<Rightarrow> bool \<times> rstore" where
  "redis_give k t q rd = apfst (\<lambda>r. r = Inr 1) (do_release k q t rd)"

lemma rlookup_counter: "counter rd k = Some i \<Longrightarrow> rlookup rd t k = Some (RStr (show_int i), None)"
  by (simp add: counter_Some_iff rlookup_def)

lemma do_reserve_counter:
  assumes "counter rd k = Some i" and "0 < sint q"
  shows "do_reserve k q t rd = (if sint q \<le> i then (Inr 1, rd(k \<mapsto> (RStr (show_int (i - sint q)), None))) else (Inr 0, rd))"
  using assms rlookup_counter [OF assms(1), of t]
  by (auto simp: do_reserve_def incr_by_def counter_Some_iff in_int64_def)

lemma do_release_counter:
  assumes "counter rd k = Some i" and "0 < sint q"
  shows "do_release k q t rd = (if in_int64 (i + sint q) then (Inr 1, rd(k \<mapsto> (RStr (show_int (i + sint q)), None))) else (Inl ErrOutOfRange, rd))"
  using assms rlookup_counter [OF assms(1), of t]
  by (auto simp: do_release_def incr_by_def counter_Some_iff)

lemma counter_upd [simp]:
  "counter (rd(k \<mapsto> (RStr (show_int i), None))) k' =
     (if k' = k then (if 0 \<le> i \<and> in_int64 i then Some i else None) else counter rd k')"
  by (simp add: counter_def)

lemma redis_take_counter:
  assumes "counter rd k = Some i" and "0 < sint q"
  shows "redis_take k t q rd = (if sint q \<le> i then (True, rd(k \<mapsto> (RStr (show_int (i - sint q)), None))) else (False, rd))"
  by (simp add: redis_take_def do_reserve_counter [OF assms])

lemma redis_give_counter:
  assumes "counter rd k = Some i" and "0 < sint q"
  shows "redis_give k t q rd = (if in_int64 (i + sint q) then (True, rd(k \<mapsto> (RStr (show_int (i + sint q)), None))) else (False, rd))"
  by (simp add: redis_give_def do_release_counter [OF assms])

interpretation redis_stock: stock_ledger "\<lambda>rd. counter rd k \<noteq> None" "redis_avail k" "redis_take k" "redis_give k" for k
proof
  fix rd :: rstore and q :: int32 and t :: time
  assume "counter rd k \<noteq> None"
  then obtain i where i: "counter rd k = Some i" by auto
  then have b: "0 \<le> i" "in_int64 i" by (simp_all add: counter_Some_iff)
  have av: "redis_avail k rd = i" using i by (simp add: redis_avail_def)
  show "0 \<le> redis_avail k rd" using av b by simp
  assume q: "0 < sint q"
  have b': "sint q \<le> i \<Longrightarrow> in_int64 (i - sint q)" using b q by (simp add: in_int64_def)
  note tk = redis_take_counter [OF i q, of t] and gv = redis_give_counter [OF i q, of t]
  show "sint q \<le> redis_avail k rd \<Longrightarrow> fst (redis_take k t q rd) \<and>
      redis_avail k (snd (redis_take k t q rd)) = redis_avail k rd - sint q \<and> counter (snd (redis_take k t q rd)) k \<noteq> None"
    using b' by (simp add: tk av) (simp add: redis_avail_def)
  show "redis_avail k rd < sint q \<Longrightarrow> \<not> fst (redis_take k t q rd) \<and>
      redis_avail k (snd (redis_take k t q rd)) = redis_avail k rd \<and> counter (snd (redis_take k t q rd)) k \<noteq> None"
    by (simp add: tk av i)
  show "counter (snd (redis_give k t q rd)) k \<noteq> None \<and>
      redis_avail k (snd (redis_give k t q rd)) = redis_avail k rd + (if fst (redis_give k t q rd) then sint q else 0)"
    using b q by (cases "in_int64 (i + sint q)") (simp_all add: gv av i, simp add: redis_avail_def)
qed

section \<open>The stock invariant\<close>

definition stock_ok :: "'z infra_scheme \<Rightarrow> bool" where
  "stock_ok s \<longleftrightarrow> (\<forall>tid. redis s (stock_key tid) \<noteq> None \<longrightarrow> counter (redis s) (stock_key tid) \<noteq> None)"

lemma stock_ok_tick_free [simp]: "tick_free stock_ok"
  by (simp add: tick_free_def stock_ok_def)

lemma stock_key_inject [simp]: "stock_key a = stock_key b \<longleftrightarrow> a = b"
  by (simp add: stock_key_def)

lemma stock_ok_reserve:
  assumes "stock_ok s" and "0 < sint q"
  shows "stock_ok (s\<lparr>redis := snd (do_reserve (stock_key tid) q t (redis s))\<rparr>)"
proof (cases "counter (redis s) (stock_key tid)")
  case None
  with assms(1) have "redis s (stock_key tid) = None" unfolding stock_ok_def by blast
  then show ?thesis using assms(1) by (simp add: do_reserve_def rlookup_def stock_ok_def)
next
  case (Some i)
  then have "0 \<le> i" "in_int64 i" by (simp_all add: counter_Some_iff)
  then show ?thesis
    using assms do_reserve_counter [OF Some assms(2), of t] by (auto simp: stock_ok_def in_int64_def)
qed

lemma stock_ok_release:
  assumes "stock_ok s" and "0 < sint q"
  shows "stock_ok (s\<lparr>redis := snd (do_release (stock_key tid) q t (redis s))\<rparr>)"
proof (cases "counter (redis s) (stock_key tid)")
  case None
  with assms(1) have "redis s (stock_key tid) = None" unfolding stock_ok_def by blast
  then show ?thesis using assms(1) by (simp add: do_release_def rlookup_def stock_ok_def)
next
  case (Some i)
  then have "0 \<le> i" "in_int64 i" by (simp_all add: counter_Some_iff)
  then show ?thesis
    using assms do_release_counter [OF Some assms(2), of t] by (auto simp: stock_ok_def in_int64_def)
qed

lemma int32_avail_nonneg: "0 \<le> sint (int32_avail q r)"
  by (simp add: int32_avail_def Let_def)

lemma stock_ok_load:
  "stock_ok s \<Longrightarrow> stock_ok (s\<lparr>redis := snd (do_set (stock_key tid) (show_int (sint (int32_avail q r))) None t (redis s))\<rparr>)"
  using int32_avail_nonneg [of q r] sint32_bounds [of "int32_avail q r"]
  by (auto simp: stock_ok_def do_set_def in_int64_def)

lemma keeps_stock_Client:
  "keeps stock_ok (Client_ReserveTickets E tid q)" "keeps stock_ok (Client_ReleaseTickets E tid q)"
  "keeps stock_ok (Client_GetTicketType E tid)"
  by (rule unchanged_keeps [where P = "\<lambda>b. b" and f = stock_ok, simplified];
      intro frame_Client frame_Client_GetTicketType; simp add: stock_ok_def)+

lemma keeps_stock_load: "keeps stock_ok (load_stock E tid)"
  unfolding load_stock_def Let_def
  by (intro keeps_rules keeps_stock_Client keeps_Now keeps_redis_cmd stock_ok_load) simp_all

lemma keeps_stock_confirm: "keeps stock_ok (confirm_reserve E tid q)"
  unfolding confirm_reserve_def by (intro keeps_rules keeps_stock_Client)

lemma keeps_stock_Reserve: "0 < sint q \<Longrightarrow> keeps stock_ok (ReserveTicketStock E tid q)"
  unfolding ReserveTicketStock_def
  by (intro keeps_rules keeps_stock_Client keeps_stock_load keeps_stock_confirm keeps_redis_cmd stock_ok_reserve)
    simp_all

lemma keeps_stock_Release: "0 < sint q \<Longrightarrow> keeps stock_ok (ReleaseTicketStock E tid q)"
  unfolding ReleaseTicketStock_def
  by (intro keeps_rules keeps_stock_Client keeps_redis_cmd stock_ok_release) simp_all

lemma keeps_inventory_redis: "keeps inventory_ok (redis_cmd E f)"
  by (rule keeps_redis_cmd) (simp_all add: inventory_ok_def)

lemma keeps_inventory_load: "keeps inventory_ok (load_stock E tid)"
  unfolding load_stock_def Let_def Client_GetTicketType_def GetTicketType_def
  by (intro keeps_rules keeps_http_internal keeps_GetTicketTypeByID keeps_GetEventByID keeps_Now keeps_inventory_redis)
    simp_all

lemma keeps_inventory_ReserveStock: "keeps inventory_ok (ReserveTicketStock E tid q)"
  unfolding ReserveTicketStock_def confirm_reserve_def
  by (intro keeps_rules keeps_inventory_load keeps_Client_ReserveTickets keeps_inventory_redis)

lemma keeps_inventory_ReleaseStock: "keeps inventory_ok (ReleaseTicketStock E tid q)"
  unfolding ReleaseTicketStock_def
  by (intro keeps_rules keeps_Client_ReleaseTickets keeps_inventory_redis)

section \<open>Effect of a reservation and of a release\<close>

lemma confirm_reserve_result:
  assumes "\<And>t. redis t = redis s \<Longrightarrow> Q (Inr ()) t"
  shows "wp (confirm_reserve E tid q) Q s"
proof -
  have f: "unchanged redis (Client_ReserveTickets E tid q)"
    by (rule frame_Client) (simp_all add: tick_free_def)
  obtain r t where run: "run_state (Client_ReserveTickets E tid q) s = (r, t)" by fastforce
  then have "redis t = redis s" using f by (rule unchangedD [rotated])
  then show ?thesis using assms by (simp add: confirm_reserve_def wp_run [OF run])
qed

text \<open>A ticket type whose row is consistent, with its quantity and the tickets that are left.\<close>

definition row_left :: "uuid \<Rightarrow> int \<Rightarrow> int \<Rightarrow> 'z event_db_scheme \<Rightarrow> bool" where
  "row_left u n a s \<longleftrightarrow> (\<exists>t. find_row (\<lambda>r. tt_ID r = u) (ticket_types s) = Some t \<and> row_ok t \<and>
     n = sint (tt_Quantity t) \<and> a = sint (tt_Quantity t) - sint (tt_Sold t))"

lemma row_left_bounds: "row_left u n a s \<Longrightarrow> 0 \<le> a \<and> a \<le> n \<and> n < 2 ^ 31"
  using sint32_bounds by (fastforce simp: row_left_def row_ok_def)

definition type_on_sale :: "env \<Rightarrow> uuid \<Rightarrow> 'z event_db_scheme \<Rightarrow> bool" where
  "type_on_sale E u s \<longleftrightarrow> (\<exists>t. find_row (\<lambda>r. tt_ID r = u) (ticket_types s) = Some t \<and>
     on_sale E t (find_row (\<lambda>v. ev_ID v = tt_EventID t) (events s)))"

lemma wp_Client_Reserve:
  assumes E: "reliable E" "secret_accepted E" and u: "uuid_Parse E tid = Some u" and q: "0 < sint q"
    and left: "row_left u n a s" and sale: "type_on_sale E u s"
    and post: "\<And>r t. (sint q \<le> a \<Longrightarrow> r = Inr () \<and> row_left u n (a - sint q) t) \<Longrightarrow>
      (a < sint q \<Longrightarrow> r = Inl (Err_Status 409) \<and> row_left u n a t) \<Longrightarrow> redis t = redis s \<Longrightarrow> Q r t"
  shows "wp (Client_ReserveTickets E tid q) Q s"
proof -
  from left obtain t where t: "find_row (\<lambda>r. tt_ID r = u) (ticket_types s) = Some t" and ok: "row_ok t"
    and n: "n = sint (tt_Quantity t)" and a: "a = sint (tt_Quantity t) - sint (tt_Sold t)" by (auto simp: row_left_def)
  from sale t have os: "on_sale E t (find_row (\<lambda>v. ev_ID v = tt_EventID t) (events s))"
    by (simp add: type_on_sale_def)
  let ?s = "s\<lparr>tick := Suc (tick s)\<rparr>"
  have t': "find_row (\<lambda>r. tt_ID r = u) (ticket_types ?s) = Some t"
    and os': "on_sale E t (find_row (\<lambda>v. ev_ID v = tt_EventID t) (events ?s))" using t os by simp_all
  note inc = increment_sold_found [OF t ok q]
  note w = wp_ReserveTickets [OF E(1) u q t' ok os']
  show ?thesis
  proof (cases "can_take q t")
    case True
    then have "sint q \<le> a" by (simp add: can_take_def a)
    then show ?thesis
      using E True inc take_row_sold [OF ok q True]
      by (auto simp: Client_ReserveTickets_def sendReservationRequest_def w Let_def response_defs
          row_left_def n a take_row_def intro!: post)
  next
    case False
    then have "a < sint q" by (simp add: can_take_def a)
    then show ?thesis
      using E False t ok
      by (auto simp: Client_ReserveTickets_def sendReservationRequest_def w Let_def response_defs
          row_left_def n a intro!: post)
  qed
qed

lemma wp_Client_Release:
  assumes E: "reliable E" "secret_accepted E" and u: "uuid_Parse E tid = Some u" and q: "0 < sint q"
    and left: "row_left u n a s" and sold: "sint q \<le> n - a"
    and post: "\<And>t. row_left u n (a + sint q) t \<Longrightarrow> redis t = redis s \<Longrightarrow> Q (Inr ()) t"
  shows "wp (Client_ReleaseTickets E tid q) Q s"
proof -
  from left obtain t where t: "find_row (\<lambda>r. tt_ID r = u) (ticket_types s) = Some t" and ok: "row_ok t"
    and n: "n = sint (tt_Quantity t)" and a: "a = sint (tt_Quantity t) - sint (tt_Sold t)"
    by (auto simp: row_left_def)
  have g: "can_give q t" using sold by (simp add: can_give_def n a)
  let ?s = "s\<lparr>tick := Suc (tick s)\<rparr>"
  have t': "find_row (\<lambda>r. tt_ID r = u) (ticket_types ?s) = Some t" using t by simp
  note w = wp_ReleaseTickets [OF E(1) u q t' ok]
  show ?thesis
    using E g decrement_sold_found [OF t ok q] give_row_sold [OF ok q g]
    by (auto simp: Client_ReleaseTickets_def sendReservationRequest_def w response_defs
        row_left_def give_row_def n a intro!: post)
qed

text \<open>The load of a cold key writes the tickets left.\<close>

lemma int32_avail_row:
  assumes "row_ok t"
  shows "sint (int32_avail (tt_Quantity t) (tt_Sold t)) = sint (tt_Quantity t) - sint (tt_Sold t)"
  using sint32_diff [OF row_ok_avail_in_int4 [OF assms]] assms by (simp add: int32_avail_def Let_def row_ok_def)

lemma wp_load_stock:
  assumes E: "reliable E" "secret_accepted E" "has_events E" and u: "uuid_Parse E tid = Some u"
    and left: "row_left u n a s" and sale: "type_on_sale E u s"
    and post: "\<And>v t. sint v = a \<Longrightarrow> row_left u n a t \<Longrightarrow> type_on_sale E u t \<Longrightarrow>
      counter (redis t) (stock_key tid) = Some a \<Longrightarrow> Q (Inr v) t"
  shows "wp (load_stock E tid) Q s"
proof -
  from left obtain t where t: "find_row (\<lambda>r. tt_ID r = u) (ticket_types s) = Some t" and ok: "row_ok t"
    and n: "n = sint (tt_Quantity t)" and a: "a = sint (tt_Quantity t) - sint (tt_Sold t)" by (auto simp: row_left_def)
  from sale t have os: "on_sale E t (find_row (\<lambda>v. ev_ID v = tt_EventID t) (events s))"
    by (simp add: type_on_sale_def)
  have b: "0 \<le> a" "in_int64 a" using ok sint32_bounds [of "tt_Quantity t"] by (auto simp: row_ok_def a in_int64_def)
  note v = int32_avail_row [OF ok]
  have s': "(case tt_SaleEnd t of None \<Rightarrow> False | Some t \<Rightarrow> t < clock E n) = False"
      "(case tt_SaleStart t of None \<Rightarrow> False | Some t \<Rightarrow> clock E n < t) = False" for n
    using os by (auto simp: on_sale_def sale_refusal_def split: if_splits)
  have e': "(case (case row_result ev of Inl e \<Rightarrow> None | Inr v \<Rightarrow> ev_EndDate v) of None \<Rightarrow> False | Some t \<Rightarrow> t < clock E n) = False"
    if "ev = find_row (\<lambda>v. ev_ID v = tt_EventID t) (events s)" for ev n
    using os unfolding that [symmetric]
    by (cases ev) (auto simp: on_sale_def event_refusal_def split: if_splits)
  have act: "tt_IsActive t" using os by (simp add: on_sale_def)
  show ?thesis
    using E u t b v act ok
    by (simp add: load_stock_def Client_GetTicketType_def GetTicketType_def GetTicketTypeByID_def
        GetEventByID_def response_defs internal_ticket_type_def Let_def do_set_def s' e' [OF refl])
      (rule post; simp add: row_left_def type_on_sale_def n a os)
qed

lemma wp_ReserveTicketStock:
  assumes E: "reliable E" "secret_accepted E" "has_redis E" "has_events E" and u: "uuid_Parse E tid = Some u"
    and q: "0 < sint q" and left: "row_left u n a s" and sale: "type_on_sale E u s"
    and key: "redis s (stock_key tid) = None \<or> counter (redis s) (stock_key tid) = Some a"
    and granted: "\<And>t. sint q \<le> a \<Longrightarrow> row_left u n (a - sint q) t \<Longrightarrow>
      counter (redis t) (stock_key tid) = Some (a - sint q) \<Longrightarrow> Q (Inr ()) t"
    and refused: "\<And>t. a < sint q \<Longrightarrow> row_left u n a t \<Longrightarrow> counter (redis t) (stock_key tid) = Some a \<Longrightarrow>
      Q (Inl ErrSoldOut) t"
  shows "wp (ReserveTicketStock E tid q) Q s"
proof -
  have b: "0 \<le> a" "a < 2 ^ 31" using row_left_bounds [OF left] by simp_all
  have confirm: "wp (confirm_reserve E tid q) Q t"
    if "row_left u n a t" "type_on_sale E u t" "counter (redis t) (stock_key tid) = Some (a - sint q)" "sint q \<le> a" for t
    unfolding confirm_reserve_def using E that
    by simp (rule wp_Client_Reserve [OF E(1,2) u q that(1,2)]; simp add: granted)
  show ?thesis
  proof (cases "redis s (stock_key tid)")
    case (Some e)
    with key have k: "counter (redis s) (stock_key tid) = Some a" by simp
    show ?thesis
      using E left sale k b q
      by (auto simp: ReserveTicketStock_def do_reserve_counter [OF k q] row_left_def type_on_sale_def in_int64_def
          intro!: refused confirm)
  next
    case None
    then have none: "do_reserve (stock_key tid) q t (redis s) = (Inr (- 1), redis s)" for t
      by (simp add: do_reserve_def rlookup_def)
    let ?s = "s\<lparr>tick := Suc (tick s)\<rparr>"
    have s': "row_left u n a ?s" "type_on_sale E u ?s"
      using left sale by (simp_all add: row_left_def type_on_sale_def)
    show ?thesis
      using E none b q
      by (simp add: ReserveTicketStock_def)
        (rule wp_load_stock [OF E(1,2,4) u s'],
         auto simp: do_reserve_counter [OF _ q] row_left_def type_on_sale_def in_int64_def intro!: refused confirm)
  qed
qed

lemma wp_ReleaseTicketStock:
  assumes E: "reliable E" "secret_accepted E" "has_redis E" "has_events E" and u: "uuid_Parse E tid = Some u"
    and q: "0 < sint q" and left: "row_left u n a s" and sold: "sint q \<le> n - a"
    and key: "counter (redis s) (stock_key tid) = Some a"
    and post: "\<And>t. row_left u n (a + sint q) t \<Longrightarrow> counter (redis t) (stock_key tid) = Some (a + sint q) \<Longrightarrow> Q () t"
  shows "wp (ReleaseTicketStock E tid q) Q s"
proof -
  have b: "0 \<le> a + sint q" "in_int64 (a + sint q)"
    using key q sint32_bounds [of q] row_left_bounds [OF left]
    by (simp_all add: counter_Some_iff in_int64_def)
  show ?thesis
    using E left b
    by (simp add: ReleaseTicketStock_def do_release_counter [OF key q])
      (rule wp_Client_Release [OF E(1,2) u q _ sold]; simp add: post row_left_def)
qed

lemma demo_stock [simp]:
  "row_left 1 3 3 demo_db" "type_on_sale E 1 demo_db" "redis demo_db k = None" "stock_ok demo_db"
  by (auto simp: row_left_def type_on_sale_def stock_ok_def) (simp_all add: demo_type_def demo_db_def)

section \<open>Properties\<close>

text \<open>
  C1. No oversell in Redis. Any interleaving of reservations and releases by any number of
  clients, each one run of a Lua script on one stock key: the counter ends at the stock minus what
  was granted plus what came back, so the tickets granted never exceed the stock plus the returns.
\<close>

theorem redis_no_oversell:
  assumes "counter rd k = Some stock" and "positive_ops ops"
    and "ledger_run (redis_take k) (redis_give k) ops rd = (granted, returned, rd')"
  shows "counter rd' k = Some (stock - granted + returned) \<and> granted \<le> stock + returned"
proof -
  have v: "counter rd k \<noteq> None" and a: "redis_avail k rd = stock"
    using assms(1) by (simp_all add: redis_avail_def)
  show ?thesis
    using redis_stock.run_conserves [OF v assms(2,3)] redis_stock.run_no_oversell [OF v assms(2,3)] a
    by (auto simp: redis_avail_def)
qed

theorem redis_no_oversell_witness:
  "counter (snd (snd (ledger_run (redis_take ''k'') (redis_give ''k'') [(0, Take 2), (0, Take 2), (0, Give 1), (1, Take 2)]
     [''k'' \<mapsto> (RStr (show_int 3), None)]))) ''k'' = Some 0"
proof -
  let ?rd = "[''k'' \<mapsto> (RStr (show_int 3), None)] :: rstore"
  obtain g b rd' where r: "ledger_run (redis_take ''k'') (redis_give ''k'')
      [(0, Take 2), (0, Take 2), (0, Give 1), (1, Take 2)] ?rd = (g, b, rd')" by (metis prod_cases3)
  have c: "counter ?rd ''k'' = Some 3" by (simp add: in_int64_def)
  have "g = 4 \<and> b = 1"
    using r by (simp add: redis_take_counter [where i = 3] redis_take_counter [where i = 1] redis_take_counter [where i = 2]
        redis_give_counter [where i = 1] in_int64_def split: prod.splits)
  then show ?thesis using redis_no_oversell [OF c _ r] r by simp
qed

text \<open>
  Of any number of clients racing for single tickets on one stock key, exactly as many are
  served as there are tickets, and the counter loses exactly that many.
\<close>

theorem redis_rivals_served:
  assumes "counter rd k = Some stock" and "ledger_run (redis_take k) (redis_give k) (rivals ts) rd = (granted, returned, rd')"
  shows "granted = min (int (length ts)) stock \<and> redis_avail k rd' = stock - granted"
proof -
  have v: "counter rd k \<noteq> None" and a: "redis_avail k rd = stock"
    using assms(1) by (simp_all add: redis_avail_def)
  show ?thesis using redis_stock.rivals_exact [OF v assms(2)] a by simp
qed

theorem redis_rivals_witness:
  "fst (ledger_run (redis_take ''k'') (redis_give ''k'') (rivals [0, 0, 1, 1, 2]) [''k'' \<mapsto> (RStr (show_int 3), None)]) = 3"
proof -
  let ?rd = "[''k'' \<mapsto> (RStr (show_int 3), None)] :: rstore"
  obtain g b rd' where r: "ledger_run (redis_take ''k'') (redis_give ''k'') (rivals [0, 0, 1, 1, 2]) ?rd = (g, b, rd')"
    by (metis prod_cases3)
  have c: "counter ?rd ''k'' = Some 3" by (simp add: in_int64_def)
  show ?thesis using redis_rivals_served [OF c r] r by simp
qed

text \<open>
  C3. A reservation is granted exactly when enough tickets are left, whether the stock key is cold
  or holds the stock. With no fault and the ticket type on sale, the Redis counter and the row of
  the event service agree after every outcome: both lose the quantity when it is granted
  (\<open>Inr ()\<close>), neither changes its stock when it is refused, and the refusal is \<open>ErrSoldOut\<close>.
\<close>

theorem reserve_exact:
  assumes "reliable E" and "secret_accepted E" and "has_redis E" and "has_events E" and "uuid_Parse E tid = Some u"
    and "0 < sint q" and "row_left u n a s" and "type_on_sale E u s"
    and "redis s (stock_key tid) = None \<or> counter (redis s) (stock_key tid) = Some a"
  shows "wp (ReserveTicketStock E tid q)
    (\<lambda>r t. r = (if sint q \<le> a then Inr () else Inl ErrSoldOut) \<and>
      (let a' = (if sint q \<le> a then a - sint q else a)
       in counter (redis t) (stock_key tid) = Some a' \<and> row_left u n a' t)) s"
  by (rule wp_ReserveTicketStock [OF assms]) (simp_all add: Let_def)

theorem reserve_exact_witness:
  "wp (ReserveTicketStock calm_env (demo_name 1) 2)
    (\<lambda>r t. r = Inr () \<and> counter (redis t) (stock_key (demo_name 1)) = Some 1 \<and> row_left 1 3 1 t) demo_db"
  using reserve_exact [of calm_env "demo_name 1" 1 2 3 3 demo_db] by (simp add: Let_def)

text \<open>
  Releasing what was just reserved restores both counters.
\<close>

theorem reserve_release_roundtrip:
  assumes "reliable E" and "secret_accepted E" and "has_redis E" and "has_events E" and "uuid_Parse E tid = Some u"
    and "0 < sint q" and "sint q \<le> a" and "row_left u n a s" and "type_on_sale E u s"
    and "redis s (stock_key tid) = None \<or> counter (redis s) (stock_key tid) = Some a"
  shows "wp (do { r \<leftarrow> ReserveTicketStock E tid q; ReleaseTicketStock E tid q; ret r })
    (\<lambda>r t. r = Inr () \<and> counter (redis t) (stock_key tid) = Some a \<and> row_left u n a t) s"
proof -
  note E = assms(1-4)
  have le: "a \<le> n" using row_left_bounds [OF assms(8)] by simp
  show ?thesis
    using assms(7) le
    by (simp, intro wp_ReserveTicketStock [OF E assms(5,6,8-10)])
      (auto intro!: wp_ReleaseTicketStock [OF E assms(5,6)])
qed

theorem reserve_release_witness:
  "wp (do { r \<leftarrow> ReserveTicketStock calm_env (demo_name 1) 2; ReleaseTicketStock calm_env (demo_name 1) 2; ret r })
    (\<lambda>r t. r = Inr () \<and> counter (redis t) (stock_key (demo_name 1)) = Some 3 \<and> row_left 1 3 3 t) demo_db"
  by (rule reserve_release_roundtrip) simp_all

text \<open>
  Once the script has granted a reservation the event service cannot undo it: with the stock
  in Redis and the script's call answered, the outcome depends on the counter alone, whatever
  happens to every other call (the event service may be down or refuse).
\<close>

theorem reserve_warm_ignores_event_service:
  assumes "has_redis E" and "outcome E (tick s) = Delivered" and "0 < sint q"
    and "counter (redis s) (stock_key tid) = Some stock"
  shows "wp (ReserveTicketStock E tid q)
    (\<lambda>r t. if sint q \<le> stock
       then r = Inr () \<and> counter (redis t) (stock_key tid) = Some (stock - sint q)
       else r = Inl ErrSoldOut \<and> redis t = redis s) s"
  using assms
  by (auto simp: ReserveTicketStock_def redis_cmd_def wp_external do_reserve_counter counter_Some_iff in_int64_def
      intro!: confirm_reserve_result)

theorem reserve_warm_witness:
  "wp (ReserveTicketStock (calm_env\<lparr>outcome := (\<lambda>n. if n = 0 then Delivered else Lost_request)\<rparr>) (demo_name 1) 2)
    (\<lambda>r t. r = Inr () \<and> counter (redis t) (stock_key (demo_name 1)) = Some 3)
    (demo_db\<lparr>redis := [stock_key (demo_name 1) \<mapsto> (RStr (show_int 5), None)]\<rparr>)"
  using reserve_warm_ignores_event_service [of "calm_env\<lparr>outcome := (\<lambda>n. if n = 0 then Delivered else Lost_request)\<rparr>"
      "demo_db\<lparr>redis := [stock_key (demo_name 1) \<mapsto> (RStr (show_int 5), None)]\<rparr>" 2 "demo_name 1" 5]
  by (simp add: in_int64_def demo_db_def)

text \<open>
  Under every schedule of faults and clocks a reservation keeps both stock invariants: every
  stock key is a non-negative counter without a deadline, and no ticket type has sold more than
  its quantity or fewer than none.
\<close>

theorem reserve_keeps_stock:
  assumes "stock_ok s" and "inventory_ok s" and "0 < sint q"
  shows "wp (ReserveTicketStock E tid q) (\<lambda>r t. stock_ok t \<and> inventory_ok t) s"
  unfolding wp_conj
  using keeps_wp [OF keeps_stock_Reserve [OF assms(3)] assms(1)] keeps_wp [OF keeps_inventory_ReserveStock assms(2)]
  by simp

theorem reserve_keeps_stock_witness:
  "wp (ReserveTicketStock (calm_env\<lparr>outcome := (\<lambda>n. Lost_reply)\<rparr>) (demo_name 1) 2) (\<lambda>r t. stock_ok t \<and> inventory_ok t) demo_db"
  by (rule reserve_keeps_stock) simp_all

text \<open>
  The same for a release: whatever is released, and whatever fails, both stock invariants hold
  afterwards.
\<close>

theorem release_keeps_stock:
  assumes "stock_ok s" and "inventory_ok s" and "0 < sint q"
  shows "wp (ReleaseTicketStock E tid q) (\<lambda>r t. stock_ok t \<and> inventory_ok t) s"
  unfolding wp_conj
  using keeps_wp [OF keeps_stock_Release [OF assms(3)] assms(1)] keeps_wp [OF keeps_inventory_ReleaseStock assms(2)]
  by simp

theorem release_keeps_stock_witness:
  "wp (ReleaseTicketStock (calm_env\<lparr>outcome := (\<lambda>n. Lost_reply)\<rparr>) (demo_name 1) 2) (\<lambda>r t. stock_ok t \<and> inventory_ok t) demo_db"
  by (rule release_keeps_stock) simp_all

text \<open>
  With an event client configured, a reservation never reports why the ticket type cannot be
  sold: an inactive type, a closed sale window and an ended event all surface as the status code of
  the event service or a transport error, so the sentinel errors the load produces never leave the
  function.
\<close>

theorem reserve_hides_sale_errors:
  assumes "has_events E"
  shows "wp (ReserveTicketStock E tid q)
    (\<lambda>r t. r \<notin> {Inl ErrSaleEnded, Inl ErrSaleNotStarted, Inl ErrEventEnded, Inl ErrTicketInactive}) s"
proof -
  let ?P = "\<lambda>r. r \<notin> {Inl ErrSaleEnded, Inl ErrSaleNotStarted, Inl ErrEventEnded, Inl ErrTicketInactive}"
  have client: "yields ?P (Client_ReserveTickets E tid q)"
    unfolding Client_ReserveTickets_def by (rule yields_mono [OF yields_sendReservationRequest]) auto
  have confirm: "yields ?P (confirm_reserve E tid q)"
    by (simp add: yields_iff_wp confirm_reserve_result)
  have "yields ?P (ReserveTicketStock E tid q)"
    unfolding ReserveTicketStock_def using assms
    by (intro yields_rules client confirm) simp_all
  then show ?thesis by (rule yields_wp)
qed

theorem reserve_hides_sale_errors_witness:
  "wp (ReserveTicketStock calm_env (demo_name 1) 2) (\<lambda>r t. r \<noteq> Inl ErrTicketInactive)
     (demo_db\<lparr>ticket_types := [demo_type\<lparr>tt_IsActive := False\<rparr>]\<rparr>)"
  by (rule wp_mono [OF reserve_hides_sale_errors]) simp_all

end
