(* ===== verification/Ticket_Store.thy ===== *)
theory Ticket_Store
  imports Ticket_Stock
begin

text \<open>
  The database of the ticket service: the tables \<open>orders\<close>, \<open>order_items\<close>, \<open>tickets\<close> and \<open>withdrawals\<close>
  (\<open>repository/db/models.go\<close>, \<open>migrations/\<close>) and one definition per statement of \<open>orders.sql.go\<close>,
  \<open>tickets.sql.go\<close> and \<open>withdrawals.sql.go\<close>. Constraints of the schema (primary and unique keys,
  foreign keys, \<open>DECIMAL(15,2)\<close>, \<open>VARCHAR(n)\<close>) fail the statement as they do in PostgreSQL.
  A method of \<open>Queries\<close> whose name the service uses too carries the prefix \<open>Queries_\<close>.
\<close>

section \<open>Rows\<close>

record Order =
  o_ID :: uuid
  o_UserID :: uuid
  o_EventID :: uuid
  o_TotalAmount :: numeric
  o_Status :: string
  o_ExpiresAt :: time
  o_CreatedAt :: time
  o_UpdatedAt :: time

record OrderItem =
  oi_ID :: uuid
  oi_OrderID :: uuid
  oi_TicketTypeID :: uuid
  oi_Quantity :: int32
  oi_Price :: numeric
  oi_Subtotal :: numeric

record Ticket =
  tk_ID :: uuid
  tk_OrderID :: uuid
  tk_UserID :: uuid
  tk_EventID :: uuid
  tk_TicketTypeID :: uuid
  tk_TicketCode :: string
  tk_Status :: string
  tk_CreatedAt :: time
  tk_UpdatedAt :: time

record Withdrawal =
  w_ID :: uuid
  w_OrganizerID :: uuid
  w_Amount :: numeric
  w_BankName :: string
  w_AccountNumber :: string
  w_AccountName :: string
  w_Status :: string
  w_RejectionReason :: "string option"
  w_Notes :: "string option"
  w_CreatedAt :: time
  w_UpdatedAt :: time

record ticket_db = event_db +
  orders :: "Order list"
  order_items :: "OrderItem list"
  tickets :: "Ticket list"
  withdrawals :: "Withdrawal list"

lemma ticket_update_order [simp]:
  "s\<lparr>orders := os, tick := n\<rparr> = s\<lparr>tick := n, orders := os\<rparr>"
  "s\<lparr>orders := os, redis := rd\<rparr> = s\<lparr>redis := rd, orders := os\<rparr>"
  "s\<lparr>orders := os, kafka := ms\<rparr> = s\<lparr>kafka := ms, orders := os\<rparr>"
  "s\<lparr>orders := os, ticket_types := tts\<rparr> = s\<lparr>ticket_types := tts, orders := os\<rparr>"
  "s\<lparr>order_items := is, tick := n\<rparr> = s\<lparr>tick := n, order_items := is\<rparr>"
  "s\<lparr>order_items := is, redis := rd\<rparr> = s\<lparr>redis := rd, order_items := is\<rparr>"
  "s\<lparr>order_items := is, kafka := ms\<rparr> = s\<lparr>kafka := ms, order_items := is\<rparr>"
  "s\<lparr>order_items := is, ticket_types := tts\<rparr> = s\<lparr>ticket_types := tts, order_items := is\<rparr>"
  "s\<lparr>order_items := is, orders := os\<rparr> = s\<lparr>orders := os, order_items := is\<rparr>"
  "s\<lparr>tickets := tks, tick := n\<rparr> = s\<lparr>tick := n, tickets := tks\<rparr>"
  "s\<lparr>tickets := tks, redis := rd\<rparr> = s\<lparr>redis := rd, tickets := tks\<rparr>"
  "s\<lparr>tickets := tks, kafka := ms\<rparr> = s\<lparr>kafka := ms, tickets := tks\<rparr>"
  "s\<lparr>tickets := tks, ticket_types := tts\<rparr> = s\<lparr>ticket_types := tts, tickets := tks\<rparr>"
  "s\<lparr>tickets := tks, orders := os\<rparr> = s\<lparr>orders := os, tickets := tks\<rparr>"
  "s\<lparr>tickets := tks, order_items := is\<rparr> = s\<lparr>order_items := is, tickets := tks\<rparr>"
  "s\<lparr>withdrawals := ws, tick := n\<rparr> = s\<lparr>tick := n, withdrawals := ws\<rparr>"
  "s\<lparr>withdrawals := ws, redis := rd\<rparr> = s\<lparr>redis := rd, withdrawals := ws\<rparr>"
  "s\<lparr>withdrawals := ws, kafka := ms\<rparr> = s\<lparr>kafka := ms, withdrawals := ws\<rparr>"
  "s\<lparr>withdrawals := ws, ticket_types := tts\<rparr> = s\<lparr>ticket_types := tts, withdrawals := ws\<rparr>"
  "s\<lparr>withdrawals := ws, orders := os\<rparr> = s\<lparr>orders := os, withdrawals := ws\<rparr>"
  "s\<lparr>withdrawals := ws, order_items := is\<rparr> = s\<lparr>order_items := is, withdrawals := ws\<rparr>"
  "s\<lparr>withdrawals := ws, tickets := tks\<rparr> = s\<lparr>tickets := tks, withdrawals := ws\<rparr>"
  by simp_all

text \<open>\<open>LIMIT\<close> and \<open>OFFSET\<close>; a negative value fails the statement.\<close>

definition page_rows :: "int32 \<Rightarrow> int32 \<Rightarrow> 'r list \<Rightarrow> gerr + 'r list" where
  "page_rows lmt off rows = (if sint lmt < 0 \<or> sint off < 0 then Inl ErrOutOfRange
     else Inr (take (nat (sint lmt)) (drop (nat (sint off)) rows)))"

text \<open>\<open>ORDER BY created_at DESC\<close>; rows of the same time keep their order.\<close>

definition newest_first :: "('r \<Rightarrow> time) \<Rightarrow> 'r list \<Rightarrow> 'r list" where
  "newest_first created rows = sort_key (\<lambda>r. - created r) rows"

section \<open>Orders\<close>

definition Queries_CreateOrder :: "env \<Rightarrow> uuid \<Rightarrow> uuid \<Rightarrow> numeric \<Rightarrow> string \<Rightarrow> time \<Rightarrow> ('z ticket_db_scheme, Order) go" where
  "Queries_CreateOrder E user event amt status expires = sql E (\<lambda>now u s.
     case decimal_15_2 amt of
       Inl e \<Rightarrow> (Inl e, s)
     | Inr amount \<Rightarrow>
         if u \<in> o_ID ` set (orders s) then (Inl ErrConstraint, s)
         else (let o' = \<lparr>o_ID = u, o_UserID = user, o_EventID = event, o_TotalAmount = amount, o_Status = status,
                         o_ExpiresAt = pg_time expires, o_CreatedAt = now, o_UpdatedAt = now\<rparr>
               in (Inr o', s\<lparr>orders := orders s @ [o']\<rparr>)))"

definition CreateOrderItem :: "env \<Rightarrow> uuid \<Rightarrow> uuid \<Rightarrow> int32 \<Rightarrow> numeric \<Rightarrow> numeric \<Rightarrow> ('z ticket_db_scheme, OrderItem) go" where
  "CreateOrderItem E oid tid quantity price subtotal = sql E (\<lambda>now u s.
     case decimal_15_2 price of
       Inl e \<Rightarrow> (Inl e, s)
     | Inr p \<Rightarrow> (case decimal_15_2 subtotal of
         Inl e \<Rightarrow> (Inl e, s)
       | Inr t \<Rightarrow>
           if u \<in> oi_ID ` set (order_items s) \<or> oid \<notin> o_ID ` set (orders s) then (Inl ErrConstraint, s)
           else (let i = \<lparr>oi_ID = u, oi_OrderID = oid, oi_TicketTypeID = tid, oi_Quantity = quantity,
                          oi_Price = p, oi_Subtotal = t\<rparr>
                 in (Inr i, s\<lparr>order_items := order_items s @ [i]\<rparr>))))"

definition GetActivePendingOrderByUserAndEvent :: "env \<Rightarrow> uuid \<Rightarrow> uuid \<Rightarrow> ('z ticket_db_scheme, Order) go" where
  "GetActivePendingOrderByUserAndEvent E user event = sql E (\<lambda>now u s.
     (row_result (find_row (\<lambda>r. o_UserID r = user \<and> o_EventID r = event \<and> o_Status r = ''PENDING'' \<and> now < o_ExpiresAt r)
        (orders s)), s))"

definition GetExpiredPendingOrders :: "env \<Rightarrow> ('z ticket_db_scheme, Order list) go" where
  "GetExpiredPendingOrders E = sql E (\<lambda>now u s.
     (Inr (filter (\<lambda>r. o_Status r = ''PENDING'' \<and> o_ExpiresAt r < now) (orders s)), s))"

definition GetOrder :: "env \<Rightarrow> uuid \<Rightarrow> ('z ticket_db_scheme, Order) go" where
  "GetOrder E oid = sql E (\<lambda>now u s. (row_result (find_row (\<lambda>r. o_ID r = oid) (orders s)), s))"

definition ListOrderItems :: "env \<Rightarrow> uuid \<Rightarrow> ('z ticket_db_scheme, OrderItem list) go" where
  "ListOrderItems E oid = sql E (\<lambda>now u s. (Inr (filter (\<lambda>r. oi_OrderID r = oid) (order_items s)), s))"

definition ListOrdersByEvents :: "env \<Rightarrow> uuid list \<Rightarrow> int32 \<Rightarrow> int32 \<Rightarrow> ('z ticket_db_scheme, Order list) go" where
  "ListOrdersByEvents E eids lmt off = sql E (\<lambda>now u s.
     (page_rows lmt off (newest_first o_CreatedAt (filter (\<lambda>r. o_EventID r \<in> set eids) (orders s))), s))"

definition ListOrdersByUser :: "env \<Rightarrow> uuid \<Rightarrow> int32 \<Rightarrow> int32 \<Rightarrow> ('z ticket_db_scheme, Order list) go" where
  "ListOrdersByUser E user lmt off = sql E (\<lambda>now u s.
     (page_rows lmt off (newest_first o_CreatedAt (filter (\<lambda>r. o_UserID r = user) (orders s))), s))"

definition status_row :: "time \<Rightarrow> string \<Rightarrow> Order \<Rightarrow> Order" where
  "status_row now status r = r\<lparr>o_Status := status, o_UpdatedAt := now\<rparr>"

definition UpdateOrderStatus :: "env \<Rightarrow> uuid \<Rightarrow> string \<Rightarrow> ('z ticket_db_scheme, Order) go" where
  "UpdateOrderStatus E oid status = sql E (\<lambda>now u s.
     (row_result (map_option (status_row now status) (find_row (\<lambda>r. o_ID r = oid) (orders s))),
      s\<lparr>orders := update_rows (\<lambda>r. o_ID r = oid) (status_row now status) (orders s)\<rparr>))"

text \<open>The statement \<open>UPDATE orders SET expires_at = $2, updated_at = NOW() WHERE id = $1\<close> that the
  queue executes on the pool; its result is dropped everywhere.\<close>

definition expires_row :: "time \<Rightarrow> time \<Rightarrow> Order \<Rightarrow> Order" where
  "expires_row now expires r = r\<lparr>o_ExpiresAt := pg_time expires, o_UpdatedAt := now\<rparr>"

definition exec_expires_at :: "env \<Rightarrow> uuid \<Rightarrow> time \<Rightarrow> ('z ticket_db_scheme, unit) go" where
  "exec_expires_at E oid expires = sql E (\<lambda>now u s.
     (Inr (), s\<lparr>orders := update_rows (\<lambda>r. o_ID r = oid) (expires_row now expires) (orders s)\<rparr>))"

section \<open>Aggregates over orders\<close>

definition order_quantity :: "'z ticket_db_scheme \<Rightarrow> Order \<Rightarrow> int" where
  "order_quantity s r = sum_list (map (\<lambda>i. sint (oi_Quantity i)) (filter (\<lambda>i. oi_OrderID i = o_ID r) (order_items s)))"

definition paid_status :: "string \<Rightarrow> bool" where
  "paid_status st \<longleftrightarrow> st = ''PAID'' \<or> st = ''SUKSES''"

record OrganizerStats =
  os_TotalOrders :: int
  os_TotalRevenue :: numeric
  os_TicketsSold :: int

definition organizer_stats :: "'z ticket_db_scheme \<Rightarrow> uuid list \<Rightarrow> OrganizerStats" where
  "organizer_stats s eids = (let rows = filter (\<lambda>r. o_EventID r \<in> set eids \<and> paid_status (o_Status r)) (orders s)
     in \<lparr>os_TotalOrders = int (length (remdups (map o_ID rows))), os_TotalRevenue = num_sum (map o_TotalAmount rows),
         os_TicketsSold = sum_list (map (order_quantity s) rows)\<rparr>)"

definition GetOrganizerStats :: "env \<Rightarrow> uuid list \<Rightarrow> ('z ticket_db_scheme, OrganizerStats) go" where
  "GetOrganizerStats E eids = sql E (\<lambda>now u s. (Inr (organizer_stats s eids), s))"

definition GetPlatformTotalGMV :: "env \<Rightarrow> ('z ticket_db_scheme, numeric \<times> int) go" where
  "GetPlatformTotalGMV E = sql E (\<lambda>now u s.
     (let rows = filter (\<lambda>r. paid_status (o_Status r)) (orders s)
      in (Inr (num_sum (map o_TotalAmount rows), int (length rows)), s)))"

text \<open>\<open>DATE(created_at)\<close> in UTC, counted from the epoch.\<close>

definition day_of :: "time \<Rightarrow> int" where
  "day_of t = t div (24 * Hour)"

record DailySales =
  ds_SaleDate :: int
  ds_TotalRevenue :: numeric
  ds_TicketsSold :: int

definition GetDailySalesTrend :: "env \<Rightarrow> uuid list \<Rightarrow> ('z ticket_db_scheme, DailySales list) go" where
  "GetDailySalesTrend E eids = sql E (\<lambda>now u s.
     (let rows = filter (\<lambda>r. o_EventID r \<in> set eids \<and> paid_status (o_Status r) \<and> now - 30 * 24 * Hour \<le> o_CreatedAt r) (orders s)
      in (Inr (map (\<lambda>d. let day = filter (\<lambda>r. day_of (o_CreatedAt r) = d) rows
                 in \<lparr>ds_SaleDate = d, ds_TotalRevenue = num_sum (map o_TotalAmount day),
                     ds_TicketsSold = sum_list (map (order_quantity s) day)\<rparr>)
               (sort (remdups (map (\<lambda>r. day_of (o_CreatedAt r)) rows)))), s)))"

section \<open>Tickets\<close>

definition CreateTicket :: "env \<Rightarrow> uuid \<Rightarrow> uuid \<Rightarrow> uuid \<Rightarrow> uuid \<Rightarrow> string \<Rightarrow> ('z ticket_db_scheme, Ticket) go" where
  "CreateTicket E oid user event tid code = sql E (\<lambda>now u s.
     if 100 < length code then (Inl ErrOutOfRange, s)
     else if u \<in> tk_ID ` set (tickets s) \<or> code \<in> tk_TicketCode ` set (tickets s) \<or> oid \<notin> o_ID ` set (orders s)
       then (Inl ErrConstraint, s)
     else (let t = \<lparr>tk_ID = u, tk_OrderID = oid, tk_UserID = user, tk_EventID = event, tk_TicketTypeID = tid,
                    tk_TicketCode = code, tk_Status = ''ACTIVE'', tk_CreatedAt = now, tk_UpdatedAt = now\<rparr>
           in (Inr t, s\<lparr>tickets := tickets s @ [t]\<rparr>)))"

definition GetTicket :: "env \<Rightarrow> uuid \<Rightarrow> ('z ticket_db_scheme, Ticket) go" where
  "GetTicket E tid = sql E (\<lambda>now u s. (row_result (find_row (\<lambda>r. tk_ID r = tid) (tickets s)), s))"

definition Queries_GetTicketByCode :: "env \<Rightarrow> string \<Rightarrow> ('z ticket_db_scheme, Ticket) go" where
  "Queries_GetTicketByCode E code = sql E (\<lambda>now u s. (row_result (find_row (\<lambda>r. tk_TicketCode r = code) (tickets s)), s))"

definition ListTicketsByEvent :: "env \<Rightarrow> uuid \<Rightarrow> ('z ticket_db_scheme, Ticket list) go" where
  "ListTicketsByEvent E event = sql E (\<lambda>now u s. (Inr (sort_key tk_CreatedAt (filter (\<lambda>r. tk_EventID r = event) (tickets s))), s))"

definition ListTicketsByOrder :: "env \<Rightarrow> uuid \<Rightarrow> ('z ticket_db_scheme, Ticket list) go" where
  "ListTicketsByOrder E oid = sql E (\<lambda>now u s. (Inr (sort_key tk_CreatedAt (filter (\<lambda>r. tk_OrderID r = oid) (tickets s))), s))"

definition ListTicketsByUser :: "env \<Rightarrow> uuid \<Rightarrow> int32 \<Rightarrow> int32 \<Rightarrow> ('z ticket_db_scheme, Ticket list) go" where
  "ListTicketsByUser E user lmt off = sql E (\<lambda>now u s.
     (page_rows lmt off (newest_first tk_CreatedAt (filter (\<lambda>r. tk_UserID r = user) (tickets s))), s))"

definition UpdateTicketOwner :: "env \<Rightarrow> uuid \<Rightarrow> uuid \<Rightarrow> ('z ticket_db_scheme, Ticket) go" where
  "UpdateTicketOwner E tid user = sql E (\<lambda>now u s.
     (let f = (\<lambda>r. r\<lparr>tk_UserID := user, tk_UpdatedAt := now\<rparr>)
      in (row_result (map_option f (find_row (\<lambda>r. tk_ID r = tid) (tickets s))),
          s\<lparr>tickets := update_rows (\<lambda>r. tk_ID r = tid) f (tickets s)\<rparr>)))"

definition ticket_status_row :: "time \<Rightarrow> string \<Rightarrow> Ticket \<Rightarrow> Ticket" where
  "ticket_status_row now status r = r\<lparr>tk_Status := status, tk_UpdatedAt := now\<rparr>"

definition UpdateTicketStatus :: "env \<Rightarrow> uuid \<Rightarrow> string \<Rightarrow> ('z ticket_db_scheme, Ticket) go" where
  "UpdateTicketStatus E tid status = sql E (\<lambda>now u s.
     (row_result (map_option (ticket_status_row now status) (find_row (\<lambda>r. tk_ID r = tid) (tickets s))),
      s\<lparr>tickets := update_rows (\<lambda>r. tk_ID r = tid) (ticket_status_row now status) (tickets s)\<rparr>))"

section \<open>Withdrawals\<close>

definition CreateWithdrawal ::
    "env \<Rightarrow> uuid \<Rightarrow> numeric \<Rightarrow> string \<Rightarrow> string \<Rightarrow> string \<Rightarrow> string option \<Rightarrow> string \<Rightarrow> ('z ticket_db_scheme, Withdrawal) go" where
  "CreateWithdrawal E org amount bank account holder notes status = sql E (\<lambda>now u s.
     case decimal_15_2 amount of
       Inl e \<Rightarrow> (Inl e, s)
     | Inr a \<Rightarrow>
         if 100 < length bank \<or> 100 < length account \<or> 150 < length holder \<or> 30 < length status then (Inl ErrOutOfRange, s)
         else if u \<in> w_ID ` set (withdrawals s) then (Inl ErrConstraint, s)
         else (let w = \<lparr>w_ID = u, w_OrganizerID = org, w_Amount = a, w_BankName = bank, w_AccountNumber = account,
                        w_AccountName = holder, w_Status = status, w_RejectionReason = None, w_Notes = notes,
                        w_CreatedAt = now, w_UpdatedAt = now\<rparr>
               in (Inr w, s\<lparr>withdrawals := withdrawals s @ [w]\<rparr>)))"

definition sum_where :: "(Withdrawal \<Rightarrow> bool) \<Rightarrow> Withdrawal list \<Rightarrow> numeric" where
  "sum_where p rows = num_sum (map (\<lambda>w. if p w then w_Amount w else Num 0) rows)"

definition deducted_status :: "string \<Rightarrow> bool" where
  "deducted_status st \<longleftrightarrow> st = ''PENDING'' \<or> st = ''APPROVED'' \<or> st = ''PAID''"

record PlatformWithdrawals =
  pw_TotalPaidAmount :: numeric
  pw_PendingAmount :: numeric
  pw_PendingCount :: int
  pw_TotalRequests :: int

definition GetPlatformWithdrawalSummary :: "env \<Rightarrow> ('z ticket_db_scheme, PlatformWithdrawals) go" where
  "GetPlatformWithdrawalSummary E = sql E (\<lambda>now u s.
     (Inr \<lparr>pw_TotalPaidAmount = sum_where (\<lambda>w. w_Status w = ''PAID'') (withdrawals s),
           pw_PendingAmount = sum_where (\<lambda>w. w_Status w = ''PENDING'') (withdrawals s),
           pw_PendingCount = int (length (filter (\<lambda>w. w_Status w = ''PENDING'') (withdrawals s))),
           pw_TotalRequests = int (length (withdrawals s))\<rparr>, s))"

definition GetTotalWithdrawnByOrganizer :: "env \<Rightarrow> uuid \<Rightarrow> ('z ticket_db_scheme, numeric) go" where
  "GetTotalWithdrawnByOrganizer E org = sql E (\<lambda>now u s.
     (Inr (num_sum (map w_Amount (filter (\<lambda>w. w_OrganizerID w = org \<and> deducted_status (w_Status w)) (withdrawals s)))), s))"

definition GetWithdrawal :: "env \<Rightarrow> uuid \<Rightarrow> ('z ticket_db_scheme, Withdrawal) go" where
  "GetWithdrawal E wid = sql E (\<lambda>now u s. (row_result (find_row (\<lambda>w. w_ID w = wid) (withdrawals s)), s))"

record WithdrawnSummary =
  ws_TotalDeducted :: numeric
  ws_PendingAmount :: numeric
  ws_PaidAmount :: numeric
  ws_TotalRequests :: int

definition withdrawn_summary :: "'z ticket_db_scheme \<Rightarrow> uuid \<Rightarrow> WithdrawnSummary" where
  "withdrawn_summary s org = (let rows = filter (\<lambda>w. w_OrganizerID w = org) (withdrawals s)
     in \<lparr>ws_TotalDeducted = sum_where (\<lambda>w. deducted_status (w_Status w)) rows,
         ws_PendingAmount = sum_where (\<lambda>w. w_Status w = ''PENDING'') rows,
         ws_PaidAmount = sum_where (\<lambda>w. w_Status w = ''PAID'') rows,
         ws_TotalRequests = int (length rows)\<rparr>)"

definition GetWithdrawnSummaryByOrganizer :: "env \<Rightarrow> uuid \<Rightarrow> ('z ticket_db_scheme, WithdrawnSummary) go" where
  "GetWithdrawnSummaryByOrganizer E org = sql E (\<lambda>now u s. (Inr (withdrawn_summary s org), s))"

definition ListAllWithdrawals :: "env \<Rightarrow> int32 \<Rightarrow> int32 \<Rightarrow> ('z ticket_db_scheme, Withdrawal list) go" where
  "ListAllWithdrawals E lmt off = sql E (\<lambda>now u s. (page_rows lmt off (newest_first w_CreatedAt (withdrawals s)), s))"

definition ListWithdrawalsByOrganizer :: "env \<Rightarrow> uuid \<Rightarrow> int32 \<Rightarrow> int32 \<Rightarrow> ('z ticket_db_scheme, Withdrawal list) go" where
  "ListWithdrawalsByOrganizer E org lmt off = sql E (\<lambda>now u s.
     (page_rows lmt off (newest_first w_CreatedAt (filter (\<lambda>w. w_OrganizerID w = org) (withdrawals s))), s))"

definition ListWithdrawalsByStatus :: "env \<Rightarrow> string \<Rightarrow> int32 \<Rightarrow> int32 \<Rightarrow> ('z ticket_db_scheme, Withdrawal list) go" where
  "ListWithdrawalsByStatus E status lmt off = sql E (\<lambda>now u s.
     (page_rows lmt off (newest_first w_CreatedAt (filter (\<lambda>w. w_Status w = status) (withdrawals s))), s))"

definition withdrawal_row :: "time \<Rightarrow> string \<Rightarrow> string option \<Rightarrow> Withdrawal \<Rightarrow> Withdrawal" where
  "withdrawal_row now status reason w = w\<lparr>w_Status := status, w_RejectionReason := reason, w_UpdatedAt := now\<rparr>"

definition UpdateWithdrawalStatus :: "env \<Rightarrow> uuid \<Rightarrow> string \<Rightarrow> string option \<Rightarrow> ('z ticket_db_scheme, Withdrawal) go" where
  "UpdateWithdrawalStatus E wid status reason = sql E (\<lambda>now u s.
     if 30 < length status \<and> find_row (\<lambda>w. w_ID w = wid) (withdrawals s) \<noteq> None then (Inl ErrOutOfRange, s)
     else (row_result (map_option (withdrawal_row now status reason) (find_row (\<lambda>w. w_ID w = wid) (withdrawals s))),
           s\<lparr>withdrawals := update_rows (\<lambda>w. w_ID w = wid) (withdrawal_row now status reason) (withdrawals s)\<rparr>))"

section \<open>Facts\<close>

interpretation status_keyed: keyed_update o_ID "status_row now status" for now status
  by unfold_locales (simp add: status_row_def)

interpretation expires_keyed: keyed_update o_ID "expires_row now expires" for now expires
  by unfold_locales (simp add: expires_row_def)

interpretation ticket_keyed: keyed_update tk_ID "ticket_status_row now status" for now status
  by unfold_locales (simp add: ticket_status_row_def)

interpretation withdrawal_keyed: keyed_update w_ID "withdrawal_row now status reason" for now status reason
  by unfold_locales (simp add: withdrawal_row_def)

lemma row_update_simps [simp]:
  "o_ID (status_row now st r) = o_ID r" "o_UserID (status_row now st r) = o_UserID r"
  "o_EventID (status_row now st r) = o_EventID r" "o_Status (status_row now st r) = st"
  "o_ExpiresAt (status_row now st r) = o_ExpiresAt r" "o_TotalAmount (status_row now st r) = o_TotalAmount r"
  "o_ID (expires_row now x r) = o_ID r" "o_UserID (expires_row now x r) = o_UserID r"
  "o_EventID (expires_row now x r) = o_EventID r" "o_Status (expires_row now x r) = o_Status r"
  "o_ExpiresAt (expires_row now x r) = pg_time x" "o_TotalAmount (expires_row now x r) = o_TotalAmount r"
  by (simp_all add: status_row_def expires_row_def)

text \<open>The statements that only read.\<close>

lemmas read_statements = GetActivePendingOrderByUserAndEvent_def GetExpiredPendingOrders_def GetOrder_def
  ListOrderItems_def ListOrdersByEvents_def ListOrdersByUser_def GetOrganizerStats_def GetPlatformTotalGMV_def
  GetDailySalesTrend_def GetTicket_def Queries_GetTicketByCode_def ListTicketsByEvent_def ListTicketsByOrder_def
  ListTicketsByUser_def GetPlatformWithdrawalSummary_def GetTotalWithdrawnByOrganizer_def GetWithdrawal_def
  GetWithdrawnSummaryByOrganizer_def ListAllWithdrawals_def ListWithdrawalsByOrganizer_def
  ListWithdrawalsByStatus_def

lemma keeps_reads:
  assumes "tick_free I"
  shows "keeps I (GetOrder E oid)" "keeps I (ListOrderItems E oid)" "keeps I (GetExpiredPendingOrders E)"
    "keeps I (GetActivePendingOrderByUserAndEvent E user event)"
  unfolding read_statements by (rule keeps_sql [OF assms]; simp)+

lemma frame_reads:
  assumes "tick_free f"
  shows "unchanged f (GetOrder E oid)" "unchanged f (ListOrderItems E oid)" "unchanged f (GetExpiredPendingOrders E)"
    "unchanged f (GetActivePendingOrderByUserAndEvent E user event)"
  unfolding read_statements by (rule frame_sql [OF assms]; simp)+

lemma frame_order_writes:
  assumes "tick_free f" and "\<And>s rows. f (s\<lparr>orders := rows\<rparr>) = f s"
  shows "unchanged f (UpdateOrderStatus E oid status)" "unchanged f (exec_expires_at E oid expires)"
    "unchanged f (Queries_CreateOrder E user event amt status expires)"
  unfolding UpdateOrderStatus_def exec_expires_at_def Queries_CreateOrder_def
  by (rule frame_sql [OF assms(1)]; simp add: assms(2) Let_def split: sum.split)+

lemma frame_CreateOrderItem:
  assumes "tick_free f" and "\<And>s rows. f (s\<lparr>order_items := rows\<rparr>) = f s"
  shows "unchanged f (CreateOrderItem E oid tid q p t)"
  unfolding CreateOrderItem_def
  by (rule frame_sql [OF assms(1)]) (simp add: assms(2) Let_def split: sum.split)

lemma frame_CreateTicket:
  assumes "tick_free f" and "\<And>s rows. f (s\<lparr>tickets := rows\<rparr>) = f s"
  shows "unchanged f (CreateTicket E oid user event tid code)"
  unfolding CreateTicket_def
  by (rule frame_sql [OF assms(1)]) (simp add: assms(2) Let_def)

end
