(* ===== verification/Ticket_Queue.thy ===== *)
theory Ticket_Queue
  imports Ticket_Store
begin

text \<open>
  The payment queue of an event (\<open>queue_service.go\<close>) and \<open>CancelOrder\<close> (\<open>ticket_service.go\<close>), which
  the two call mutually. The queue of an event is three Redis keys: \<open>:active\<close> holds the order whose
  turn it is, \<open>:expires_at\<close> the Unix second its turn ends, \<open>:waiting\<close> the list of orders behind it.
\<close>

section \<open>Keys\<close>

definition queue_key :: "env \<Rightarrow> uuid \<Rightarrow> string" where
  "queue_key E eid = ''queue:event:'' @ uuid_String E eid"

definition active_key :: "env \<Rightarrow> uuid \<Rightarrow> string" where
  "active_key E eid = queue_key E eid @ '':active''"

definition expires_key :: "env \<Rightarrow> uuid \<Rightarrow> string" where
  "expires_key E eid = queue_key E eid @ '':expires_at''"

definition waiting_key :: "env \<Rightarrow> uuid \<Rightarrow> string" where
  "waiting_key E eid = queue_key E eid @ '':waiting''"

definition QueueActiveDuration :: time where
  "QueueActiveDuration = 3 * Minute"

record QueueStatusResponse =
  qs_OrderID :: string
  qs_EventID :: string
  qs_TicketTypeName :: string
  qs_Quantity :: int32
  qs_TotalAmount :: f64
  qs_Position :: int
  qs_Status :: string
  qs_PeopleAhead :: int
  qs_SecondsRemaining :: int
  qs_ExpiresAt :: "time option"

section \<open>Promotion\<close>

text \<open>Writing the active slot: the order, the second its turn ends, and the deadline of its row.\<close>

definition promote :: "env \<Rightarrow> uuid \<Rightarrow> string \<Rightarrow> uuid \<Rightarrow> ('z ticket_db_scheme, time) state" where
  "promote E eid order_str oid = do {
     now \<leftarrow> Now E;
     let expires = now + QueueActiveDuration;
     redis_cmd E (do_set (active_key E eid) order_str (Some (24 * Hour)));
     redis_cmd E (do_set (expires_key E eid) (show_int (Unix expires)) (Some (24 * Hour)));
     exec_expires_at E oid expires;
     ret expires }"

text \<open>The length of a waiting list, its deadline aside: the measure of the loop of \<open>AdvanceQueue\<close>.\<close>

definition raw_list :: "rstore \<Rightarrow> string \<Rightarrow> string list" where
  "raw_list rd k = (case rd k of Some (RList xs, d) \<Rightarrow> xs | _ \<Rightarrow> [])"

definition waiting_len :: "env \<Rightarrow> uuid \<Rightarrow> 'z infra_scheme \<Rightarrow> nat" where
  "waiting_len E eid s = length (raw_list (redis s) (waiting_key E eid))"

definition clear_slot :: "env \<Rightarrow> uuid \<Rightarrow> ('z ticket_db_scheme, string option) go" where
  "clear_slot E eid = do { redis_cmd E (do_del [active_key E eid, expires_key E eid]); ok None }"

lemma rlist_raw: "rlist rd t k = Inr xs \<Longrightarrow> xs = [] \<or> raw_list rd k = xs"
  by (auto simp: rlist_def rlookup_def raw_list_def split: option.splits rval.splits prod.splits if_splits)

lemma raw_put_list [simp]: "raw_list (put_list k xs t rd) k' = (if k' = k then xs else raw_list rd k')"
  by (simp add: raw_list_def put_list_def)

lemma lpop_shrinks:
  assumes "fst (do_lpop k t rd) = Inr v"
  shows "length (raw_list (snd (do_lpop k t rd)) k) < length (raw_list rd k)"
  using assms rlist_raw [of rd t k]
  by (auto simp: do_lpop_def split: sum.splits list.splits)

lemma lpop_run_shrinks:
  assumes "run_state (redis_cmd E (do_lpop (waiting_key E eid))) s = (Inr v, t)"
  shows "waiting_len E eid t < waiting_len E eid s"
proof -
  have "wp (redis_cmd E (do_lpop (waiting_key E eid)))
      (\<lambda>r t. \<forall>v. r = Inr v \<longrightarrow> waiting_len E eid t < waiting_len E eid s) s"
    using lpop_shrinks [of "waiting_key E eid" _ "redis s"]
    by (auto simp: redis_cmd_def wp_external waiting_len_def case_prod_beta split: outcome.split)
  then show ?thesis using assms by (simp add: wp_run)
qed

lemma get_run_redis: "run_state (GetOrder E oid) s = (r, t) \<Longrightarrow> redis t = redis s"
  by (rule unchangedD [OF frame_reads(1)]) (simp add: tick_free_def)

text \<open>The loop: pop until an order that is still pending turns up, else leave the slot empty.\<close>

function advance_loop :: "env \<Rightarrow> uuid \<Rightarrow> 'z ticket_db_scheme \<Rightarrow> (gerr + string option) \<times> 'z ticket_db_scheme" where
  "advance_loop E eid s =
     (case run_state (redis_cmd E (do_lpop (waiting_key E eid))) s of
        (Inl e, s1) \<Rightarrow> run_state (clear_slot E eid) s1
      | (Inr v, s1) \<Rightarrow>
          if v = [] then run_state (clear_slot E eid) s1
          else (case uuid_Parse E v of
                  None \<Rightarrow> advance_loop E eid s1
                | Some oid \<Rightarrow>
                    (case run_state (GetOrder E oid) s1 of
                       (Inl e, s2) \<Rightarrow> advance_loop E eid s2
                     | (Inr order, s2) \<Rightarrow>
                         if o_Status order \<noteq> ''PENDING'' then advance_loop E eid s2
                         else run_state (do { promote E eid v oid; ok (Some v) }) s2)))"
  by pat_completeness auto
termination
  by (relation "measure (\<lambda>(E, eid, s). waiting_len E eid s)")
    (auto dest!: lpop_run_shrinks [OF sym] get_run_redis [OF sym] simp: waiting_len_def)

declare advance_loop.simps [simp del]

definition AdvanceQueue :: "env \<Rightarrow> uuid \<Rightarrow> ('z ticket_db_scheme, string option) go" where
  "AdvanceQueue E eid = (if \<not> has_redis E then ok None else State (advance_loop E eid))"

section \<open>Cancelling an order\<close>

definition order_cancelled_event :: "string \<Rightarrow> json option" where
  "order_cancelled_event order_str = Marshal (JObj [(''order_id'', JStr order_str)])"

definition release_items :: "env \<Rightarrow> OrderItem list \<Rightarrow> ('z ticket_db_scheme, unit) state" where
  "release_items E items =
     for_each items (\<lambda>i. ReleaseTicketStock E (uuid_String E (oi_TicketTypeID i)) (oi_Quantity i))"

text \<open>The last part of \<open>CancelOrder\<close>: the order leaves the queue.\<close>

definition leave_queue :: "env \<Rightarrow> uuid \<Rightarrow> string \<Rightarrow> ('z ticket_db_scheme, unit) state" where
  "leave_queue E eid order_str =
     (if \<not> has_redis E then ret ()
      else do {
        active \<leftarrow> redis_cmd E (do_get (active_key E eid));
        if value_or [] active = order_str then do { AdvanceQueue E eid; ret () }
        else do { redis_cmd E (do_lrem (waiting_key E eid) order_str); ret () } })"

definition CancelOrder :: "env \<Rightarrow> string \<Rightarrow> ('z ticket_db_scheme, unit) go" where
  "CancelOrder E order_str =
     (case uuid_Parse E order_str of
        None \<Rightarrow> err ErrParse
      | Some oid \<Rightarrow>
          check (GetOrder E oid) (\<lambda>order.
          check (UpdateOrderStatus E oid ''CANCELLED'') (\<lambda>_.
          check (ListOrderItems E oid) (\<lambda>items. do {
            release_items E items;
            Publish E ''order.cancelled'' order_str (order_cancelled_event order_str);
            leave_queue E (o_EventID order) order_str;
            ok () }))))"

definition HandlePaymentFailed :: "env \<Rightarrow> string \<Rightarrow> ('z ticket_db_scheme, unit) go" where
  "HandlePaymentFailed E order_str = CancelOrder E order_str"

section \<open>Entering the queue\<close>

definition active_response :: "env \<Rightarrow> uuid \<Rightarrow> uuid \<Rightarrow> time \<Rightarrow> QueueStatusResponse" where
  "active_response E oid eid expires =
     \<lparr>qs_OrderID = uuid_String E oid, qs_EventID = uuid_String E eid, qs_TicketTypeName = [], qs_Quantity = 0,
      qs_TotalAmount = Fin 0, qs_Position = 1, qs_Status = ''ACTIVE'', qs_PeopleAhead = 0,
      qs_SecondsRemaining = QueueActiveDuration div Second, qs_ExpiresAt = Some expires\<rparr>"

definition waiting_response :: "env \<Rightarrow> uuid \<Rightarrow> uuid \<Rightarrow> int \<Rightarrow> QueueStatusResponse" where
  "waiting_response E oid eid pos =
     \<lparr>qs_OrderID = uuid_String E oid, qs_EventID = uuid_String E eid, qs_TicketTypeName = [], qs_Quantity = 0,
      qs_TotalAmount = Fin 0, qs_Position = pos, qs_Status = ''WAITING'', qs_PeopleAhead = pos - 1,
      qs_SecondsRemaining = 0, qs_ExpiresAt = None\<rparr>"

text \<open>
  \<open>EnqueueOrder\<close> calls itself after it has thrown out an expired active order. Nothing in the code
  bounds that recursion when the commands that clear the slot keep failing, so the definition
  takes fuel; \<open>None\<close> is a call that has not returned within it.
\<close>

fun enqueue_loop :: "nat \<Rightarrow> env \<Rightarrow> uuid \<Rightarrow> uuid \<Rightarrow> ('z ticket_db_scheme, QueueStatusResponse option) state" where
  "enqueue_loop 0 E oid eid = ret None"
| "enqueue_loop (Suc fuel) E oid eid = do {
     active \<leftarrow> redis_cmd E (do_get (active_key E eid));
     if active = Inl ErrRedisNil \<or> value_or [] active = [] then do {
       expires \<leftarrow> promote E eid (uuid_String E oid) oid;
       ret (Some (active_response E oid eid expires)) }
     else do {
       exp_str \<leftarrow> redis_cmd E (do_get (expires_key E eid));
       let exp_unix = ParseInt (value_or [] exp_str);
       now \<leftarrow> (if 0 < exp_unix then Now E else ret 0);
       if 0 < exp_unix \<and> exp_unix < Unix now then do {
         CancelOrder E (value_or [] active);
         AdvanceQueue E eid;
         enqueue_loop fuel E oid eid }
       else do {
         redis_cmd E (do_rpush (waiting_key E eid) (uuid_String E oid));
         llen \<leftarrow> redis_cmd E (do_llen (waiting_key E eid));
         let pos = int (value_or 0 llen) + 1;
         now \<leftarrow> Now E;
         exec_expires_at E oid (now + 2 * Hour);
         ret (Some (waiting_response E oid eid pos)) } } }"

definition EnqueueOrder :: "nat \<Rightarrow> env \<Rightarrow> uuid \<Rightarrow> uuid \<Rightarrow> ('z ticket_db_scheme, QueueStatusResponse option) state" where
  "EnqueueOrder fuel E oid eid =
     (if \<not> has_redis E then do {
        now \<leftarrow> Now E;
        let expires = now + QueueActiveDuration;
        exec_expires_at E oid expires;
        ret (Some (active_response E oid eid expires)) }
      else enqueue_loop fuel E oid eid)"

section \<open>Expiry of the active turn\<close>

definition CheckAndAdvanceExpiredActive :: "env \<Rightarrow> uuid \<Rightarrow> ('z ticket_db_scheme, unit) state" where
  "CheckAndAdvanceExpiredActive E eid =
     (if \<not> has_redis E then ret ()
      else do {
        active \<leftarrow> redis_cmd E (do_get (active_key E eid));
        if \<not> is_ok active \<or> value_or [] active = [] then do {
          llen \<leftarrow> redis_cmd E (do_llen (waiting_key E eid));
          if 0 < value_or 0 llen then do { AdvanceQueue E eid; ret () } else ret () }
        else do {
          exp_str \<leftarrow> redis_cmd E (do_get (expires_key E eid));
          let exp_unix = ParseInt (value_or [] exp_str);
          now \<leftarrow> (if 0 < exp_unix then Now E else ret 0);
          if 0 < exp_unix \<and> exp_unix \<le> Unix now then do {
            CancelOrder E (value_or [] active);
            AdvanceQueue E eid;
            ret () }
          else ret () } })"

section \<open>Queue status\<close>

fun index_of :: "'a \<Rightarrow> 'a list \<Rightarrow> nat option" where
  "index_of x [] = None"
| "index_of x (y # ys) = (if y = x then Some 0 else map_option Suc (index_of x ys))"

definition status_head :: "env \<Rightarrow> Order \<Rightarrow> QueueStatusResponse" where
  "status_head E order =
     \<lparr>qs_OrderID = uuid_String E (o_ID order), qs_EventID = uuid_String E (o_EventID order), qs_TicketTypeName = [],
      qs_Quantity = 0, qs_TotalAmount = (case Float64Value (o_TotalAmount order) of None \<Rightarrow> Fin 0 | Some x \<Rightarrow> x),
      qs_Position = 0, qs_Status = [], qs_PeopleAhead = 0, qs_SecondsRemaining = 0, qs_ExpiresAt = None\<rparr>"

text \<open>The first item of the order gives the quantity and, through the event service, the name.\<close>

definition with_items :: "env \<Rightarrow> uuid \<Rightarrow> QueueStatusResponse \<Rightarrow> ('z ticket_db_scheme, QueueStatusResponse) state" where
  "with_items E oid res = do {
     items \<leftarrow> ListOrderItems E oid;
     case value_or [] items of
       [] \<Rightarrow> ret res
     | i # _ \<Rightarrow> do {
         let res = res\<lparr>qs_Quantity := oi_Quantity i\<rparr>;
         if has_events E then do {
           tt \<leftarrow> Client_GetTicketType E (uuid_String E (oi_TicketTypeID i));
           ret (case tt of Inl e \<Rightarrow> res | Inr t \<Rightarrow> res\<lparr>qs_TicketTypeName := itt_Name t\<rparr>) }
         else ret res } }"

text \<open>The part after the expired turn was dealt with: active, waiting, free slot, or a new place.\<close>

definition queue_place :: "env \<Rightarrow> uuid \<Rightarrow> uuid \<Rightarrow> string \<Rightarrow> QueueStatusResponse \<Rightarrow> ('z ticket_db_scheme, QueueStatusResponse) go" where
  "queue_place E oid eid order_str res = do {
     active \<leftarrow> redis_cmd E (do_get (active_key E eid));
     if value_or [] active = order_str then do {
       exp_str \<leftarrow> redis_cmd E (do_get (expires_key E eid));
       let exp_unix = ParseInt (value_or [] exp_str);
       now \<leftarrow> Now E;
       let rem = exp_unix - Unix now;
       if rem \<le> 0 then do {
         CancelOrder E order_str;
         AdvanceQueue E eid;
         ok (res\<lparr>qs_Status := ''EXPIRED'', qs_Position := 0\<rparr>) }
       else ok (res\<lparr>qs_Status := ''ACTIVE'', qs_Position := 1, qs_PeopleAhead := 0, qs_SecondsRemaining := rem,
                    qs_ExpiresAt := Some (exp_unix * Second)\<rparr>) }
     else do {
       waiting \<leftarrow> redis_cmd E (do_lrange (waiting_key E eid));
       case index_of order_str (value_or [] waiting) of
         Some i \<Rightarrow> ok (res\<lparr>qs_Status := ''WAITING'', qs_Position := int i + 2, qs_PeopleAhead := int i + 1,
                          qs_SecondsRemaining := 0\<rparr>)
       | None \<Rightarrow>
           if value_or [] active = [] then do {
             expires \<leftarrow> promote E eid order_str oid;
             ok (res\<lparr>qs_Status := ''ACTIVE'', qs_Position := 1, qs_PeopleAhead := 0,
                    qs_SecondsRemaining := QueueActiveDuration div Second, qs_ExpiresAt := Some expires\<rparr>) }
           else do {
             redis_cmd E (do_rpush (waiting_key E eid) order_str);
             now \<leftarrow> Now E;
             exec_expires_at E oid (now + 2 * Hour);
             llen \<leftarrow> redis_cmd E (do_llen (waiting_key E eid));
             let pos = int (value_or 0 llen) + 1;
             ok (res\<lparr>qs_Status := ''WAITING'', qs_Position := pos, qs_PeopleAhead := pos - 1\<rparr>) } } }"

definition GetOrderQueueStatus :: "env \<Rightarrow> string \<Rightarrow> string \<Rightarrow> ('z ticket_db_scheme, QueueStatusResponse) go" where
  "GetOrderQueueStatus E order_str user_str =
     (case uuid_Parse E order_str of
        None \<Rightarrow> err (Err_New ''invalid order id'')
      | Some oid \<Rightarrow> bindE (\<lambda>e. Err_New ''order not found'') (GetOrder E oid) (\<lambda>order.
          if user_str \<noteq> [] \<and> uuid_String E (o_UserID order) \<noteq> user_str then err (Err_New ''access denied'')
          else do {
            res \<leftarrow> with_items E oid (status_head E order);
            if paid_status (o_Status order) then ok (res\<lparr>qs_Status := ''COMPLETED'', qs_Position := 0\<rparr>)
            else if o_Status order = ''CANCELLED'' then ok (res\<lparr>qs_Status := ''CANCELLED'', qs_Position := 0\<rparr>)
            else do {
              now \<leftarrow> Now E;
              if o_ExpiresAt order < now then do {
                CancelOrder E order_str;
                (if has_redis E then do { AdvanceQueue E (o_EventID order); ret () } else ret ());
                ok (res\<lparr>qs_Status := ''EXPIRED'', qs_Position := 0\<rparr>) }
              else if \<not> has_redis E then do {
                now2 \<leftarrow> Now E;
                let rem = (o_ExpiresAt order - now2) div Second;
                if o_ExpiresAt order - now2 < Second then do {
                  CancelOrder E order_str;
                  ok (res\<lparr>qs_Status := ''EXPIRED'', qs_Position := 0\<rparr>) }
                else ok (res\<lparr>qs_Status := ''ACTIVE'', qs_Position := 1, qs_SecondsRemaining := rem,
                             qs_ExpiresAt := Some (o_ExpiresAt order)\<rparr>) }
              else do {
                CheckAndAdvanceExpiredActive E (o_EventID order);
                queue_place E oid (o_EventID order) order_str res } } }))"

definition CancelOrderInQueue :: "env \<Rightarrow> string \<Rightarrow> string \<Rightarrow> ('z ticket_db_scheme, unit) go" where
  "CancelOrderInQueue E order_str user_str =
     (case uuid_Parse E order_str of
        None \<Rightarrow> err (Err_New ''invalid order id'')
      | Some oid \<Rightarrow> bindE (\<lambda>e. Err_New ''order not found'') (GetOrder E oid) (\<lambda>order.
          if user_str \<noteq> [] \<and> uuid_String E (o_UserID order) \<noteq> user_str then err (Err_New ''access denied'')
          else if paid_status (o_Status order) then err (Err_New ''tidak dapat membatalkan pesanan yang sudah dibayar'')
          else bindE (\<lambda>e. Err_Wrap ''gagal membatalkan pesanan'' e) (CancelOrder E order_str) (\<lambda>_. do {
            leave_queue E (o_EventID order) order_str;
            ok () })))"

section \<open>Facts about the loop\<close>

text \<open>The loop as a monadic equation.\<close>

lemma advance_unfold:
  "State (advance_loop E eid) = do {
     r \<leftarrow> redis_cmd E (do_lpop (waiting_key E eid));
     case r of
       Inl e \<Rightarrow> clear_slot E eid
     | Inr v \<Rightarrow>
         if v = [] then clear_slot E eid
         else (case uuid_Parse E v of
                 None \<Rightarrow> State (advance_loop E eid)
               | Some oid \<Rightarrow> do {
                   g \<leftarrow> GetOrder E oid;
                   case g of
                     Inl e \<Rightarrow> State (advance_loop E eid)
                   | Inr order \<Rightarrow>
                       if o_Status order \<noteq> ''PENDING'' then State (advance_loop E eid)
                       else do { promote E eid v oid; ok (Some v) } }) }"
  by (rule state.expand, rule ext)
    (simp add: advance_loop.simps [of E eid] split: prod.split sum.split option.split)

lemma wp_lpop_shrinks:
  "wp (redis_cmd E (do_lpop (waiting_key E eid))) (\<lambda>r t. \<forall>v. r = Inr v \<longrightarrow> waiting_len E eid t < waiting_len E eid s) s"
  by (auto intro: wpI lpop_run_shrinks)

lemma wp_GetOrder_redis: "wp (GetOrder E oid) (\<lambda>r t. redis t = redis s) s"
  by (rule wpI) (rule get_run_redis)

text \<open>
  The proof rule of the loop: an invariant \<open>J\<close> that every iteration keeps or leaves with \<open>Q\<close>. \<open>after_get\<close> is what is left to show
  of an iteration once the order was read, \<open>after_pop\<close> once its name was popped.
\<close>

definition after_get :: "env \<Rightarrow> uuid \<Rightarrow> ('z ticket_db_scheme \<Rightarrow> bool) \<Rightarrow> (gerr + string option \<Rightarrow> 'z ticket_db_scheme \<Rightarrow> bool) \<Rightarrow>
    string \<Rightarrow> uuid \<Rightarrow> gerr + Order \<Rightarrow> 'z ticket_db_scheme \<Rightarrow> bool" where
  "after_get E eid J Q v oid g s = (case g of
       Inl e \<Rightarrow> J s
     | Inr order \<Rightarrow> if o_Status order \<noteq> ''PENDING'' then J s else wp (do { promote E eid v oid; ok (Some v) }) Q s)"

definition after_pop :: "env \<Rightarrow> uuid \<Rightarrow> ('z ticket_db_scheme \<Rightarrow> bool) \<Rightarrow> (gerr + string option \<Rightarrow> 'z ticket_db_scheme \<Rightarrow> bool) \<Rightarrow>
    gerr + string \<Rightarrow> 'z ticket_db_scheme \<Rightarrow> bool" where
  "after_pop E eid J Q r s = (case r of
       Inl e \<Rightarrow> wp (clear_slot E eid) Q s
     | Inr v \<Rightarrow> if v = [] then wp (clear_slot E eid) Q s
         else (case uuid_Parse E v of None \<Rightarrow> J s | Some oid \<Rightarrow> wp (GetOrder E oid) (after_get E eid J Q v oid) s))"

lemma after_popI:
  assumes "wp (clear_slot E eid) Q s" and "\<And>v. r = Inr v \<Longrightarrow> v \<noteq> [] \<Longrightarrow> uuid_Parse E v = None \<Longrightarrow> J s"
    and "\<And>v oid. r = Inr v \<Longrightarrow> v \<noteq> [] \<Longrightarrow> uuid_Parse E v = Some oid \<Longrightarrow> wp (GetOrder E oid) (after_get E eid J Q v oid) s"
  shows "after_pop E eid J Q r s"
  using assms by (auto simp: after_pop_def split: sum.split option.split)

lemma after_getI:
  assumes "J s" and "wp (do { promote E eid v oid; ok (Some v) }) Q s"
  shows "after_get E eid J Q v oid g s"
  using assms by (simp add: after_get_def split: sum.split del: wp_bind wp_bind_fun)

text \<open>The invariant may be exchanged for one that follows from it while Redis does not change.\<close>

lemma after_pop_mono:
  assumes pop: "after_pop E eid J Q r s" and imp: "\<And>v u. r = Inr v \<Longrightarrow> redis u = redis s \<Longrightarrow> J u \<Longrightarrow> J' u"
  shows "after_pop E eid J' Q r s"
proof -
  have "wp (GetOrder E oid) (after_get E eid J' Q v oid) s"
    if "wp (GetOrder E oid) (after_get E eid J Q v oid) s" "r = Inr v" for v oid
    by (rule wp_mono2 [OF that(1) wp_GetOrder_redis]) (auto simp: after_get_def intro: imp [OF that(2)] split: sum.splits if_splits)
  then show ?thesis using pop imp [OF _ refl] by (auto simp: after_pop_def split: sum.splits option.splits if_splits)
qed

lemma wp_advance_unfold:
  "wp (State (advance_loop E eid)) Q s =
     wp (redis_cmd E (do_lpop (waiting_key E eid))) (after_pop E eid (wp (State (advance_loop E eid)) Q) Q) s"
proof -
  note wp_State [simp del]
  have get: "after_get E eid (wp (State (advance_loop E eid)) Q) Q v oid = (\<lambda>g. wp (case g of Inl e \<Rightarrow> State (advance_loop E eid)
      | Inr order \<Rightarrow> if o_Status order \<noteq> ''PENDING'' then State (advance_loop E eid)
          else do { promote E eid v oid; ok (Some v) }) Q)" for v oid
    by (auto simp: after_get_def fun_eq_iff split: sum.split)
  show ?thesis
    by (subst advance_unfold, subst wp_bind, rule arg_cong [where f = "\<lambda>R. wp (redis_cmd E (do_lpop (waiting_key E eid))) R s"])
      (auto simp: after_pop_def get fun_eq_iff split: sum.split option.split)
qed

lemma wp_advance_loop:
  assumes pop: "\<And>s. J s \<Longrightarrow> wp (redis_cmd E (do_lpop (waiting_key E eid))) (after_pop E eid J Q) s" and init: "J s"
  shows "wp (State (advance_loop E eid)) Q s"
  using init
proof (induction "waiting_len E eid s" arbitrary: s rule: less_induct)
  case less
  show ?case
  proof (subst wp_advance_unfold, rule wp_mono2 [OF pop [OF less.prems] wp_lpop_shrinks], erule after_pop_mono)
    fix r v and t u :: "'a ticket_db_scheme"
    assume "\<forall>v. r = Inr v \<longrightarrow> waiting_len E eid t < waiting_len E eid s" "r = Inr v" "redis u = redis t" "J u"
    then show "wp (State (advance_loop E eid)) Q u" by (intro less.hyps) (simp_all add: waiting_len_def)
  qed
qed

lemma keeps_advance_loop:
  assumes "keeps I (redis_cmd E (do_lpop (waiting_key E eid)))" and "\<And>oid. keeps I (GetOrder E oid)"
    and "keeps I (clear_slot E eid)" and "\<And>v oid. keeps I (promote E eid v oid)"
  shows "keeps I (State (advance_loop E eid))"
  unfolding keeps_iff_wp
proof (intro allI impI wp_advance_loop [where J = I])
  fix s :: "'a ticket_db_scheme" assume "I s"
  then show "wp (redis_cmd E (do_lpop (waiting_key E eid))) (after_pop E eid I (\<lambda>_. I)) s"
    by (rule wp_mono [OF keeps_wp [OF assms(1)]])
      (auto intro!: after_popI keeps_wp [OF assms(3)] wp_mono [OF keeps_wp [OF assms(2)]] after_getI keeps_wp [OF assms(4)])
qed

section \<open>What the queue leaves alone\<close>

definition queue_name :: "string \<Rightarrow> bool" where
  "queue_name k \<longleftrightarrow> take 6 k = ''queue:''"

lemma queue_names [simp]:
  "queue_name (active_key E eid)" "queue_name (expires_key E eid)" "queue_name (waiting_key E eid)"
  "\<not> queue_name (stock_key tid)"
  by (simp_all add: queue_name_def active_key_def expires_key_def waiting_key_def queue_key_def stock_key_def)

text \<open>The names of the waiting lists; the other names of the queue hold strings.\<close>

definition list_name :: "string \<Rightarrow> bool" where
  "list_name k \<longleftrightarrow> queue_name k \<and> drop (length k - 8) k = '':waiting''"

lemma list_names [simp]:
  "list_name (waiting_key E eid)" "\<not> list_name (active_key E eid)" "\<not> list_name (expires_key E eid)" "\<not> list_name (stock_key tid)"
  by (auto simp: list_name_def) (simp_all add: active_key_def expires_key_def waiting_key_def)

lemma list_name_queue: "list_name k \<Longrightarrow> queue_name k"
  by (simp add: list_name_def)

lemma queue_keys_distinct [simp]:
  "active_key E eid \<noteq> expires_key E eid" "expires_key E eid \<noteq> active_key E eid"
  "active_key E eid \<noteq> waiting_key E eid" "waiting_key E eid \<noteq> active_key E eid"
  "expires_key E eid \<noteq> waiting_key E eid" "waiting_key E eid \<noteq> expires_key E eid"
  by (simp_all add: active_key_def expires_key_def waiting_key_def)

lemma cmd_other:
  "k' \<noteq> k \<Longrightarrow> snd (do_get k t rd) k' = rd k'"
  "k' \<noteq> k \<Longrightarrow> snd (do_set k v ttl t rd) k' = rd k'"
  "k' \<notin> set ks \<Longrightarrow> snd (do_del ks t rd) k' = rd k'"
  "k' \<noteq> k \<Longrightarrow> snd (do_lpop k t rd) k' = rd k'"
  "k' \<noteq> k \<Longrightarrow> snd (do_rpush k v t rd) k' = rd k'"
  "k' \<noteq> k \<Longrightarrow> snd (do_lrem k v t rd) k' = rd k'"
  "snd (do_llen k t rd) = rd" "snd (do_lrange k t rd) = rd"
  by (auto simp: redis_defs put_list_def split: option.splits rval.splits prod.splits sum.splits list.splits)

lemma do_get_pure [simp]: "snd (do_get k t rd) = rd"
  by (auto simp: do_get_def split: option.splits rval.splits)

text \<open>An assertion that survives what the queue operations do: the commands on the names of the queue and
  the deadlines of orders.\<close>

locale queue_commands =
  fixes I :: "'z ticket_db_scheme \<Rightarrow> bool"
  assumes tick_free: "tick_free I"
    and set_free: "I s \<Longrightarrow> queue_name k \<Longrightarrow> \<not> list_name k \<Longrightarrow> I (s\<lparr>redis := snd (do_set k v ttl t (redis s))\<rparr>)"
    and del_free: "I s \<Longrightarrow> queue_name k \<Longrightarrow> queue_name k' \<Longrightarrow> I (s\<lparr>redis := snd (do_del [k, k'] t (redis s))\<rparr>)"
    and list_free: "I s \<Longrightarrow> list_name k \<Longrightarrow> I (s\<lparr>redis := put_list k vs t (redis s)\<rparr>)"
    and expires_free: "I s \<Longrightarrow> I (s\<lparr>orders := update_rows (\<lambda>r. o_ID r = oid) (expires_row now x) (orders s)\<rparr>)"
begin

lemma keeps_list_cmd:
  assumes "list_name k" and "\<And>t rd. snd (f t rd) = rd \<or> (\<exists>vs. snd (f t rd) = put_list k vs t rd)"
  shows "keeps I (redis_cmd E f)"
proof (rule keeps_redis_cmd [OF tick_free])
  fix s t assume "I s"
  then show "I (s\<lparr>redis := snd (f t (redis s))\<rparr>)"
    using assms(2) [of t "redis s"] list_free [OF \<open>I s\<close> assms(1)] by auto
qed

lemma keeps_queue_cmds:
  "keeps I (redis_cmd E (do_get k))"
  "queue_name k \<Longrightarrow> \<not> list_name k \<Longrightarrow> keeps I (redis_cmd E (do_set k v ttl))"
  "queue_name k \<Longrightarrow> queue_name k' \<Longrightarrow> keeps I (redis_cmd E (do_del [k, k']))"
  "list_name k \<Longrightarrow> keeps I (redis_cmd E (do_lpop k))"
  "list_name k \<Longrightarrow> keeps I (redis_cmd E (do_rpush k v))"
  "list_name k \<Longrightarrow> keeps I (redis_cmd E (do_lrem k v))"
  "keeps I (redis_cmd E (do_llen k))" "keeps I (redis_cmd E (do_lrange k))"
proof -
  show "keeps I (redis_cmd E (do_get k))" "keeps I (redis_cmd E (do_llen k))" "keeps I (redis_cmd E (do_lrange k))"
    by (rule keeps_redis_cmd [OF tick_free], simp add: cmd_other)+
  show "queue_name k \<Longrightarrow> \<not> list_name k \<Longrightarrow> keeps I (redis_cmd E (do_set k v ttl))"
    by (rule keeps_redis_cmd [OF tick_free]) (rule set_free)
  show "queue_name k \<Longrightarrow> queue_name k' \<Longrightarrow> keeps I (redis_cmd E (do_del [k, k']))"
    by (rule keeps_redis_cmd [OF tick_free]) (rule del_free)
  show "list_name k \<Longrightarrow> keeps I (redis_cmd E (do_lpop k))"
    by (rule keeps_list_cmd) (auto simp: do_lpop_def split: sum.split list.split)
  show "list_name k \<Longrightarrow> keeps I (redis_cmd E (do_rpush k v))"
    by (rule keeps_list_cmd) (auto simp: do_rpush_def split: sum.split)
  show "list_name k \<Longrightarrow> keeps I (redis_cmd E (do_lrem k v))"
    by (rule keeps_list_cmd) (auto simp: do_lrem_def split: sum.split)
qed

lemma keeps_expires: "keeps I (exec_expires_at E oid x)"
  unfolding exec_expires_at_def by (rule keeps_sql [OF tick_free]) (simp add: expires_free)

lemma keeps_promote: "keeps I (promote E eid v oid)"
  unfolding promote_def by (intro keeps_rules keeps_Now keeps_queue_cmds keeps_expires tick_free) simp_all

lemma keeps_clear_slot: "keeps I (clear_slot E eid)"
  unfolding clear_slot_def by (intro keeps_rules keeps_queue_cmds) simp_all

lemma keeps_AdvanceQueue: "keeps I (AdvanceQueue E eid)"
  unfolding AdvanceQueue_def
  by (intro keeps_rules keeps_advance_loop keeps_queue_cmds keeps_clear_slot keeps_promote keeps_reads tick_free) simp_all

lemma keeps_leave_queue: "keeps I (leave_queue E eid v)"
  unfolding leave_queue_def by (intro keeps_rules keeps_queue_cmds keeps_AdvanceQueue) simp_all

end

text \<open>An assertion that does not read the names of the queue at all is one of them.\<close>

locale queue_frame =
  fixes I :: "'z ticket_db_scheme \<Rightarrow> bool"
  assumes frame_tick: "tick_free I"
    and frame_redis: "I s \<Longrightarrow> (\<And>k. \<not> queue_name k \<Longrightarrow> rd k = redis s k) \<Longrightarrow> I (s\<lparr>redis := rd\<rparr>)"
    and frame_expires: "I s \<Longrightarrow> I (s\<lparr>orders := update_rows (\<lambda>r. o_ID r = oid) (expires_row now x) (orders s)\<rparr>)"

sublocale queue_frame \<subseteq> queue_commands I
  by unfold_locales
    (auto simp: frame_tick frame_expires do_set_def do_del_def put_list_def dest: list_name_queue intro!: frame_redis)

text \<open>An assertion that cancelling an order cannot break either.\<close>

locale cancel_commands = queue_commands +
  assumes status_free: "I s \<Longrightarrow> I (s\<lparr>orders := update_rows (\<lambda>r. o_ID r = oid) (status_row now ''CANCELLED'') (orders s)\<rparr>)"
    and kafka_free: "I s \<Longrightarrow> I (s\<lparr>kafka := ms\<rparr>)"
    and items_positive: "I s \<Longrightarrow> i \<in> set (order_items s) \<Longrightarrow> 0 < sint (oi_Quantity i)"
    and release_free: "0 < sint q \<Longrightarrow> keeps I (ReleaseTicketStock E tid q)"
    and type_free: "keeps I (Client_GetTicketType E tid)"
begin

lemma keeps_release_items: "\<forall>i \<in> set items. 0 < sint (oi_Quantity i) \<Longrightarrow> keeps I (release_items E items)"
  unfolding release_items_def by (induction items) (auto intro!: keeps_rules release_free)

lemma keeps_status: "keeps I (UpdateOrderStatus E oid ''CANCELLED'')"
  unfolding UpdateOrderStatus_def by (rule keeps_sql [OF tick_free]) (simp add: status_free)

lemma wp_items:
  assumes "I s"
  shows "wp (ListOrderItems E oid) (\<lambda>r t. I t \<and> (\<forall>items. r = Inr items \<longrightarrow> (\<forall>i \<in> set items. 0 < sint (oi_Quantity i)))) s"
  using assms tick_free items_positive [OF assms]
  by (auto simp: ListOrderItems_def sql_def wp_external tick_free_def split: outcome.split)

lemma keeps_CancelOrder: "keeps I (CancelOrder E v)"
proof -
  have rest: "keeps I (check (ListOrderItems E oid) (\<lambda>items. do {
      release_items E items;
      Publish E ''order.cancelled'' v (order_cancelled_event v);
      leave_queue E eid v;
      ok () }))" for oid eid
    unfolding keeps_iff_wp wp_bindE
  proof (intro allI impI, rule wp_mono [OF wp_items], assumption)
    fix s t and x :: "gerr + OrderItem list"
    assume "I t \<and> (\<forall>items. x = Inr items \<longrightarrow> (\<forall>i \<in> set items. 0 < sint (oi_Quantity i)))"
    then show "case x of Inl e \<Rightarrow> I t | Inr items \<Rightarrow> wp (do { release_items E items;
        Publish E ''order.cancelled'' v (order_cancelled_event v); leave_queue E eid v; ok () }) (\<lambda>_. I) t"
      by (cases x) (auto simp del: wp_bind wp_bind_fun intro!: keeps_wp keeps_rules keeps_release_items keeps_Publish
          keeps_leave_queue tick_free kafka_free)
  qed
  show ?thesis
    unfolding CancelOrder_def
    by (intro keeps_rules keeps_reads tick_free keeps_status rest)
qed

lemma keeps_enqueue_loop: "keeps I (enqueue_loop fuel E oid eid)"
  by (induction fuel)
    (auto simp: Let_def intro!: keeps_rules keeps_queue_cmds keeps_Now keeps_promote keeps_CancelOrder keeps_AdvanceQueue
      keeps_expires tick_free)

lemma keeps_EnqueueOrder: "keeps I (EnqueueOrder fuel E oid eid)"
  unfolding EnqueueOrder_def
  by (intro keeps_rules keeps_enqueue_loop keeps_Now keeps_expires tick_free)

lemma keeps_CheckAndAdvance: "keeps I (CheckAndAdvanceExpiredActive E eid)"
  unfolding CheckAndAdvanceExpiredActive_def
  by (intro keeps_rules keeps_queue_cmds keeps_Now keeps_CancelOrder keeps_AdvanceQueue tick_free)

lemma keeps_queue_place: "keeps I (queue_place E oid eid v res)"
  unfolding queue_place_def
  by (intro keeps_rules keeps_queue_cmds keeps_Now keeps_CancelOrder keeps_AdvanceQueue keeps_promote keeps_expires tick_free)
    simp_all

lemma keeps_with_items: "keeps I (with_items E oid res)"
  unfolding with_items_def
  by (auto simp: Let_def intro!: keeps_rules keeps_reads tick_free type_free split: list.split)

lemma keeps_GetOrderQueueStatus: "keeps I (GetOrderQueueStatus E v user)"
  unfolding GetOrderQueueStatus_def
  by (intro keeps_rules keeps_reads keeps_with_items keeps_Now keeps_CancelOrder keeps_AdvanceQueue
      keeps_CheckAndAdvance keeps_queue_place tick_free)

lemma keeps_CancelOrderInQueue: "keeps I (CancelOrderInQueue E v user)"
  unfolding CancelOrderInQueue_def
  by (intro keeps_rules keeps_reads keeps_CancelOrder keeps_leave_queue tick_free)

end

text \<open>
  The invariant of the stores behind an order: sound counters in Redis, sound rows in the event
  service, and no order item of a quantity below one.
\<close>

definition store_ok :: "'z ticket_db_scheme \<Rightarrow> bool" where
  "store_ok s \<longleftrightarrow> stock_ok s \<and> inventory_ok s \<and> (\<forall>i \<in> set (order_items s). 0 < sint (oi_Quantity i))"

lemma store_ok_tick_free: "tick_free store_ok"
  by (simp add: tick_free_def store_ok_def stock_ok_def inventory_ok_def)

lemma keeps_items_frame:
  assumes "unchanged order_items m" and "keeps stock_ok m" and "keeps inventory_ok m"
  shows "keeps store_ok m"
  using assms by (auto simp: store_ok_def keeps_def unchanged_def)

lemma frame_redis_only:
  assumes "\<And>s n. f (s\<lparr>tick := n\<rparr>) = f s" and "\<And>s rd. f (s\<lparr>redis := rd\<rparr>) = f s" and "\<And>s rows. f (s\<lparr>ticket_types := rows\<rparr>) = f s"
  shows "unchanged f (ReserveTicketStock E tid q)" and "unchanged f (ReleaseTicketStock E tid q)"
    and "unchanged f (Client_GetTicketType E tid)"
proof -
  have t: "tick_free f" by (simp add: tick_free_def assms)
  show g: "unchanged f (Client_GetTicketType E tid)" by (rule frame_Client_GetTicketType [OF t])
  show "unchanged f (ReserveTicketStock E tid q)"
    unfolding ReserveTicketStock_def load_stock_def confirm_reserve_def Let_def
    by (intro frame_rules frame_Client frame_Client_GetTicketType frame_redis_cmd frame_Now t assms g)
  show "unchanged f (ReleaseTicketStock E tid q)"
    unfolding ReleaseTicketStock_def by (intro frame_rules frame_Client frame_redis_cmd t assms)
qed

lemma keeps_store_Reserve: "0 < sint q \<Longrightarrow> keeps store_ok (ReserveTicketStock E tid q)"
  by (intro keeps_items_frame frame_redis_only keeps_stock_Reserve keeps_inventory_ReserveStock) simp_all

lemma keeps_store_Release: "0 < sint q \<Longrightarrow> keeps store_ok (ReleaseTicketStock E tid q)"
  by (intro keeps_items_frame frame_redis_only keeps_stock_Release keeps_inventory_ReleaseStock) simp_all

lemma keeps_store_GetTicketType: "keeps store_ok (Client_GetTicketType E tid)"
  by (rule unchanged_keeps [where f = store_ok and P = "\<lambda>b. b"]) (rule frame_Client_GetTicketType [OF store_ok_tick_free])

lemma store_ok_redis_free:
  "store_ok s \<Longrightarrow> (\<And>k. \<not> queue_name k \<Longrightarrow> rd k = redis s k) \<Longrightarrow> store_ok (s\<lparr>redis := rd\<rparr>)"
  by (simp add: store_ok_def stock_ok_def inventory_ok_def counter_def)

lemma store_ok_cmds:
  "store_ok s \<Longrightarrow> queue_name k \<Longrightarrow> store_ok (s\<lparr>redis := snd (do_set k v ttl t (redis s))\<rparr>)"
  "store_ok s \<Longrightarrow> queue_name k \<Longrightarrow> queue_name k' \<Longrightarrow> store_ok (s\<lparr>redis := snd (do_del [k, k'] t (redis s))\<rparr>)"
  "store_ok s \<Longrightarrow> list_name k \<Longrightarrow> store_ok (s\<lparr>redis := put_list k vs t (redis s)\<rparr>)"
  by (rule store_ok_redis_free; auto simp: do_set_def do_del_def put_list_def dest: list_name_queue)+

interpretation store: cancel_commands store_ok
  by unfold_locales
    (auto simp: store_ok_cmds, auto simp: store_ok_def stock_ok_def inventory_ok_def counter_def tick_free_def
      intro: keeps_store_Release keeps_store_GetTicketType)

text \<open>Identity and status of every order, and the tickets: the queue operations proper change neither.\<close>

definition order_ledger :: "'z ticket_db_scheme \<Rightarrow> (uuid \<times> string) list \<times> Ticket list" where
  "order_ledger s = (map (\<lambda>r. (o_ID r, o_Status r)) (orders s), tickets s)"

interpretation statuses: queue_frame "\<lambda>s. order_ledger s = c" for c
  by unfold_locales (auto simp: order_ledger_def tick_free_def update_rows_def)

section \<open>Specification of the queue\<close>

text \<open>
  The queue of an event as a value: the order in the slot and the orders behind it.
  \<open>advance_spec\<close> is what advancing means: the first live order takes the slot, the dead ones
  before it are dropped.
\<close>

definition queue_of :: "env \<Rightarrow> uuid \<Rightarrow> 'z infra_scheme \<Rightarrow> string option \<times> string list" where
  "queue_of E eid s = ((case redis s (active_key E eid) of Some (RStr v, d) \<Rightarrow> Some v | _ \<Rightarrow> None),
     raw_list (redis s) (waiting_key E eid))"

fun advance_spec :: "(string \<Rightarrow> bool) \<Rightarrow> string list \<Rightarrow> string option \<times> string list" where
  "advance_spec live [] = (None, [])"
| "advance_spec live (v # ws) = (if live v then (Some v, ws) else advance_spec live ws)"

definition live_order :: "env \<Rightarrow> Order list \<Rightarrow> string \<Rightarrow> bool" where
  "live_order E rows v = (case uuid_Parse E v of None \<Rightarrow> False
     | Some oid \<Rightarrow> (case find_row (\<lambda>r. o_ID r = oid) rows of None \<Rightarrow> False | Some r \<Rightarrow> o_Status r = ''PENDING''))"

text \<open>A waiting list as \<open>RPUSH\<close> makes it: without a deadline, of non-empty names.\<close>

definition waiting_is :: "env \<Rightarrow> uuid \<Rightarrow> string list \<Rightarrow> 'z infra_scheme \<Rightarrow> bool" where
  "waiting_is E eid ws s \<longleftrightarrow> redis s (waiting_key E eid) = (if ws = [] then None else Some (RList ws, None)) \<and> [] \<notin> set ws"

lemma waiting_is_raw: "waiting_is E eid ws s \<Longrightarrow> raw_list (redis s) (waiting_key E eid) = ws"
  by (simp add: waiting_is_def raw_list_def split: if_splits)

lemma waiting_is_rlist: "waiting_is E eid ws s \<Longrightarrow> rlist (redis s) t (waiting_key E eid) = Inr ws"
  by (simp add: waiting_is_def rlist_def rlookup_def split: if_splits)

lemma waiting_is_lpop:
  assumes "waiting_is E eid ws s"
  shows "do_lpop (waiting_key E eid) t (redis s) = (case ws of [] \<Rightarrow> (Inl ErrRedisNil, redis s)
    | v # vs \<Rightarrow> (Inr v, (redis s)(waiting_key E eid := if vs = [] then None else Some (RList vs, None))))"
  using assms waiting_is_rlist [OF assms, of t]
  by (auto simp: do_lpop_def put_list_def waiting_is_def rlookup_def split: list.split)

text \<open>The record of a turn: the second it ends in Redis, and the deadline of the order.\<close>

definition turn_recorded :: "env \<Rightarrow> uuid \<Rightarrow> string \<Rightarrow> Order list \<Rightarrow> 'z ticket_db_scheme \<Rightarrow> bool" where
  "turn_recorded E eid v rows t \<longleftrightarrow> (\<exists>n oid now d.
     uuid_Parse E v = Some oid \<and>
     redis t (expires_key E eid) = Some (RStr (show_int (Unix (clock E n + QueueActiveDuration))), Some d) \<and>
     orders t = update_rows (\<lambda>r. o_ID r = oid) (expires_row now (clock E n + QueueActiveDuration)) rows)"

lemma wp_clear_slot:
  assumes "reliable E"
  shows "wp (clear_slot E eid) Q s \<longleftrightarrow> Q (Inr None)
    (s\<lparr>tick := Suc (tick s), redis := (\<lambda>k. if k = active_key E eid \<or> k = expires_key E eid then None else redis s k)\<rparr>)"
  using assms by (simp add: clear_slot_def do_del_def)

lemma turn_recordedI:
  "uuid_Parse E v = Some oid \<Longrightarrow>
   redis t (expires_key E eid) = Some (RStr (show_int (Unix (clock E n + QueueActiveDuration))), Some d) \<Longrightarrow>
   orders t = update_rows (\<lambda>r. o_ID r = oid) (expires_row now (clock E n + QueueActiveDuration)) rows \<Longrightarrow>
   turn_recorded E eid v rows t"
  unfolding turn_recorded_def by blast

lemma wp_promote:
  assumes "reliable E" and "uuid_Parse E v = Some oid"
    and post: "\<And>t x. queue_of E eid t = (Some v, raw_list (redis s) (waiting_key E eid)) \<Longrightarrow>
      redis t (waiting_key E eid) = redis s (waiting_key E eid) \<Longrightarrow>
      turn_recorded E eid v (orders s) t \<Longrightarrow> order_ledger t = order_ledger s \<Longrightarrow> Q x t"
  shows "wp (promote E eid v oid) Q s"
proof -
  have l: "order_ledger (t\<lparr>orders := update_rows p (expires_row now x) rows\<rparr>) = (map (\<lambda>r. (o_ID r, o_Status r)) rows, tickets t)"
    for t :: "'z ticket_db_scheme" and p now x rows
    by (simp add: order_ledger_def update_rows_def)
  show ?thesis
    using assms(1,2)
    by (auto simp: promote_def Let_def do_set_def exec_expires_at_def queue_of_def raw_list_def l
        intro!: post turn_recordedI [of _ _ oid]) (simp add: order_ledger_def)
qed

text \<open>The loop does what the specification says: one iteration either drops a dead order or ends it.\<close>

lemma waiting_is_popped:
  assumes "waiting_is E eid (v # vs) u"
  shows "waiting_is E eid vs (u\<lparr>tick := n, redis := (redis u)(waiting_key E eid := if vs = [] then None else Some (RList vs, None))\<rparr>)"
  using assms by (auto simp: waiting_is_def)

lemma wp_AdvanceQueue:
  fixes s :: "'z ticket_db_scheme"
  assumes "reliable E" and "has_redis E" and "waiting_is E eid ws s"
    and post: "\<And>t. queue_of E eid t = advance_spec (live_order E (orders s)) ws \<Longrightarrow>
      waiting_is E eid (snd (advance_spec (live_order E (orders s)) ws)) t \<Longrightarrow>
      order_ledger t = order_ledger s \<Longrightarrow>
      (\<And>v. fst (advance_spec (live_order E (orders s)) ws) = Some v \<Longrightarrow> turn_recorded E eid v (orders s) t) \<Longrightarrow>
      (fst (advance_spec (live_order E (orders s)) ws) = None \<Longrightarrow> orders t = orders s) \<Longrightarrow>
      Q (Inr (fst (advance_spec (live_order E (orders s)) ws))) t"
  shows "wp (AdvanceQueue E eid) Q s"
proof -
  let ?spec = "advance_spec (live_order E (orders s))"
  let ?J = "\<lambda>u :: 'z ticket_db_scheme. \<exists>vs. waiting_is E eid vs u \<and> ?spec vs = ?spec ws \<and> orders u = orders s \<and> order_ledger u = order_ledger s"
  have empty: "wp (clear_slot E eid) Q u" if "waiting_is E eid [] u" "?spec ws = (None, [])" "orders u = orders s" "order_ledger u = order_ledger s"
    for u :: "'z ticket_db_scheme"
    using that post [of "u\<lparr>tick := Suc (tick u), redis := (\<lambda>k. if k = active_key E eid \<or> k = expires_key E eid then None else redis u k)\<rparr>"]
    by (simp add: wp_clear_slot [OF assms(1)] queue_of_def raw_list_def waiting_is_def order_ledger_def)
  have live: "wp (promote E eid v oid) (\<lambda>x. Q (Inr (Some v))) u"
    if o': "uuid_Parse E v = Some oid" "?spec ws = (Some v, vs)" and u: "waiting_is E eid vs u" "orders u = orders s" "order_ledger u = order_ledger s"
    for v oid vs and u :: "'z ticket_db_scheme"
  proof (rule wp_promote [OF assms(1) o'(1)])
    fix t :: "'z ticket_db_scheme" and x :: time
    assume "queue_of E eid t = (Some v, raw_list (redis u) (waiting_key E eid))" "redis t (waiting_key E eid) = redis u (waiting_key E eid)"
      "turn_recorded E eid v (orders u) t" "order_ledger t = order_ledger u"
    then show "Q (Inr (Some v)) t"
      using post [of t] o'(2) u waiting_is_raw [OF u(1)] by (simp add: waiting_is_def)
  qed
  have "wp (State (advance_loop E eid)) Q s"
  proof (rule wp_advance_loop [where J = ?J])
    show "?J s" using assms(3) by blast
  next
    fix u :: "'z ticket_db_scheme"
    assume "?J u"
    then obtain vs where w: "waiting_is E eid vs u" and sp: "?spec vs = ?spec ws" and o': "orders u = orders s"
      and l: "order_ledger u = order_ledger s" by blast
    show "wp (redis_cmd E (do_lpop (waiting_key E eid))) (after_pop E eid ?J Q) u"
    proof (cases vs)
      case Nil
      have "wp (clear_slot E eid) Q (u\<lparr>tick := Suc (tick u)\<rparr>)"
        by (rule empty) (use w sp o' l Nil in \<open>simp_all add: waiting_is_def order_ledger_def\<close>)
      then show ?thesis using assms(1) Nil by (simp add: waiting_is_lpop [OF w] after_pop_def)
    next
      case (Cons v vs')
      let ?u = "\<lambda>n. u\<lparr>tick := n, redis := (redis u)(waiting_key E eid := if vs' = [] then None else Some (RList vs', None))\<rparr>"
      have w': "v \<noteq> []" "waiting_is E eid vs' (?u n)" for n
        using w Cons waiting_is_popped [of E eid v vs' u n] by (auto simp: waiting_is_def)
      have dead: "?J (?u n)" if "\<not> live_order E (orders s) v" for n
        using w'(2) sp o' l that Cons by (intro exI [of _ vs']) (simp add: order_ledger_def)
      have "wp (promote E eid v oid) (\<lambda>x. Q (Inr (Some v))) (?u n)" if "uuid_Parse E v = Some oid" "live_order E (orders s) v" for n oid
        by (rule live [OF that(1) _ w'(2)]) (use sp Cons that(2) o' l in \<open>simp_all add: order_ledger_def\<close>)
      then show ?thesis
        using assms(1) w'(1) Cons dead o'
        by (auto simp: waiting_is_lpop [OF w] after_pop_def after_get_def GetOrder_def live_order_def row_result_def split: option.splits)
    qed
  qed
  then show ?thesis using assms(2) by (simp add: AdvanceQueue_def del: wp_State)
qed

end
