(* ===== verification/Ticket_Queue_Spec.thy ===== *)
theory Ticket_Queue_Spec
  imports Ticket_Queue
begin

text \<open>
  What the operations of the payment queue do to the queue of an event, seen as the order in the
  slot and the list of orders behind it: advancing, cancelling, joining, the expiry of a turn, and
  who may ask for or cancel a place.
\<close>

section \<open>Releasing stock leaves the queue alone\<close>

lemma do_release_other: "k' \<noteq> k \<Longrightarrow> snd (do_release k q t rd) k' = rd k'"
  by (auto simp: do_release_def incr_by_def split: option.splits rval.splits prod.splits sum.splits)

text \<open>What the queue operations read: the orders with their items and tickets, and the queue keys.\<close>

definition queue_world :: "'z ticket_db_scheme \<Rightarrow> Order list \<times> OrderItem list \<times> Ticket list \<times> message list \<times> rstore" where
  "queue_world s = (orders s, order_items s, tickets s, kafka s, (\<lambda>k. if queue_name k then redis s k else None))"

lemma queue_world_eq:
  "queue_world t = queue_world s \<longleftrightarrow> orders t = orders s \<and> order_items t = order_items s \<and> tickets t = tickets s \<and>
     kafka t = kafka s \<and> (\<forall>k. queue_name k \<longrightarrow> redis t k = redis s k)"
  by (auto simp: queue_world_def fun_eq_iff split: if_splits)

lemma queue_world_tick_free: "tick_free queue_world"
  by (simp add: tick_free_def queue_world_eq)

lemma frame_world_Release: "unchanged queue_world (ReleaseTicketStock E tid q)"
proof -
  have r: "unchanged queue_world (redis_cmd E (do_release (stock_key tid) q))"
    unfolding redis_cmd_def
    by (rule frame_external [OF queue_world_tick_free])
      (auto simp: unchanged_def queue_world_eq case_prod_beta intro!: do_release_other)
  show ?thesis
    unfolding ReleaseTicketStock_def
    by (intro frame_rules frame_Client r queue_world_tick_free) (simp add: queue_world_eq)
qed

lemma frame_world_release_items: "unchanged queue_world (release_items E items)"
  unfolding release_items_def by (intro frame_rules frame_world_Release)

lemma frame_redis_release_items:
  assumes "queue_name k"
  shows "unchanged (\<lambda>s. redis s k) (release_items E items :: ('z ticket_db_scheme, unit) state)"
proof -
  have "unchanged queue_world (release_items E items :: ('z ticket_db_scheme, unit) state)"
    by (rule frame_world_release_items)
  then show ?thesis using assms by (simp add: unchanged_def queue_world_eq)
qed

section \<open>Cancelling\<close>

text \<open>The slot holds \<open>v\<close>, and the key outlives the run.\<close>

definition slot_is :: "env \<Rightarrow> uuid \<Rightarrow> string \<Rightarrow> 'z infra_scheme \<Rightarrow> bool" where
  "slot_is E eid v s \<longleftrightarrow> (\<exists>d. redis s (active_key E eid) = Some (RStr v, d) \<and> (\<forall>n x. d = Some x \<longrightarrow> clock E n < x))"

lemma slot_is_get: "slot_is E eid v s \<Longrightarrow> do_get (active_key E eid) (clock E n) (redis s) = (Inr v, redis s)"
  by (auto simp: slot_is_def do_get_def rlookup_def split: option.splits)

lemma wp_CancelOrder:
  assumes E: "reliable E" and v: "uuid_Parse E v = Some oid"
    and o': "find_row (\<lambda>r. o_ID r = oid) (orders s) = Some order"
    and post: "\<And>t now. orders t = update_rows (\<lambda>r. o_ID r = oid) (status_row now ''CANCELLED'') (orders s) \<Longrightarrow>
      order_items t = order_items s \<Longrightarrow> tickets t = tickets s \<Longrightarrow>
      kafka t = kafka s @ [\<lparr>msg_Topic = ''order.cancelled'', msg_Key = v, msg_Value = order_cancelled_event v\<rparr>] \<Longrightarrow>
      (\<And>k. queue_name k \<Longrightarrow> redis t k = redis s k) \<Longrightarrow>
      wp (leave_queue E (o_EventID order) v) (\<lambda>_. Q (Inr ())) t"
  shows "wp (CancelOrder E v) Q s"
proof -
  have rel: "wp (release_items E items) R u"
    if "\<And>t. queue_world t = queue_world u \<Longrightarrow> R () t" for items R u
    using that by (auto intro!: wpI dest: unchangedD [OF frame_world_release_items])
  show ?thesis
    using E v o'
    by (simp add: CancelOrder_def GetOrder_def UpdateOrderStatus_def ListOrderItems_def)
      (rule rel, simp add: queue_world_eq post)
qed

lemma wp_leave_queue_active:
  fixes s :: "'z ticket_db_scheme"
  assumes E: "reliable E" "has_redis E" and slot: "slot_is E eid v s" and ws: "waiting_is E eid ws s"
    and post: "\<And>t. queue_of E eid t = advance_spec (live_order E (orders s)) ws \<Longrightarrow>
      waiting_is E eid (snd (advance_spec (live_order E (orders s)) ws)) t \<Longrightarrow>
      order_ledger t = order_ledger s \<Longrightarrow> Q () t"
  shows "wp (leave_queue E eid v) Q s"
proof -
  have w: "waiting_is E eid ws (s\<lparr>tick := n\<rparr>)" for n using ws by (simp add: waiting_is_def)
  show ?thesis
    using E slot
    by (simp add: leave_queue_def slot_is_get)
      (rule wp_AdvanceQueue [OF E w], simp_all add: post order_ledger_def)
qed

lemma wp_leave_queue_waiting:
  assumes E: "reliable E" "has_redis E" and slot: "slot_is E eid w s" "w \<noteq> v" and ws: "waiting_is E eid ws s"
    and post: "\<And>t. waiting_is E eid (removeAll v ws) t \<Longrightarrow> redis t (active_key E eid) = redis s (active_key E eid) \<Longrightarrow>
      orders t = orders s \<Longrightarrow> tickets t = tickets s \<Longrightarrow> Q () t"
  shows "wp (leave_queue E eid v) Q s"
proof -
  have w: "rlist (redis s) t (waiting_key E eid) = Inr ws" for t by (rule waiting_is_rlist [OF ws])
  show ?thesis
    using E slot ws
    by (auto simp: leave_queue_def slot_is_get do_lrem_def w put_list_def waiting_is_def rlookup_def intro!: post)
qed

text \<open>Liveness depends on the statuses alone.\<close>

lemma find_status:
  "map (\<lambda>r. (o_ID r, o_Status r)) rows = map (\<lambda>r. (o_ID r, o_Status r)) rows' \<Longrightarrow>
   map_option o_Status (find_row (\<lambda>r. o_ID r = oid) rows) = map_option o_Status (find_row (\<lambda>r. o_ID r = oid) rows')"
  by (induction rows rows' rule: list_induct2') auto

lemma live_order_iff:
  "live_order E rows v \<longleftrightarrow> (\<exists>oid. uuid_Parse E v = Some oid \<and>
     map_option o_Status (find_row (\<lambda>r. o_ID r = oid) rows) = Some ''PENDING'')"
  by (simp add: live_order_def split: option.split)

lemma live_order_ledger: "order_ledger t = order_ledger s \<Longrightarrow> live_order E (orders t) = live_order E (orders s)"
  using find_status [of "orders t" "orders s"] by (simp add: fun_eq_iff live_order_iff order_ledger_def)

lemma live_order_cancelled:
  assumes "uuid_Parse E v = Some oid"
  shows "live_order E (update_rows (\<lambda>r. o_ID r = oid) (status_row now ''CANCELLED'') rows) w \<longleftrightarrow>
     live_order E rows w \<and> uuid_Parse E w \<noteq> Some oid"
proof (cases "uuid_Parse E w")
  case None
  then show ?thesis by (simp add: live_order_iff)
next
  case (Some wid)
  show ?thesis
  proof (cases "wid = oid")
    case True
    have "map_option o_Status (find_row (\<lambda>r. o_ID r = oid) (update_rows (\<lambda>r. o_ID r = oid) (status_row now ''CANCELLED'') rows)) \<noteq> Some ''PENDING''"
      by (auto simp: status_keyed.find_updated)
    with True Some show ?thesis by (simp add: live_order_iff)
  next
    case False
    then show ?thesis using Some by (simp add: live_order_iff status_keyed.find_other)
  qed
qed

text \<open>The turn in the slot ends at second \<open>e\<close>, and the key outlives the run.\<close>

definition turn_ends :: "env \<Rightarrow> uuid \<Rightarrow> int \<Rightarrow> 'z infra_scheme \<Rightarrow> bool" where
  "turn_ends E eid e s \<longleftrightarrow> 0 < e \<and> e < 2 ^ 63 \<and>
     (\<exists>d. redis s (expires_key E eid) = Some (RStr (show_int e), d) \<and> (\<forall>n x. d = Some x \<longrightarrow> clock E n < x))"

lemma turn_ends_get: "turn_ends E eid e s \<Longrightarrow> do_get (expires_key E eid) (clock E n) (redis s) = (Inr (show_int e), redis s)"
  by (auto simp: turn_ends_def do_get_def rlookup_def split: option.splits)

lemma turn_ends_parse: "turn_ends E eid e s \<Longrightarrow> ParseInt (show_int e) = e \<and> 0 < e"
  by (auto simp: turn_ends_def intro!: ParseInt_show_int)

text \<open>Cancelling the order whose turn it is: the order is cancelled and the queue advances once.\<close>

lemma wp_CancelOrder_active:
  fixes s :: "'z ticket_db_scheme"
  assumes E: "reliable E" "has_redis E" and v: "uuid_Parse E v = Some oid"
    and o': "find_row (\<lambda>r. o_ID r = oid) (orders s) = Some order"
    and slot: "slot_is E (o_EventID order) v s" and ws: "waiting_is E (o_EventID order) ws s"
    and live: "live = (\<lambda>w. live_order E (orders s) w \<and> uuid_Parse E w \<noteq> Some oid)"
    and post: "\<And>t. queue_of E (o_EventID order) t = advance_spec live ws \<Longrightarrow>
      waiting_is E (o_EventID order) (snd (advance_spec live ws)) t \<Longrightarrow> live_order E (orders t) = live \<Longrightarrow>
      map_option o_Status (find_row (\<lambda>r. o_ID r = oid) (orders t)) = Some ''CANCELLED'' \<Longrightarrow> Q (Inr ()) t"
  shows "wp (CancelOrder E v) Q s"
proof (rule wp_CancelOrder [OF E(1) v o'])
  fix t :: "'z ticket_db_scheme" and now
  assume c: "orders t = update_rows (\<lambda>r. o_ID r = oid) (status_row now ''CANCELLED'') (orders s)"
    and r: "\<And>k. queue_name k \<Longrightarrow> redis t k = redis s k"
  have l: "live_order E (orders t) = live" unfolding live c by (rule ext) (rule live_order_cancelled [OF v])
  have st: "map_option o_Status (find_row (\<lambda>r. o_ID r = oid) (orders t)) = Some ''CANCELLED''"
    unfolding c by (simp add: status_keyed.find_updated o')
  have slot': "slot_is E (o_EventID order) v t" and ws': "waiting_is E (o_EventID order) ws t"
    using slot ws by (simp_all add: slot_is_def waiting_is_def r)
  show "wp (leave_queue E (o_EventID order) v) (\<lambda>_. Q (Inr ())) t"
  proof (rule wp_leave_queue_active [OF E slot' ws'])
    fix u :: "'z ticket_db_scheme"
    assume q: "queue_of E (o_EventID order) u = advance_spec (live_order E (orders t)) ws"
      and w: "waiting_is E (o_EventID order) (snd (advance_spec (live_order E (orders t)) ws)) u"
      and g: "order_ledger u = order_ledger t"
    have "map_option o_Status (find_row (\<lambda>r. o_ID r = oid) (orders u)) = Some ''CANCELLED''"
      using st find_status [of "orders u" "orders t"] g by (simp add: order_ledger_def)
    then show "Q (Inr ()) u" using q w live_order_ledger [OF g] by (intro post) (simp_all add: l)
  qed
qed

text \<open>The expiry of a turn cancels the order, which advances the queue, and then advances it again.\<close>

lemma wp_expired_turn:
  fixes s :: "'z ticket_db_scheme"
  assumes E: "reliable E" "has_redis E" and v: "uuid_Parse E v = Some oid" "v \<noteq> []"
    and o': "find_row (\<lambda>r. o_ID r = oid) (orders s) = Some order" "o_EventID order = eid"
    and slot: "slot_is E eid v s" and ws: "waiting_is E eid ws s"
    and turn: "turn_ends E eid e s" "\<And>n. e \<le> Unix (clock E n)"
    and live: "live = (\<lambda>w. live_order E (orders s) w \<and> uuid_Parse E w \<noteq> Some oid)"
    and post: "\<And>t. queue_of E eid t = advance_spec live (snd (advance_spec live ws)) \<Longrightarrow>
      map_option o_Status (find_row (\<lambda>r. o_ID r = oid) (orders t)) = Some ''CANCELLED'' \<Longrightarrow>
      live_order E (orders t) = live \<Longrightarrow> Q () t"
  shows "wp (CheckAndAdvanceExpiredActive E eid) Q s"
proof -
  let ?s = "\<lambda>n. s\<lparr>tick := n\<rparr>"
  have s': "find_row (\<lambda>r. o_ID r = oid) (orders (?s n)) = Some order" "slot_is E (o_EventID order) v (?s n)"
    "waiting_is E (o_EventID order) ws (?s n)" "live = (\<lambda>w. live_order E (orders (?s n)) w \<and> uuid_Parse E w \<noteq> Some oid)" for n
    using o' slot ws live by (simp_all add: slot_is_def waiting_is_def)
  have again: "wp (AdvanceQueue E eid) (\<lambda>x. Q ()) t"
    if "waiting_is E eid (snd (advance_spec live ws)) t" "live_order E (orders t) = live"
      "map_option o_Status (find_row (\<lambda>r. o_ID r = oid) (orders t)) = Some ''CANCELLED''" for t
  proof (rule wp_AdvanceQueue [OF E that(1)])
    fix u :: "'z ticket_db_scheme"
    assume q: "queue_of E eid u = advance_spec (live_order E (orders t)) (snd (advance_spec live ws))"
      and g: "order_ledger u = order_ledger t"
    have "map_option o_Status (find_row (\<lambda>r. o_ID r = oid) (orders u)) = Some ''CANCELLED''"
      using that(3) find_status [of "orders u" "orders t"] g by (simp add: order_ledger_def)
    then show "Q () u" using q live_order_ledger [OF g] by (intro post) (simp_all add: that(2))
  qed
  show ?thesis
    using E v turn_ends_parse [OF turn(1)] turn(2)
    by (simp add: CheckAndAdvanceExpiredActive_def slot_is_get [OF slot] turn_ends_get [OF turn(1)] Let_def)
      (rule wp_CancelOrder_active [OF E v(1) s'], simp add: o' again)
qed

section \<open>Joining the queue\<close>

lemma wp_enqueue_free:
  assumes E: "reliable E" "uuid_laws E" "has_redis E" and free: "redis s (active_key E eid) = None" and f: "0 < fuel"
    and post: "\<And>t x. queue_of E eid t = (Some (uuid_String E oid), raw_list (redis s) (waiting_key E eid)) \<Longrightarrow>
      Q (Some (active_response E oid eid x)) t"
  shows "wp (EnqueueOrder fuel E oid eid) Q s"
proof -
  obtain g where g: "fuel = Suc g" using f by (cases fuel) auto
  have none: "do_get (active_key E eid) t (redis s) = (Inl ErrRedisNil, redis s)" for t
    using free by (simp add: do_get_def rlookup_def)
  show ?thesis
    using E(1,3)
    by (simp add: EnqueueOrder_def g none)
      (rule wp_promote [OF E(1) uuid_roundtrip [OF E(2)]], simp add: post)
qed

lemma wp_enqueue_busy:
  assumes E: "reliable E" "has_redis E" and slot: "slot_is E eid v s" "v \<noteq> []"
    and turn: "turn_ends E eid e s" "\<And>n. Unix (clock E n) \<le> e" and ws: "waiting_is E eid ws s" and f: "0 < fuel"
    and post: "\<And>t. queue_of E eid t = (Some v, ws @ [uuid_String E oid]) \<Longrightarrow>
      Q (Some (waiting_response E oid eid (int (length ws) + 2))) t"
  shows "wp (EnqueueOrder fuel E oid eid) Q s"
proof -
  obtain g where g: "fuel = Suc g" using f by (cases fuel) auto
  have push: "do_rpush (waiting_key E eid) v t (redis s) =
      (Inr (Suc (length ws)), (redis s)(waiting_key E eid \<mapsto> (RList (ws @ [v]), None)))" for v t
    using ws waiting_is_rlist [OF ws, of t] by (auto simp: do_rpush_def put_list_def waiting_is_def rlookup_def)
  have len: "do_llen k t (rd(k \<mapsto> (RList xs, None))) = (Inr (length xs), rd(k \<mapsto> (RList xs, None)))" for k t rd xs
    by (simp add: do_llen_def rlist_def rlookup_def)
  have na: "\<not> e < Unix (clock E n)" for n using turn(2) [of n] by simp
  obtain d where a: "redis s (active_key E eid) = Some (RStr v, d)" using slot(1) by (auto simp: slot_is_def)
  show ?thesis
    using E slot(2) turn_ends_parse [OF turn(1)] na a post
    by (simp add: EnqueueOrder_def g slot_is_get [OF slot(1)] turn_ends_get [OF turn(1)] Let_def push len
        exec_expires_at_def queue_of_def raw_list_def add.commute)
qed

section \<open>Joining the queue returns\<close>

lemma queue_keys_never_meet:
  "active_key E a \<noteq> waiting_key E b" "expires_key E a \<noteq> waiting_key E b"
proof -
  have "last (active_key E a) \<noteq> last (waiting_key E b)" "last (expires_key E a) \<noteq> last (waiting_key E b)"
    by (simp_all add: active_key_def expires_key_def waiting_key_def)
  then show "active_key E a \<noteq> waiting_key E b" "expires_key E a \<noteq> waiting_key E b" by metis+
qed

lemma lists_shrink:
  "length (raw_list (snd (do_lpop k t rd)) k') \<le> length (raw_list rd k')"
  "length (raw_list (snd (do_lrem k v t rd)) k') \<le> length (raw_list rd k')"
  "k \<noteq> k' \<Longrightarrow> length (raw_list (snd (do_set k v ttl t rd)) k') \<le> length (raw_list rd k')"
  "length (raw_list (snd (do_del ks t rd)) k') \<le> length (raw_list rd k')"
proof -
  show "length (raw_list (snd (do_lpop k t rd)) k') \<le> length (raw_list rd k')"
    using rlist_raw [of rd t k] by (auto simp: do_lpop_def split: sum.splits list.splits)
  show "length (raw_list (snd (do_lrem k v t rd)) k') \<le> length (raw_list rd k')"
    using rlist_raw [of rd t k] by (auto simp: do_lrem_def length_removeAll_less_eq split: sum.splits)
  show "k \<noteq> k' \<Longrightarrow> length (raw_list (snd (do_set k v ttl t rd)) k') \<le> length (raw_list rd k')"
    by (simp add: do_set_def raw_list_def)
  show "length (raw_list (snd (do_del ks t rd)) k') \<le> length (raw_list rd k')"
    by (simp add: do_del_def raw_list_def split: option.split rval.split)
qed

text \<open>The waiting list of an event has at most \<open>n\<close> entries.\<close>

definition waiting_at_most :: "env \<Rightarrow> uuid \<Rightarrow> nat \<Rightarrow> 'z infra_scheme \<Rightarrow> bool" where
  "waiting_at_most E eid n s \<longleftrightarrow> waiting_len E eid s \<le> n"

lemma at_most_tick_free: "tick_free (waiting_at_most E eid n)"
  by (simp add: tick_free_def waiting_at_most_def waiting_len_def)

lemma keeps_at_most_cmd:
  assumes "\<And>t rd. length (raw_list (snd (f t rd)) (waiting_key E eid)) \<le> length (raw_list rd (waiting_key E eid))"
  shows "keeps (waiting_at_most E eid n) (redis_cmd E f)"
  by (rule keeps_redis_cmd [OF at_most_tick_free])
    (simp add: waiting_at_most_def waiting_len_def order_trans [OF assms])

lemma keeps_at_most_sql:
  assumes "\<And>s now u. redis (snd (f now u s)) = redis s"
  shows "keeps (waiting_at_most E eid n) (sql E f)"
  by (rule keeps_sql [OF at_most_tick_free]) (simp add: waiting_at_most_def waiting_len_def assms)

lemma keeps_at_most_parts:
  "keeps (waiting_at_most E eid n) (promote E eid' v oid)"
  "keeps (waiting_at_most E eid n) (clear_slot E eid')"
  unfolding promote_def clear_slot_def exec_expires_at_def Let_def
  by (intro keeps_rules keeps_Now keeps_at_most_cmd keeps_at_most_sql lists_shrink at_most_tick_free
      queue_keys_never_meet; simp)+

lemma keeps_at_most_Advance: "keeps (waiting_at_most E eid n) (AdvanceQueue E eid')"
  unfolding AdvanceQueue_def
  by (intro keeps_rules keeps_advance_loop keeps_at_most_parts keeps_at_most_cmd keeps_reads lists_shrink at_most_tick_free)

lemma keeps_at_most_Cancel: "keeps (waiting_at_most E eid n) (CancelOrder E v)"
proof -
  have rel: "keeps (waiting_at_most E eid n) (release_items E items)" for items
    using unchanged_keeps [OF frame_redis_release_items [of "waiting_key E eid" E items],
        of "\<lambda>x. length (case x of Some (RList xs, d) \<Rightarrow> xs | _ \<Rightarrow> []) \<le> n"]
    unfolding waiting_at_most_def [abs_def] waiting_len_def raw_list_def by (simp add: keeps_def)
  show ?thesis
    unfolding CancelOrder_def leave_queue_def UpdateOrderStatus_def
    by (intro keeps_rules keeps_reads rel keeps_at_most_Advance keeps_at_most_cmd keeps_at_most_sql keeps_Publish
        lists_shrink at_most_tick_free) (simp_all add: waiting_at_most_def waiting_len_def)
qed

text \<open>Advancing empties the slot or takes an order from the waiting list.\<close>

lemma wp_Advance_progress:
  fixes s :: "'z ticket_db_scheme"
  assumes E: "reliable E" "has_redis E"
  shows "wp (AdvanceQueue E eid) (\<lambda>r t. redis t (active_key E eid) = None \<or> waiting_len E eid t < waiting_len E eid s) s"
proof -
  let ?Q = "\<lambda>r (t :: 'z ticket_db_scheme). redis t (active_key E eid) = None \<or> waiting_len E eid t < waiting_len E eid s"
  have "wp (State (advance_loop E eid)) ?Q s"
  proof (rule wp_advance_loop [where J = "\<lambda>u. waiting_len E eid u \<le> waiting_len E eid s"])
    fix u :: "'z ticket_db_scheme" assume le: "waiting_len E eid u \<le> waiting_len E eid s"
    have clear: "wp (clear_slot E eid) ?Q t" for t using E(1) by (simp add: wp_clear_slot)
    have prom: "wp (do { promote E eid v oid; ok (Some v) }) ?Q t"
      if "waiting_len E eid t < waiting_len E eid s" for v oid t
      using keeps_wp [OF keeps_at_most_parts(1), of E eid "waiting_len E eid t" t eid v oid] that
      by (auto simp: waiting_at_most_def intro: wp_mono)
    show "wp (redis_cmd E (do_lpop (waiting_key E eid))) (after_pop E eid (\<lambda>u. waiting_len E eid u \<le> waiting_len E eid s) ?Q) u"
    proof (rule wp_mono [OF wp_lpop_shrinks], intro after_popI clear)
      fix r :: "gerr + string" and v oid and t :: "'z ticket_db_scheme"
      assume l: "\<forall>v. r = Inr v \<longrightarrow> waiting_len E eid t < waiting_len E eid u" and v: "r = Inr v"
      then show "waiting_len E eid t \<le> waiting_len E eid s" using le by auto
      show "wp (GetOrder E oid) (after_get E eid (\<lambda>u. waiting_len E eid u \<le> waiting_len E eid s) ?Q v oid) t"
      proof (rule wp_mono [OF wp_GetOrder_redis], rule after_getI)
        fix x :: "'z ticket_db_scheme" assume "redis x = redis t"
        then have "waiting_len E eid x < waiting_len E eid s" using l v le by (auto simp: waiting_len_def)
        then show "waiting_len E eid x \<le> waiting_len E eid s" "wp (do { promote E eid v oid; ok (Some v) }) ?Q x" by (simp, rule prom)
      qed
    qed
  qed simp
  then show ?thesis using E(2) by (simp add: AdvanceQueue_def del: wp_State)
qed

lemma enqueue_loop_returns:
  fixes s :: "'z ticket_db_scheme"
  assumes E: "reliable E" "uuid_laws E" "has_redis E"
  shows "waiting_len E eid s + 2 \<le> fuel \<Longrightarrow> wp (enqueue_loop fuel E oid eid) (\<lambda>r t. r \<noteq> None) s"
proof (induction fuel arbitrary: s)
  case 0
  then show ?case by simp
next
  case (Suc fuel)
  have next_turn: "wp (enqueue_loop fuel E oid eid) (\<lambda>r t. r \<noteq> None) t"
    if "redis t (active_key E eid) = None \<or> waiting_len E eid t < waiting_len E eid s" for t :: "'z ticket_db_scheme"
  proof (cases "redis t (active_key E eid) = None")
    case True
    have "wp (EnqueueOrder fuel E oid eid) (\<lambda>r t. r \<noteq> None) t"
      by (rule wp_enqueue_free [OF E True]) (use Suc.prems in simp_all)
    then show ?thesis using E by (simp add: EnqueueOrder_def)
  next
    case False
    with that have "waiting_len E eid t < waiting_len E eid s" by blast
    then show ?thesis using Suc.prems by (intro Suc.IH) simp
  qed
  have adv: "wp (AdvanceQueue E eid) (\<lambda>_ u. wp (enqueue_loop fuel E oid eid) (\<lambda>r t. r \<noteq> None) u) t"
    if "waiting_len E eid t \<le> waiting_len E eid s" for t :: "'z ticket_db_scheme"
    by (rule wp_mono [OF wp_Advance_progress [OF E(1,3)]]) (rule next_turn, use that in auto)
  have can: "wp (CancelOrder E v) (\<lambda>_ u. wp (AdvanceQueue E eid)
      (\<lambda>_ u. wp (enqueue_loop fuel E oid eid) (\<lambda>r t. r \<noteq> None) u) u) t"
    if "waiting_len E eid t \<le> waiting_len E eid s" for v and t :: "'z ticket_db_scheme"
    by (rule wp_mono [OF keeps_wp [OF keeps_at_most_Cancel, of E eid "waiting_len E eid s"]])
      (use that in \<open>auto simp: waiting_at_most_def simp del: not_None_eq intro: adv\<close>)
  show ?case
    using E
    by (simp add: Let_def case_prod_beta exec_expires_at_def promote_def waiting_len_def can del: not_None_eq)
qed

section \<open>Cancelling returns the stock\<close>

interpretation stock_view: queue_frame
  "\<lambda>s. row_left u n a s \<and> counter (redis s) (stock_key k) = c \<and> order_items s = is \<and> order_ledger s = l" for u n a k c "is" l
  by unfold_locales (auto simp: tick_free_def row_left_def counter_def order_ledger_def update_rows_def)

lemma wp_CancelOrder_stock:
  fixes s :: "'z ticket_db_scheme"
  assumes E: "reliable E" "secret_accepted E" "has_redis E" "has_events E" "uuid_laws E" and v: "uuid_Parse E v = Some oid"
    and o': "find_row (\<lambda>r. o_ID r = oid) (orders s) = Some order"
    and item: "filter (\<lambda>i. oi_OrderID i = oid) (order_items s) = [i]" and q: "0 < sint (oi_Quantity i)"
    and left: "row_left (oi_TicketTypeID i) n a s" and sold: "sint (oi_Quantity i) \<le> n - a"
    and key: "counter (redis s) (stock_key (uuid_String E (oi_TicketTypeID i))) = Some a"
    and post: "\<And>t. row_left (oi_TicketTypeID i) n (a + sint (oi_Quantity i)) t \<Longrightarrow>
      counter (redis t) (stock_key (uuid_String E (oi_TicketTypeID i))) = Some (a + sint (oi_Quantity i)) \<Longrightarrow>
      order_items t = order_items s \<Longrightarrow> tickets t = tickets s \<Longrightarrow>
      (\<exists>order'. find_row (\<lambda>r. o_ID r = oid) (orders t) = Some order' \<and> o_Status order' = ''CANCELLED'') \<Longrightarrow> Q (Inr ()) t"
  shows "wp (CancelOrder E v) Q s"
proof -
  let ?u = "oi_TicketTypeID i" and ?q = "oi_Quantity i"
  let ?s = "\<lambda>now n. s\<lparr>tick := n, orders := update_rows (\<lambda>r. o_ID r = oid) (status_row now ''CANCELLED'') (orders s)\<rparr>"
  have leave: "wp (leave_queue E eid v) (\<lambda>_. Q (Inr ())) (t\<lparr>tick := m, kafka := ms\<rparr>)"
    if l: "row_left ?u n (a + sint ?q) t" and c: "counter (redis t) (stock_key (uuid_String E ?u)) = Some (a + sint ?q)"
      and w: "queue_world t = queue_world (?s now k)" for t :: "'z ticket_db_scheme" and eid m ms now k
  proof -
    let ?t = "t\<lparr>tick := m, kafka := ms\<rparr>"
    have ot: "orders t = update_rows (\<lambda>r. o_ID r = oid) (status_row now ''CANCELLED'') (orders s)"
      and it: "order_items t = order_items s" and tt: "tickets t = tickets s" using w by (simp_all add: queue_world_eq)
    have I: "row_left ?u n (a + sint ?q) ?t \<and> counter (redis ?t) (stock_key (uuid_String E ?u)) = Some (a + sint ?q) \<and>
        order_items ?t = order_items s \<and> order_ledger ?t = order_ledger t"
      using l c it by (simp add: row_left_def order_ledger_def)
    show ?thesis
    proof (rule wp_mono [OF keeps_wp [OF stock_view.keeps_leave_queue I]])
      fix u :: "'z ticket_db_scheme"
      assume J: "row_left ?u n (a + sint ?q) u \<and> counter (redis u) (stock_key (uuid_String E ?u)) = Some (a + sint ?q) \<and>
        order_items u = order_items s \<and> order_ledger u = order_ledger t"
      then have "map_option o_Status (find_row (\<lambda>r. o_ID r = oid) (orders u)) = map_option o_Status (find_row (\<lambda>r. o_ID r = oid) (orders t))"
        and "tickets u = tickets s"
        using find_status [of "orders u" "orders t"] tt by (simp_all add: order_ledger_def)
      then show "Q (Inr ()) u"
        using J by (intro post) (auto simp: ot status_keyed.find_updated o')
    qed
  qed
  have rel: "wp (release_items E [i]) (\<lambda>_ t. row_left ?u n (a + sint ?q) t \<and>
      counter (redis t) (stock_key (uuid_String E ?u)) = Some (a + sint ?q) \<and> queue_world t = queue_world (?s now m)) (?s now m)" for now m
  proof (rule wp_mono2)
    have "row_left ?u n a (?s now m)" and "counter (redis (?s now m)) (stock_key (uuid_String E ?u)) = Some a"
      using left key by (simp_all add: row_left_def)
    then show "wp (release_items E [i]) (\<lambda>_ t. row_left ?u n (a + sint ?q) t \<and>
        counter (redis t) (stock_key (uuid_String E ?u)) = Some (a + sint ?q)) (?s now m)"
      by (simp add: release_items_def)
        (rule wp_ReleaseTicketStock [OF E(1-4) uuid_roundtrip [OF E(5)] q _ sold]; simp)
    show "wp (release_items E [i]) (\<lambda>_ t. queue_world t = queue_world (?s now m)) (?s now m)"
      by (rule wpI) (rule unchangedD [OF frame_world_release_items])
  qed simp
  show ?thesis
    using E(1) v o' item
    by (simp add: CancelOrder_def GetOrder_def UpdateOrderStatus_def ListOrderItems_def)
      (rule wp_mono [OF rel], auto intro: leave)
qed

section \<open>Who may ask\<close>

text \<open>Reading the order first: what follows runs only on the row that was found.\<close>

lemma wp_read_order:
  assumes "find_row (\<lambda>r. o_ID r = oid) (orders s) = Some order"
    and "\<And>n. wp (f order) Q (s\<lparr>tick := n\<rparr>)" and "\<And>n. Q (Inl (h ErrTransport)) (s\<lparr>tick := n\<rparr>)"
  shows "wp (bindE h (GetOrder E oid) f) Q s"
  using assms by (auto simp: GetOrder_def sql_def wp_external split: outcome.split)

text \<open>The items and the name of the ticket type are only read.\<close>

lemma wp_with_items:
  assumes "\<And>res n. Q res (s\<lparr>tick := n\<rparr>)"
  shows "wp (with_items E oid res) Q s"
proof (rule wpI)
  fix x t assume r: "run_state (with_items E oid res) s = (x, t)"
  have tf: "tick_free (\<lambda>s. s\<lparr>tick := 0\<rparr>)" by (simp add: tick_free_def)
  have "unchanged (\<lambda>s. s\<lparr>tick := 0\<rparr>) (with_items E oid res)"
    unfolding with_items_def Let_def
    by (intro frame_rules frame_reads tf) (auto intro!: frame_rules frame_Client_GetTicketType tf split: list.split)
  from unchangedD [OF this r] have "t = s\<lparr>tick := tick t\<rparr>" by (intro same_but_tickD) (simp add: same_but_tick_def)
  then show "Q x t" using assms by metis
qed

section \<open>A concrete queue\<close>

text \<open>Orders 11, 12 and 13 of the demo event, pending, for one ticket each.\<close>

definition demo_order :: "uuid \<Rightarrow> Order" where
  "demo_order oid = \<lparr>o_ID = oid, o_UserID = 5, o_EventID = 2, o_TotalAmount = Num 100000, o_Status = ''PENDING'',
     o_ExpiresAt = 2000 * Second, o_CreatedAt = 0, o_UpdatedAt = 0\<rparr>"

definition demo_item :: "uuid \<Rightarrow> OrderItem" where
  "demo_item oid = \<lparr>oi_ID = oid, oi_OrderID = oid, oi_TicketTypeID = 1, oi_Quantity = 1, oi_Price = Num 100000,
     oi_Subtotal = Num 100000\<rparr>"

definition demo_queue :: "int \<Rightarrow> ticket_db" where
  "demo_queue e = \<lparr>tick = 0,
     redis = [stock_key (demo_name 1) \<mapsto> (RStr (show_int 0), None),
       active_key still_env 2 \<mapsto> (RStr (demo_name 11), None), expires_key still_env 2 \<mapsto> (RStr (show_int e), None),
       waiting_key still_env 2 \<mapsto> (RList [demo_name 12, demo_name 13], None)], kafka = [],
     ticket_types = [demo_type\<lparr>tt_Sold := 3\<rparr>], events = [demo_event],
     orders = [demo_order 11, demo_order 12, demo_order 13], order_items = [demo_item 11, demo_item 12, demo_item 13],
     tickets = [], withdrawals = []\<rparr>"

lemma demo_order_simps [simp]:
  "o_ID (demo_order u) = u" "o_Status (demo_order u) = ''PENDING''" "o_EventID (demo_order u) = 2"
  "o_UserID (demo_order u) = 5" "o_ExpiresAt (demo_order u) = 2000 * Second"
  "oi_OrderID (demo_item u) = u" "oi_Quantity (demo_item u) = 1" "oi_TicketTypeID (demo_item u) = 1"
  by (simp_all add: demo_order_def demo_item_def)

lemma stock_key_apart [simp]:
  "stock_key k \<noteq> active_key E eid" "stock_key k \<noteq> expires_key E eid" "stock_key k \<noteq> waiting_key E eid"
  "active_key E eid \<noteq> stock_key k" "expires_key E eid \<noteq> stock_key k" "waiting_key E eid \<noteq> stock_key k"
  by (simp_all add: stock_key_def active_key_def expires_key_def waiting_key_def queue_key_def)

lemma demo_queue_simps [simp]:
  "slot_is still_env 2 (demo_name 11) (demo_queue e)"
  "waiting_is still_env 2 [demo_name 12, demo_name 13] (demo_queue e)"
  "0 < e \<Longrightarrow> e < 2 ^ 63 \<Longrightarrow> turn_ends still_env 2 e (demo_queue e)"
  "orders (demo_queue e) = [demo_order 11, demo_order 12, demo_order 13]"
  "order_items (demo_queue e) = [demo_item 11, demo_item 12, demo_item 13]"
  "row_left 1 3 0 (demo_queue e)" "counter (redis (demo_queue e)) (stock_key (demo_name 1)) = Some 0"
  "tickets (demo_queue e) = []" "tick (demo_queue e) = 0" "withdrawals (demo_queue e) = []"
  by (simp_all add: slot_is_def waiting_is_def turn_ends_def demo_queue_def row_left_def row_ok_def counter_Some_iff
      in_int64_def demo_type_def)

lemma demo_store_ok [simp]: "store_ok (demo_queue e)"
  by (auto simp: store_ok_def stock_ok_def inventory_ok_def row_ok_def demo_queue_def counter_Some_iff in_int64_def
      demo_type_def split: if_splits)

lemma demo_live [simp]:
  "live_order E [demo_order 11, demo_order 12, demo_order 13] v \<longleftrightarrow> uuid_Parse E v \<in> {Some 11, Some 12, Some 13}"
  by (auto simp: live_order_def split: option.splits if_splits)

section \<open>Properties\<close>

text \<open>
  C6. \<open>AdvanceQueue\<close> refines \<open>advance_spec\<close>: it drops the orders at the head of the waiting list
  that are unreadable, unknown or no longer pending, gives the slot to the first pending one, records
  the end of its turn three minutes ahead in Redis and in its row, and leaves the rest waiting in
  order; when none is pending it leaves the slot and the waiting list empty. No status changes.
\<close>

theorem advance_queue_refines:
  assumes "reliable E" and "has_redis E" and "waiting_is E eid ws s"
  shows "wp (AdvanceQueue E eid)
    (\<lambda>r t. let spec = advance_spec (live_order E (orders s)) ws in
       r = Inr (fst spec) \<and> queue_of E eid t = spec \<and> order_ledger t = order_ledger s \<and>
       (case fst spec of None \<Rightarrow> orders t = orders s | Some v \<Rightarrow> turn_recorded E eid v (orders s) t)) s"
  by (rule wp_AdvanceQueue [OF assms]) (simp add: Let_def split: option.split)

theorem advance_queue_refines_witness:
  "wp (AdvanceQueue still_env 2) (\<lambda>r t. r = Inr (Some (demo_name 12)) \<and> queue_of still_env 2 t = (Some (demo_name 12), [demo_name 13]))
     (demo_queue 1200)"
  by (rule wp_mono [OF advance_queue_refines [where ws = "[demo_name 12, demo_name 13]"]])
    (simp_all add: Let_def)

text \<open>
  Under every schedule of faults advancing a queue changes no order's status and no ticket.
\<close>

theorem advance_queue_keeps_statuses:
  "wp (AdvanceQueue E eid) (\<lambda>r t. map (\<lambda>o'. (o_ID o', o_Status o')) (orders t) = map (\<lambda>o'. (o_ID o', o_Status o')) (orders s) \<and>
     tickets t = tickets s) s"
  using keeps_wp [OF statuses.keeps_AdvanceQueue, where s = s and c1 = "order_ledger s"]
  by (simp add: order_ledger_def)

text \<open>
  C14. When the turn of the active order has run out, \<open>CheckAndAdvanceExpiredActive\<close> cancels the
  order and advances the queue \<open>twice\<close>, once inside \<open>CancelOrder\<close> and once itself: the order that was
  promoted first loses the slot at once and is in the queue no longer, although it stays pending.
\<close>

theorem expired_turn_advances_twice:
  assumes "reliable E" and "has_redis E" and "uuid_Parse E v = Some oid" and "v \<noteq> []"
    and "find_row (\<lambda>r. o_ID r = oid) (orders s) = Some order" and "o_EventID order = eid"
    and "slot_is E eid v s" and "waiting_is E eid ws s" and "turn_ends E eid e s" and "\<And>n. e \<le> Unix (clock E n)"
    and "live = (\<lambda>w. live_order E (orders s) w \<and> uuid_Parse E w \<noteq> Some oid)"
  shows "wp (CheckAndAdvanceExpiredActive E eid)
    (\<lambda>_ t. queue_of E eid t = advance_spec live (snd (advance_spec live ws)) \<and> live_order E (orders t) = live \<and>
       map_option o_Status (find_row (\<lambda>r. o_ID r = oid) (orders t)) = Some ''CANCELLED'') s"
  by (rule wp_expired_turn [OF assms]) simp

theorem expired_turn_witness:
  "wp (CheckAndAdvanceExpiredActive still_env 2)
    (\<lambda>_ t. queue_of still_env 2 t = (Some (demo_name 13), []) \<and> live_order still_env (orders t) (demo_name 12)) (demo_queue 900)"
  by (rule wp_mono [OF expired_turn_advances_twice [where v = "demo_name 11" and oid = 11 and order = "demo_order 11"
        and ws = "[demo_name 12, demo_name 13]" and e = 900, OF _ _ _ _ _ _ _ _ _ _ refl]])
    (auto simp: Unix_def Second_def)

text \<open>
  A new order joins behind the others: while the turn in the slot has not run out, the order is
  appended to the waiting list, the slot and the order of the others do not change, and the answer is
  the place: the active order is first, so an order that finds \<open>n\<close> waiting is at position \<open>n + 2\<close> with
  \<open>n + 1\<close> people ahead.
\<close>

theorem join_queue_behind:
  assumes "reliable E" and "has_redis E" and "slot_is E eid v s" and "v \<noteq> []" and "turn_ends E eid e s"
    and "\<And>n. Unix (clock E n) \<le> e" and "waiting_is E eid ws s" and "0 < fuel"
  shows "wp (EnqueueOrder fuel E oid eid)
    (\<lambda>r t. r = Some (waiting_response E oid eid (int (length ws) + 2)) \<and> queue_of E eid t = (Some v, ws @ [uuid_String E oid])) s"
  by (rule wp_enqueue_busy [OF assms]) simp

theorem join_queue_behind_witness:
  "wp (EnqueueOrder 1 still_env 14 2)
    (\<lambda>r t. queue_of still_env 2 t = (Some (demo_name 11), [demo_name 12, demo_name 13, demo_name 14])) (demo_queue 1200)"
  by (rule wp_mono [OF join_queue_behind [where e = 1200 and v = "demo_name 11" and ws = "[demo_name 12, demo_name 13]"]])
    (simp_all add: Unix_def Second_def)

text \<open>
  C39. Joining the queue returns: without faults the recursion of \<open>EnqueueOrder\<close> needs at most two
  levels more than there are waiting orders, from any state, since every level that recurs either
  empties the slot or takes an order off the waiting list.
\<close>

theorem join_queue_returns:
  assumes "reliable E" and "uuid_laws E" and "waiting_len E eid s + 2 \<le> fuel"
  shows "wp (EnqueueOrder fuel E oid eid) (\<lambda>r t. r \<noteq> None) s"
  using enqueue_loop_returns [OF assms(1,2) _ assms(3)] assms(1)
  by (cases "has_redis E") (simp_all add: EnqueueOrder_def exec_expires_at_def Let_def del: not_None_eq)

theorem join_queue_returns_witness:
  "wp (EnqueueOrder 4 still_env 14 2) (\<lambda>r t. r \<noteq> None) (demo_queue 900)"
  by (rule join_queue_returns) (simp_all add: waiting_len_def waiting_is_raw [where ws = "[demo_name 12, demo_name 13]"])

text \<open>
  C16. Cancelling an order with one item gives its tickets back: the order is \<open>CANCELLED\<close>, and the
  Redis counter and the row of the event service both gain the quantity, whatever the status of the
  order was before.
\<close>

theorem cancel_order_returns_stock:
  assumes "reliable E" and "secret_accepted E" and "has_redis E" and "has_events E" and "uuid_laws E"
    and "uuid_Parse E v = Some oid" and "find_row (\<lambda>r. o_ID r = oid) (orders s) = Some order"
    and "filter (\<lambda>i. oi_OrderID i = oid) (order_items s) = [i]" and "0 < sint (oi_Quantity i)"
    and "row_left (oi_TicketTypeID i) n a s" and "sint (oi_Quantity i) \<le> n - a"
    and "counter (redis s) (stock_key (uuid_String E (oi_TicketTypeID i))) = Some a"
  shows "wp (CancelOrder E v)
    (\<lambda>r t. r = Inr () \<and> row_left (oi_TicketTypeID i) n (a + sint (oi_Quantity i)) t \<and>
       counter (redis t) (stock_key (uuid_String E (oi_TicketTypeID i))) = Some (a + sint (oi_Quantity i)) \<and>
       map_option o_Status (find_row (\<lambda>r. o_ID r = oid) (orders t)) = Some ''CANCELLED'' \<and> tickets t = tickets s) s"
  by (rule wp_CancelOrder_stock [OF assms]) auto

theorem cancel_order_returns_stock_witness:
  "wp (CancelOrder still_env (demo_name 12))
    (\<lambda>r t. r = Inr () \<and> row_left 1 3 1 t \<and> counter (redis t) (stock_key (demo_name 1)) = Some 1) (demo_queue 1200)"
  by (rule wp_mono [OF cancel_order_returns_stock [where oid = 12 and order = "demo_order 12" and i = "demo_item 12" and n = 3 and a = 0]])
    simp_all

text \<open>
  Nothing guards \<open>CancelOrder\<close> against an order that is cancelled already: cancelling it twice
  gives its tickets back twice, the second time tickets that other buyers hold.
\<close>

theorem cancel_order_twice_returns_stock_twice:
  assumes "reliable E" and "secret_accepted E" and "has_redis E" and "has_events E" and "uuid_laws E"
    and "uuid_Parse E v = Some oid" and "find_row (\<lambda>r. o_ID r = oid) (orders s) = Some order"
    and "filter (\<lambda>i. oi_OrderID i = oid) (order_items s) = [i]" and "0 < sint (oi_Quantity i)"
    and "row_left (oi_TicketTypeID i) n a s" and "2 * sint (oi_Quantity i) \<le> n - a"
    and "counter (redis s) (stock_key (uuid_String E (oi_TicketTypeID i))) = Some a"
  shows "wp (do { CancelOrder E v; CancelOrder E v })
    (\<lambda>r t. r = Inr () \<and> row_left (oi_TicketTypeID i) n (a + 2 * sint (oi_Quantity i)) t \<and>
       counter (redis t) (stock_key (uuid_String E (oi_TicketTypeID i))) = Some (a + 2 * sint (oi_Quantity i))) s"
proof -
  let ?q = "sint (oi_Quantity i)"
  note E = assms(1-6)
  have sold: "?q \<le> n - a" "?q \<le> n - (a + ?q)" using assms(9,11) by simp_all
  show ?thesis
    unfolding wp_bind
  proof (rule wp_CancelOrder_stock [OF E assms(7-10) sold(1) assms(12)])
    fix t
    assume l: "row_left (oi_TicketTypeID i) n (a + ?q) t"
      and c: "counter (redis t) (stock_key (uuid_String E (oi_TicketTypeID i))) = Some (a + ?q)"
      and it: "order_items t = order_items s"
      and st: "\<exists>order'. find_row (\<lambda>r. o_ID r = oid) (orders t) = Some order' \<and> o_Status order' = ''CANCELLED''"
    from st obtain order' where o': "find_row (\<lambda>r. o_ID r = oid) (orders t) = Some order'" by auto
    have item: "filter (\<lambda>i. oi_OrderID i = oid) (order_items t) = [i]" using assms(8) it by simp
    show "wp (CancelOrder E v) (\<lambda>r t. r = Inr () \<and> row_left (oi_TicketTypeID i) n (a + 2 * ?q) t \<and>
       counter (redis t) (stock_key (uuid_String E (oi_TicketTypeID i))) = Some (a + 2 * ?q)) t"
      by (rule wp_CancelOrder_stock [OF E o' item assms(9) l sold(2) c]) (simp add: algebra_simps)
  qed
qed

theorem cancel_order_twice_witness:
  "wp (do { CancelOrder still_env (demo_name 12); CancelOrder still_env (demo_name 12) })
    (\<lambda>r t. row_left 1 3 2 t \<and> counter (redis t) (stock_key (demo_name 1)) = Some 2) (demo_queue 1200)"
  by (rule wp_mono [OF cancel_order_twice_returns_stock_twice
        [where oid = 12 and order = "demo_order 12" and i = "demo_item 12" and n = 3 and a = 0]]) simp_all

text \<open>
  The invariants of the stores survive every queue operation under every schedule of faults:
  cancelling, joining, the expiry check, asking for the status, and leaving the queue keep every
  stock counter non-negative and every ticket type within its quantity.
\<close>

theorem queue_keeps_stores:
  assumes "store_ok s"
  shows "wp (CancelOrder E v) (\<lambda>_. store_ok) s \<and> wp (EnqueueOrder fuel E oid eid) (\<lambda>_. store_ok) s \<and>
    wp (CheckAndAdvanceExpiredActive E eid) (\<lambda>_. store_ok) s \<and>
    wp (GetOrderQueueStatus E v user) (\<lambda>_. store_ok) s \<and> wp (CancelOrderInQueue E v user) (\<lambda>_. store_ok) s"
  by (intro conjI keeps_wp [where I = store_ok] assms store.keeps_CancelOrder store.keeps_EnqueueOrder
      store.keeps_CheckAndAdvance store.keeps_GetOrderQueueStatus store.keeps_CancelOrderInQueue)

theorem queue_keeps_stores_witness:
  "wp (CancelOrderInQueue (still_env\<lparr>outcome := (\<lambda>n. if even n then Delivered else Lost_reply)\<rparr>) (demo_name 12) [])
     (\<lambda>_. store_ok) (demo_queue 1200)"
  using queue_keeps_stores [OF demo_store_ok] by blast

text \<open>
  Only its owner may ask for the place of an order or give it up: for another user both
  operations fail and change nothing, whatever fails on the way.
\<close>

theorem queue_only_for_owner:
  assumes "uuid_Parse E v = Some oid" and "find_row (\<lambda>r. o_ID r = oid) (orders s) = Some order"
    and "user \<noteq> []" and "uuid_String E (o_UserID order) \<noteq> user"
  shows "wp (GetOrderQueueStatus E v user) (\<lambda>r t. \<not> is_ok r \<and> same_but_tick s t) s \<and>
    wp (CancelOrderInQueue E v user) (\<lambda>r t. \<not> is_ok r \<and> same_but_tick s t) s"
  using assms by (auto simp: GetOrderQueueStatus_def CancelOrderInQueue_def simp del: wp_bindE intro!: wp_read_order)

theorem queue_only_for_owner_witness:
  "wp (CancelOrderInQueue still_env (demo_name 12) (demo_name 6)) (\<lambda>r t. \<not> is_ok r \<and> same_but_tick (demo_queue 1200) t) (demo_queue 1200)"
  using queue_only_for_owner [of still_env "demo_name 12" 12 "demo_queue 1200" "demo_order 12" "demo_name 6"] by simp

text \<open>
  A paid order cannot be cancelled through the queue: \<open>CancelOrderInQueue\<close> fails and changes
  nothing, whatever fails on the way.
\<close>

theorem paid_order_stays:
  assumes "uuid_Parse E v = Some oid" and "find_row (\<lambda>r. o_ID r = oid) (orders s) = Some order"
    and "paid_status (o_Status order)"
  shows "wp (CancelOrderInQueue E v user) (\<lambda>r t. \<not> is_ok r \<and> same_but_tick s t) s"
  using assms by (auto simp: CancelOrderInQueue_def simp del: wp_bindE intro!: wp_read_order)

theorem paid_order_stays_witness:
  "wp (CancelOrderInQueue still_env (demo_name 12) (demo_name 5)) (\<lambda>r t. \<not> is_ok r)
     ((demo_queue 1200)\<lparr>orders := [status_row 0 ''PAID'' (demo_order 12)]\<rparr>)"
  by (rule wp_mono [OF paid_order_stays [where oid = 12 and order = "status_row 0 ''PAID'' (demo_order 12)"]])
    (simp_all add: paid_status_def)

text \<open>
  The status of a waiting order is its place: a pending order that stands at index \<open>i\<close> of the
  waiting list, while neither the turn in the slot nor its own deadline has run out, is told
  \<open>WAITING\<close>, position \<open>i + 2\<close>, \<open>i + 1\<close> people ahead, and nothing changes.
\<close>

theorem waiting_order_sees_its_place:
  assumes "reliable E" and "has_redis E" and "uuid_Parse E v = Some oid"
    and "find_row (\<lambda>r. o_ID r = oid) (orders s) = Some order" and "o_Status order = ''PENDING''"
    and "user = [] \<or> uuid_String E (o_UserID order) = user" and "o_EventID order = eid"
    and "\<And>n. clock E n \<le> o_ExpiresAt order" and "slot_is E eid w s" and "w \<noteq> []" and "w \<noteq> v"
    and "turn_ends E eid e s" and "\<And>n. Unix (clock E n) < e" and "waiting_is E eid ws s" and "index_of v ws = Some i"
  shows "wp (GetOrderQueueStatus E v user)
    (\<lambda>r t. same_but_tick s t \<and> (\<exists>res. r = Inr res \<and> qs_Status res = ''WAITING'' \<and> qs_Position res = int i + 2 \<and>
       qs_PeopleAhead res = int i + 1 \<and> qs_SecondsRemaining res = 0)) s"
proof -
  have st: "slot_is E eid w (s\<lparr>tick := n\<rparr>)" "turn_ends E eid e (s\<lparr>tick := n\<rparr>)" "waiting_is E eid ws (s\<lparr>tick := n\<rparr>)" for n
    using assms(9,12,14) by (simp_all add: slot_is_def turn_ends_def waiting_is_def)
  have ge: "\<not> o_ExpiresAt order < clock E n" "\<not> e \<le> Unix (clock E n)" for n
    using assms(8,13) by (simp_all add: not_less not_le)
  have head: "\<not> (user \<noteq> [] \<and> uuid_String E (o_UserID order) \<noteq> user)" "\<not> paid_status ''PENDING''"
    using assms(6) by (auto simp: paid_status_def)
  show ?thesis
    using assms(1-5,7,10,11,15) head(1)
    by (simp add: GetOrderQueueStatus_def GetOrder_def head(2), intro wp_with_items)
      (simp add: ge CheckAndAdvanceExpiredActive_def queue_place_def slot_is_get [OF assms(9)] turn_ends_get [OF assms(12)]
        turn_ends_parse [OF assms(12)] Let_def do_lrange_def waiting_is_rlist [OF assms(14)])
qed

theorem waiting_order_sees_its_place_witness:
  "wp (GetOrderQueueStatus still_env (demo_name 13) (demo_name 5))
    (\<lambda>r t. \<exists>res. r = Inr res \<and> qs_Status res = ''WAITING'' \<and> qs_Position res = 3) (demo_queue 1200)"
  by (rule wp_mono [OF waiting_order_sees_its_place [where oid = 13 and order = "demo_order 13" and eid = 2 and w = "demo_name 11"
        and e = 1200 and ws = "[demo_name 12, demo_name 13]" and i = 1]])
    (auto simp: Unix_def Second_def)

end
