(* ===== verification/Ticket_Checkout.thy ===== *)
theory Ticket_Checkout
  imports Ticket_Queue_Spec
begin

text \<open>
  The life of an order (\<open>ticket_service.go\<close>): \<open>CreateOrder\<close> with its duplicate guard, idempotency key,
  reservation and rollbacks; \<open>HandlePaymentSuccess\<close>, which issues the tickets; the Midtrans token and
  notification; and the callers that drive them, the Kafka consumers (\<open>consumer/\<close>) and the expiry worker
  (\<open>worker/\<close>). The Midtrans clients are parameters: \<open>snap\<close> answers \<open>CreateTransaction\<close>, \<open>core\<close> answers
  \<open>CheckTransaction\<close>.
\<close>

section \<open>Creating an order\<close>

record CreateOrderRequest =
  req_EventID :: string
  req_TicketTypeID :: string
  req_Quantity :: int32
  req_Price :: f64
  req_IdempotencyKey :: string

definition idempotency_key :: "string \<Rightarrow> string" where
  "idempotency_key k = ''order:idempotency:'' @ k"

text \<open>
  Step 2: \<open>Inl r\<close> answers the request at once, \<open>Inr key\<close> goes on with the Redis key that was claimed
  (empty when there is none).
\<close>

definition claim_key :: "env \<Rightarrow> string \<Rightarrow> ('z ticket_db_scheme, (gerr + Order) + string) state" where
  "claim_key E key = do {
     claimed \<leftarrow> redis_cmd E (do_setnx key ''PROCESSING'' (5 * Minute));
     ret (if claimed = Inr False then Inl (Inl ErrOrderProcessing) else Inr key) }"

definition idempotency_claim :: "env \<Rightarrow> string \<Rightarrow> ('z ticket_db_scheme, (gerr + Order) + string) state" where
  "idempotency_claim E k =
     (if k = [] \<or> \<not> has_redis E then ret (Inr [])
      else do {
        cached \<leftarrow> redis_cmd E (do_get (idempotency_key k));
        case cached of
          Inl e \<Rightarrow> claim_key E (idempotency_key k)
        | Inr v \<Rightarrow>
            if v = ''PROCESSING'' then ret (Inl (Inl ErrOrderProcessing))
            else (case uuid_Parse E v of
                    None \<Rightarrow> claim_key E (idempotency_key k)
                  | Some oid \<Rightarrow> do {
                      order \<leftarrow> GetOrder E oid;
                      case order of
                        Inr o' \<Rightarrow> ret (Inl (Inr o'))
                      | Inl e \<Rightarrow> claim_key E (idempotency_key k) }) })"

definition drop_claim :: "env \<Rightarrow> string \<Rightarrow> ('z ticket_db_scheme, unit) state" where
  "drop_claim E key = (if key \<noteq> [] \<and> has_redis E then do { redis_cmd E (do_del [key]); ret () } else ret ())"

text \<open>Step 2.5: why the ticket type cannot be sold now; an unreachable event service refuses nothing.\<close>

definition type_refusal :: "time \<Rightarrow> InternalTicketType \<Rightarrow> gerr option" where
  "type_refusal now tt =
     (if \<not> itt_IsActive tt then Some ErrTicketInactive
      else if (case itt_SaleStart tt of None \<Rightarrow> False | Some t \<Rightarrow> now < t) then Some ErrSaleNotStarted
      else if (case itt_SaleEnd tt of None \<Rightarrow> False | Some t \<Rightarrow> t < now) then Some ErrSaleEnded
      else if (case itt_EventEndDate tt of None \<Rightarrow> False | Some t \<Rightarrow> t < now) then Some ErrEventEnded
      else if itt_EventStatus tt \<noteq> [] \<and> itt_EventStatus tt \<noteq> ''published'' then Some (Err_New ''event is not published or active'')
      else None)"

definition check_ticket_type :: "env \<Rightarrow> string \<Rightarrow> ('z ticket_db_scheme, gerr option) state" where
  "check_ticket_type E tid =
     (if \<not> has_events E then ret None
      else do {
        tt \<leftarrow> Client_GetTicketType E tid;
        case tt of
          Inl e \<Rightarrow> ret None
        | Inr t \<Rightarrow> do { now \<leftarrow> Now E; ret (type_refusal now t) } })"

definition reserve_error :: "gerr \<Rightarrow> gerr" where
  "reserve_error e =
     (if errors_Is e ErrSoldOut then ErrSoldOut
      else if errors_Is e ErrSaleEnded \<or> errors_Is e ErrSaleNotStarted \<or> errors_Is e ErrEventEnded \<or> errors_Is e ErrTicketInactive then e
      else Err_New ''failed to reserve tickets, might be sold out'')"

definition subtotal :: "CreateOrderRequest \<Rightarrow> f64" where
  "subtotal req = fmul (f_of_int (sint (req_Quantity req))) (req_Price req)"

text \<open>Steps 4 and 5: the rows of the order, and the rollback of the reservation when they fail. The
  item's price is the subtotal, as in the code.\<close>

definition record_order :: "env \<Rightarrow> uuid \<Rightarrow> uuid \<Rightarrow> uuid \<Rightarrow> CreateOrderRequest \<Rightarrow> ('z ticket_db_scheme, Order) go" where
  "record_order E uid eid tid req = do {
     let amount = numeric_of_f64 6 (subtotal req);
     now \<leftarrow> Now E;
     order \<leftarrow> Queries_CreateOrder E uid eid amount ''PENDING'' (now + 15 * Minute);
     case order of
       Inl e \<Rightarrow> do { ReleaseTicketStock E (req_TicketTypeID req) (req_Quantity req); err e }
     | Inr o' \<Rightarrow> do {
         item \<leftarrow> CreateOrderItem E (o_ID o') tid (req_Quantity req) amount amount;
         case item of
           Inr i \<Rightarrow> ok o'
         | Inl e \<Rightarrow> do {
             UpdateOrderStatus E (o_ID o') ''CANCELLED'';
             ReleaseTicketStock E (req_TicketTypeID req) (req_Quantity req);
             err (Err_New ''failed to initialize order items'') } } }"

definition order_created_event :: "env \<Rightarrow> string \<Rightarrow> CreateOrderRequest \<Rightarrow> Order \<Rightarrow> json option" where
  "order_created_event E user req o' =
     Marshal (JObj [(''amount'', JNum (subtotal req)), (''order_id'', JStr (uuid_String E (o_ID o'))), (''user_id'', JStr user)])"

text \<open>Steps 6 to 8; \<open>None\<close> when \<open>EnqueueOrder\<close> has not returned within the fuel.\<close>

definition announce_order ::
    "nat \<Rightarrow> env \<Rightarrow> string \<Rightarrow> CreateOrderRequest \<Rightarrow> string \<Rightarrow> Order \<Rightarrow> uuid \<Rightarrow> ('z ticket_db_scheme, (gerr + Order) option) state" where
  "announce_order fuel E user req key o' eid = do {
     (if key \<noteq> [] \<and> has_redis E
      then do { redis_cmd E (do_set key (uuid_String E (o_ID o')) (Some (24 * Hour))); ret () } else ret ());
     Publish E ''order.created'' (uuid_String E (o_ID o')) (order_created_event E user req o');
     place \<leftarrow> EnqueueOrder fuel E (o_ID o') eid;
     ret (map_option (\<lambda>_. Inr o') place) }"

text \<open>Steps 4 to 8, once the tickets are reserved.\<close>

definition store_order ::
    "nat \<Rightarrow> env \<Rightarrow> string \<Rightarrow> CreateOrderRequest \<Rightarrow> uuid \<Rightarrow> uuid \<Rightarrow> uuid \<Rightarrow> string \<Rightarrow> ('z ticket_db_scheme, (gerr + Order) option) state" where
  "store_order fuel E user req uid eid tid key = do {
     recorded \<leftarrow> record_order E uid eid tid req;
     case recorded of
       Inl e \<Rightarrow> do { drop_claim E key; ret (Some (Inl e)) }
     | Inr o' \<Rightarrow> announce_order fuel E user req key o' eid }"

text \<open>Steps 2.5 to 8, once the idempotency key is claimed.\<close>

definition take_order ::
    "nat \<Rightarrow> env \<Rightarrow> string \<Rightarrow> CreateOrderRequest \<Rightarrow> uuid \<Rightarrow> uuid \<Rightarrow> uuid \<Rightarrow> string \<Rightarrow> ('z ticket_db_scheme, (gerr + Order) option) state" where
  "take_order fuel E user req uid eid tid key = do {
     refusal \<leftarrow> check_ticket_type E (req_TicketTypeID req);
     case refusal of
       Some e \<Rightarrow> do { drop_claim E key; ret (Some (Inl e)) }
     | None \<Rightarrow> do {
         reserved \<leftarrow> ReserveTicketStock E (req_TicketTypeID req) (req_Quantity req);
         case reserved of
           Inl e \<Rightarrow> do { drop_claim E key; ret (Some (Inl (reserve_error e))) }
         | Inr u \<Rightarrow> store_order fuel E user req uid eid tid key } }"

definition CreateOrder ::
    "nat \<Rightarrow> env \<Rightarrow> string \<Rightarrow> CreateOrderRequest \<Rightarrow> ('z ticket_db_scheme, (gerr + Order) option) state" where
  "CreateOrder fuel E user req =
     (case uuid_Parse E user of None \<Rightarrow> ret (Some (Inl (Err_New ''invalid user id'')))
      | Some uid \<Rightarrow>
     (case uuid_Parse E (req_EventID req) of None \<Rightarrow> ret (Some (Inl (Err_New ''invalid event id'')))
      | Some eid \<Rightarrow>
     (case uuid_Parse E (req_TicketTypeID req) of None \<Rightarrow> ret (Some (Inl (Err_New ''invalid ticket type id'')))
      | Some tid \<Rightarrow> do {
         existing \<leftarrow> GetActivePendingOrderByUserAndEvent E uid eid;
         if (case existing of Inl e \<Rightarrow> False | Inr o' \<Rightarrow> o_ID o' \<noteq> uuid_Nil)
         then ret (Some (Inl ErrActivePendingOrderExists))
         else do {
           claim \<leftarrow> idempotency_claim E (req_IdempotencyKey req);
           case claim of
             Inl answer \<Rightarrow> ret (Some answer)
           | Inr key \<Rightarrow> take_order fuel E user req uid eid tid key } })))"

section \<open>Payment\<close>

definition New_uuid :: "env \<Rightarrow> ('z infra_scheme, uuid) state" where
  "New_uuid E = do { n \<leftarrow> step; ret (fresh E n) }"

definition ticket_created_event :: "env \<Rightarrow> uuid \<Rightarrow> Ticket \<Rightarrow> json option" where
  "ticket_created_event E eid t =
     Marshal (JObj [(''event_id'', JStr (uuid_String E eid)), (''status'', JStr (tk_Status t)),
       (''ticket_code'', JStr (tk_TicketCode t)), (''ticket_id'', JStr (uuid_String E (tk_ID t)))])"

definition issue_ticket :: "env \<Rightarrow> uuid \<Rightarrow> Order \<Rightarrow> OrderItem \<Rightarrow> ('z ticket_db_scheme, unit) state" where
  "issue_ticket E oid order item = do {
     code \<leftarrow> New_uuid E;
     t \<leftarrow> CreateTicket E oid (o_UserID order) (o_EventID order) (oi_TicketTypeID item) (uuid_String E code);
     case t of
       Inl e \<Rightarrow> ret ()
     | Inr tk \<Rightarrow> do {
         Publish E ''ticket.created'' (uuid_String E (tk_ID tk)) (ticket_created_event E (o_EventID order) tk);
         ret () } }"

definition issue_tickets :: "env \<Rightarrow> uuid \<Rightarrow> Order \<Rightarrow> OrderItem list \<Rightarrow> ('z ticket_db_scheme, unit) state" where
  "issue_tickets E oid order items =
     for_each items (\<lambda>item. for_each [0..<nat (sint (oi_Quantity item))] (\<lambda>_. issue_ticket E oid order item))"

definition HandlePaymentSuccess :: "env \<Rightarrow> string \<Rightarrow> ('z ticket_db_scheme, unit) go" where
  "HandlePaymentSuccess E order_str =
     (case uuid_Parse E order_str of
        None \<Rightarrow> err ErrParse
      | Some oid \<Rightarrow> check (GetOrder E oid) (\<lambda>order.
          if o_Status order = ''PAID'' then ok ()
          else check (UpdateOrderStatus E oid ''PAID'') (\<lambda>_. check (ListOrderItems E oid) (\<lambda>items. do {
            issue_tickets E oid order items;
            AdvanceQueue E (o_EventID order);
            ok () }))))"

text \<open>\<open>ORD_<uuid without dashes>_<unix seconds>\<close>.\<close>

definition midtrans_order_id :: "env \<Rightarrow> uuid \<Rightarrow> time \<Rightarrow> string" where
  "midtrans_order_id E oid now =
     ''ORD_'' @ filter (\<lambda>c. c \<noteq> CHR ''-'') (uuid_String E oid) @ ''_'' @ show_int (Unix now)"

definition CreatePaymentToken ::
    "env \<Rightarrow> (nat \<Rightarrow> string \<Rightarrow> int \<Rightarrow> gerr + string) \<Rightarrow> string \<Rightarrow> string \<Rightarrow> ('z ticket_db_scheme, string \<times> string) go" where
  "CreatePaymentToken E snap order_str user_str =
     (case uuid_Parse E order_str of
        None \<Rightarrow> err ErrParse
      | Some oid \<Rightarrow> check (GetOrder E oid) (\<lambda>order.
          if user_str \<noteq> [] \<and> uuid_String E (o_UserID order) \<noteq> user_str
            then err (Err_New ''access denied: order does not belong to authenticated user'')
          else if o_Status order \<noteq> ''PENDING'' then err (Err_New ''order is not pending'')
          else do {
            turn \<leftarrow> (if has_redis E then do {
                CheckAndAdvanceExpiredActive E (o_EventID order);
                active \<leftarrow> redis_cmd E (do_get (active_key E (o_EventID order)));
                ret (value_or [] active = [] \<or> value_or [] active = uuid_String E (o_ID order)) }
              else ret True);
            if \<not> turn then err (Err_New ''Belum giliran Anda untuk melakukan pembayaran tiket ini. Harap tunggu di antrian.'')
            else do {
              let amount = (case Float64Value (o_TotalAmount order) of None \<Rightarrow> Fin 0 | Some x \<Rightarrow> x);
              now \<leftarrow> Now E;
              let mid = midtrans_order_id E (o_ID order) now;
              check (external E (\<lambda>n. ret (snap n mid (f_int64 amount)))) (\<lambda>token. ok (token, mid)) } }))"

fun split_on :: "char \<Rightarrow> string \<Rightarrow> string list" where
  "split_on c [] = [[]]"
| "split_on c (x # xs) = (if x = c then [] # split_on c xs
     else (case split_on c xs of [] \<Rightarrow> [[x]] | p # ps \<Rightarrow> (x # p) # ps))"

definition order_part :: "string \<Rightarrow> string" where
  "order_part raw = (let parts = split_on CHR ''_'' raw
     in if 2 \<le> length parts \<and> parts ! 0 = ''ORD'' then parts ! 1 else parts ! 0)"

text \<open>The transaction and fraud status: Midtrans' own answer, or the payload's when Midtrans cannot be
  asked; an empty status counts as settled when the payload reports code 200 or 201.\<close>

definition midtrans_status :: "(string \<Rightarrow> json option) \<Rightarrow> gerr + string \<times> string \<Rightarrow> string \<times> string" where
  "midtrans_status payload tx =
     (let (status, fraud) = (case tx of Inr p \<Rightarrow> p
            | Inl e \<Rightarrow> (string_or_empty (payload ''transaction_status''), string_or_empty (payload ''fraud_status'')));
          code = as_string (payload ''status_code'')
      in (if status = [] \<and> (code = Some ''200'' \<or> code = Some ''201'') then ''settlement'' else status, fraud))"

definition HandleMidtransNotification ::
    "env \<Rightarrow> (nat \<Rightarrow> string \<Rightarrow> gerr + string \<times> string) \<Rightarrow> (string \<Rightarrow> json option) \<Rightarrow> ('z ticket_db_scheme, unit) go" where
  "HandleMidtransNotification E core payload =
     (case as_string (payload ''order_id'') of
        None \<Rightarrow> err (Err_New ''invalid order_id in payload'')
      | Some raw \<Rightarrow>
     (case uuid_Parse E (order_part raw) of
        None \<Rightarrow> err (Err_Wrap ''invalid order_id in notification'' ErrParse)
      | Some oid \<Rightarrow> do {
          tx \<leftarrow> external E (\<lambda>n. ret (core n raw));
          let (status, fraud) = midtrans_status payload tx;
          if status = ''capture'' then
            (if fraud = ''challenge'' then ok () else HandlePaymentSuccess E (uuid_String E oid))
          else if status = ''settlement'' \<or> status = ''success'' then HandlePaymentSuccess E (uuid_String E oid)
          else if status = ''cancel'' \<or> status = ''deny'' \<or> status = ''expire'' then HandlePaymentFailed E (uuid_String E oid)
          else ok () }))"

section \<open>Consumers and the expiry worker\<close>

text \<open>\<open>PaymentConsumer.HandleMessage\<close>.\<close>

definition payment_reference :: "json option \<Rightarrow> string option" where
  "payment_reference body = (case Unmarshal_map body of None \<Rightarrow> None
     | Some payload \<Rightarrow> if string_or_empty (payload ''reference_type'') = ''TICKET'' then as_string (payload ''reference_id'') else None)"

definition PaymentConsumer_HandleMessage :: "env \<Rightarrow> message \<Rightarrow> ('z ticket_db_scheme, unit) go" where
  "PaymentConsumer_HandleMessage E msg =
     (if msg_Topic msg = ''payment.success'' then
        (case payment_reference (msg_Value msg) of None \<Rightarrow> ok () | Some order_str \<Rightarrow> HandlePaymentSuccess E order_str)
      else if msg_Topic msg = ''payment.failed'' then
        (case payment_reference (msg_Value msg) of None \<Rightarrow> ok () | Some order_str \<Rightarrow> HandlePaymentFailed E order_str)
      else ok ())"

text \<open>\<open>EventConsumer.HandleMessage\<close>.\<close>

definition EventConsumer_HandleMessage :: "env \<Rightarrow> message \<Rightarrow> ('z ticket_db_scheme, unit) go" where
  "EventConsumer_HandleMessage E msg =
     (if msg_Topic msg = ''ticket.scanned'' then
        (case Unmarshal_map (msg_Value msg) of
           None \<Rightarrow> ok ()
         | Some payload \<Rightarrow>
             (case as_string (payload ''ticket_code'') of
                None \<Rightarrow> ok ()
              | Some code \<Rightarrow> do {
                  t \<leftarrow> Queries_GetTicketByCode E code;
                  case t of
                    Inl e \<Rightarrow> ok ()
                  | Inr tk \<Rightarrow> do { UpdateTicketStatus E (tk_ID tk) ''USED''; ok () } }))
      else ok ())"

text \<open>One tick of the worker, every two seconds.\<close>

definition processExpiredOrders :: "env \<Rightarrow> ('z ticket_db_scheme, unit) state" where
  "processExpiredOrders E = do {
     expired \<leftarrow> GetExpiredPendingOrders E;
     case expired of
       Inl e \<Rightarrow> ret ()
     | Inr rows \<Rightarrow> for_each rows (\<lambda>o'. do { CancelOrder E (uuid_String E (o_ID o')); ret () }) }"

section \<open>Reading orders and tickets\<close>

definition ListMyTickets :: "env \<Rightarrow> string \<Rightarrow> ('z ticket_db_scheme, Ticket list) go" where
  "ListMyTickets E user = (case uuid_Parse E user of None \<Rightarrow> err (Err_New ''invalid user id'')
     | Some uid \<Rightarrow> ListTicketsByUser E uid 100 0)"

definition ListMyOrders :: "env \<Rightarrow> string \<Rightarrow> ('z ticket_db_scheme, Order list) go" where
  "ListMyOrders E user = (case uuid_Parse E user of None \<Rightarrow> err (Err_New ''invalid user id'')
     | Some uid \<Rightarrow> ListOrdersByUser E uid 100 0)"

definition GetTicketByCode :: "env \<Rightarrow> string \<Rightarrow> ('z ticket_db_scheme, Ticket) go" where
  "GetTicketByCode E code = do {
     t \<leftarrow> Queries_GetTicketByCode E code;
     case t of
       Inr tk \<Rightarrow> ok tk
     | Inl e \<Rightarrow> (case uuid_Parse E code of
         None \<Rightarrow> err e
       | Some tid \<Rightarrow> do {
           by_id \<leftarrow> GetTicket E tid;
           case by_id of Inr tk \<Rightarrow> ok tk | Inl e' \<Rightarrow> err e }) }"

record EventGateStats =
  gs_EventID :: string
  gs_TotalTickets :: int
  gs_CheckedIn :: int
  gs_Remaining :: int
  gs_CheckInRate :: f64
  gs_Status :: string

definition gate_status :: "int \<Rightarrow> int \<Rightarrow> string" where
  "gate_status checked all =
     (if 0 < checked \<and> checked < all then ''IN_PROGRESS''
      else if 0 < checked \<and> checked = all then ''COMPLETED'' else ''NOT_STARTED'')"

definition check_in_rate :: "int \<Rightarrow> int \<Rightarrow> f64" where
  "check_in_rate checked all = (if 0 < all then fmul (fdiv (f_of_int checked) (f_of_int all)) (Fin 100) else Fin 0)"

definition used_status :: "string \<Rightarrow> bool" where
  "used_status st \<longleftrightarrow> st = ''CHECKED_IN'' \<or> st = ''USED''"

definition GetEventGateStats :: "env \<Rightarrow> string \<Rightarrow> ('z ticket_db_scheme, EventGateStats) go" where
  "GetEventGateStats E event =
     (case uuid_Parse E event of
        None \<Rightarrow> err (Err_Wrap ''invalid event_id'' ErrParse)
      | Some eid \<Rightarrow> bindE (Err_Wrap ''failed to list tickets for event'') (ListTicketsByEvent E eid) (\<lambda>rows.
          let all = int (length rows); checked = int (length (filter (\<lambda>t. used_status (tk_Status t)) rows))
          in ok \<lparr>gs_EventID = event, gs_TotalTickets = all, gs_CheckedIn = checked, gs_Remaining = all - checked,
                 gs_CheckInRate = check_in_rate checked all, gs_Status = gate_status checked all\<rparr>))"

end
