(* ===== verification/Ticket_Payment_Spec.thy ===== *)
theory Ticket_Payment_Spec
  imports Ticket_Checkout
begin

text \<open>
  What paying does: \<open>HandlePaymentSuccess\<close> issues the tickets of an order, exactly as many as were
  bought when nothing fails and never more whatever fails; what it does to orders that are paid or
  cancelled already; and the Midtrans token and notification around it.
\<close>

section \<open>Issuing tickets\<close>

text \<open>Rows a run may add: at most \<open>n\<close> active tickets of this order for its owner, and nothing else
  changes about orders, items and earlier tickets.\<close>

definition issues_at_most :: "uuid \<Rightarrow> Order \<Rightarrow> nat \<Rightarrow> 'z ticket_db_scheme \<Rightarrow> 'z ticket_db_scheme \<Rightarrow> bool" where
  "issues_at_most oid order n s t \<longleftrightarrow> orders t = orders s \<and> order_items t = order_items s \<and>
     (\<exists>new. tickets t = tickets s @ new \<and> length new \<le> n \<and>
       (\<forall>k \<in> set new. tk_OrderID k = oid \<and> tk_UserID k = o_UserID order \<and> tk_EventID k = o_EventID order \<and> tk_Status k = ''ACTIVE''))"

lemma issues_refl: "issues_at_most oid order n s s"
  by (simp add: issues_at_most_def)

lemma issues_trans:
  assumes "issues_at_most oid order m s t" and "issues_at_most oid order n t u"
  shows "issues_at_most oid order (m + n) s u"
proof -
  obtain a where a: "tickets t = tickets s @ a" "length a \<le> m"
      "\<forall>k \<in> set a. tk_OrderID k = oid \<and> tk_UserID k = o_UserID order \<and> tk_EventID k = o_EventID order \<and> tk_Status k = ''ACTIVE''"
    using assms(1) by (auto simp: issues_at_most_def)
  obtain b where b: "tickets u = tickets t @ b" "length b \<le> n"
      "\<forall>k \<in> set b. tk_OrderID k = oid \<and> tk_UserID k = o_UserID order \<and> tk_EventID k = o_EventID order \<and> tk_Status k = ''ACTIVE''"
    using assms(2) by (auto simp: issues_at_most_def)
  show ?thesis
    using assms a b unfolding issues_at_most_def by (intro conjI exI [of _ "a @ b"]) auto
qed

text \<open>The ticket is a row whatever becomes of the message about it.\<close>

lemma issue_ticket_at_most: "wp (issue_ticket E oid order item) (\<lambda>_. issues_at_most oid order 1 s) s"
  by (auto simp: issue_ticket_def New_uuid_def CreateTicket_def sql_def Publish_def wp_external Let_def issues_at_most_def
      split: outcome.split)

lemma for_each_sum:
  assumes step: "\<And>x s. x \<in> set xs \<Longrightarrow> wp (body x) (\<lambda>_. R (w x) s) s" and refl: "\<And>s. R 0 s s"
    and trans: "\<And>m n s t u. R m s t \<Longrightarrow> R n t u \<Longrightarrow> R (m + n) s u"
  shows "wp (for_each xs body) (\<lambda>_. R (sum_list (map w xs) :: nat) s) s"
  using step
proof (induction xs arbitrary: s)
  case Nil
  then show ?case by (simp add: refl)
next
  case (Cons x xs)
  have "wp (body x) (\<lambda>_ t. wp (for_each xs body) (\<lambda>_. R (sum_list (map w (x # xs))) s) t) s"
  proof (rule wp_mono [OF Cons.prems])
    fix u t assume t: "R (w x) s t"
    have "wp (for_each xs body) (\<lambda>_. R (sum_list (map w xs)) t) t" by (rule Cons.IH) (simp add: Cons.prems)
    then show "wp (for_each xs body) (\<lambda>_. R (sum_list (map w (x # xs))) s) t"
      by (rule wp_mono) (simp add: trans [OF t])
  qed simp
  then show ?case by simp
qed

definition bought :: "OrderItem list \<Rightarrow> nat" where
  "bought items = sum_list (map (\<lambda>i. nat (sint (oi_Quantity i))) items)"

lemma issue_tickets_at_most: "wp (issue_tickets E oid order items) (\<lambda>_. issues_at_most oid order (bought items) s) s"
  unfolding issue_tickets_def bought_def
proof (rule for_each_sum)
  fix item and s :: "'a ticket_db_scheme"
  have "wp (for_each [0..<nat (sint (oi_Quantity item))] (\<lambda>_. issue_ticket E oid order item))
      (\<lambda>_. issues_at_most oid order (sum_list (map (\<lambda>_. 1) [0..<nat (sint (oi_Quantity item))])) s) s"
    by (rule for_each_sum, rule issue_ticket_at_most, rule issues_refl, rule issues_trans)
  then show "wp (for_each [0..<nat (sint (oi_Quantity item))] (\<lambda>_. issue_ticket E oid order item))
      (\<lambda>_. issues_at_most oid order (nat (sint (oi_Quantity item))) s) s"
    by (simp add: sum_list_triv)
qed (auto intro: issues_refl issues_trans)

text \<open>
  The next \<open>k\<close> identifiers are new: they differ from each other and from those of the tickets, as
  random uuids do.
\<close>

definition fresh_window :: "env \<Rightarrow> nat \<Rightarrow> 'z ticket_db_scheme \<Rightarrow> bool" where
  "fresh_window E k s \<longleftrightarrow> inj_on (fresh E) {tick s..<tick s + k} \<and>
     (\<forall>n \<in> {tick s..<tick s + k}. fresh E n \<notin> tk_ID ` set (tickets s) \<and>
        uuid_String E (fresh E n) \<notin> tk_TicketCode ` set (tickets s) \<and> length (uuid_String E (fresh E n)) \<le> 100)"

definition issues_exactly :: "uuid \<Rightarrow> Order \<Rightarrow> nat \<Rightarrow> 'z ticket_db_scheme \<Rightarrow> 'z ticket_db_scheme \<Rightarrow> bool" where
  "issues_exactly oid order n s t \<longleftrightarrow> issues_at_most oid order n s t \<and> length (tickets t) = length (tickets s) + n"

lemma issues_exactly_refl: "issues_exactly oid order 0 s s"
  by (simp add: issues_exactly_def issues_refl)

lemma issues_exactly_trans:
  "issues_exactly oid order m s t \<Longrightarrow> issues_exactly oid order n t u \<Longrightarrow> issues_exactly oid order (m + n) s u"
  by (auto simp: issues_exactly_def intro: issues_trans)

lemma fresh_window_later:
  assumes "fresh_window E (3 + k) s" and "uuid_laws E"
    and "tickets t = tickets s @ [r]" "tk_ID r = fresh E (Suc (tick s))" "tk_TicketCode r = uuid_String E (fresh E (tick s))"
    and "tick t = tick s + 3"
  shows "fresh_window E k t"
proof -
  have inj: "inj_on (fresh E) {tick s..<tick s + (3 + k)}" using assms(1) by (simp add: fresh_window_def)
  have new: "fresh E n \<noteq> fresh E (tick s) \<and> fresh E n \<noteq> fresh E (Suc (tick s))" if "n \<in> {tick t..<tick t + k}" for n
    using inj_onD [OF inj, of n "tick s"] inj_onD [OF inj, of n "Suc (tick s)"] that assms(6) by auto
  have "inj_on (fresh E) {tick t..<tick t + k}" by (rule inj_on_subset [OF inj]) (simp add: assms(6))
  then show ?thesis
    using assms(1,6) new by (auto simp: fresh_window_def assms(3-5) uuid_String_inject [OF assms(2)])
qed

lemma issue_ticket_exactly:
  assumes E: "reliable E" "uuid_laws E" and o': "oid \<in> o_ID ` set (orders s)" and w: "fresh_window E (3 + k) s"
  shows "wp (issue_ticket E oid order item) (\<lambda>_ t. issues_exactly oid order 1 s t \<and> fresh_window E k t) s"
proof -
  have "tick s \<in> {tick s..<tick s + (3 + k)}" "Suc (tick s) \<in> {tick s..<tick s + (3 + k)}" by auto
  then have c: "length (uuid_String E (fresh E (tick s))) \<le> 100"
      "uuid_String E (fresh E (tick s)) \<notin> tk_TicketCode ` set (tickets s)" "fresh E (Suc (tick s)) \<notin> tk_ID ` set (tickets s)"
    using w by (auto simp: fresh_window_def)
  show ?thesis
    using E(1) c o'
    by (auto simp: issue_ticket_def New_uuid_def CreateTicket_def Let_def issues_exactly_def issues_at_most_def
        intro!: fresh_window_later [OF w E(2)])
qed

lemma issue_tickets_exactly:
  fixes s :: "'z ticket_db_scheme"
  assumes E: "reliable E" "uuid_laws E" and o': "oid \<in> o_ID ` set (orders s)" and w: "fresh_window E (3 * bought items) s"
  shows "wp (issue_tickets E oid order items) (\<lambda>_. issues_exactly oid order (bought items) s) s"
proof -
  let ?R = "\<lambda>n s (t :: 'z ticket_db_scheme). \<forall>k. oid \<in> o_ID ` set (orders s) \<longrightarrow> fresh_window E (3 * n + k) s \<longrightarrow>
    issues_exactly oid order n s t \<and> fresh_window E k t"
  have refl: "?R 0 s s" for s by (simp add: issues_exactly_refl)
  have trans: "?R (m + n) s u" if "?R m s t" "?R n t u" for m n s t u
  proof (intro allI impI)
    fix k assume o: "oid \<in> o_ID ` set (orders s)" and f: "fresh_window E (3 * (m + n) + k) s"
    then have "issues_exactly oid order m s t" "fresh_window E (3 * n + k) t"
      using that(1) [rule_format, OF o, of "3 * n + k"] by (simp_all add: algebra_simps)
    moreover from this(1) o have "oid \<in> o_ID ` set (orders t)" by (simp add: issues_exactly_def issues_at_most_def)
    ultimately show "issues_exactly oid order (m + n) s u \<and> fresh_window E k u"
      using that(2) issues_exactly_trans by blast
  qed
  have one: "wp (issue_ticket E oid order item) (\<lambda>_. ?R 1 s) s" for item and s :: "'z ticket_db_scheme"
  proof -
    obtain u t where run: "run_state (issue_ticket E oid order item) s = (u, t)" by (metis prod.exhaust)
    have "?R 1 s t"
      using issue_ticket_exactly [OF E, of oid s _ order item] by (auto simp: wp_run [OF run])
    then show ?thesis by (simp only: wp_run [OF run])
  qed
  have "wp (issue_tickets E oid order items) (\<lambda>_. ?R (bought items) s) s"
    unfolding issue_tickets_def bought_def
  proof (rule for_each_sum [where R = ?R, OF _ refl trans])
    fix item and s :: "'z ticket_db_scheme"
    have "wp (for_each [0..<nat (sint (oi_Quantity item))] (\<lambda>_. issue_ticket E oid order item))
        (\<lambda>_. ?R (sum_list (map (\<lambda>_. 1) [0..<nat (sint (oi_Quantity item))])) s) s"
      by (rule for_each_sum [where R = ?R, OF one refl trans])
    then show "wp (for_each [0..<nat (sint (oi_Quantity item))] (\<lambda>_. issue_ticket E oid order item))
        (\<lambda>_. ?R (nat (sint (oi_Quantity item))) s) s"
      by (simp only: sum_list_triv length_map length_upt mult_1_right diff_zero of_nat_id)
  qed
  then show ?thesis
    by (rule wp_mono) (use o' w in \<open>auto dest: spec [of _ 0]\<close>)
qed

section \<open>Handling a payment\<close>

lemma fresh_window_skip:
  "fresh_window E (m + k) s \<Longrightarrow> tickets t = tickets s \<Longrightarrow> tick t = tick s + m \<Longrightarrow> fresh_window E k t"
  by (auto simp: fresh_window_def intro: inj_on_subset)

lemma frame_issue_tickets:
  assumes "tick_free f" and "\<And>s rows. f (s\<lparr>tickets := rows\<rparr>) = f s" and "\<And>s ms. f (s\<lparr>kafka := ms\<rparr>) = f s"
  shows "unchanged f (issue_tickets E oid order items)"
  unfolding issue_tickets_def issue_ticket_def New_uuid_def
  by (intro frame_rules frame_step frame_CreateTicket frame_Publish assms)

text \<open>The stock of every ticket type and the items: what paying leaves alone.\<close>

definition stock_side :: "'z ticket_db_scheme \<Rightarrow> TicketType list \<times> (string \<Rightarrow> (rval \<times> time option) option) \<times> OrderItem list" where
  "stock_side s = (ticket_types s, (\<lambda>k. redis s (stock_key k)), order_items s)"

interpretation stocks: queue_frame "\<lambda>s. stock_side s = c" for c
  by unfold_locales (auto simp: tick_free_def stock_side_def)

lemma stock_side_eq:
  "stock_side t = stock_side s \<longleftrightarrow> ticket_types t = ticket_types s \<and> (\<forall>k. redis t (stock_key k) = redis s (stock_key k)) \<and>
     order_items t = order_items s"
  by (auto simp: stock_side_def fun_eq_iff)

lemma stock_side_row_left: "stock_side t = stock_side s \<Longrightarrow> row_left u n a t = row_left u n a s"
  by (simp add: row_left_def stock_side_eq)

lemma stock_side_counter: "stock_side t = stock_side s \<Longrightarrow> counter (redis t) (stock_key k) = counter (redis s) (stock_key k)"
  by (simp add: counter_def stock_side_eq)

lemma wp_AdvanceQueue_any:
  assumes "\<And>r t. order_ledger t = order_ledger s \<Longrightarrow> stock_side t = stock_side s \<Longrightarrow> Q r t"
  shows "wp (AdvanceQueue E eid) Q s"
  by (rule wp_mono2 [OF keeps_wp [OF statuses.keeps_AdvanceQueue refl] keeps_wp [OF stocks.keeps_AdvanceQueue refl]])
    (rule assms)

lemma issue_tickets_stock: "wp (issue_tickets E oid order items) (\<lambda>_ t. stock_side t = stock_side s) s"
  by (rule wpI, rule unchangedD [OF frame_issue_tickets]) (simp_all add: stock_side_def tick_free_def)

lemma order_ledger_status:
  "order_ledger t = order_ledger s \<Longrightarrow>
   map_option o_Status (find_row (\<lambda>r. o_ID r = oid) (orders t)) = map_option o_Status (find_row (\<lambda>r. o_ID r = oid) (orders s)) \<and>
   tickets t = tickets s"
  using find_status [of "orders t" "orders s" oid] by (simp add: order_ledger_def)

text \<open>Paying an order that is not paid yet, when nothing fails.\<close>

lemma wp_HandlePaymentSuccess:
  fixes s :: "'z ticket_db_scheme"
  assumes E: "reliable E" "uuid_laws E" and v: "uuid_Parse E v = Some oid"
    and o': "find_row (\<lambda>r. o_ID r = oid) (orders s) = Some order" and np: "o_Status order \<noteq> ''PAID''"
    and it: "items = filter (\<lambda>i. oi_OrderID i = oid) (order_items s)"
    and w: "fresh_window E (3 + 3 * bought items) s"
    and post: "\<And>t new. map_option o_Status (find_row (\<lambda>r. o_ID r = oid) (orders t)) = Some ''PAID'' \<Longrightarrow>
      tickets t = tickets s @ new \<Longrightarrow> length new = bought items \<Longrightarrow>
      (\<forall>k \<in> set new. tk_OrderID k = oid \<and> tk_UserID k = o_UserID order \<and> tk_EventID k = o_EventID order \<and> tk_Status k = ''ACTIVE'') \<Longrightarrow>
      stock_side t = stock_side s \<Longrightarrow> Q (Inr ()) t"
  shows "wp (HandlePaymentSuccess E v) Q s"
proof -
  let ?s = "\<lambda>now. s\<lparr>tick := Suc (Suc (Suc (tick s))), orders := update_rows (\<lambda>r. o_ID r = oid) (status_row now ''PAID'') (orders s)\<rparr>"
  have paid: "map_option o_Status (find_row (\<lambda>r. o_ID r = oid) (orders (?s now))) = Some ''PAID''" for now
    by (simp add: status_keyed.find_updated o')
  have mem: "oid \<in> o_ID ` set (orders (?s now))" for now
  proof -
    have "find_row (\<lambda>r. o_ID r = oid) (orders (?s now)) = Some (status_row now ''PAID'' order)"
      by (simp add: status_keyed.find_updated o')
    then have "status_row now ''PAID'' order \<in> set (orders (?s now))" by (rule find_row_Some [THEN conjunct1])
    then have "o_ID (status_row now ''PAID'' order) \<in> o_ID ` set (orders (?s now))" by (rule imageI)
    moreover have "o_ID order = oid" using find_row_Some [OF o'] by simp
    ultimately show ?thesis by simp
  qed
  have w': "fresh_window E (3 * bought items) (?s now)" for now
    by (rule fresh_window_skip [OF w]) simp_all
  have rest: "wp (issue_tickets E oid order items) (\<lambda>_. wp (AdvanceQueue E (o_EventID order)) (\<lambda>_. Q (Inr ()))) (?s now)" for now
  proof (rule wp_mono2 [OF issue_tickets_exactly [OF E mem w'] issue_tickets_stock])
    fix u and t :: "'z ticket_db_scheme"
    assume x: "issues_exactly oid order (bought items) (?s now) t" and st: "stock_side t = stock_side (?s now)"
    then obtain new where t: "orders t = orders (?s now)" "tickets t = tickets s @ new" "length new = bought items"
        "\<forall>k \<in> set new. tk_OrderID k = oid \<and> tk_UserID k = o_UserID order \<and> tk_EventID k = o_EventID order \<and> tk_Status k = ''ACTIVE''"
      by (auto simp: issues_exactly_def issues_at_most_def)
    have ss: "stock_side (?s now) = stock_side s" by (simp add: stock_side_def)
    show "wp (AdvanceQueue E (o_EventID order)) (\<lambda>_. Q (Inr ())) t"
    proof (rule wp_AdvanceQueue_any)
      fix r and t' :: "'z ticket_db_scheme"
      assume l: "order_ledger t' = order_ledger t" and s': "stock_side t' = stock_side t"
      show "Q (Inr ()) t'"
        by (rule post [of t' new]) (use order_ledger_status [OF l] paid t s' st ss in auto)
    qed
  qed
  show ?thesis
    using E(1) v o' np it rest
    by (simp add: HandlePaymentSuccess_def GetOrder_def UpdateOrderStatus_def ListOrderItems_def)
qed

section \<open>What a reservation leaves alone\<close>

lemma do_reserve_other: "k' \<noteq> k \<Longrightarrow> snd (do_reserve k q t rd) k' = rd k'"
  by (auto simp: do_reserve_def incr_by_def split: option.splits rval.splits prod.splits sum.splits)

text \<open>Everything but the stock keys and the rows of the ticket types.\<close>

definition order_world ::
    "'z ticket_db_scheme \<Rightarrow> Order list \<times> OrderItem list \<times> Ticket list \<times> message list \<times> Event list \<times> rstore" where
  "order_world s = (orders s, order_items s, tickets s, kafka s, events s, (\<lambda>k. if k \<in> range stock_key then None else redis s k))"

lemma order_world_eq:
  "order_world t = order_world s \<longleftrightarrow> orders t = orders s \<and> order_items t = order_items s \<and> tickets t = tickets s \<and>
     kafka t = kafka s \<and> events t = events s \<and> (\<forall>k. k \<notin> range stock_key \<longrightarrow> redis t k = redis s k)"
  by (auto simp: order_world_def fun_eq_iff split: if_splits)

lemma frame_order_world_cmd:
  assumes "\<And>t rd k. k \<notin> range stock_key \<Longrightarrow> snd (f t rd) k = rd k"
  shows "unchanged order_world (redis_cmd E f)"
proof -
  have tf: "tick_free order_world" by (simp add: tick_free_def order_world_eq)
  show ?thesis
    unfolding redis_cmd_def
    by (rule frame_external [OF tf]) (simp add: unchanged_def order_world_eq case_prod_beta assms)
qed

lemma frame_order_world: "unchanged order_world (ReserveTicketStock E tid q)" "unchanged order_world (ReleaseTicketStock E tid q)"
proof -
  have tf: "tick_free order_world" by (simp add: tick_free_def order_world_eq)
  have tt: "order_world (s\<lparr>ticket_types := rows\<rparr>) = order_world s" for s :: "'z ticket_db_scheme" and rows
    by (simp add: order_world_eq)
  have r: "unchanged order_world (redis_cmd E (do_reserve (stock_key tid) q))"
      "unchanged order_world (redis_cmd E (do_release (stock_key tid) q))"
      "unchanged order_world (redis_cmd E (do_set (stock_key tid) v None))" for v
    by (rule frame_order_world_cmd; blast intro: do_reserve_other do_release_other cmd_other(2))+
  show "unchanged order_world (ReserveTicketStock E tid q)"
    unfolding ReserveTicketStock_def load_stock_def confirm_reserve_def Let_def
    by (intro frame_rules frame_Client frame_Client_GetTicketType frame_Now r tf tt)
  show "unchanged order_world (ReleaseTicketStock E tid q)"
    unfolding ReleaseTicketStock_def by (intro frame_rules frame_Client r tf tt)
qed

text \<open>A reservation from a warm key, whatever the event service says.\<close>

lemma wp_reserve_warm:
  fixes s :: "'z ticket_db_scheme"
  assumes "has_redis E" and "outcome E (tick s) = Delivered" and q: "0 < sint q" "sint q \<le> c"
    and key: "counter (redis s) (stock_key tid) = Some c"
    and post: "\<And>t. counter (redis t) (stock_key tid) = Some (c - sint q) \<Longrightarrow> order_world t = order_world s \<Longrightarrow> Q (Inr ()) t"
  shows "wp (ReserveTicketStock E tid q) Q s"
proof (rule wp_mono2)
  show "wp (ReserveTicketStock E tid q) (\<lambda>r t. r = Inr () \<and> counter (redis t) (stock_key tid) = Some (c - sint q)) s"
    using assms(1,2) q key
    by (auto simp: ReserveTicketStock_def redis_cmd_def wp_external do_reserve_counter [OF key q(1)] in_int64_def counter_Some_iff
        intro!: confirm_reserve_result)
  show "wp (ReserveTicketStock E tid q) (\<lambda>r t. order_world t = order_world s) s"
    by (rule wpI) (rule unchangedD [OF frame_order_world(1)])
qed (use post in blast)

section \<open>Properties\<close>

lemma demo_ticks: "{0..<6} = {0, 1, 2, 3, 4, 5 :: nat}"
  by auto

lemma demo_fresh_window [simp]:
  "fresh_window still_env 6 (demo_queue e)" "fresh_window still_env 6 (demo_queue e\<lparr>orders := rows\<rparr>)"
proof -
  have f: "fresh still_env n = of_nat (Suc n)" for n by (simp add: still_env_def)
  have "inj_on (fresh still_env) {0, 1, 2, 3, 4, 5}" by (simp add: f)
  moreover have "\<forall>n \<in> {0, 1, 2, 3, 4, 5}. length (demo_name (fresh still_env n)) \<le> 100" by (simp add: f demo_name_def)
  ultimately show "fresh_window still_env 6 (demo_queue e)" "fresh_window still_env 6 (demo_queue e\<lparr>orders := rows\<rparr>)"
    by (simp_all add: fresh_window_def demo_ticks)
qed

text \<open>
  C5. A payment issues exactly the tickets that were bought. For an order that is not paid yet, and
  with no fault, \<open>HandlePaymentSuccess\<close> makes the order \<open>PAID\<close> and appends to the tickets one active
  ticket per unit bought, over all items, each in the name of the owner of the order and for its
  event; the stock does not change.
\<close>

theorem payment_issues_tickets:
  assumes "reliable E" and "uuid_laws E" and "uuid_Parse E v = Some oid"
    and "find_row (\<lambda>r. o_ID r = oid) (orders s) = Some order" and "o_Status order \<noteq> ''PAID''"
    and "items = filter (\<lambda>i. oi_OrderID i = oid) (order_items s)" and "fresh_window E (3 + 3 * bought items) s"
  shows "wp (HandlePaymentSuccess E v)
    (\<lambda>r t. r = Inr () \<and> map_option o_Status (find_row (\<lambda>r. o_ID r = oid) (orders t)) = Some ''PAID'' \<and>
       stock_side t = stock_side s \<and>
       (\<exists>new. tickets t = tickets s @ new \<and> length new = bought items \<and>
         (\<forall>k \<in> set new. tk_OrderID k = oid \<and> tk_UserID k = o_UserID order \<and> tk_EventID k = o_EventID order \<and> tk_Status k = ''ACTIVE''))) s"
  by (rule wp_HandlePaymentSuccess [OF assms]) auto

theorem payment_issues_tickets_witness:
  "wp (HandlePaymentSuccess still_env (demo_name 11)) (\<lambda>r t. r = Inr () \<and> length (tickets t) = 1) (demo_queue 1200)"
  by (rule wp_mono [OF payment_issues_tickets [where oid = 11 and order = "demo_order 11" and items = "[demo_item 11]"]])
    (auto simp: bought_def)

text \<open>
  C26. No run of \<open>HandlePaymentSuccess\<close> issues more tickets than were bought, whatever fails and for
  whatever order: the new tickets are at most as many as the items of the order add up to, all of
  them active and of this order, and no earlier ticket changes.
\<close>

theorem payment_never_issues_too_many:
  fixes s :: "'z ticket_db_scheme"
  assumes "uuid_Parse E v = Some oid"
  shows "wp (HandlePaymentSuccess E v)
    (\<lambda>r t. \<exists>new. tickets t = tickets s @ new \<and> length new \<le> bought (filter (\<lambda>i. oi_OrderID i = oid) (order_items s)) \<and>
       (\<forall>k \<in> set new. tk_OrderID k = oid \<and> tk_Status k = ''ACTIVE'')) s"
proof -
  let ?Q = "\<lambda>t :: 'z ticket_db_scheme. \<exists>new. tickets t = tickets s @ new \<and> length new \<le> bought (filter (\<lambda>i. oi_OrderID i = oid) (order_items s)) \<and>
       (\<forall>k \<in> set new. tk_OrderID k = oid \<and> tk_Status k = ''ACTIVE'')"
  have rest: "wp (issue_tickets E oid order items) (\<lambda>_. wp (AdvanceQueue E eid) (\<lambda>_. ?Q)) u"
    if u: "tickets u = tickets s" "items = filter (\<lambda>i. oi_OrderID i = oid) (order_items s)" for u order eid items
  proof (rule wp_mono [OF issue_tickets_at_most])
    fix x and t :: "'z ticket_db_scheme" assume "issues_at_most oid order (bought items) u t"
    then have q: "?Q t" using u by (auto simp: issues_at_most_def)
    show "wp (AdvanceQueue E eid) (\<lambda>_. ?Q) t"
      by (rule wp_AdvanceQueue_any) (use q in \<open>auto dest: order_ledger_status\<close>)
  qed
  show ?thesis
    using assms rest
    by (auto simp: HandlePaymentSuccess_def GetOrder_def UpdateOrderStatus_def ListOrderItems_def sql_def wp_external
        row_result_def split: outcome.split option.split)
qed

theorem payment_never_issues_too_many_witness:
  "wp (HandlePaymentSuccess (still_env\<lparr>outcome := (\<lambda>n. if n = 4 then Lost_reply else Delivered)\<rparr>) (demo_name 11))
     (\<lambda>r t. length (tickets t) \<le> 1) (demo_queue 1200)"
  by (rule wp_mono [OF payment_never_issues_too_many [where oid = 11]]) (auto simp: bought_def)

text \<open>
  A second notification of the same payment changes nothing: for an order that is \<open>PAID\<close> already
  \<open>HandlePaymentSuccess\<close> leaves the whole state as it is, whatever fails.
\<close>

theorem payment_idempotent:
  assumes "uuid_Parse E v = Some oid" and "find_row (\<lambda>r. o_ID r = oid) (orders s) = Some order" and "o_Status order = ''PAID''"
  shows "wp (HandlePaymentSuccess E v) (\<lambda>r t. same_but_tick s t) s"
  using assms by (auto simp: HandlePaymentSuccess_def simp del: wp_bindE intro!: wp_read_order)

theorem payment_idempotent_witness:
  "wp (HandlePaymentSuccess still_env (demo_name 12)) (\<lambda>r t. tickets t = [])
     ((demo_queue 1200)\<lparr>orders := [status_row 0 ''PAID'' (demo_order 12)]\<rparr>)"
  by (rule wp_mono [OF payment_idempotent [where oid = 12 and order = "status_row 0 ''PAID'' (demo_order 12)"]])
    (auto dest!: same_but_tickD arg_cong [where f = tickets])

text \<open>
  C24. A payment revives a cancelled order, and its tickets exist twice. Cancelling an order puts its tickets back on sale; a payment
  of that order arriving afterwards is accepted, as \<open>HandlePaymentSuccess\<close> looks for \<open>PAID\<close> only: the order is \<open>PAID\<close> and
  its owner gets all its tickets. The stock is not taken again, so another customer can still reserve everything that is left including
  the tickets that were put back: the counter then is zero and more tickets are out than there ever were, by the size of that order.
\<close>

theorem payment_revives_cancelled_order:
  fixes s :: "'z ticket_db_scheme"
  assumes "reliable E" and "secret_accepted E" and "has_redis E" and "has_events E" and "uuid_laws E"
    and "uuid_Parse E v = Some oid" and "find_row (\<lambda>r. o_ID r = oid) (orders s) = Some order"
    and "filter (\<lambda>i. oi_OrderID i = oid) (order_items s) = [i]" and "0 < sint (oi_Quantity i)"
    and "row_left (oi_TicketTypeID i) n a s" and "sint (oi_Quantity i) \<le> n - a"
    and "counter (redis s) (stock_key (uuid_String E (oi_TicketTypeID i))) = Some a"
    and "sint all = a + sint (oi_Quantity i)"
  shows "wp (CancelOrder E v) (\<lambda>r t. r = Inr () \<and>
     (\<forall>m. fresh_window E (3 + 3 * nat (sint (oi_Quantity i))) (t\<lparr>tick := m\<rparr>) \<longrightarrow>
       wp (do { paid \<leftarrow> HandlePaymentSuccess E v; sold \<leftarrow> ReserveTicketStock E (uuid_String E (oi_TicketTypeID i)) all; ret (paid, sold) })
         (\<lambda>(paid, sold) u. paid = Inr () \<and> sold = Inr () \<and>
            map_option o_Status (find_row (\<lambda>r. o_ID r = oid) (orders u)) = Some ''PAID'' \<and>
            (\<exists>new. tickets u = tickets s @ new \<and> int (length new) = sint (oi_Quantity i) \<and>
               (\<forall>k \<in> set new. tk_OrderID k = oid \<and> tk_Status k = ''ACTIVE'')) \<and>
            counter (redis u) (stock_key (uuid_String E (oi_TicketTypeID i))) = Some 0) (t\<lparr>tick := m\<rparr>))) s"
proof (rule wp_CancelOrder_stock [OF assms(1-12)], intro conjI allI impI, rule refl)
  fix t :: "'z ticket_db_scheme" and m
  let ?t = "t\<lparr>tick := m\<rparr>" and ?tid = "uuid_String E (oi_TicketTypeID i)" and ?Q = "\<lambda>(paid, sold) u. paid = Inr () \<and> sold = Inr () \<and>
    map_option o_Status (find_row (\<lambda>r. o_ID r = oid) (orders u)) = Some ''PAID'' \<and>
    (\<exists>new. tickets u = tickets s @ new \<and> int (length new) = sint (oi_Quantity i) \<and>
       (\<forall>k \<in> set new. tk_OrderID k = oid \<and> tk_Status k = ''ACTIVE'')) \<and>
    counter (redis u) (stock_key (uuid_String E (oi_TicketTypeID i))) = Some 0"
  assume c: "counter (redis t) (stock_key ?tid) = Some (a + sint (oi_Quantity i))"
    and same: "order_items t = order_items s" "tickets t = tickets s"
    and st: "\<exists>order'. find_row (\<lambda>r. o_ID r = oid) (orders t) = Some order' \<and> o_Status order' = ''CANCELLED''"
    and w: "fresh_window E (3 + 3 * nat (sint (oi_Quantity i))) ?t"
  from st obtain order' where o': "find_row (\<lambda>r. o_ID r = oid) (orders ?t) = Some order'" and np: "o_Status order' \<noteq> ''PAID''" by auto
  have items: "[i] = filter (\<lambda>i. oi_OrderID i = oid) (order_items ?t)" using assms(8) same by simp
  have w': "fresh_window E (3 + 3 * bought [i]) ?t" using w by (simp add: bought_def)
  have all: "0 < sint all" "sint all \<le> a + sint (oi_Quantity i)"
    using assms(9,13) row_left_bounds [OF assms(10)] by simp_all
  show "wp (do { paid \<leftarrow> HandlePaymentSuccess E v; sold \<leftarrow> ReserveTicketStock E ?tid all; ret (paid, sold) }) ?Q ?t"
    unfolding wp_bind
  proof (rule wp_HandlePaymentSuccess [OF assms(1,5,6) o' np items w'])
    fix u :: "'z ticket_db_scheme" and new
    assume paid: "map_option o_Status (find_row (\<lambda>r. o_ID r = oid) (orders u)) = Some ''PAID''"
      and tk: "tickets u = tickets ?t @ new" "length new = bought [i]"
        "\<forall>k \<in> set new. tk_OrderID k = oid \<and> tk_UserID k = o_UserID order' \<and> tk_EventID k = o_EventID order' \<and> tk_Status k = ''ACTIVE''"
      and stock: "stock_side u = stock_side ?t"
    have c': "counter (redis u) (stock_key ?tid) = Some (a + sint (oi_Quantity i))" using stock_side_counter [OF stock] c by simp
    have del: "outcome E (tick u) = Delivered" using assms(1) by (simp add: reliable_def)
    show "wp (ReserveTicketStock E ?tid all) (\<lambda>sold. wp (ret (Inr (), sold)) ?Q) u"
      by (rule wp_reserve_warm [OF assms(3) del all c'])
        (use paid tk same assms(9,13) in \<open>auto simp: order_world_eq bought_def\<close>)
  qed
qed

theorem payment_revives_cancelled_order_witness:
  "wp (CancelOrder still_env (demo_name 12)) (\<lambda>r t.
     wp (do { paid \<leftarrow> HandlePaymentSuccess still_env (demo_name 12); sold \<leftarrow> ReserveTicketStock still_env (demo_name 1) 1; ret (paid, sold) })
       (\<lambda>(paid, sold) u. sold = Inr () \<and> length (tickets u) = 1 \<and> counter (redis u) (stock_key (demo_name 1)) = Some 0)
       (t\<lparr>tick := 0\<rparr>)) (demo_queue 1200)"
proof -
  have window: "fresh_window still_env 6 (t\<lparr>tick := 0\<rparr>)" if "tickets t = []" for t :: ticket_db
    using demo_fresh_window(1) [of 0] that by (simp add: fresh_window_def)
  have unsold: "wp (CancelOrder still_env (demo_name 12)) (\<lambda>r t. tickets t = []) (demo_queue 1200)"
    by (rule wp_CancelOrder_stock [where oid = 12 and order = "demo_order 12" and i = "demo_item 12" and n = 3 and a = 0]) simp_all
  have "wp (CancelOrder still_env (demo_name 12)) (\<lambda>r t. r = Inr () \<and>
     (\<forall>m. fresh_window still_env (3 + 3 * nat (sint (oi_Quantity (demo_item 12)))) (t\<lparr>tick := m\<rparr>) \<longrightarrow>
       wp (do { paid \<leftarrow> HandlePaymentSuccess still_env (demo_name 12);
                sold \<leftarrow> ReserveTicketStock still_env (uuid_String still_env (oi_TicketTypeID (demo_item 12))) 1; ret (paid, sold) })
         (\<lambda>(paid, sold) u. paid = Inr () \<and> sold = Inr () \<and>
            map_option o_Status (find_row (\<lambda>r. o_ID r = 12) (orders u)) = Some ''PAID'' \<and>
            (\<exists>new. tickets u = tickets (demo_queue 1200) @ new \<and> int (length new) = sint (oi_Quantity (demo_item 12)) \<and>
               (\<forall>k \<in> set new. tk_OrderID k = 12 \<and> tk_Status k = ''ACTIVE'')) \<and>
            counter (redis u) (stock_key (uuid_String still_env (oi_TicketTypeID (demo_item 12)))) = Some 0) (t\<lparr>tick := m\<rparr>))) (demo_queue 1200)"
    by (rule payment_revives_cancelled_order [where order = "demo_order 12" and n = 3 and a = 0]) simp_all
  then show ?thesis
    by (rule wp_mono2 [OF _ unsold]) (drule conjunct2, drule spec [of _ 0], use window in \<open>auto elim!: wp_mono\<close>)
qed

text \<open>
  C30. A paid order can lose its tickets for good: when the query for the items fails after the order
  was made \<open>PAID\<close>, the call fails, no ticket is issued, and the second notification finds the order
  paid and does nothing.
\<close>

theorem payment_can_lose_tickets:
  assumes "outcome E (tick s) = Delivered" and "outcome E (Suc (tick s)) = Delivered" and "outcome E (Suc (Suc (tick s))) = Lost_request"
    and "outcome E (Suc (Suc (Suc (tick s)))) = Delivered" and "uuid_Parse E v = Some oid"
    and "find_row (\<lambda>r. o_ID r = oid) (orders s) = Some order" and "o_Status order \<noteq> ''PAID''"
  shows "wp (do { a \<leftarrow> HandlePaymentSuccess E v; b \<leftarrow> HandlePaymentSuccess E v; ret (a, b) })
    (\<lambda>(a, b) t. a = Inl ErrTransport \<and> b = Inr () \<and> tickets t = tickets s \<and>
       map_option o_Status (find_row (\<lambda>r. o_ID r = oid) (orders t)) = Some ''PAID'') s"
  using assms
  by (simp add: HandlePaymentSuccess_def GetOrder_def UpdateOrderStatus_def ListOrderItems_def sql_def wp_external
      status_keyed.find_updated)

theorem payment_can_lose_tickets_witness:
  "wp (do { a \<leftarrow> HandlePaymentSuccess (still_env\<lparr>outcome := (\<lambda>n. if n = 2 then Lost_request else Delivered)\<rparr>) (demo_name 11);
            b \<leftarrow> HandlePaymentSuccess (still_env\<lparr>outcome := (\<lambda>n. if n = 2 then Lost_request else Delivered)\<rparr>) (demo_name 11); ret (a, b) })
     (\<lambda>(a, b) t. b = Inr () \<and> tickets t = []) (demo_queue 1200)"
  by (rule wp_mono [OF payment_can_lose_tickets [where oid = 11 and order = "demo_order 11"]]) auto

end
