(* ===== verification/Entra_Faults.thy ===== *)
theory Entra_Faults
  imports Entra_Infra
begin

text \<open>
  Placing one fault: the environment in which exactly one call has another outcome, and the rules by which a program
  that does not make that call runs as before. They carry a fault into the middle of a request whose
  other calls all succeed.
\<close>

section \<open>One faulty call\<close>

definition faulty_at :: "env \<Rightarrow> nat \<Rightarrow> outcome \<Rightarrow> env" where
  "faulty_at E k f = E\<lparr>outcome := (outcome E)(k := f)\<rparr>"

lemma faulty_at_simps [simp]:
  "outcome (faulty_at E k f) n = (if n = k then f else outcome E n)" "clock (faulty_at E k f) = clock E"
  "fresh (faulty_at E k f) = fresh E" "uuid_Parse (faulty_at E k f) = uuid_Parse E" "uuid_String (faulty_at E k f) = uuid_String E"
  "has_redis (faulty_at E k f) = has_redis E" "has_events (faulty_at E k f) = has_events E"
  "client_secret (faulty_at E k f) = client_secret E" "server_secret (faulty_at E k f) = server_secret E"
  "app_env (faulty_at E k f) = app_env E"
  by (simp_all add: faulty_at_def)

text \<open>
  \<open>apart k m m'\<close>: time does not run backwards in \<open>m\<close>, and \<open>m'\<close> runs as \<open>m\<close> does wherever \<open>m\<close> does
  not make the call number \<open>k\<close>, because it starts after it or ends before it.
\<close>

definition apart :: "nat \<Rightarrow> ('z infra_scheme, 'a) state \<Rightarrow> ('z infra_scheme, 'a) state \<Rightarrow> bool" where
  "apart k m m' \<longleftrightarrow> (\<forall>s r t. run_state m s = (r, t) \<longrightarrow> tick s \<le> tick t \<and> (k < tick s \<or> tick t \<le> k \<longrightarrow> run_state m' s = (r, t)))"

named_theorems fault_rules

lemma apartI:
  assumes "\<And>s r t. run_state m s = (r, t) \<Longrightarrow> tick s \<le> tick t"
    and "\<And>s r t. run_state m s = (r, t) \<Longrightarrow> k < tick s \<or> tick t \<le> k \<Longrightarrow> run_state m' s = (r, t)"
  shows "apart k m m'"
  using assms by (simp add: apart_def)

lemma apart_run:
  "apart k m m' \<Longrightarrow> run_state m s = (r, t) \<Longrightarrow> k < tick s \<or> tick t \<le> k \<Longrightarrow> run_state m' s = (r, t)"
  by (auto simp: apart_def)

lemma apart_wp_after: "apart k m m' \<Longrightarrow> k < tick s \<Longrightarrow> wp m' Q s = wp m Q s"
  by (cases "run_state m s") (simp add: wp_run apart_run)

lemma apart_ticks: "apart k m m' \<Longrightarrow> wp m (\<lambda>_ t. tick s \<le> tick t) s"
  by (rule wpI) (simp add: apart_def)

lemma apart_return [fault_rules]: "apart k (ret x) (ret x)"
  by (simp add: apart_def)

lemma apart_bind [fault_rules]:
  assumes m: "apart k m m'" and f: "\<And>x. apart k (f x) (f' x)"
  shows "apart k (State_Monad.bind m f) (State_Monad.bind m' f')"
proof (rule apartI)
  fix s r t assume "run_state (State_Monad.bind m f) s = (r, t)"
  then obtain x u where 1: "run_state m s = (x, u)" "run_state (f x) u = (r, t)" by (auto split: prod.splits)
  have le: "tick s \<le> tick u" "tick u \<le> tick t" using m f 1 by (auto simp: apart_def)
  then show "tick s \<le> tick t" by simp
  assume "k < tick s \<or> tick t \<le> k"
  then have "run_state m' s = (x, u)" "run_state (f' x) u = (r, t)"
    using le by (auto intro: apart_run [OF m 1(1)] apart_run [OF f 1(2)])
  then show "run_state (State_Monad.bind m' f') s = (r, t)" by simp
qed

lemma apart_if [fault_rules]: "(b \<Longrightarrow> apart k m m') \<Longrightarrow> (\<not> b \<Longrightarrow> apart k n n') \<Longrightarrow> apart k (if b then m else n) (if b then m' else n')"
  by simp

lemma apart_sum [fault_rules]:
  "(\<And>e. apart k (f e) (f' e)) \<Longrightarrow> (\<And>x. apart k (g x) (g' x)) \<Longrightarrow>
   apart k (case r of Inl e \<Rightarrow> f e | Inr x \<Rightarrow> g x) (case r of Inl e \<Rightarrow> f' e | Inr x \<Rightarrow> g' x)"
  by (simp split: sum.split)

lemma apart_option [fault_rules]:
  "apart k m m' \<Longrightarrow> (\<And>x. apart k (g x) (g' x)) \<Longrightarrow>
   apart k (case r of None \<Rightarrow> m | Some x \<Rightarrow> g x) (case r of None \<Rightarrow> m' | Some x \<Rightarrow> g' x)"
  by (simp split: option.split)

lemma apart_bindE [fault_rules]:
  "apart k m m' \<Longrightarrow> (\<And>x. apart k (f x) (f' x)) \<Longrightarrow> apart k (bindE h m f) (bindE h m' f')"
  unfolding bindE_def by (intro fault_rules)

lemma apart_Now [fault_rules]: "apart k (Now E) (Now (faulty_at E k f))"
  by (auto simp: apart_def Now_def step_def)

lemma apart_external [fault_rules]:
  assumes "\<And>n. apart k (body n) (body' n)"
  shows "apart k (external E body) (external (faulty_at E k f) body')"
proof (rule apartI)
  fix s r t assume run: "run_state (external E body) s = (r, t)"
  obtain x u where 1: "run_state (body (tick s)) (s\<lparr>tick := Suc (tick s)\<rparr>) = (x, u)" by fastforce
  have le: "Suc (tick s) \<le> tick u" using assms [of "tick s"] 1 by (force simp: apart_def)
  have t: "Suc (tick s) \<le> tick t"
    using run 1 le by (auto simp: external_def step_def split: outcome.splits)
  then show "tick s \<le> tick t" by simp
  assume k: "k < tick s \<or> tick t \<le> k"
  then have other: "tick s \<noteq> k" using t by auto
  have "run_state (body' (tick s)) (s\<lparr>tick := Suc (tick s)\<rparr>) = (x, u)" if "t = u"
    by (rule apart_run [OF assms 1]) (use k that in auto)
  then show "run_state (external (faulty_at E k f) body') s = (r, t)"
    using run 1 other by (auto simp: external_def step_def split: outcome.splits)
qed

lemma apart_redis [fault_rules]: "apart k (redis_cmd E g) (redis_cmd (faulty_at E k f) g)"
  unfolding redis_cmd_def by (simp, rule apart_external) (auto simp: apart_def split: prod.splits)

lemma apart_sql:
  assumes "\<And>now u s. tick (snd (g now u s)) = tick s"
  shows "apart k (sql E g) (sql (faulty_at E k f) g)"
  unfolding sql_def by (simp, rule apart_external) (auto simp: apart_def, metis assms eq_refl snd_conv)

end
