(* ===== verification/Ticket_Checkout_Spec.thy ===== *)
theory Ticket_Checkout_Spec
  imports Ticket_Payment_Spec Entra_Faults
begin

text \<open>
  What creating an order does: the order that goes through, the duplicate, the sold-out request, the
  request whose order cannot be stored; and that no checkout operation breaks the stores.
\<close>

section \<open>A reservation and what it leaves alone\<close>

lemma special_keys [simp]:
  "idempotency_key k \<notin> range stock_key" "active_key E eid \<notin> range stock_key" "waiting_key E eid \<notin> range stock_key"
  "idempotency_key k \<noteq> active_key E eid" "idempotency_key k \<noteq> expires_key E eid" "idempotency_key k \<noteq> waiting_key E eid"
  "active_key E eid \<noteq> idempotency_key k" "expires_key E eid \<noteq> idempotency_key k" "waiting_key E eid \<noteq> idempotency_key k"
  "idempotency_key k \<noteq> stock_key tid" "stock_key tid \<noteq> idempotency_key k" "idempotency_key k \<noteq> []" "\<not> queue_name (idempotency_key k)"
  by (auto simp: idempotency_key_def stock_key_def active_key_def expires_key_def waiting_key_def queue_key_def queue_name_def)

text \<open>A reservation without faults, with everything it leaves alone.\<close>

lemma wp_reserve:
  fixes s :: "'z ticket_db_scheme"
  assumes E: "reliable E" "secret_accepted E" "has_redis E" "has_events E" and u: "uuid_Parse E tid = Some u"
    and q: "0 < sint q" and left: "row_left u n a s" and sale: "type_on_sale E u s"
    and key: "redis s (stock_key tid) = None \<or> counter (redis s) (stock_key tid) = Some a"
    and granted: "\<And>t. sint q \<le> a \<Longrightarrow> row_left u n (a - sint q) t \<Longrightarrow>
      counter (redis t) (stock_key tid) = Some (a - sint q) \<Longrightarrow> order_world t = order_world s \<Longrightarrow> Q (Inr ()) t"
    and refused: "\<And>t. a < sint q \<Longrightarrow> row_left u n a t \<Longrightarrow> counter (redis t) (stock_key tid) = Some a \<Longrightarrow>
      order_world t = order_world s \<Longrightarrow> Q (Inl ErrSoldOut) t"
  shows "wp (ReserveTicketStock E tid q) Q s"
proof -
  let ?P = "\<lambda>r t. r = (if sint q \<le> a then Inr () else Inl ErrSoldOut) \<and>
      (let a' = (if sint q \<le> a then a - sint q else a)
       in counter (redis t) (stock_key tid) = Some a' \<and> row_left u n a' t)"
  have p: "wp (ReserveTicketStock E tid q) ?P s"
    by (rule wp_ReserveTicketStock [OF E u q left sale key]) (simp_all add: Let_def)
  have w: "wp (ReserveTicketStock E tid q) (\<lambda>r t. order_world t = order_world s) s"
    by (rule wpI) (rule unchangedD [OF frame_order_world(1)])
  show ?thesis
    by (rule wp_mono2 [OF p w]) (auto simp: Let_def intro: granted refused split: if_splits)
qed

text \<open>The check of the ticket type refuses nothing that is on sale, and only reads.\<close>

lemma wp_check_ticket_type:
  assumes E: "reliable E" "secret_accepted E" and u: "uuid_Parse E tid = Some u" and sale: "type_on_sale E u s"
    and post: "\<And>n. Q None (s\<lparr>tick := n\<rparr>)"
  shows "wp (check_ticket_type E tid) Q s"
proof -
  from sale obtain t where t: "find_row (\<lambda>r. tt_ID r = u) (ticket_types s) = Some t"
    and os: "on_sale E t (find_row (\<lambda>v. ev_ID v = tt_EventID t) (events s))" by (auto simp: type_on_sale_def)
  have ref: "type_refusal (clock E n) (internal_ticket_type E t (row_result (find_row (\<lambda>v. ev_ID v = tt_EventID t) (events s)))) = None" for n
  proof -
    have "tt_IsActive t" "sale_refusal (clock E n) t = None"
      "event_refusal (clock E n) (row_result (find_row (\<lambda>v. ev_ID v = tt_EventID t) (events s))) = None"
      using os by (simp_all add: on_sale_def)
    then show ?thesis
      by (cases "find_row (\<lambda>v. ev_ID v = tt_EventID t) (events s)")
        (auto simp: type_refusal_def internal_ticket_type_def sale_refusal_def event_refusal_def split: if_splits)
  qed
  show ?thesis
    using E u t ref post post [of "tick s"]
    by (cases "has_events E")
      (auto simp: check_ticket_type_def Client_GetTicketType_def GetTicketType_def GetTicketTypeByID_def GetEventByID_def
        response_defs)
qed

section \<open>An order that goes through\<close>

text \<open>The request is well formed: its identifiers parse, its quantity is positive, and its total fits
  the column as \<open>amount\<close>.\<close>

definition good_request :: "env \<Rightarrow> string \<Rightarrow> CreateOrderRequest \<Rightarrow> uuid \<Rightarrow> uuid \<Rightarrow> uuid \<Rightarrow> bool" where
  "good_request E user req uid eid tid \<longleftrightarrow> uuid_Parse E user = Some uid \<and> uuid_Parse E (req_EventID req) = Some eid \<and>
     uuid_Parse E (req_TicketTypeID req) = Some tid \<and> 0 < sint (req_Quantity req)"

definition no_pending_order :: "uuid \<Rightarrow> uuid \<Rightarrow> 'z ticket_db_scheme \<Rightarrow> bool" where
  "no_pending_order uid eid s \<longleftrightarrow> (\<forall>r \<in> set (orders s). \<not> (o_UserID r = uid \<and> o_EventID r = eid \<and> o_Status r = ''PENDING''))"

definition key_unused :: "string \<Rightarrow> 'z infra_scheme \<Rightarrow> bool" where
  "key_unused k s \<longleftrightarrow> k = [] \<or> redis s (idempotency_key k) = None"

text \<open>The claim of an unused key, and giving it back.\<close>

lemma wp_idempotency_claim:
  assumes E: "reliable E" "has_redis E" and k: "key_unused k s"
    and post: "\<And>n v. Q (Inr (if k = [] then [] else idempotency_key k))
      (if k = [] then s\<lparr>tick := n\<rparr> else s\<lparr>tick := n, redis := (redis s)(idempotency_key k \<mapsto> v)\<rparr>)"
  shows "wp (idempotency_claim E k) Q s"
proof (cases "k = []")
  case True
  then show ?thesis using post [of "tick s"] by (simp add: idempotency_claim_def)
next
  case False
  then show ?thesis
    using E k post
    by (simp add: idempotency_claim_def key_unused_def do_get_def do_setnx_def rlookup_def claim_key_def)
qed

lemma guard_passes:
  assumes "reliable E" and "no_pending_order uid eid s" and "\<And>n. wp (f (Inl ErrNoRows)) Q (s\<lparr>tick := n\<rparr>)"
  shows "wp (State_Monad.bind (GetActivePendingOrderByUserAndEvent E uid eid) f) Q s"
proof -
  have "find_row (\<lambda>r. o_UserID r = uid \<and> o_EventID r = eid \<and> o_Status r = ''PENDING'' \<and> now < o_ExpiresAt r) (orders s) = None" for now
    using assms(2) by (auto simp: find_row_None no_pending_order_def)
  then show ?thesis using assms(1,3) by (simp add: GetActivePendingOrderByUserAndEvent_def)
qed

text \<open>\<open>CreateOrder\<close> up to the reservation: it answers, or goes on with the claimed key to store the order.\<close>

definition reserve_first :: "env \<Rightarrow> CreateOrderRequest \<Rightarrow> string \<Rightarrow> ('z ticket_db_scheme, (gerr + Order) + string) state" where
  "reserve_first E req key = do {
     refusal \<leftarrow> check_ticket_type E (req_TicketTypeID req);
     case refusal of
       None \<Rightarrow> do {
         reserved \<leftarrow> ReserveTicketStock E (req_TicketTypeID req) (req_Quantity req);
         case reserved of
           Inl e \<Rightarrow> do { drop_claim E key; ret (Inl (Inl (reserve_error e))) }
         | Inr u \<Rightarrow> ret (Inr key) }
     | Some e \<Rightarrow> do { drop_claim E key; ret (Inl (Inl e)) } }"

definition order_prefix :: "env \<Rightarrow> CreateOrderRequest \<Rightarrow> uuid \<Rightarrow> uuid \<Rightarrow> ('z ticket_db_scheme, (gerr + Order) + string) state" where
  "order_prefix E req uid eid = do {
     existing \<leftarrow> GetActivePendingOrderByUserAndEvent E uid eid;
     if (case existing of Inl e \<Rightarrow> False | Inr o' \<Rightarrow> o_ID o' \<noteq> uuid_Nil) then ret (Inl (Inl ErrActivePendingOrderExists))
     else do {
       claim \<leftarrow> idempotency_claim E (req_IdempotencyKey req);
       case claim of Inl answer \<Rightarrow> ret (Inl answer) | Inr key \<Rightarrow> reserve_first E req key } }"

lemma wp_take_order:
  "wp (take_order fuel E user req uid eid tid key) Q s =
     wp (reserve_first E req key) (\<lambda>r. case r of Inl answer \<Rightarrow> Q (Some answer) | Inr key \<Rightarrow> wp (store_order fuel E user req uid eid tid key) Q) s"
  by (auto simp: take_order_def reserve_first_def wp_def split: prod.splits option.splits sum.splits)

lemma wp_CreateOrder:
  assumes "good_request E user req uid eid tid"
  shows "wp (CreateOrder fuel E user req) Q s =
    wp (order_prefix E req uid eid)
      (\<lambda>r. case r of Inl answer \<Rightarrow> Q (Some answer) | Inr key \<Rightarrow> wp (store_order fuel E user req uid eid tid key) Q) s"
proof -
  let ?f = "\<lambda>r. case r of Inl answer \<Rightarrow> Q (Some answer) | Inr key \<Rightarrow> wp (store_order fuel E user req uid eid tid key) Q"
  have claimed: "wp (case c of Inl answer \<Rightarrow> ret (Some answer) | Inr key \<Rightarrow> take_order fuel E user req uid eid tid key) Q =
      wp (case c of Inl answer \<Rightarrow> ret (Inl answer) | Inr key \<Rightarrow> reserve_first E req key) ?f" for c
    by (rule ext) (simp add: wp_take_order split: sum.split)
  have "wp (if b then ret (Some x) else do { c \<leftarrow> m; case c of Inl answer \<Rightarrow> ret (Some answer) | Inr key \<Rightarrow> take_order fuel E user req uid eid tid key }) Q =
      wp (if b then ret (Inl x) else do { c \<leftarrow> m; case c of Inl answer \<Rightarrow> ret (Inl answer) | Inr key \<Rightarrow> reserve_first E req key }) ?f"
    for b x and m :: "('a ticket_db_scheme, (gerr + Order) + string) state"
    by (rule ext) (simp add: claimed)
  then show ?thesis
    using assms by (simp add: CreateOrder_def order_prefix_def good_request_def)
qed

text \<open>Everything up to the reservation, for a good request.\<close>

lemma wp_order_prefix:
  fixes s :: "'z ticket_db_scheme"
  assumes E: "reliable E" "secret_accepted E" "has_redis E" "has_events E" and g: "good_request E user req uid eid tid"
    and np: "no_pending_order uid eid s" and k: "key_unused (req_IdempotencyKey req) s"
    and left: "row_left tid n a s" and sale: "type_on_sale E tid s"
    and stock: "redis s (stock_key (req_TicketTypeID req)) = None \<or> counter (redis s) (stock_key (req_TicketTypeID req)) = Some a"
    and key: "key = (if req_IdempotencyKey req = [] then [] else idempotency_key (req_IdempotencyKey req))"
    and granted: "\<And>t. sint (req_Quantity req) \<le> a \<Longrightarrow> row_left tid n (a - sint (req_Quantity req)) t \<Longrightarrow>
      counter (redis t) (stock_key (req_TicketTypeID req)) = Some (a - sint (req_Quantity req)) \<Longrightarrow> queue_world t = queue_world s \<Longrightarrow>
      Q (Inr key) t"
    and refused: "\<And>t. a < sint (req_Quantity req) \<Longrightarrow> row_left tid n a t \<Longrightarrow> queue_world t = queue_world s \<Longrightarrow>
      wp (drop_claim E key) (\<lambda>_. Q (Inl (Inl ErrSoldOut))) t"
  shows "wp (order_prefix E req uid eid) Q s"
proof -
  have P: "uuid_Parse E user = Some uid" "uuid_Parse E (req_EventID req) = Some eid"
    "uuid_Parse E (req_TicketTypeID req) = Some tid" and q: "0 < sint (req_Quantity req)"
    using g by (simp_all add: good_request_def)
  let ?k = "req_IdempotencyKey req"
  have take: "wp (reserve_first E req key) Q u"
    if u: "ticket_types u = ticket_types s" "events u = events s" "orders u = orders s" "order_items u = order_items s"
      "tickets u = tickets s" "kafka u = kafka s" "\<And>x. x \<noteq> idempotency_key ?k \<Longrightarrow> redis u x = redis s x"
    for u :: "'z ticket_db_scheme"
  proof -
    have left': "row_left tid n a (u\<lparr>tick := m\<rparr>)" and sale': "type_on_sale E tid (u\<lparr>tick := m\<rparr>)"
      and sale'': "type_on_sale E tid u"
      and stock': "redis (u\<lparr>tick := m\<rparr>) (stock_key (req_TicketTypeID req)) = None \<or>
        counter (redis (u\<lparr>tick := m\<rparr>)) (stock_key (req_TicketTypeID req)) = Some a" for m
      using left sale stock by (simp_all add: row_left_def type_on_sale_def counter_def u)
    have world: "queue_world t = queue_world s" if w: "order_world t = order_world (u\<lparr>tick := m\<rparr>)" for t and m
    proof -
      have "redis t x = redis s x" if "queue_name x" for x
      proof -
        have "x \<notin> range stock_key" "x \<noteq> idempotency_key ?k" using that by auto
        then show ?thesis using w u(7) by (simp add: order_world_eq)
      qed
      then show ?thesis using w by (simp add: order_world_eq queue_world_eq u)
    qed
    have reserve: "wp (ReserveTicketStock E (req_TicketTypeID req) (req_Quantity req))
        (\<lambda>r. wp (case r of Inl e \<Rightarrow> do { drop_claim E key; ret (Inl (Inl (reserve_error e))) } | Inr u \<Rightarrow> ret (Inr key)) Q) (u\<lparr>tick := m\<rparr>)" for m
      by (rule wp_reserve [OF E P(3) q left' sale' stock'])
        (simp_all add: granted refused world reserve_error_def)
    show ?thesis
      unfolding reserve_first_def wp_bind
      by (rule wp_check_ticket_type [OF E(1,2) P(3) sale'']) (simp add: reserve)
  qed
  have claim: "wp (idempotency_claim E ?k)
      (\<lambda>c. wp (case c of Inl answer \<Rightarrow> ret (Inl answer) | Inr key \<Rightarrow> reserve_first E req key) Q) (s\<lparr>tick := m\<rparr>)" for m
    by (rule wp_idempotency_claim [OF E(1,3)]) (use k in \<open>auto simp: key_unused_def key [symmetric] intro!: take\<close>)
  show ?thesis
    by (simp add: order_prefix_def P del: wp_bind wp_bind_fun) (rule guard_passes [OF E(1) np], simp add: claim)
qed

lemma CreateOrder_upto_reservation:
  fixes s :: "'z ticket_db_scheme"
  assumes E: "reliable E" "secret_accepted E" "has_redis E" "has_events E" and g: "good_request E user req uid eid tid"
    and np: "no_pending_order uid eid s" and k: "key_unused (req_IdempotencyKey req) s"
    and left: "row_left tid n a s" and sale: "type_on_sale E tid s"
    and stock: "redis s (stock_key (req_TicketTypeID req)) = None \<or> counter (redis s) (stock_key (req_TicketTypeID req)) = Some a"
    and key: "key = (if req_IdempotencyKey req = [] then [] else idempotency_key (req_IdempotencyKey req))"
    and granted: "\<And>t. sint (req_Quantity req) \<le> a \<Longrightarrow> row_left tid n (a - sint (req_Quantity req)) t \<Longrightarrow>
      counter (redis t) (stock_key (req_TicketTypeID req)) = Some (a - sint (req_Quantity req)) \<Longrightarrow> queue_world t = queue_world s \<Longrightarrow>
      wp (store_order fuel E user req uid eid tid key) Q t"
    and refused: "\<And>t. a < sint (req_Quantity req) \<Longrightarrow> row_left tid n a t \<Longrightarrow> queue_world t = queue_world s \<Longrightarrow>
      wp (drop_claim E key) (\<lambda>_. Q (Some (Inl ErrSoldOut))) t"
  shows "wp (CreateOrder fuel E user req) Q s"
  unfolding wp_CreateOrder [OF g]
  by (rule wp_order_prefix [OF E g np k left sale stock key]) (simp_all add: granted refused)

text \<open>The identifiers to come are new to the tables, as random uuids are.\<close>

definition fresh_ids :: "env \<Rightarrow> 'z ticket_db_scheme \<Rightarrow> bool" where
  "fresh_ids E s \<longleftrightarrow> (\<forall>n. fresh E n \<notin> o_ID ` set (orders s) \<and> fresh E n \<notin> oi_ID ` set (order_items s))"

lemma fresh_ids_world: "fresh_ids E s \<Longrightarrow> queue_world t = queue_world s \<Longrightarrow> fresh_ids E t"
  by (simp add: fresh_ids_def queue_world_eq)

text \<open>With the slot free the new order takes it, and nothing else changes but its deadline.\<close>

lemma wp_enqueue_first:
  fixes s :: "'z ticket_db_scheme"
  assumes E: "reliable E" "uuid_laws E" "has_redis E" and free: "redis s (active_key E eid) = None"
    and post: "\<And>t x. queue_of E eid t = (Some (uuid_String E oid), raw_list (redis s) (waiting_key E eid)) \<Longrightarrow>
      order_ledger t = order_ledger s \<Longrightarrow> stock_side t = stock_side s \<Longrightarrow> Q (Some (active_response E oid eid x)) t"
  shows "wp (EnqueueOrder (Suc fuel) E oid eid) Q s"
proof -
  have none: "do_get (active_key E eid) t (redis s) = (Inl ErrRedisNil, redis s)" for t
    using free by (simp add: do_get_def rlookup_def)
  let ?u = "s\<lparr>tick := Suc (tick s)\<rparr>"
  have keep: "wp (promote E eid (uuid_String E oid) oid)
      (\<lambda>_ t. order_ledger t = order_ledger s \<and> stock_side t = stock_side s) ?u"
    unfolding wp_conj
    by (intro conjI keeps_wp [OF statuses.keeps_promote] keeps_wp [OF stocks.keeps_promote])
      (simp_all add: order_ledger_def stock_side_def)
  have p: "wp (promote E eid (uuid_String E oid) oid) (\<lambda>x. Q (Some (active_response E oid eid x))) ?u"
    by (rule wp_mono2 [OF keep wp_promote [OF E(1) uuid_roundtrip [OF E(2)], where
          Q = "\<lambda>x t. queue_of E eid t = (Some (uuid_String E oid), raw_list (redis s) (waiting_key E eid))"]])
      (auto intro: post)
  show ?thesis using E(1,3) p by (simp add: EnqueueOrder_def none)
qed

text \<open>Storing the order, with the slot free.\<close>

lemma wp_store_order:
  fixes s :: "'z ticket_db_scheme"
  assumes E: "reliable E" "uuid_laws E" "has_redis E" and amt: "decimal_15_2 (numeric_of_f64 6 (subtotal req)) = Inr amount"
    and ids: "fresh_ids E s" and free: "redis s (active_key E eid) = None"
    and key: "key = [] \<or> (\<exists>k. key = idempotency_key k)"
    and post: "\<And>t order item. o_UserID order = uid \<Longrightarrow> o_EventID order = eid \<Longrightarrow> o_TotalAmount order = amount \<Longrightarrow>
      o_Status order = ''PENDING'' \<Longrightarrow> order_ledger t = (fst (order_ledger s) @ [(o_ID order, ''PENDING'')], tickets s) \<Longrightarrow>
      order_items t = order_items s @ [item] \<Longrightarrow> oi_OrderID item = o_ID order \<Longrightarrow> oi_TicketTypeID item = tid \<Longrightarrow>
      oi_Quantity item = req_Quantity req \<Longrightarrow> oi_Price item = amount \<Longrightarrow> oi_Subtotal item = amount \<Longrightarrow>
      ticket_types t = ticket_types s \<Longrightarrow> (\<forall>k. redis t (stock_key k) = redis s (stock_key k)) \<Longrightarrow>
      queue_of E eid t = (Some (uuid_String E (o_ID order)), raw_list (redis s) (waiting_key E eid)) \<Longrightarrow> Q (Some (Inr order)) t"
  shows "wp (store_order (Suc fuel) E user req uid eid tid key) Q s"
proof -
  have announce: "wp (announce_order (Suc fuel) E user req key order eid) Q t"
    if t: "orders t = orders s @ [order]" "order_items t = order_items s @ [item]" "tickets t = tickets s"
      "ticket_types t = ticket_types s" "redis t = redis s"
      and o': "o_UserID order = uid" "o_EventID order = eid" "o_TotalAmount order = amount" "o_Status order = ''PENDING''"
      and i: "oi_OrderID item = o_ID order" "oi_TicketTypeID item = tid" "oi_Quantity item = req_Quantity req"
        "oi_Price item = amount" "oi_Subtotal item = amount" for t :: "'z ticket_db_scheme" and order item
  proof -
    have l: "order_ledger t = (fst (order_ledger s) @ [(o_ID order, ''PENDING'')], tickets s)"
      by (simp add: order_ledger_def t o')
    have join: "wp (EnqueueOrder (Suc fuel) E (o_ID order) eid) (\<lambda>p. Q (map_option (\<lambda>_. Inr order) p)) u"
      if u: "order_ledger u = order_ledger t" "order_items u = order_items t" "ticket_types u = ticket_types t"
        "\<And>k. redis u (stock_key k) = redis t (stock_key k)" "redis u (active_key E eid) = redis t (active_key E eid)"
        "redis u (waiting_key E eid) = redis t (waiting_key E eid)" for u :: "'z ticket_db_scheme"
    proof (rule wp_enqueue_first [OF E])
      show "redis u (active_key E eid) = None" using free u(5) t(5) by simp
      fix v :: "'z ticket_db_scheme" and x
      assume q: "queue_of E eid v = (Some (uuid_String E (o_ID order)), raw_list (redis u) (waiting_key E eid))"
        and lv: "order_ledger v = order_ledger u" and sv: "stock_side v = stock_side u"
      have "Q (Some (Inr order)) v"
        by (rule post [OF o', of v item]) (use q lv sv u l t i in \<open>simp_all add: stock_side_eq raw_list_def\<close>)
      then show "Q (map_option (\<lambda>_. Inr order) (Some (active_response E (o_ID order) eid x))) v" by simp
    qed
    show ?thesis
      using E(1,3) key
      by (auto simp: announce_order_def do_set_def order_ledger_def intro!: join)
  qed
  have "fresh E n \<notin> o_ID ` set (orders s)" "fresh E n \<notin> oi_ID ` set (order_items s)" for n
    using ids by (simp_all add: fresh_ids_def)
  then show ?thesis
    using E(1) amt
    by (simp add: store_order_def record_order_def Queries_CreateOrder_def CreateOrderItem_def Let_def announce)
qed

section \<open>An order that cannot be stored\<close>

text \<open>The rollback of the reservation and of the claimed key.\<close>

lemma wp_undo:
  fixes s :: "'z ticket_db_scheme"
  assumes E: "reliable E" "secret_accepted E" "has_redis E" "has_events E"
    and u: "uuid_Parse E (req_TicketTypeID req) = Some tid" and q: "0 < sint (req_Quantity req)"
    and left: "row_left tid n a s" and sold: "sint (req_Quantity req) \<le> n - a"
    and c: "counter (redis s) (stock_key (req_TicketTypeID req)) = Some a" and key: "key = [] \<or> (\<exists>k. key = idempotency_key k)"
    and post: "\<And>t. row_left tid n (a + sint (req_Quantity req)) t \<Longrightarrow>
      counter (redis t) (stock_key (req_TicketTypeID req)) = Some (a + sint (req_Quantity req)) \<Longrightarrow>
      queue_world t = queue_world s \<Longrightarrow> (key \<noteq> [] \<longrightarrow> redis t key = None) \<Longrightarrow> Q () t"
  shows "wp (do { ReleaseTicketStock E (req_TicketTypeID req) (req_Quantity req); drop_claim E key }) Q s"
  unfolding wp_bind
proof (rule wp_mono2)
  let ?r = "ReleaseTicketStock E (req_TicketTypeID req) (req_Quantity req)"
  show "wp ?r (\<lambda>_ t. row_left tid n (a + sint (req_Quantity req)) t \<and>
      counter (redis t) (stock_key (req_TicketTypeID req)) = Some (a + sint (req_Quantity req))) s"
    by (rule wp_ReleaseTicketStock [OF E u q left sold c]) simp
  show "wp ?r (\<lambda>_ t. queue_world t = queue_world s) s"
    by (rule wpI) (rule unchangedD [OF frame_world_Release])
next
  fix x :: unit and t :: "'z ticket_db_scheme"
  assume t: "row_left tid n (a + sint (req_Quantity req)) t \<and>
      counter (redis t) (stock_key (req_TicketTypeID req)) = Some (a + sint (req_Quantity req))"
    and w: "queue_world t = queue_world s"
  have del: "Q () (t\<lparr>tick := m, redis := (redis t)(idempotency_key k := None)\<rparr>)" if "key = idempotency_key k" for m k
    by (rule post) (use t w that in \<open>auto simp: row_left_def counter_def queue_world_eq\<close>)
  have "Q () t" if "key = []" by (rule post) (use t w that in auto)
  with del show "wp (drop_claim E key) Q t"
    using E(1,3) key by (auto simp: drop_claim_def do_del_def fun_upd_def)
qed

text \<open>What the database refuses to store: both statements see the same amount, so only the first can fail for that.\<close>

lemma wp_store_order_refused:
  fixes s :: "'z ticket_db_scheme"
  assumes E: "reliable E" "secret_accepted E" "has_redis E" "has_events E"
    and amt: "decimal_15_2 (numeric_of_f64 6 (subtotal req)) = Inl e"
    and u: "uuid_Parse E (req_TicketTypeID req) = Some tid" and q: "0 < sint (req_Quantity req)"
    and left: "row_left tid n a s" and sold: "sint (req_Quantity req) \<le> n - a"
    and c: "counter (redis s) (stock_key (req_TicketTypeID req)) = Some a" and key: "key = [] \<or> (\<exists>k. key = idempotency_key k)"
    and post: "\<And>t. row_left tid n (a + sint (req_Quantity req)) t \<Longrightarrow>
      counter (redis t) (stock_key (req_TicketTypeID req)) = Some (a + sint (req_Quantity req)) \<Longrightarrow>
      queue_world t = queue_world s \<Longrightarrow> (key \<noteq> [] \<longrightarrow> redis t key = None) \<Longrightarrow> Q (Some (Inl e)) t"
  shows "wp (store_order fuel E user req uid eid tid key) Q s"
proof -
  have w: "queue_world (s\<lparr>tick := m\<rparr>) = queue_world s" for m by (simp add: queue_world_eq)
  have "wp (do { ReleaseTicketStock E (req_TicketTypeID req) (req_Quantity req); drop_claim E key }) (\<lambda>_. Q (Some (Inl e))) (s\<lparr>tick := m\<rparr>)" for m
    by (rule wp_undo [OF E u q _ sold _ key post]) (use left c w in \<open>simp_all add: row_left_def\<close>)
  then show ?thesis
    using E(1) amt by (simp add: store_order_def record_order_def Queries_CreateOrder_def Let_def)
qed

text \<open>A fault at some call leaves the calls before and after it as they are.\<close>

lemma apart_reads:
  "apart k (GetTicketTypeByID E u) (GetTicketTypeByID (faulty_at E k f) u)" "apart k (GetEventByID E u) (GetEventByID (faulty_at E k f) u)"
  "apart k (GetOrder E oid) (GetOrder (faulty_at E k f) oid)"
  "apart k (GetActivePendingOrderByUserAndEvent E uid eid) (GetActivePendingOrderByUserAndEvent (faulty_at E k f) uid eid)"
  unfolding GetTicketTypeByID_def GetEventByID_def GetOrder_def GetActivePendingOrderByUserAndEvent_def by (rule apart_sql; simp)+

lemma apart_stock_writes:
  "apart k (IncrementTicketSold E u q) (IncrementTicketSold (faulty_at E k f) u q)"
  "apart k (DecrementTicketSold E u q) (DecrementTicketSold (faulty_at E k f) u q)"
  unfolding IncrementTicketSold_def DecrementTicketSold_def by (rule apart_sql; simp split: prod.split)+

lemma apart_http: "apart k h h' \<Longrightarrow> apart k (http_internal E h) (http_internal (faulty_at E k f) h')"
  unfolding http_internal_def by (simp only: faulty_at_simps, intro fault_rules)

lemma apart_Client:
  "apart k (Client_GetTicketType E tid) (Client_GetTicketType (faulty_at E k f) tid)"
  "apart k (Client_ReserveTickets E tid q) (Client_ReserveTickets (faulty_at E k f) tid q)"
  "apart k (Client_ReleaseTickets E tid q) (Client_ReleaseTickets (faulty_at E k f) tid q)"
  unfolding Client_GetTicketType_def Client_ReserveTickets_def Client_ReleaseTickets_def sendReservationRequest_def
    GetTicketType_def ReserveTickets_def ReleaseTickets_def
  by (simp only: internal_ticket_type_def faulty_at_simps; intro fault_rules apart_http apart_reads apart_stock_writes)+

lemma apart_Reserve: "apart k (ReserveTicketStock E tid q) (ReserveTicketStock (faulty_at E k f) tid q)"
  unfolding ReserveTicketStock_def load_stock_def confirm_reserve_def Let_def
  by (simp only: faulty_at_simps; intro fault_rules apart_Client)

lemma apart_undo:
  "apart k (do { ReleaseTicketStock E tid q; drop_claim E key }) (do { ReleaseTicketStock (faulty_at E k f) tid q; drop_claim (faulty_at E k f) key })"
  unfolding ReleaseTicketStock_def drop_claim_def by (simp only: faulty_at_simps; intro fault_rules apart_Client)

lemma apart_prefix: "apart k (order_prefix E req uid eid) (order_prefix (faulty_at E k f) req uid eid)"
proof -
  have drop: "apart k (drop_claim E key) (drop_claim (faulty_at E k f) key)" for key
    unfolding drop_claim_def by (simp only: faulty_at_simps; intro fault_rules)
  show ?thesis
    unfolding order_prefix_def reserve_first_def idempotency_claim_def claim_key_def check_ticket_type_def
    by (simp only: faulty_at_simps; intro fault_rules apart_Client apart_reads apart_Reserve drop)
qed

text \<open>Where the request stands once its tickets are reserved.\<close>

lemma order_prefix_reserves:
  fixes s :: "'z ticket_db_scheme"
  assumes "reliable E" and "secret_accepted E" and "has_redis E" and "has_events E"
    and "good_request E user req uid eid tid" and "no_pending_order uid eid s" and "key_unused (req_IdempotencyKey req) s"
    and "row_left tid n a s" and "type_on_sale E tid s"
    and "redis s (stock_key (req_TicketTypeID req)) = None \<or> counter (redis s) (stock_key (req_TicketTypeID req)) = Some a"
    and "sint (req_Quantity req) \<le> a"
    and key: "key = (if req_IdempotencyKey req = [] then [] else idempotency_key (req_IdempotencyKey req))"
  obtains t where "run_state (order_prefix E req uid eid) s = (Inr key, t)" and "row_left tid n (a - sint (req_Quantity req)) t"
    and "counter (redis t) (stock_key (req_TicketTypeID req)) = Some (a - sint (req_Quantity req))" and "queue_world t = queue_world s"
proof -
  have "wp (order_prefix E req uid eid) (\<lambda>r t. r = Inr key \<and> row_left tid n (a - sint (req_Quantity req)) t \<and>
      counter (redis t) (stock_key (req_TicketTypeID req)) = Some (a - sint (req_Quantity req)) \<and> queue_world t = queue_world s) s"
    by (rule wp_order_prefix [OF assms(1-10) key]) (use assms(11) in simp_all)
  then show ?thesis using that by (auto simp: wp_def split: prod.splits)
qed

text \<open>Stock, key, tickets, messages and queues are as they were; what the table of orders keeps is said apart.\<close>

definition rolled_back :: "CreateOrderRequest \<Rightarrow> uuid \<Rightarrow> int \<Rightarrow> int \<Rightarrow> 'z ticket_db_scheme \<Rightarrow> 'z ticket_db_scheme \<Rightarrow> bool" where
  "rolled_back req tid n a s t \<longleftrightarrow> row_left tid n a t \<and> counter (redis t) (stock_key (req_TicketTypeID req)) = Some a \<and>
     key_unused (req_IdempotencyKey req) t \<and> tickets t = tickets s \<and> kafka t = kafka s \<and> (\<forall>k. queue_name k \<longrightarrow> redis t k = redis s k)"

text \<open>The rollback after the fault: what comes behind the lost call runs as without it.\<close>

lemma wp_undo_faulty:
  fixes u :: "'z ticket_db_scheme"
  assumes E: "reliable E" "secret_accepted E" "has_redis E" "has_events E" and g: "good_request E user req uid eid tid"
    and left: "row_left tid n (a - sint (req_Quantity req)) u" and a: "a \<le> n"
    and c: "counter (redis u) (stock_key (req_TicketTypeID req)) = Some (a - sint (req_Quantity req))"
    and same: "tickets u = tickets s" "kafka u = kafka s" "\<And>k. queue_name k \<Longrightarrow> redis u k = redis s k"
    and key: "key = (if req_IdempotencyKey req = [] then [] else idempotency_key (req_IdempotencyKey req))"
    and late: "k < tick u"
    and post: "\<And>t. rolled_back req tid n a s t \<Longrightarrow> orders t = orders u \<Longrightarrow> order_items t = order_items u \<Longrightarrow> Q () t"
  shows "wp (ReleaseTicketStock (faulty_at E k f) (req_TicketTypeID req) (req_Quantity req)) (\<lambda>_. wp (drop_claim (faulty_at E k f) key) Q) u"
proof -
  have P: "uuid_Parse E (req_TicketTypeID req) = Some tid" "0 < sint (req_Quantity req)" using g by (simp_all add: good_request_def)
  have "wp (do { ReleaseTicketStock E (req_TicketTypeID req) (req_Quantity req); drop_claim E key }) Q u"
    by (rule wp_undo [OF E P left _ c])
      (use a key same in \<open>auto simp: rolled_back_def key_unused_def queue_world_eq intro!: post split: if_splits\<close>)
  then have "wp (do { ReleaseTicketStock (faulty_at E k f) (req_TicketTypeID req) (req_Quantity req); drop_claim (faulty_at E k f) key }) Q u"
    by (simp only: apart_wp_after [OF apart_undo late])
  then show ?thesis by simp
qed

text \<open>The statement that stores the order, and the one that stores its item, when its request or its reply is lost.\<close>

lemma wp_store_order_lost:
  fixes t :: "'z ticket_db_scheme"
  assumes E: "reliable E" "secret_accepted E" "has_redis E" "has_events E" and g: "good_request E user req uid eid tid"
    and amt: "decimal_15_2 (numeric_of_f64 6 (subtotal req)) = Inr amount" and ids: "fresh_ids E s"
    and left: "row_left tid n (a - sint (req_Quantity req)) t" and a: "a \<le> n"
    and c: "counter (redis t) (stock_key (req_TicketTypeID req)) = Some (a - sint (req_Quantity req))" and w: "queue_world t = queue_world s"
    and key: "key = (if req_IdempotencyKey req = [] then [] else idempotency_key (req_IdempotencyKey req))" and f: "f \<noteq> Delivered"
  shows "wp (store_order fuel (faulty_at E (Suc (tick t)) f) user req uid eid tid key)
      (\<lambda>r t. r = Some (Inl ErrTransport) \<and> rolled_back req tid n a s t \<and> order_items t = order_items s \<and>
         (if f = Lost_request then orders t = orders s else \<exists>order. orders t = orders s @ [order] \<and> o_Status order = ''PENDING'')) t"
    and "wp (store_order fuel (faulty_at E (Suc (Suc (tick t))) f) user req uid eid tid key)
      (\<lambda>r t. r = Some (Inl (Err_New ''failed to initialize order items'')) \<and> rolled_back req tid n a s t \<and>
         (\<exists>order. orders t = orders s @ [order] \<and> o_Status order = ''CANCELLED'')) t"
proof -
  note undo = wp_undo_faulty [where s = s, OF E g _ a _ _ _ _ key]
  have same: "orders t = orders s" "order_items t = order_items s" "tickets t = tickets s" "kafka t = kafka s" "\<And>k. queue_name k \<Longrightarrow> redis t k = redis s k"
    using w by (simp_all add: queue_world_eq)
  have new: "fresh E n \<notin> o_ID ` set (orders s)" "fresh E n \<notin> oi_ID ` set (order_items s)" for n
    using ids by (simp_all add: fresh_ids_def)
  have E': "outcome E n = Delivered" for n using E(1) by (simp add: reliable_def)
  have others: "update_rows (\<lambda>r. o_ID r = fresh E n) h (orders s @ [r]) = orders s @ [if o_ID r = fresh E n then h r else r]" for n h r
  proof -
    have "update_rows (\<lambda>r. o_ID r = fresh E n) h (orders s) = orders s"
      unfolding update_rows_def by (rule map_idI) (use new(1) in \<open>metis image_eqI\<close>)
    then show ?thesis by (simp add: update_rows_def)
  qed
  show "wp (store_order fuel (faulty_at E (Suc (tick t)) f) user req uid eid tid key)
      (\<lambda>r t. r = Some (Inl ErrTransport) \<and> rolled_back req tid n a s t \<and> order_items t = order_items s \<and>
         (if f = Lost_request then orders t = orders s else \<exists>order. orders t = orders s @ [order] \<and> o_Status order = ''PENDING'')) t"
    using f amt new same left c
    by (cases f) (auto simp: store_order_def record_order_def Queries_CreateOrder_def Let_def sql_def wp_external E' row_left_def intro!: undo)
  show "wp (store_order fuel (faulty_at E (Suc (Suc (tick t))) f) user req uid eid tid key)
      (\<lambda>r t. r = Some (Inl (Err_New ''failed to initialize order items'')) \<and> rolled_back req tid n a s t \<and>
         (\<exists>order. orders t = orders s @ [order] \<and> o_Status order = ''CANCELLED'')) t"
    using f amt new same left c
    by (cases f) (auto simp: store_order_def record_order_def Queries_CreateOrder_def CreateOrderItem_def UpdateOrderStatus_def Let_def
      sql_def wp_external E' row_left_def others intro!: undo)
qed

section \<open>No checkout operation breaks the stores\<close>

lemma idempotency_apart [simp]:
  "stock_key k \<noteq> idempotency_key j" "idempotency_key j \<noteq> stock_key k" "\<not> queue_name (idempotency_key j)" "\<not> list_name (idempotency_key j)"
  by (simp_all add: stock_key_def idempotency_key_def queue_name_def list_name_def)

text \<open>What the idempotency key may be when an order is taken: none, or a claimed name.\<close>

definition claim_name :: "string \<Rightarrow> bool" where
  "claim_name key \<longleftrightarrow> key = [] \<or> (\<exists>k. key = idempotency_key k)"

lemma claim_yields: "yields (\<lambda>r. \<forall>key. r = Inr key \<longrightarrow> claim_name key) (idempotency_claim E k)"
  unfolding idempotency_claim_def claim_key_def claim_name_def
  by (intro yields_rules) (auto intro!: yields_rules)

text \<open>An assertion that no operation on orders can break, as long as the users who order are among \<open>G\<close>.\<close>

locale checkout_commands = cancel_commands +
  fixes G :: "uuid set"
  assumes claim_set: "I s \<Longrightarrow> I (s\<lparr>redis := (redis s)(idempotency_key k \<mapsto> (RStr v, d))\<rparr>)"
    and claim_del: "I s \<Longrightarrow> I (s\<lparr>redis := (redis s)(idempotency_key k := None)\<rparr>)"
    and item_free: "0 < sint q \<Longrightarrow> keeps I (CreateOrderItem E oid tid q p t)"
    and reserve_free: "0 < sint q \<Longrightarrow> keeps I (ReserveTicketStock E v q)"
    and order_writes: "user \<in> G \<Longrightarrow> keeps I (Queries_CreateOrder E user event amt status expires)" "keeps I (UpdateOrderStatus E oid status)"
    and payment_free: "keeps I (HandlePaymentSuccess E v)"
begin

lemma keeps_claims:
  "keeps I (redis_cmd E (do_setnx (idempotency_key k) v ttl))"
  "keeps I (redis_cmd E (do_set (idempotency_key k) v ttl'))" "keeps I (redis_cmd E (do_del [idempotency_key k]))"
proof -
  have del: "(\<lambda>j. if j = idempotency_key k then None else rd j) = rd(idempotency_key k := None)" for rd :: rstore
    by (rule ext) simp
  show "keeps I (redis_cmd E (do_setnx (idempotency_key k) v ttl))" "keeps I (redis_cmd E (do_set (idempotency_key k) v ttl'))"
    "keeps I (redis_cmd E (do_del [idempotency_key k]))"
    by (rule keeps_redis_cmd [OF tick_free]; simp add: do_setnx_def do_set_def do_del_def del claim_set claim_del)+
qed

lemma keeps_claim: "keeps I (idempotency_claim E k)"
  unfolding idempotency_claim_def claim_key_def
  by (intro keeps_rules keeps_queue_cmds keeps_claims keeps_reads tick_free)

lemma keeps_record: "uid \<in> G \<Longrightarrow> 0 < sint (req_Quantity req) \<Longrightarrow> keeps I (record_order E uid eid tid req)"
  unfolding record_order_def Let_def
  by (intro keeps_rules keeps_Now tick_free order_writes item_free release_free)

lemma keeps_drop: "claim_name key \<Longrightarrow> keeps I (drop_claim E key)"
  unfolding drop_claim_def claim_name_def by (auto intro!: keeps_rules keeps_claims)

lemma keeps_announce: "claim_name key \<Longrightarrow> keeps I (announce_order fuel E user req key order eid)"
  unfolding announce_order_def claim_name_def
  by (auto intro!: keeps_rules keeps_claims keeps_Publish keeps_EnqueueOrder tick_free kafka_free)

lemma keeps_check: "keeps I (check_ticket_type E tid)"
  unfolding check_ticket_type_def
  by (intro keeps_rules type_free keeps_Now tick_free)

lemma keeps_take:
  "uid \<in> G \<Longrightarrow> 0 < sint (req_Quantity req) \<Longrightarrow> claim_name key \<Longrightarrow> keeps I (take_order fuel E user req uid eid tid key)"
  unfolding take_order_def store_order_def
  by (intro keeps_rules keeps_check keeps_drop keeps_record keeps_announce reserve_free)

lemma keeps_CreateOrder:
  assumes "0 < sint (req_Quantity req)" and "\<And>uid. uuid_Parse E user = Some uid \<Longrightarrow> uid \<in> G"
  shows "keeps I (CreateOrder fuel E user req)"
proof -
  have claim: "keeps I (do {
      claim \<leftarrow> idempotency_claim E (req_IdempotencyKey req);
      case claim of Inl answer \<Rightarrow> ret (Some answer) | Inr key \<Rightarrow> take_order fuel E user req uid eid tid key })" if "uid \<in> G" for uid eid tid
    unfolding keeps_iff_wp wp_bind
  proof (intro allI impI, rule wp_mono2 [OF yields_wp [OF claim_yields] keeps_wp [OF keeps_claim]], assumption)
    fix s t and r :: "(gerr + Order) + string"
    assume "\<forall>key. r = Inr key \<longrightarrow> claim_name key" and "I t"
    then show "wp (case r of Inl answer \<Rightarrow> ret (Some answer) | Inr key \<Rightarrow> take_order fuel E user req uid eid tid key) (\<lambda>_. I) t"
      using keeps_wp [OF keeps_take [OF that assms(1)]] by (cases r) simp_all
  qed
  show ?thesis
  proof (cases "uuid_Parse E user")
    case (Some uid)
    then have "uid \<in> G" by (rule assms(2))
    then show ?thesis
      unfolding CreateOrder_def Some option.case
      by (intro keeps_rules keeps_reads tick_free claim)
  qed (simp add: CreateOrder_def keeps_return)
qed

lemma keeps_Notification: "keeps I (HandleMidtransNotification E core payload)"
  unfolding HandleMidtransNotification_def HandlePaymentFailed_def Let_def
  by (intro keeps_rules keeps_external payment_free keeps_CancelOrder tick_free)

lemma keeps_token: "keeps I (CreatePaymentToken E snap order_str user_str)"
  unfolding CreatePaymentToken_def Let_def
  by (intro keeps_rules keeps_external keeps_reads keeps_CheckAndAdvance keeps_queue_cmds keeps_Now tick_free)

lemma keeps_worker: "keeps I (processExpiredOrders E)"
  unfolding processExpiredOrders_def
  by (intro keeps_rules keeps_reads keeps_CancelOrder tick_free)

end

text \<open>An assertion on the ticket types, Redis and the items alone is one of them.\<close>

locale stock_commands = cancel_commands +
  assumes determined: "I s \<Longrightarrow> (ticket_types t, redis t, order_items t) = (ticket_types s, redis s, order_items s) \<Longrightarrow> I t"
    and idempotency_set: "I s \<Longrightarrow> I (s\<lparr>redis := (redis s)(idempotency_key k \<mapsto> (RStr v, d))\<rparr>)"
    and idempotency_del: "I s \<Longrightarrow> I (s\<lparr>redis := (redis s)(idempotency_key k := None)\<rparr>)"
    and item_added: "I s \<Longrightarrow> 0 < sint (oi_Quantity i) \<Longrightarrow> I (s\<lparr>order_items := order_items s @ [i]\<rparr>)"
    and reserved: "0 < sint q \<Longrightarrow> keeps I (ReserveTicketStock E tid q)"
begin

lemma keeps_frame: "unchanged (\<lambda>s. (ticket_types s, redis s, order_items s)) m \<Longrightarrow> keeps I m"
  by (rule keepsI) (blast intro: determined dest: unchangedD)

lemma keeps_orders:
  "keeps I (Queries_CreateOrder E user event amt status expires)" "keeps I (UpdateOrderStatus E oid status)"
  by (rule keeps_frame, rule frame_order_writes; simp add: tick_free_def)+

lemma keeps_item: "0 < sint q \<Longrightarrow> keeps I (CreateOrderItem E oid tid q p t)"
  unfolding CreateOrderItem_def
  by (rule keeps_sql [OF tick_free]) (auto simp: Let_def item_added split: sum.split)

lemma keeps_tickets: "keeps I (issue_tickets E oid order items)"
  by (rule keeps_frame, rule frame_issue_tickets) (simp_all add: tick_free_def)

lemma keeps_Success: "keeps I (HandlePaymentSuccess E v)"
  unfolding HandlePaymentSuccess_def
  by (intro keeps_rules keeps_reads keeps_orders keeps_tickets keeps_AdvanceQueue tick_free)

end

sublocale stock_commands \<subseteq> checkout_commands I UNIV
  by unfold_locales (simp_all add: idempotency_set idempotency_del keeps_item reserved keeps_orders keeps_Success)

interpretation shop: stock_commands store_ok
  by unfold_locales
    (auto simp: store_ok_def stock_ok_def inventory_ok_def counter_def intro: keeps_store_Reserve)

section \<open>A concrete shop\<close>

text \<open>Three tickets on sale, no order yet; a buyer asks for two of them.\<close>

definition demo_shop :: ticket_db where
  "demo_shop = \<lparr>tick = 0, redis = Map.empty, kafka = [], ticket_types = [demo_type], events = [demo_event],
     orders = [], order_items = [], tickets = [], withdrawals = []\<rparr>"

definition demo_request :: "int32 \<Rightarrow> f64 \<Rightarrow> CreateOrderRequest" where
  "demo_request q p = \<lparr>req_EventID = demo_name 2, req_TicketTypeID = demo_name 1, req_Quantity = q, req_Price = p,
     req_IdempotencyKey = ''k''\<rparr>"

lemma demo_shop_simps [simp]:
  "row_left 1 3 3 demo_shop" "type_on_sale E 1 demo_shop" "redis demo_shop k = None" "orders demo_shop = []"
  "order_items demo_shop = []" "tickets demo_shop = []" "fresh_ids E demo_shop" "no_pending_order uid eid demo_shop"
  "key_unused k demo_shop" "raw_list (redis demo_shop) k = []" "order_ledger demo_shop = ([], [])" "store_ok demo_shop"
  using demo_stock
  by (auto simp: demo_shop_def demo_db_def row_left_def type_on_sale_def fresh_ids_def no_pending_order_def key_unused_def
      raw_list_def order_ledger_def store_ok_def stock_ok_def inventory_ok_def counter_def)

lemma demo_request_simps [simp]:
  "0 < sint q \<Longrightarrow> good_request still_env (demo_name 5) (demo_request q p) 5 2 1"
  "req_Quantity (demo_request q p) = q" "req_Price (demo_request q p) = p" "req_TicketTypeID (demo_request q p) = demo_name 1"
  "req_EventID (demo_request q p) = demo_name 2" "req_IdempotencyKey (demo_request q p) = ''k''"
  by (simp_all add: good_request_def demo_request_def)

lemma demo_prices:
  "decimal_15_2 (numeric_of_f64 6 (subtotal (demo_request 2 (Fin 4)))) = Inr (Num 8)"
  "decimal_15_2 (numeric_of_f64 6 (subtotal (demo_request 2 PInf))) = Inl ErrConstraint"
proof -
  have r: "fround 2 = Fin 2" "fround 8 = Fin 8"
    by (simp_all add: fround_def ulp_def ilog2_def pow2_def round_half_even_def compute_floorlog Let_def)
  have "numeric_of_f64 6 (Fin 8) = Num 8" "decimal_15_2 (Num 8) = Inr (Num 8)"
    by (simp_all add: round_half_even_def round_cents_def Let_def floor_eq_iff)
  note this r
  then show "decimal_15_2 (numeric_of_f64 6 (subtotal (demo_request 2 (Fin 4)))) = Inr (Num 8)"
    "decimal_15_2 (numeric_of_f64 6 (subtotal (demo_request 2 PInf))) = Inl ErrConstraint"
    by (simp_all add: subtotal_def f_of_int_def finf_def)
qed

lemma demo_name_neq: "demo_name u \<noteq> ''PROCESSING''"
  by (simp add: demo_name_def)

section \<open>Properties\<close>

text \<open>
  C4. An order that goes through. For a well-formed request of a user without a pending order, an
  unused idempotency key, enough tickets left and a free slot, \<open>CreateOrder\<close> answers with a pending
  order of that user, stores it with one item of the quantity asked for, takes exactly that quantity
  from the Redis counter and from the row of the event service, and gives the order the slot of the
  queue. The total, and the price of the item too, is the quantity times the price the client named.
\<close>

theorem create_order_succeeds:
  fixes s :: "'z ticket_db_scheme"
  assumes "reliable E" and "secret_accepted E" and "has_redis E" and "has_events E" and "uuid_laws E"
    and "good_request E user req uid eid tid" and "no_pending_order uid eid s" and "key_unused (req_IdempotencyKey req) s"
    and "row_left tid n a s" and "type_on_sale E tid s"
    and "redis s (stock_key (req_TicketTypeID req)) = None \<or> counter (redis s) (stock_key (req_TicketTypeID req)) = Some a"
    and "sint (req_Quantity req) \<le> a" and "decimal_15_2 (numeric_of_f64 6 (subtotal req)) = Inr amount"
    and "fresh_ids E s" and "redis s (active_key E eid) = None"
  shows "wp (CreateOrder (Suc fuel) E user req)
    (\<lambda>r t. \<exists>order item. r = Some (Inr order) \<and> o_UserID order = uid \<and> o_EventID order = eid \<and> o_Status order = ''PENDING'' \<and>
       o_TotalAmount order = amount \<and> order_ledger t = (fst (order_ledger s) @ [(o_ID order, ''PENDING'')], tickets s) \<and>
       order_items t = order_items s @ [item] \<and> oi_OrderID item = o_ID order \<and> oi_TicketTypeID item = tid \<and>
       oi_Quantity item = req_Quantity req \<and> oi_Price item = amount \<and> oi_Subtotal item = amount \<and>
       row_left tid n (a - sint (req_Quantity req)) t \<and>
       counter (redis t) (stock_key (req_TicketTypeID req)) = Some (a - sint (req_Quantity req)) \<and>
       queue_of E eid t = (Some (uuid_String E (o_ID order)), raw_list (redis s) (waiting_key E eid))) s"
proof (rule CreateOrder_upto_reservation [OF assms(1-4,6-11) refl])
  fix t :: "'z ticket_db_scheme"
  assume l: "row_left tid n (a - sint (req_Quantity req)) t"
    and c: "counter (redis t) (stock_key (req_TicketTypeID req)) = Some (a - sint (req_Quantity req))"
    and w: "queue_world t = queue_world s"
  have w': "redis t (active_key E eid) = None" "raw_list (redis t) (waiting_key E eid) = raw_list (redis s) (waiting_key E eid)"
    "order_ledger t = order_ledger s" "order_items t = order_items s" "tickets t = tickets s"
    using w assms(15) by (simp_all add: queue_world_eq raw_list_def order_ledger_def)
  show "wp (store_order (Suc fuel) E user req uid eid tid
      (if req_IdempotencyKey req = [] then [] else idempotency_key (req_IdempotencyKey req)))
    (\<lambda>r t. \<exists>order item. r = Some (Inr order) \<and> o_UserID order = uid \<and> o_EventID order = eid \<and> o_Status order = ''PENDING'' \<and>
       o_TotalAmount order = amount \<and> order_ledger t = (fst (order_ledger s) @ [(o_ID order, ''PENDING'')], tickets s) \<and>
       order_items t = order_items s @ [item] \<and> oi_OrderID item = o_ID order \<and> oi_TicketTypeID item = tid \<and>
       oi_Quantity item = req_Quantity req \<and> oi_Price item = amount \<and> oi_Subtotal item = amount \<and>
       row_left tid n (a - sint (req_Quantity req)) t \<and>
       counter (redis t) (stock_key (req_TicketTypeID req)) = Some (a - sint (req_Quantity req)) \<and>
       queue_of E eid t = (Some (uuid_String E (o_ID order)), raw_list (redis s) (waiting_key E eid))) t"
    by (rule wp_store_order [OF assms(1,5,3,13) fresh_ids_world [OF assms(14) w] w'(1)])
      (use l c in \<open>auto simp: w' row_left_def counter_def\<close>)
qed (use assms(12) in simp)

theorem create_order_succeeds_witness:
  "wp (CreateOrder (Suc 0) still_env (demo_name 5) (demo_request 2 (Fin 4)))
    (\<lambda>r t. row_left 1 3 1 t \<and> (\<exists>order. r = Some (Inr order) \<and> o_TotalAmount order = Num 8)) demo_shop"
  by (rule wp_mono [OF create_order_succeeds [where uid = 5 and eid = 2 and tid = 1 and n = 3 and a = 3 and amount = "Num 8"]])
    (auto simp: demo_prices)

text \<open>
  A request for more tickets than are left fails with \<open>ErrSoldOut\<close> and leaves nothing behind: no
  order, no item, no message, the same tickets left, the same queue.
\<close>

theorem create_order_sold_out:
  fixes s :: "'z ticket_db_scheme"
  assumes "reliable E" and "secret_accepted E" and "has_redis E" and "has_events E"
    and "good_request E user req uid eid tid" and "no_pending_order uid eid s" and "key_unused (req_IdempotencyKey req) s"
    and "row_left tid n a s" and "type_on_sale E tid s"
    and "redis s (stock_key (req_TicketTypeID req)) = None \<or> counter (redis s) (stock_key (req_TicketTypeID req)) = Some a"
    and "a < sint (req_Quantity req)"
  shows "wp (CreateOrder fuel E user req)
    (\<lambda>r t. r = Some (Inl ErrSoldOut) \<and> queue_world t = queue_world s \<and> row_left tid n a t \<and>
       key_unused (req_IdempotencyKey req) t) s"
proof (rule CreateOrder_upto_reservation [OF assms(1-10) refl])
  fix t :: "'z ticket_db_scheme"
  assume "row_left tid n a t" and "queue_world t = queue_world s"
  then show "wp (drop_claim E (if req_IdempotencyKey req = [] then [] else idempotency_key (req_IdempotencyKey req)))
      (\<lambda>_ t. Some (Inl ErrSoldOut) = Some (Inl ErrSoldOut) \<and> queue_world t = queue_world s \<and> row_left tid n a t \<and>
         key_unused (req_IdempotencyKey req) t) t"
    using assms(1,3) by (auto simp: drop_claim_def do_del_def queue_world_eq row_left_def key_unused_def)
qed (use assms(11) in simp)

theorem create_order_sold_out_witness:
  "wp (CreateOrder 0 still_env (demo_name 5) (demo_request 4 (Fin 4)))
    (\<lambda>r t. r = Some (Inl ErrSoldOut) \<and> orders t = [] \<and> row_left 1 3 3 t) demo_shop"
  by (rule wp_mono [OF create_order_sold_out [where uid = 5 and eid = 2 and tid = 1 and n = 3 and a = 3]])
    (auto simp: queue_world_eq)

text \<open>
  C15. A reservation is undone whichever statement fails to store the order. When the column cannot hold the total (an infinity,
  or more than 13 digits) the request fails with that error and leaves no row. Otherwise two statements store the order, the calls
  \<open>k\<close> and \<open>k + 1\<close> of the run, and when the request or the reply of one of them is lost while every other call succeeds, the request fails
  too. In all five cases the tickets just reserved are back in the Redis counter and in the row of the event service, no ticket, message or
  queue has changed and the idempotency key is free again. What stays of the order: nothing when the first request is lost, a
  pending order when only its reply is, and a cancelled order when the second statement fails.
\<close>

theorem create_order_rolls_back:
  fixes s :: "'z ticket_db_scheme"
  assumes "reliable E" and "secret_accepted E" and "has_redis E" and "has_events E"
    and "good_request E user req uid eid tid" and "no_pending_order uid eid s" and "key_unused (req_IdempotencyKey req) s"
    and "row_left tid n a s" and "type_on_sale E tid s"
    and "redis s (stock_key (req_TicketTypeID req)) = None \<or> counter (redis s) (stock_key (req_TicketTypeID req)) = Some a"
    and "sint (req_Quantity req) \<le> a" and "fresh_ids E s"
  shows "case decimal_15_2 (numeric_of_f64 6 (subtotal req)) of
      Inl e \<Rightarrow> wp (CreateOrder fuel E user req)
        (\<lambda>r t. r = Some (Inl e) \<and> rolled_back req tid n a s t \<and> orders t = orders s \<and> order_items t = order_items s) s
    | Inr amount \<Rightarrow> \<exists>k. \<forall>f \<in> {Lost_request, Lost_reply}.
        wp (CreateOrder fuel (faulty_at E k f) user req)
          (\<lambda>r t. r = Some (Inl ErrTransport) \<and> rolled_back req tid n a s t \<and> order_items t = order_items s \<and>
             (if f = Lost_request then orders t = orders s else \<exists>order. orders t = orders s @ [order] \<and> o_Status order = ''PENDING'')) s \<and>
        wp (CreateOrder fuel (faulty_at E (Suc k) f) user req)
          (\<lambda>r t. r = Some (Inl (Err_New ''failed to initialize order items'')) \<and> rolled_back req tid n a s t \<and>
             (\<exists>order. orders t = orders s @ [order] \<and> o_Status order = ''CANCELLED'')) s"
proof -
  define key where "key = (if req_IdempotencyKey req = [] then [] else idempotency_key (req_IdempotencyKey req))"
  obtain t where run: "run_state (order_prefix E req uid eid) s = (Inr key, t)" and left: "row_left tid n (a - sint (req_Quantity req)) t"
    and c: "counter (redis t) (stock_key (req_TicketTypeID req)) = Some (a - sint (req_Quantity req))" and w: "queue_world t = queue_world s"
    by (rule order_prefix_reserves [OF assms(1-11) key_def])
  have g: "good_request (faulty_at E k f) user req uid eid tid" for k f using assms(5) by (simp add: good_request_def)
  have P: "uuid_Parse E (req_TicketTypeID req) = Some tid" "0 < sint (req_Quantity req)"
    using assms(5) by (simp_all add: good_request_def)
  have a: "a \<le> n" using row_left_bounds [OF assms(8)] by simp
  have go_on: "wp (CreateOrder fuel (faulty_at E k f) user req) Q s = wp (store_order fuel (faulty_at E k f) user req uid eid tid key) Q t"
    if "tick t \<le> k" for k f Q
  proof -
    have "run_state (order_prefix (faulty_at E k f) req uid eid) s = (Inr key, t)"
      using apart_run [OF apart_prefix run] that by blast
    then show ?thesis by (simp add: wp_CreateOrder [OF g] wp_run)
  qed
  show ?thesis
  proof (cases "decimal_15_2 (numeric_of_f64 6 (subtotal req))")
    case (Inl e)
    have "wp (store_order fuel E user req uid eid tid key)
        (\<lambda>r t. r = Some (Inl e) \<and> rolled_back req tid n a s t \<and> orders t = orders s \<and> order_items t = order_items s) t"
      by (rule wp_store_order_refused [OF assms(1-4) Inl P left _ c])
        (use a w in \<open>auto simp: rolled_back_def key_def key_unused_def queue_world_eq split: if_splits\<close>)
    then show ?thesis by (simp add: Inl wp_CreateOrder [OF assms(5)] wp_run [OF run])
  next
    case (Inr amount)
    note lost = wp_store_order_lost [OF assms(1-5) Inr assms(12) left a c w key_def, of _ fuel]
    have "f \<noteq> Delivered" if "f \<in> {Lost_request, Lost_reply}" for f using that by auto
    then show ?thesis
      unfolding Inr sum.case by (intro exI [of _ "Suc (tick t)"] ballI conjI; subst go_on, simp, intro lost)
  qed
qed

theorem create_order_rolls_back_witness:
  "wp (CreateOrder 0 still_env (demo_name 5) (demo_request 2 PInf))
      (\<lambda>r t. r = Some (Inl ErrConstraint) \<and> orders t = [] \<and> row_left 1 3 3 t) demo_shop \<and>
   (\<exists>k. wp (CreateOrder 0 (faulty_at still_env k Lost_reply) (demo_name 5) (demo_request 2 (Fin 4)))
      (\<lambda>r t. r = Some (Inl (Err_New ''failed to initialize order items'')) \<and> map o_Status (orders t) = [''CANCELLED''] \<and> row_left 1 3 3 t) demo_shop)"
proof (intro conjI)
  note run = create_order_rolls_back [where uid = 5 and eid = 2 and tid = 1 and n = 3 and a = 3 and fuel = 0 and E = still_env
      and user = "demo_name 5" and s = demo_shop]
  show "wp (CreateOrder 0 still_env (demo_name 5) (demo_request 2 PInf))
      (\<lambda>r t. r = Some (Inl ErrConstraint) \<and> orders t = [] \<and> row_left 1 3 3 t) demo_shop"
    using run [of "demo_request 2 PInf"] by (auto simp: demo_prices rolled_back_def elim!: wp_mono)
  show "\<exists>k. wp (CreateOrder 0 (faulty_at still_env k Lost_reply) (demo_name 5) (demo_request 2 (Fin 4)))
      (\<lambda>r t. r = Some (Inl (Err_New ''failed to initialize order items'')) \<and> map o_Status (orders t) = [''CANCELLED''] \<and> row_left 1 3 3 t) demo_shop"
    using run [of "demo_request 2 (Fin 4)"]
    by (simp add: demo_prices rolled_back_def del: split_paired_Ex) (elim exE conjE, rule exI, erule wp_mono, auto)
qed

text \<open>
  One pending order per user and event: while such an order is on file and its deadline has not
  passed, a further request of that user for that event is refused with
  \<open>ErrActivePendingOrderExists\<close> and changes nothing, whatever its idempotency key is and whatever
  else fails later.
\<close>

theorem create_order_one_pending:
  assumes "outcome E (tick s) = Delivered" and "uuid_Parse E user = Some uid"
    and "uuid_Parse E (req_EventID req) = Some eid" and "uuid_Parse E (req_TicketTypeID req) = Some tid"
    and "order \<in> set (orders s)" and "o_UserID order = uid" and "o_EventID order = eid" and "o_Status order = ''PENDING''"
    and "clock E (tick s) < o_ExpiresAt order" and "\<forall>o' \<in> set (orders s). o_ID o' \<noteq> uuid_Nil"
  shows "wp (CreateOrder fuel E user req) (\<lambda>r t. r = Some (Inl ErrActivePendingOrderExists) \<and> same_but_tick s t) s"
proof -
  let ?p = "\<lambda>r. o_UserID r = uid \<and> o_EventID r = eid \<and> o_Status r = ''PENDING'' \<and> pg_time (clock E (tick s)) < o_ExpiresAt r"
  have "?p order" using assms(6-9) pg_time_le [of "clock E (tick s)"] by simp
  then have "find_row ?p (orders s) \<noteq> None" using assms(5) by (auto simp: find_row_None simp del: not_None_eq)
  then obtain r where r: "find_row ?p (orders s) = Some r" by blast
  then have "o_ID r \<noteq> uuid_Nil" using assms(10) find_row_Some [OF r] by blast
  then show ?thesis
    using assms(1-4) r by (simp add: CreateOrder_def GetActivePendingOrderByUserAndEvent_def sql_def wp_external)
qed

theorem create_order_one_pending_witness:
  "wp (CreateOrder 1 still_env (demo_name 5) (demo_request 1 (Fin 4)))
     (\<lambda>r t. r = Some (Inl ErrActivePendingOrderExists)) (demo_queue 1200)"
  by (rule wp_mono [OF create_order_one_pending [where uid = 5 and eid = 2 and tid = 1 and order = "demo_order 12"]])
    (auto simp: Second_def)

text \<open>
  A replayed idempotency key answers with the order it stands for: once the key holds the id of
  an order, a request with that key, of a user without a pending order, gets that order back and
  nothing changes. The order is returned whoever owns it.
\<close>

theorem replayed_key_returns_order:
  assumes "reliable E" and "uuid_laws E" and "has_redis E" and "good_request E user req uid eid tid" and "no_pending_order uid eid s"
    and "req_IdempotencyKey req \<noteq> []" and "redis s (idempotency_key (req_IdempotencyKey req)) = Some (RStr (uuid_String E oid), Some d)"
    and "\<And>n. clock E n < d" and "uuid_String E oid \<noteq> ''PROCESSING''"
    and "find_row (\<lambda>r. o_ID r = oid) (orders s) = Some order"
  shows "wp (CreateOrder fuel E user req) (\<lambda>r t. r = Some (Inr order) \<and> same_but_tick s t) s"
proof -
  have P: "uuid_Parse E user = Some uid" "uuid_Parse E (req_EventID req) = Some eid"
    "uuid_Parse E (req_TicketTypeID req) = Some tid"
    using assms(4) by (simp_all add: good_request_def)
  have get: "do_get (idempotency_key (req_IdempotencyKey req)) (clock E n) (redis s) = (Inr (uuid_String E oid), redis s)" for n
    using assms(7,8) by (simp add: do_get_def rlookup_def)
  have "wp (idempotency_claim E (req_IdempotencyKey req))
      (\<lambda>c. wp (case c of Inl answer \<Rightarrow> ret (Some answer) | Inr key \<Rightarrow> take_order fuel E user req uid eid tid key)
        (\<lambda>r t. r = Some (Inr order) \<and> same_but_tick s t)) (s\<lparr>tick := m\<rparr>)" for m
    using assms(1,3,6,9,10) by (simp add: idempotency_claim_def get uuid_roundtrip [OF assms(2)] GetOrder_def)
  then show ?thesis
    by (simp add: CreateOrder_def P del: wp_bind wp_bind_fun) (rule guard_passes [OF assms(1,5)], simp)
qed

theorem replayed_key_returns_order_witness:
  "wp (CreateOrder 1 still_env (demo_name 6) (demo_request 1 (Fin 4)))
     (\<lambda>r t. r = Some (Inr (demo_order 11)))
     ((demo_queue 1200)\<lparr>redis := [idempotency_key ''k'' \<mapsto> (RStr (demo_name 11), Some (2000 * Second))]\<rparr>)"
  by (rule wp_mono [OF replayed_key_returns_order [where uid = 6 and eid = 2 and tid = 1 and oid = 11 and order = "demo_order 11"
        and d = "2000 * Second"]])
    (auto simp: Second_def good_request_def no_pending_order_def demo_request_def demo_name_neq)

text \<open>
  The checkout keeps the stores sound: creating an order for a positive quantity, a payment, a
  Midtrans notification and a run of the expiry worker keep every stock counter non-negative, every
  ticket type within its quantity and every item of positive quantity, under every schedule of
  faults and whatever Midtrans answers.
\<close>

theorem checkout_keeps_stores:
  assumes "store_ok s" and "0 < sint (req_Quantity req)"
  shows "wp (CreateOrder fuel E user req) (\<lambda>_. store_ok) s \<and> wp (HandlePaymentSuccess E v) (\<lambda>_. store_ok) s \<and>
    wp (HandleMidtransNotification E core payload) (\<lambda>_. store_ok) s \<and> wp (processExpiredOrders E) (\<lambda>_. store_ok) s"
  by (intro conjI keeps_wp [where I = store_ok] assms(1) shop.keeps_CreateOrder [OF assms(2) UNIV_I] shop.keeps_Success
      shop.keeps_Notification shop.keeps_worker)

theorem checkout_keeps_stores_witness:
  "wp (CreateOrder 3 (still_env\<lparr>outcome := (\<lambda>n. if even n then Delivered else Lost_reply)\<rparr>) (demo_name 5) (demo_request 2 (Fin 4)))
     (\<lambda>_. store_ok) demo_shop"
  by (rule checkout_keeps_stores [THEN conjunct1]) simp_all

end
