(* ===== verification/Ticket_Midtrans_Spec.thy ===== *)
theory Ticket_Midtrans_Spec
  imports Ticket_Checkout_Spec
begin

text \<open>
  What stands around a payment: the order id sent to Midtrans and read back from a notification, who
  gets a payment token, which notifications pay or cancel an order, what the expiry worker and the
  consumer of scans do, and the gate statistics of an event.
\<close>

section \<open>The order id of Midtrans\<close>

lemma split_on_ne: "split_on c xs \<noteq> []"
  by (induction xs) (auto split: list.split)

lemma split_on_append: "c \<notin> set xs \<Longrightarrow> split_on c (xs @ c # ys) = xs # split_on c ys"
  by (induction xs) auto

lemma split_on_whole: "c \<notin> set xs \<Longrightarrow> split_on c xs = [xs]"
  by (induction xs) auto

text \<open>
  What the code relies on in the uuid library: the text of a uuid has no underscore and 36
  characters, 4 of them dashes, and parses without its dashes too.
\<close>

definition compact_laws :: "env \<Rightarrow> bool" where
  "compact_laws E \<longleftrightarrow> (\<forall>u. CHR ''_'' \<notin> set (uuid_String E u) \<and>
     length (filter (\<lambda>c. c \<noteq> CHR ''-'') (uuid_String E u)) = 32 \<and>
     uuid_Parse E (filter (\<lambda>c. c \<noteq> CHR ''-'') (uuid_String E u)) = Some u)"

lemma show_nat_length: "n < 10 ^ k \<Longrightarrow> 0 < k \<Longrightarrow> length (show_nat n) \<le> k"
proof (induction k arbitrary: n)
  case (Suc k)
  show ?case
  proof (cases "n < 10")
    case True
    then show ?thesis by (subst show_nat.simps) simp
  next
    case False
    then have "0 < k" using Suc.prems by (cases k) auto
    moreover have "n div 10 < 10 ^ k" using Suc.prems by (simp add: less_mult_imp_div_less mult.commute)
    ultimately show ?thesis using Suc.IH [of "n div 10"] False by (subst show_nat.simps) simp
  qed
qed simp

lemma order_part_midtrans: "compact_laws E \<Longrightarrow> order_part (midtrans_order_id E oid now) = filter (\<lambda>c. c \<noteq> CHR ''-'') (uuid_String E oid)"
proof -
  assume c: "compact_laws E"
  let ?u = "filter (\<lambda>c. c \<noteq> CHR ''-'') (uuid_String E oid)"
  have "CHR ''_'' \<notin> set ?u" using c by (simp add: compact_laws_def)
  then have "split_on CHR ''_'' (?u @ CHR ''_'' # show_int (Unix now)) = ?u # split_on CHR ''_'' (show_int (Unix now))"
    by (rule split_on_append)
  then have "split_on CHR ''_'' (midtrans_order_id E oid now) = ''ORD'' # ?u # split_on CHR ''_'' (show_int (Unix now))"
    by (simp add: midtrans_order_id_def)
  then show ?thesis by (simp add: order_part_def Let_def)
qed

section \<open>Cancelling as the worker does\<close>

lemma frame_ledger_release: "unchanged order_ledger (release_items E items)"
proof -
  have "unchanged order_ledger (ReleaseTicketStock E tid q)" for tid q
    by (rule frame_redis_only) (simp_all add: order_ledger_def)
  then show ?thesis unfolding release_items_def by (intro frame_rules)
qed

definition statuses_of :: "'z ticket_db_scheme \<Rightarrow> (uuid \<times> string) list" where
  "statuses_of s = fst (order_ledger s)"

definition cancel_in :: "uuid set \<Rightarrow> (uuid \<times> string) list \<Rightarrow> (uuid \<times> string) list" where
  "cancel_in ids l = map (\<lambda>(u, st). (u, if u \<in> ids then ''CANCELLED'' else st)) l"

lemma cancel_in_simps [simp]: "cancel_in {} l = l" "cancel_in A (cancel_in B l) = cancel_in (B \<union> A) l" "map fst (cancel_in A l) = map fst l"
  by (auto simp: cancel_in_def)

lemma wp_CancelOrder_ledger:
  fixes s :: "'z ticket_db_scheme"
  assumes E: "reliable E" and v: "uuid_Parse E v = Some oid" and mem: "oid \<in> fst ` set (statuses_of s)"
  shows "wp (CancelOrder E v) (\<lambda>_ t. order_ledger t = (cancel_in {oid} (statuses_of s), tickets s)) s"
proof -
  have "oid \<in> o_ID ` set (orders s)" using mem by (force simp: statuses_of_def order_ledger_def)
  then have "find_row (\<lambda>r. o_ID r = oid) (orders s) \<noteq> None" by (auto simp: find_row_None simp del: not_None_eq)
  then obtain order where o': "find_row (\<lambda>r. o_ID r = oid) (orders s) = Some order" by blast
  show ?thesis
  proof (rule wp_CancelOrder [OF E v o'])
    fix t :: "'z ticket_db_scheme" and now
    assume t: "orders t = update_rows (\<lambda>r. o_ID r = oid) (status_row now ''CANCELLED'') (orders s)" "tickets t = tickets s"
    have l: "order_ledger t = (cancel_in {oid} (statuses_of s), tickets s)"
      by (auto simp: order_ledger_def statuses_of_def cancel_in_def t update_rows_def)
    show "wp (leave_queue E (o_EventID order) v) (\<lambda>_ t. order_ledger t = (cancel_in {oid} (statuses_of s), tickets s)) t"
      by (rule keeps_wp [OF statuses.keeps_leave_queue l])
  qed
qed

lemma wp_cancel_all:
  fixes s :: "'z ticket_db_scheme"
  assumes E: "reliable E" "uuid_laws E" and mem: "o_ID ` set rows \<subseteq> fst ` set (statuses_of s)"
  shows "wp (for_each rows (\<lambda>o'. do { CancelOrder E (uuid_String E (o_ID o')); ret () }))
    (\<lambda>_ t. order_ledger t = (cancel_in (o_ID ` set rows) (statuses_of s), tickets s)) s"
  using mem
proof (induction rows arbitrary: s)
  case Nil
  show ?case by (simp add: order_ledger_def statuses_of_def)
next
  case (Cons r rows)
  have one: "wp (CancelOrder E (uuid_String E (o_ID r))) (\<lambda>_ t. order_ledger t = (cancel_in {o_ID r} (statuses_of s), tickets s)) s"
    by (rule wp_CancelOrder_ledger [OF E(1) uuid_roundtrip [OF E(2)]]) (use Cons.prems in auto)
  have rest: "wp (for_each rows (\<lambda>o'. do { CancelOrder E (uuid_String E (o_ID o')); ret () }))
      (\<lambda>_ u. order_ledger u = (cancel_in (o_ID ` set (r # rows)) (statuses_of s), tickets s)) t"
    if t: "order_ledger t = (cancel_in {o_ID r} (statuses_of s), tickets s)" for t :: "'z ticket_db_scheme"
  proof -
    have st: "statuses_of t = cancel_in {o_ID r} (statuses_of s)" "tickets t = tickets s"
      using t by (simp_all add: statuses_of_def order_ledger_def)
    have "o_ID ` set rows \<subseteq> fst ` set (statuses_of t)"
      using Cons.prems by (metis cancel_in_simps(3) image_mono list.set_map set_subset_Cons st(1) subset_trans)
    from Cons.IH [OF this] show ?thesis by (simp add: st)
  qed
  show ?case using wp_mono [OF one rest] by simp
qed

section \<open>Properties\<close>

text \<open>
  The order id sent to Midtrans comes back as the order: the notification for a transaction that
  \<open>CreatePaymentToken\<close> opened names the same order, and up to the year 2286 the id keeps to the 50
  characters Midtrans allows.
\<close>

theorem midtrans_id_roundtrip:
  assumes "compact_laws E"
  shows "uuid_Parse E (order_part (midtrans_order_id E oid now)) = Some oid \<and>
    (0 \<le> now \<and> now < 10 ^ 10 * Second \<longrightarrow> length (midtrans_order_id E oid now) \<le> 50)"
proof (intro conjI impI)
  show "uuid_Parse E (order_part (midtrans_order_id E oid now)) = Some oid"
    using assms by (simp add: order_part_midtrans compact_laws_def)
next
  assume now: "0 \<le> now \<and> now < 10 ^ 10 * Second"
  have "0 \<le> Unix now" "Unix now < 10 ^ 10" using now by (simp_all add: Unix_def Second_def, linarith+)
  then have "length (show_int (Unix now)) \<le> 10"
    using show_nat_length [of "nat (Unix now)" 10] by (simp add: show_int_def)
  then show "length (midtrans_order_id E oid now) \<le> 50"
    using assms by (simp add: midtrans_order_id_def compact_laws_def)
qed

text \<open>An environment whose uuids print as 32 hexadecimal digits with four dashes.\<close>

definition hex_digit :: "nat \<Rightarrow> char" where
  "hex_digit d = (if d < 10 then char_of (48 + d) else char_of (87 + d))"

fun hex_text :: "nat \<Rightarrow> nat \<Rightarrow> string" where
  "hex_text 0 n = []"
| "hex_text (Suc k) n = hex_text k (n div 16) @ [hex_digit (n mod 16)]"

definition hex_value :: "char \<Rightarrow> nat" where
  "hex_value c = (if (of_char c :: nat) < 58 then of_char c - 48 else of_char c - 87)"

definition dashed :: "string \<Rightarrow> string" where
  "dashed v = take 8 v @ ''-'' @ take 4 (drop 8 v) @ ''-'' @ take 4 (drop 12 v) @ ''-'' @ take 4 (drop 16 v) @ ''-'' @ drop 20 v"

definition hex_env :: env where
  "hex_env = still_env\<lparr>uuid_String := (\<lambda>u. dashed (hex_text 32 (unat u))),
     uuid_Parse := (\<lambda>v. Some (of_nat (foldl (\<lambda>a c. 16 * a + hex_value c) 0 (filter (\<lambda>c. c \<noteq> CHR ''-'') v))))\<rparr>"

lemma hex_digit_props:
  assumes "d < 16"
  shows "hex_value (hex_digit d) = d" and "hex_digit d \<noteq> CHR ''-''" and "hex_digit d \<noteq> CHR ''_''"
proof -
  have v: "(of_char (hex_digit d) :: nat) = (if d < 10 then 48 + d else 87 + d)" using assms by (simp add: hex_digit_def)
  show "hex_value (hex_digit d) = d" using v assms by (simp add: hex_value_def)
  have "of_char CHR ''-'' = (45 :: nat)" "of_char CHR ''_'' = (95 :: nat)" by simp_all
  with v assms show "hex_digit d \<noteq> CHR ''-''" "hex_digit d \<noteq> CHR ''_''" by (auto split: if_splits)
qed

lemma hex_text_props:
  "length (hex_text k n) = k" "CHR ''-'' \<notin> set (hex_text k n)" "CHR ''_'' \<notin> set (hex_text k n)"
  "foldl (\<lambda>a c. 16 * a + hex_value c) 0 (hex_text k n) = n mod 16 ^ k"
proof (induction k arbitrary: n)
  case (Suc k)
  { case 4 then show ?case using Suc by (simp add: hex_digit_props(1) mod_mult2_eq [of n 16 "16 ^ k"]) }
qed (auto simp: hex_digit_props dest: sym [THEN hex_digit_props(2) [THEN notE, rotated]] sym [THEN hex_digit_props(3) [THEN notE, rotated]])

lemma take_part: "take n (drop m v) @ drop (m + n) v = drop m v"
  by (metis add.commute append_take_drop_id drop_drop)

lemma filter_dashed: "CHR ''-'' \<notin> set v \<Longrightarrow> filter (\<lambda>c. c \<noteq> CHR ''-'') (dashed v) = v"
proof -
  assume n: "CHR ''-'' \<notin> set v"
  then have f: "filter (\<lambda>c. c \<noteq> CHR ''-'') w = w" if "set w \<subseteq> set v" for w
    using that by (intro filter_True) auto
  have "take 8 v @ take 4 (drop 8 v) @ take 4 (drop 12 v) @ take 4 (drop 16 v) @ drop 20 v = v"
    using take_part [of 4 8 v] take_part [of 4 12 v] take_part [of 4 16 v] by simp
  then show ?thesis
    by (simp add: dashed_def f set_take_subset set_drop_subset subset_trans [OF set_take_subset set_drop_subset])
qed

lemma hex_compact [simp]: "compact_laws hex_env"
proof -
  have "CHR ''_'' \<notin> set (dashed v)" if "CHR ''_'' \<notin> set v" for v
    using that set_take_subset set_drop_subset subset_trans [OF set_take_subset set_drop_subset]
    unfolding dashed_def by fastforce
  moreover have "filter (\<lambda>c. c \<noteq> CHR ''-'') (hex_text k n) = hex_text k n" for k n
    by (rule filter_True) (use hex_text_props(2) in metis)
  moreover have "unat u mod 340282366920938463463374607431768211456 = unat u" for u :: uuid
    using unsigned_less [of u, where 'a = nat] by simp
  ultimately show ?thesis
    by (simp add: compact_laws_def hex_env_def hex_text_props filter_dashed)
qed

theorem midtrans_id_roundtrip_witness:
  "uuid_Parse hex_env (order_part (midtrans_order_id hex_env 77 (1700000000 * Second))) = Some 77"
  using midtrans_id_roundtrip [OF hex_compact] by blast

text \<open>
  A payment token is given only to the owner of a pending order whose turn it is. When the order
  belongs to another user, is not pending, or another order holds the slot of the queue and its turn
  has not run out, \<open>CreatePaymentToken\<close> fails without asking Midtrans and changes nothing, whatever
  Midtrans would answer.
\<close>

theorem token_only_in_turn:
  assumes "reliable E" and "uuid_Parse E v = Some oid" and "find_row (\<lambda>r. o_ID r = oid) (orders s) = Some order"
    and "(user \<noteq> [] \<and> uuid_String E (o_UserID order) \<noteq> user) \<or> o_Status order \<noteq> ''PENDING'' \<or>
      (has_redis E \<and> slot_is E (o_EventID order) w s \<and> w \<noteq> [] \<and> w \<noteq> uuid_String E (o_ID order) \<and>
       turn_ends E (o_EventID order) e s \<and> (\<forall>n. Unix (clock E n) < e))"
  shows "wp (CreatePaymentToken E snap v user) (\<lambda>r t. \<not> is_ok r \<and> same_but_tick s t) s"
proof -
  have turn: "wp (CheckAndAdvanceExpiredActive E eid) Q (s\<lparr>tick := m\<rparr>)"
    if "has_redis E" "slot_is E eid w s" "w \<noteq> []" "turn_ends E eid e s" "\<forall>n. Unix (clock E n) < e" "\<And>n. Q () (s\<lparr>tick := n\<rparr>)"
    for Q m eid
  proof -
    have "\<not> e \<le> Unix (clock E n)" for n using that(5) by (simp add: not_le)
    then show ?thesis
      using assms(1) that(1,3,6)
      by (simp add: CheckAndAdvanceExpiredActive_def slot_is_get [OF that(2)] turn_ends_get [OF that(4)]
          turn_ends_parse [OF that(4)] Let_def)
  qed
  show ?thesis
    using assms
    by (auto simp: CreatePaymentToken_def GetOrder_def slot_is_get intro!: turn)
qed

theorem token_only_in_turn_witness:
  "wp (CreatePaymentToken still_env (\<lambda>_ _ _. Inr ''token'') (demo_name 12) (demo_name 5)) (\<lambda>r t. \<not> is_ok r) (demo_queue 1200)"
  by (rule wp_mono [OF token_only_in_turn [where oid = 12 and order = "demo_order 12" and w = "demo_name 11" and e = 1200]])
    (auto simp: Unix_def Second_def demo_order_def)

text \<open>
  C31. A notification Midtrans cannot confirm is believed: when \<open>CheckTransaction\<close> fails, the status in
  the body decides, so a body that names a pending order and says \<open>settlement\<close> pays it and issues all
  its tickets.
\<close>

theorem unverified_notification_pays:
  assumes "reliable E" and "uuid_laws E" and "as_string (payload ''order_id'') = Some raw"
    and "uuid_Parse E (order_part raw) = Some oid" and "\<And>n. core n raw = Inl failure"
    and "as_string (payload ''transaction_status'') = Some ''settlement''"
    and "find_row (\<lambda>r. o_ID r = oid) (orders s) = Some order" and "o_Status order = ''PENDING''"
    and "items = filter (\<lambda>i. oi_OrderID i = oid) (order_items s)" and "fresh_window E (4 + 3 * bought items) s"
  shows "wp (HandleMidtransNotification E core payload)
    (\<lambda>r t. r = Inr () \<and> map_option o_Status (find_row (\<lambda>r. o_ID r = oid) (orders t)) = Some ''PAID'' \<and>
       length (tickets t) = length (tickets s) + bought items) s"
proof -
  let ?s = "s\<lparr>tick := Suc (tick s)\<rparr>"
  have w: "fresh_window E (3 + 3 * bought items) ?s"
    by (rule fresh_window_skip [of E 1 _ s]) (use assms(10) in \<open>simp_all add: add.assoc [symmetric]\<close>)
  have pay: "wp (HandlePaymentSuccess E (uuid_String E oid))
    (\<lambda>r t. r = Inr () \<and> map_option o_Status (find_row (\<lambda>r. o_ID r = oid) (orders t)) = Some ''PAID'' \<and>
       length (tickets t) = length (tickets s) + bought items) ?s"
    by (rule wp_HandlePaymentSuccess [OF assms(1,2) uuid_roundtrip [OF assms(2)] _ _ _ w, where order = order])
      (use assms(7-9) in auto)
  show ?thesis
    using assms(1,3-6) pay
    by (simp add: HandleMidtransNotification_def midtrans_status_def string_or_empty_def Let_def)
qed

theorem unverified_notification_pays_witness:
  "wp (HandleMidtransNotification still_env (\<lambda>_ _. Inl (Err_New ''transaction not found''))
      [''order_id'' \<mapsto> JStr (demo_name 11), ''transaction_status'' \<mapsto> JStr ''settlement''])
    (\<lambda>r t. r = Inr () \<and> length (tickets t) = 1) ((demo_queue 1200)\<lparr>tick := 1\<rparr>)"
proof -
  have part: "order_part (demo_name 11) = demo_name 11"
    by (simp add: order_part_def Let_def split_on_whole demo_name_def)
  have "inj_on (fresh still_env) {1, 2, 3, 4, 5, 6, 7}" by (simp add: still_env_def)
  moreover have "{Suc 0..<8} = {1, 2, 3, 4, 5, 6, 7 :: nat}" by auto
  ultimately have w: "fresh_window still_env 7 ((demo_queue 1200)\<lparr>tick := 1\<rparr>)"
    by (simp add: fresh_window_def still_env_def demo_name_def)
  show ?thesis
    by (rule wp_mono [OF unverified_notification_pays [where raw = "demo_name 11" and oid = 11 and order = "demo_order 11"
          and items = "[demo_item 11]" and failure = "Err_New ''transaction not found''"]])
      (use w in \<open>auto simp: part bought_def\<close>)
qed

text \<open>A status that neither pays nor cancels.\<close>

definition quiet_status :: "string \<times> string \<Rightarrow> bool" where
  "quiet_status p \<longleftrightarrow> p = (''capture'', ''challenge'') \<or>
     fst p \<notin> {''capture'', ''settlement'', ''success'', ''cancel'', ''deny'', ''expire''}"

text \<open>
  A notification changes an order only when it says so: while Midtrans, and the body where
  Midtrans cannot be asked, report a challenged capture or a status other than \<open>capture\<close>,
  \<open>settlement\<close>, \<open>success\<close>, \<open>cancel\<close>, \<open>deny\<close> and \<open>expire\<close>, nothing changes, under every schedule of faults.
\<close>

theorem quiet_notification_changes_nothing:
  assumes "as_string (payload ''order_id'') = Some raw" and "\<And>n. quiet_status (midtrans_status payload (core n raw))"
    and "quiet_status (midtrans_status payload (Inl ErrTransport))"
  shows "wp (HandleMidtransNotification E core payload) (\<lambda>r t. same_but_tick s t) s"
proof -
  have quiet: "wp (case midtrans_status payload tx of (status, fraud) \<Rightarrow>
          if status = ''capture'' then (if fraud = ''challenge'' then ok () else HandlePaymentSuccess E v)
          else if status = ''settlement'' \<or> status = ''success'' then HandlePaymentSuccess E v
          else if status = ''cancel'' \<or> status = ''deny'' \<or> status = ''expire'' then HandlePaymentFailed E v
          else ok ()) (\<lambda>r t. same_but_tick s t) (s\<lparr>tick := n\<rparr>)"
    if "quiet_status (midtrans_status payload tx)" for tx n v
  proof (cases "midtrans_status payload tx")
    case (Pair st fr)
    have "st = ''capture'' \<and> fr = ''challenge'' \<or>
        st \<notin> {''capture'', ''settlement'', ''success'', ''cancel'', ''deny'', ''expire''}"
      using that by (simp only: Pair quiet_status_def prod.inject fst_conv)
    then show ?thesis by (elim disjE) (simp_all add: Pair)
  qed
  show ?thesis
  proof (cases "uuid_Parse E (order_part raw)")
    case None
    then show ?thesis using assms(1) by (simp add: HandleMidtransNotification_def)
  next
    case (Some oid)
    show ?thesis
      by (cases "outcome E (tick s)")
        (simp_all add: HandleMidtransNotification_def assms(1) Some wp_external Let_def quiet assms(2,3) del: wp_bindE)
  qed
qed

theorem quiet_notification_witness:
  "wp (HandleMidtransNotification still_env (\<lambda>_ _. Inr (''pending'', ''accept''))
      [''order_id'' \<mapsto> JStr (demo_name 11), ''transaction_status'' \<mapsto> JStr ''pending''])
    (\<lambda>r t. same_but_tick (demo_queue 1200) t) (demo_queue 1200)"
  by (rule quiet_notification_changes_nothing [where raw = "demo_name 11"])
    (simp_all add: quiet_status_def midtrans_status_def string_or_empty_def)

text \<open>
  C32. One run of the expiry worker cancels exactly the orders that are due: without faults, every
  order that was pending with a passed deadline is \<open>CANCELLED\<close> afterwards, every other order keeps its
  status, and no ticket changes.
\<close>

theorem worker_cancels_expired:
  assumes "reliable E" and "uuid_laws E"
  shows "wp (processExpiredOrders E)
    (\<lambda>_ t. order_ledger t = (cancel_in (o_ID ` set (filter (\<lambda>r. o_Status r = ''PENDING'' \<and>
       o_ExpiresAt r < pg_time (clock E (tick s))) (orders s))) (statuses_of s), tickets s)) s"
proof -
  let ?rows = "filter (\<lambda>r. o_Status r = ''PENDING'' \<and> o_ExpiresAt r < pg_time (clock E (tick s))) (orders s)"
  let ?s = "s\<lparr>tick := Suc (tick s)\<rparr>"
  have l: "statuses_of ?s = statuses_of s" by (simp add: statuses_of_def order_ledger_def)
  have "o_ID ` set ?rows \<subseteq> fst ` set (statuses_of ?s)" by (force simp: statuses_of_def order_ledger_def)
  from wp_cancel_all [OF assms this] show ?thesis
    using assms(1) by (simp add: processExpiredOrders_def GetExpiredPendingOrders_def l)
qed

theorem worker_cancels_expired_witness:
  "wp (processExpiredOrders still_env)
    (\<lambda>_ t. statuses_of t = [(11, ''PENDING''), (12, ''CANCELLED''), (13, ''PENDING'')])
    ((demo_queue 1200)\<lparr>orders := [demo_order 11, (demo_order 12)\<lparr>o_ExpiresAt := 900 * Second\<rparr>, demo_order 13]\<rparr>)"
  by (rule wp_mono [OF worker_cancels_expired])
    (simp_all add: statuses_of_def order_ledger_def cancel_in_def pg_time_def Second_def)

text \<open>
  A scan at the gate marks the ticket used: for a \<open>ticket.scanned\<close> message with the code of a
  ticket, the consumer makes exactly that ticket \<open>USED\<close> and changes no other ticket, no order and no
  stock.
\<close>

theorem scanned_ticket_used:
  assumes "reliable E" and "msg_Topic msg = ''ticket.scanned''" and "Unmarshal_map (msg_Value msg) = Some payload"
    and "as_string (payload ''ticket_code'') = Some code"
    and "find_row (\<lambda>r. tk_TicketCode r = code) (tickets s) = Some tk"
  shows "wp (EventConsumer_HandleMessage E msg)
    (\<lambda>r t. r = Inr () \<and> map_option tk_Status (find_row (\<lambda>r. tk_ID r = tk_ID tk) (tickets t)) = Some ''USED'' \<and>
       (\<forall>u. u \<noteq> tk_ID tk \<longrightarrow> find_row (\<lambda>r. tk_ID r = u) (tickets t) = find_row (\<lambda>r. tk_ID r = u) (tickets s)) \<and>
       orders t = orders s \<and> stock_side t = stock_side s) s"
proof -
  have "find_row (\<lambda>r. tk_ID r = tk_ID tk) (tickets s) \<noteq> None"
    using find_row_Some [OF assms(5)] by (auto simp: find_row_None simp del: not_None_eq)
  then obtain k where k: "find_row (\<lambda>r. tk_ID r = tk_ID tk) (tickets s) = Some k" by blast
  show ?thesis
    using assms k
    by (auto simp: EventConsumer_HandleMessage_def Queries_GetTicketByCode_def UpdateTicketStatus_def stock_side_def
        ticket_keyed.find_updated ticket_keyed.find_other ticket_status_row_def)
qed

text \<open>A ticket of order 11.\<close>

definition demo_ticket :: "uuid \<Rightarrow> Ticket" where
  "demo_ticket u = \<lparr>tk_ID = u, tk_OrderID = 11, tk_UserID = 5, tk_EventID = 2, tk_TicketTypeID = 1, tk_TicketCode = demo_name u,
     tk_Status = ''ACTIVE'', tk_CreatedAt = 0, tk_UpdatedAt = 0\<rparr>"

lemma demo_ticket_simps [simp]:
  "tk_ID (demo_ticket u) = u" "tk_TicketCode (demo_ticket u) = demo_name u" "tk_Status (demo_ticket u) = ''ACTIVE''"
  "tk_EventID (demo_ticket u) = 2" "tk_CreatedAt (demo_ticket u) = 0"
  by (simp_all add: demo_ticket_def)

theorem scanned_ticket_used_witness:
  "wp (EventConsumer_HandleMessage still_env
      \<lparr>msg_Topic = ''ticket.scanned'', msg_Key = [], msg_Value = Some (JObj [(''ticket_code'', JStr (demo_name 22))])\<rparr>)
    (\<lambda>r t. map_option tk_Status (find_row (\<lambda>r. tk_ID r = 22) (tickets t)) = Some ''USED'')
    ((demo_queue 1200)\<lparr>tickets := [demo_ticket 21, demo_ticket 22]\<rparr>)"
  by (rule wp_mono [OF scanned_ticket_used [where payload = "[''ticket_code'' \<mapsto> JStr (demo_name 22)]" and code = "demo_name 22"
        and tk = "demo_ticket 22"]]) simp_all

text \<open>
  The gate statistics of an event add up: the tickets of the event are exactly the checked-in and
  the remaining ones, neither is negative, the status is \<open>COMPLETED\<close> exactly when there are tickets
  and none remains, \<open>NOT_STARTED\<close> exactly when none is checked in, and nothing changes.
\<close>

theorem gate_stats_add_up:
  assumes "reliable E" and "uuid_Parse E event = Some eid"
  shows "wp (GetEventGateStats E event)
    (\<lambda>r t. same_but_tick s t \<and> (\<exists>g. r = Inr g \<and> gs_TotalTickets g = gs_CheckedIn g + gs_Remaining g \<and>
       gs_TotalTickets g = int (length (filter (\<lambda>k. tk_EventID k = eid) (tickets s))) \<and> 0 \<le> gs_CheckedIn g \<and> 0 \<le> gs_Remaining g \<and>
       (gs_Status g = ''COMPLETED'' \<longleftrightarrow> 0 < gs_TotalTickets g \<and> gs_Remaining g = 0) \<and>
       (gs_Status g = ''NOT_STARTED'' \<longleftrightarrow> gs_CheckedIn g = 0))) s"
proof -
  let ?rows = "sort_key tk_CreatedAt (filter (\<lambda>r. tk_EventID r = eid) (tickets s))"
  have "length (filter (\<lambda>t. used_status (tk_Status t)) ?rows) \<le> length ?rows" by (rule length_filter_le)
  then show ?thesis
    using assms by (auto simp: GetEventGateStats_def ListTicketsByEvent_def Let_def gate_status_def)
qed

theorem gate_stats_add_up_witness:
  "wp (GetEventGateStats still_env (demo_name 2)) (\<lambda>r t. \<exists>g. r = Inr g \<and> gs_TotalTickets g = 2)
    ((demo_queue 1200)\<lparr>tickets := [demo_ticket 21, demo_ticket 22]\<rparr>)"
  by (rule wp_mono [OF gate_stats_add_up [where eid = 2]]) auto

end
