(* ===== verification/Gate_Scan.thy ===== *)
theory Gate_Scan
  imports Ticket_Midtrans_Spec
begin

text \<open>
  The gate service: its table \<open>local_tickets\<close> and the statements on it (\<open>repository/db/gate.sql.go\<close>),
  the synchronisation of tickets, the scan and the statistics (\<open>service/gate_service.go\<close>), the
  consumer of \<open>ticket.created\<close> messages and the HTTP handlers. The calls to the ticket service run its
  internal handlers (\<open>handler/ticket_handler.go\<close>) behind the secret check; the code and the event id are
  taken to be plain path segments of the URL.
\<close>

section \<open>Local tickets\<close>

text \<open>A \<open>pgtype.UUID\<close>: \<open>None\<close> is \<open>Valid == false\<close>.\<close>

record LocalTicket =
  lt_ID :: "uuid option"
  lt_EventID :: "uuid option"
  lt_TicketCode :: string
  lt_Status :: string

record gate_db = ticket_db +
  local_tickets :: "LocalTicket list"

lemma gate_update_order [simp]:
  "s\<lparr>local_tickets := ls, tick := n\<rparr> = s\<lparr>tick := n, local_tickets := ls\<rparr>"
  "s\<lparr>local_tickets := ls, redis := rd\<rparr> = s\<lparr>redis := rd, local_tickets := ls\<rparr>"
  "s\<lparr>local_tickets := ls, kafka := ms\<rparr> = s\<lparr>kafka := ms, local_tickets := ls\<rparr>"
  "s\<lparr>local_tickets := ls, tickets := tks\<rparr> = s\<lparr>tickets := tks, local_tickets := ls\<rparr>"
  "s\<lparr>local_tickets := ls, orders := os\<rparr> = s\<lparr>orders := os, local_tickets := ls\<rparr>"
  by simp_all

definition pgUUIDFromUUID :: "uuid \<Rightarrow> uuid option" where
  "pgUUIDFromUUID u = (if u = uuid_Nil then None else Some u)"

definition uuidFromPgUUID :: "uuid option \<Rightarrow> uuid" where
  "uuidFromPgUUID p = (case p of None \<Rightarrow> uuid_Nil | Some u \<Rightarrow> u)"

text \<open>The two writing statements on the table. The key column is \<open>NOT NULL\<close>; a comparison with NULL
  finds no row; the guard of the update is in its \<open>WHERE\<close>.\<close>

definition insert_local :: "LocalTicket \<Rightarrow> LocalTicket list \<Rightarrow> (gerr + LocalTicket) \<times> LocalTicket list" where
  "insert_local l rows =
     (if 100 < length (lt_TicketCode l) \<or> 20 < length (lt_Status l) then (Inl ErrOutOfRange, rows)
      else if lt_ID l = None \<or> lt_ID l \<in> lt_ID ` set rows \<or> lt_TicketCode l \<in> lt_TicketCode ` set rows then (Inl ErrConstraint, rows)
      else (Inr l, rows @ [l]))"

definition scannable :: "uuid option \<Rightarrow> LocalTicket \<Rightarrow> bool" where
  "scannable u l \<longleftrightarrow> u \<noteq> None \<and> lt_ID l = u \<and> \<not> used_status (lt_Status l)"

definition update_local :: "uuid option \<Rightarrow> string \<Rightarrow> LocalTicket list \<Rightarrow> (gerr + LocalTicket) \<times> LocalTicket list" where
  "update_local u status rows =
     (case find_row (scannable u) rows of
        None \<Rightarrow> (Inl ErrNoRows, rows)
      | Some l \<Rightarrow>
          if 20 < length status then (Inl ErrOutOfRange, rows)
          else (Inr (l\<lparr>lt_Status := status\<rparr>), update_rows (scannable u) (\<lambda>r. r\<lparr>lt_Status := status\<rparr>) rows))"

definition CreateLocalTicket :: "env \<Rightarrow> LocalTicket \<Rightarrow> ('z gate_db_scheme, LocalTicket) go" where
  "CreateLocalTicket E l = sql E (\<lambda>now u s. case insert_local l (local_tickets s) of (r, rows) \<Rightarrow> (r, s\<lparr>local_tickets := rows\<rparr>))"

definition UpdateLocalTicketStatus :: "env \<Rightarrow> uuid option \<Rightarrow> string \<Rightarrow> ('z gate_db_scheme, LocalTicket) go" where
  "UpdateLocalTicketStatus E lid status =
     sql E (\<lambda>now u s. case update_local lid status (local_tickets s) of (r, rows) \<Rightarrow> (r, s\<lparr>local_tickets := rows\<rparr>))"

definition GetLocalTicketByCode :: "env \<Rightarrow> string \<Rightarrow> ('z gate_db_scheme, LocalTicket) go" where
  "GetLocalTicketByCode E code = sql E (\<lambda>now u s. (row_result (find_row (\<lambda>l. lt_TicketCode l = code) (local_tickets s)), s))"

definition GetLocalTicketByID :: "env \<Rightarrow> uuid option \<Rightarrow> ('z gate_db_scheme, LocalTicket) go" where
  "GetLocalTicketByID E lid = sql E (\<lambda>now u s.
     (row_result (find_row (\<lambda>l. lid \<noteq> None \<and> lt_ID l = lid) (local_tickets s)), s))"

section \<open>Synchronisation\<close>

definition SyncTicket :: "env \<Rightarrow> uuid \<Rightarrow> uuid \<Rightarrow> string \<Rightarrow> string \<Rightarrow> ('z gate_db_scheme, unit) go" where
  "SyncTicket E ticket_id event_id code status = do {
     created \<leftarrow> CreateLocalTicket E \<lparr>lt_ID = pgUUIDFromUUID ticket_id, lt_EventID = pgUUIDFromUUID event_id,
       lt_TicketCode = code, lt_Status = status\<rparr>;
     (if is_ok created then ret ()
      else do { UpdateLocalTicketStatus E (pgUUIDFromUUID ticket_id) status; ret () });
     ok () }"

text \<open>\<open>TicketConsumer.HandleMessage\<close>: decoding into \<open>TicketPayload\<close>, where a missing or null field stays
  zero and a field of another type fails.\<close>

definition decode_uuid :: "env \<Rightarrow> json option \<Rightarrow> uuid option" where
  "decode_uuid E j = (case j of None \<Rightarrow> Some uuid_Nil | Some JNull \<Rightarrow> Some uuid_Nil | Some (JStr v) \<Rightarrow> uuid_Parse E v | Some x \<Rightarrow> None)"

definition decode_text :: "json option \<Rightarrow> string option" where
  "decode_text j = (case j of None \<Rightarrow> Some [] | Some JNull \<Rightarrow> Some [] | Some (JStr v) \<Rightarrow> Some v | Some x \<Rightarrow> None)"

definition TicketConsumer_HandleMessage :: "env \<Rightarrow> message \<Rightarrow> ('z gate_db_scheme, unit) go" where
  "TicketConsumer_HandleMessage E msg =
     (case Unmarshal_map (msg_Value msg) of
        None \<Rightarrow> ok ()
      | Some payload \<Rightarrow>
     (case decode_uuid E (payload ''ticket_id'') of None \<Rightarrow> ok () | Some ticket_id \<Rightarrow>
     (case decode_uuid E (payload ''event_id'') of None \<Rightarrow> ok () | Some event_id \<Rightarrow>
     (case decode_text (payload ''ticket_code'') of None \<Rightarrow> ok () | Some code \<Rightarrow>
     (case decode_text (payload ''status'') of None \<Rightarrow> ok () | Some status \<Rightarrow>
        SyncTicket E ticket_id event_id code status)))))"

section \<open>The ticket service, asked over HTTP\<close>

definition GetTicketByCodeInternal :: "env \<Rightarrow> (gerr \<Rightarrow> string) \<Rightarrow> string \<Rightarrow> ('z ticket_db_scheme, Ticket response) state" where
  "GetTicketByCodeInternal E err_text code = do {
     t \<leftarrow> GetTicketByCode E code;
     ret (case t of Inl e \<Rightarrow> Error 404 (''ticket not found: '' @ err_text e) | Inr tk \<Rightarrow> Success 200 ''ticket retrieved'' (Some tk)) }"

definition GetEventGateStatsInternal :: "env \<Rightarrow> (gerr \<Rightarrow> string) \<Rightarrow> string \<Rightarrow> ('z ticket_db_scheme, EventGateStats response) state" where
  "GetEventGateStatsInternal E err_text event = do {
     g \<leftarrow> GetEventGateStats E event;
     ret (case g of Inl e \<Rightarrow> Error 400 (''failed to get event gate stats: '' @ err_text e)
            | Inr st \<Rightarrow> Success 200 ''event gate stats retrieved'' (Some st)) }"

text \<open>The gate presents a built-in secret when none is configured.\<close>

definition gate_env :: "env \<Rightarrow> env" where
  "gate_env E = (if client_secret E = [] then E\<lparr>client_secret := ''entra-super-secret-internal-token-change-in-production''\<rparr> else E)"

section \<open>The scan\<close>

text \<open>Asking the ticket service and copying its answer; \<open>True\<close> when the ticket belongs to another
  event. Every failure on the way is passed over.\<close>

definition copy_ticket :: "env \<Rightarrow> string \<Rightarrow> Ticket \<Rightarrow> ('z gate_db_scheme, unit) state" where
  "copy_ticket E code tk =
     (case uuid_Parse E (uuid_String E (tk_ID tk)) of
        None \<Rightarrow> ret ()
      | Some ticket_id \<Rightarrow> do {
          SyncTicket E ticket_id (case uuid_Parse E (uuid_String E (tk_EventID tk)) of None \<Rightarrow> uuid_Nil | Some u \<Rightarrow> u)
            (if tk_TicketCode tk = [] then code else tk_TicketCode tk) (if tk_Status tk = [] then ''ACTIVE'' else tk_Status tk);
          ret () })"

definition refresh_ticket :: "env \<Rightarrow> (gerr \<Rightarrow> string) \<Rightarrow> string \<Rightarrow> string \<Rightarrow> ('z gate_db_scheme, bool) state" where
  "refresh_ticket E err_text code event = do {
     resp \<leftarrow> http_internal (gate_env E) (GetTicketByCodeInternal E err_text code);
     case resp of
       Inl e \<Rightarrow> ret False
     | Inr r \<Rightarrow>
         if resp_Code r \<noteq> 200 then ret False
         else (case resp_Data r of
                 None \<Rightarrow> ret False
               | Some tk \<Rightarrow>
                   if uuid_String E (tk_ID tk) = [] then ret False
                   else (let ev = uuid_String E (tk_EventID tk) in
                     if event \<noteq> [] \<and> ev \<noteq> [] \<and> ev \<noteq> event then ret True
                     else do { copy_ticket E code tk; ret False })) }"

definition local_ticket :: "env \<Rightarrow> string \<Rightarrow> ('z gate_db_scheme, LocalTicket) go" where
  "local_ticket E code = do {
     by_code \<leftarrow> GetLocalTicketByCode E code;
     case by_code of
       Inr l \<Rightarrow> ok l
     | Inl e \<Rightarrow> (case uuid_Parse E code of None \<Rightarrow> err e | Some u \<Rightarrow> GetLocalTicketByID E (pgUUIDFromUUID u)) }"

definition scanned_event :: "env \<Rightarrow> LocalTicket \<Rightarrow> json option" where
  "scanned_event E l = Marshal (JObj [(''ticket_code'', JStr (lt_TicketCode l)),
     (''ticket_id'', JStr (uuid_String E (uuidFromPgUUID (lt_ID l))))])"

definition other_event :: "env \<Rightarrow> string \<Rightarrow> LocalTicket \<Rightarrow> bool" where
  "other_event E event l \<longleftrightarrow> event \<noteq> [] \<and> lt_EventID l \<noteq> None \<and>
     (case uuid_Parse E event of None \<Rightarrow> False | Some u \<Rightarrow> uuidFromPgUUID (lt_EventID l) \<noteq> u)"

definition check_in :: "env \<Rightarrow> string \<Rightarrow> string \<Rightarrow> ('z gate_db_scheme, unit) go" where
  "check_in E code event = do {
     found \<leftarrow> local_ticket E code;
     case found of
       Inl e \<Rightarrow> err (Err_New ''ticket not found'')
     | Inr l \<Rightarrow>
         if other_event E event l then err (Err_New ''ticket belongs to another event'')
         else if used_status (lt_Status l) then err (Err_New ''ticket already used or invalid'')
         else do {
           updated \<leftarrow> UpdateLocalTicketStatus E (lt_ID l) ''CHECKED_IN'';
           case updated of
             Inl e \<Rightarrow> err (Err_New ''ticket already used or invalid'')
           | Inr l' \<Rightarrow> do {
               Publish E ''ticket.scanned'' (uuid_String E (uuidFromPgUUID (lt_ID l'))) (scanned_event E l');
               ok () } } }"

definition ScanTicket :: "env \<Rightarrow> (gerr \<Rightarrow> string) \<Rightarrow> string \<Rightarrow> string \<Rightarrow> ('z gate_db_scheme, unit) go" where
  "ScanTicket E err_text code event = do {
     foreign \<leftarrow> refresh_ticket E err_text code event;
     if foreign then err (Err_New ''ticket belongs to another event'') else check_in E code event }"

definition GetGateStats :: "env \<Rightarrow> (gerr \<Rightarrow> string) \<Rightarrow> string \<Rightarrow> ('z gate_db_scheme, EventGateStats) go" where
  "GetGateStats E err_text event =
     bindE (Err_Wrap ''failed to reach ticket service'') (http_internal (gate_env E) (GetEventGateStatsInternal E err_text event))
       (\<lambda>r. if resp_Code r \<noteq> 200 then err (Err_Status (resp_Code r))
            else case resp_Data r of None \<Rightarrow> err ErrParse | Some g \<Rightarrow> ok g)"

section \<open>Handlers\<close>

record ScanTicketRequest =
  scan_TicketCode :: string
  scan_EventID :: string

text \<open>The body is \<open>None\<close> when it does not decode; the code is required.\<close>

definition Handler_ScanTicket :: "env \<Rightarrow> (gerr \<Rightarrow> string) \<Rightarrow> ScanTicketRequest option \<Rightarrow> ('z gate_db_scheme, unit response) state" where
  "Handler_ScanTicket E err_text body =
     (case body of
        None \<Rightarrow> ret (Error 400 ''Format kode tiket tidak valid'')
      | Some req \<Rightarrow>
          if scan_TicketCode req = [] then ret (Error 400 ''Format kode tiket tidak valid'')
          else do {
            r \<leftarrow> ScanTicket E err_text (scan_TicketCode req) (scan_EventID req);
            ret (case r of
                Inl e \<Rightarrow>
                  if err_text e = ''ticket already used or invalid'' then Error 409 ''Tiket sudah pernah digunakan / di check-in''
                  else if err_text e = ''ticket belongs to another event'' then Error 403 ''Tiket ini milik event lain! Tidak berlaku untuk event ini.''
                  else if err_text e = ''ticket not found'' then Error 404 ''Kode tiket tidak ditemukan pada sistem''
                  else Error 400 (err_text e)
              | Inr u \<Rightarrow> Success 200 ''Check-in berhasil! Tiket valid.'' None) })"

definition Handler_GetGateStats :: "env \<Rightarrow> (gerr \<Rightarrow> string) \<Rightarrow> string \<Rightarrow> ('z gate_db_scheme, EventGateStats response) state" where
  "Handler_GetGateStats E err_text event =
     (if event = [] then ret (Error 400 ''Event ID diperlukan'')
      else do {
        r \<leftarrow> GetGateStats E err_text event;
        ret (case r of Inl e \<Rightarrow> Error 400 (err_text e)
               | Inr g \<Rightarrow> Success 200 ''Statistik check-in gate berhasil dimuat'' (Some g)) })"

end
