(* ===== verification/Http_Session.thy ===== *)
theory Http_Session
  imports Entra_Infra
begin

text \<open>
  Authentication and paging shared by the services (\<open>shared/middleware/auth.go\<close>,
  \<open>shared/response/response.go\<close>). The session of a request is what the middleware puts into the gin
  context: the keys \<open>auth_user_id\<close> and \<open>auth_user_role\<close> (with their aliases \<open>user_id\<close> and \<open>role\<close>), always
  strings when present.
\<close>

section \<open>Tokens\<close>

record JWTClaims =
  cl_UserID :: string
  cl_Role :: string

text \<open>
  The library \<open>golang-jwt\<close>: whether the header of a token names an HMAC method, signature and expiry
  against a secret at a time, and signing. \<open>jwt_sign\<close> takes the claims, the mail address, and the seconds
  \<open>iat\<close> and \<open>exp\<close>.
\<close>

record jwt_lib =
  jwt_hmac :: "string \<Rightarrow> bool"
  jwt_verify :: "time \<Rightarrow> string \<Rightarrow> string \<Rightarrow> JWTClaims option"
  jwt_sign :: "string \<Rightarrow> JWTClaims \<Rightarrow> string \<Rightarrow> int \<Rightarrow> int \<Rightarrow> gerr + string"

text \<open>What the code relies on: a token signed with a secret verifies with that secret until it expires.\<close>

definition jwt_laws :: "jwt_lib \<Rightarrow> bool" where
  "jwt_laws J \<longleftrightarrow> (\<forall>secret c mail iat ex tok. jwt_sign J secret c mail iat ex = Inr tok \<longrightarrow>
     jwt_hmac J tok \<and> (\<forall>now. Unix now < ex \<longrightarrow> jwt_verify J now secret tok = Some c))"

text \<open>\<open>jwt.ParseWithClaims\<close> with the key function of the middleware, which rejects every other method.\<close>

definition ParseWithClaims :: "jwt_lib \<Rightarrow> time \<Rightarrow> string \<Rightarrow> string \<Rightarrow> JWTClaims option" where
  "ParseWithClaims J now secret tok = (if jwt_hmac J tok then jwt_verify J now secret tok else None)"

section \<open>The authorization header\<close>

text \<open>\<open>strings.SplitN(h, " ", 2)\<close>: \<open>None\<close> when there is no space.\<close>

fun split_space :: "string \<Rightarrow> (string \<times> string) option" where
  "split_space [] = None"
| "split_space (c # cs) = (if c = CHR '' '' then Some ([], cs) else map_option (apfst ((#) c)) (split_space cs))"

text \<open>\<open>strings.EqualFold\<close> against an ASCII word.\<close>

definition fold_char :: "char \<Rightarrow> char" where
  "fold_char c = (let n = (of_char c :: nat) in if 65 \<le> n \<and> n \<le> 90 then char_of (n + 32) else c)"

definition EqualFold :: "string \<Rightarrow> string \<Rightarrow> bool" where
  "EqualFold a b \<longleftrightarrow> map fold_char a = map fold_char b"

text \<open>\<open>strings.ToLower\<close> on ASCII text.\<close>

definition ToLower :: "string \<Rightarrow> string" where
  "ToLower v = map fold_char v"

definition bearer_token :: "string \<Rightarrow> string option" where
  "bearer_token h = (case split_space h of None \<Rightarrow> None
     | Some (scheme, tok) \<Rightarrow> if EqualFold scheme ''bearer'' then Some tok else None)"

lemma split_space_append: "CHR '' '' \<notin> set a \<Longrightarrow> split_space (a @ CHR '' '' # b) = Some (a, b)"
  by (induction a) auto

lemma bearer_token_header [simp]: "bearer_token (''Bearer '' @ tok) = Some tok"
proof -
  have "EqualFold ''Bearer'' ''bearer''" by code_simp
  then show ?thesis using split_space_append [of "''Bearer''" tok] by (simp add: bearer_token_def)
qed

section \<open>Middleware\<close>

record session =
  auth_user :: "string option"
  auth_role :: "string option"

definition no_session :: session where
  "no_session = \<lparr>auth_user = None, auth_role = None\<rparr>"

definition session_of :: "JWTClaims \<Rightarrow> session" where
  "session_of c = \<lparr>auth_user = Some (cl_UserID c), auth_role = Some (cl_Role c)\<rparr>"

text \<open>The headers of a request the middleware reads: \<open>Authorization\<close> and \<open>X-Internal-Secret\<close>.\<close>

record headers =
  hd_Authorization :: string
  hd_InternalSecret :: string

text \<open>\<open>JWTAuth\<close>: the response with which the request is aborted, or the session.\<close>

definition JWTAuth :: "jwt_lib \<Rightarrow> time \<Rightarrow> string \<Rightarrow> headers \<Rightarrow> 'd response + session" where
  "JWTAuth J now secret h =
     (if hd_Authorization h = [] then Inl (Error 401 ''authorization header is required'')
      else case bearer_token (hd_Authorization h) of
        None \<Rightarrow> Inl (Error 401 ''invalid authorization header format'')
      | Some tok \<Rightarrow> (case ParseWithClaims J now secret tok of
          None \<Rightarrow> Inl (Error 401 ''invalid or expired token'')
        | Some c \<Rightarrow> Inr (session_of c)))"

text \<open>\<open>RequireRole\<close>: \<open>None\<close> lets the request through.\<close>

definition RequireRole :: "string list \<Rightarrow> session \<Rightarrow> 'd response option" where
  "RequireRole roles ss = (case auth_role ss of
       None \<Rightarrow> Some (Error 403 ''access denied'')
     | Some role \<Rightarrow> if role \<in> set roles then None else Some (Error 403 ''insufficient permissions''))"

definition RequireInternalSecretOrRoles ::
    "jwt_lib \<Rightarrow> time \<Rightarrow> string \<Rightarrow> string \<Rightarrow> string \<Rightarrow> string list \<Rightarrow> headers \<Rightarrow> 'd response + session" where
  "RequireInternalSecretOrRoles J now internal appenv secret roles h =
     (let provided = hd_InternalSecret h in
      if (internal \<noteq> [] \<and> provided = internal) \<or> (internal = [] \<and> appenv \<noteq> ''production'' \<and> provided \<noteq> [])
        then Inr no_session
      else (let denied = Inl (Error 403 ''access denied: internal secret or authorized token required'') in
        if hd_Authorization h = [] then denied
        else case bearer_token (hd_Authorization h) of
          None \<Rightarrow> denied
        | Some tok \<Rightarrow> (case ParseWithClaims J now secret tok of
            None \<Rightarrow> denied
          | Some c \<Rightarrow> if cl_Role c \<in> set roles then Inr (session_of c) else Inl (Error 403 ''insufficient permissions''))))"

text \<open>Route groups: \<open>Use(JWTAuth)\<close>, and \<open>RequireRole\<close> behind it.\<close>

definition protected_route ::
    "env \<Rightarrow> jwt_lib \<Rightarrow> string \<Rightarrow> headers \<Rightarrow> (session \<Rightarrow> ('z infra_scheme, 'd response) state) \<Rightarrow> ('z infra_scheme, 'd response) state" where
  "protected_route E J secret h handler = do {
     now \<leftarrow> Now E;
     case JWTAuth J now secret h of Inl r \<Rightarrow> ret r | Inr ss \<Rightarrow> handler ss }"

definition role_route ::
    "env \<Rightarrow> jwt_lib \<Rightarrow> string \<Rightarrow> string list \<Rightarrow> headers \<Rightarrow> (session \<Rightarrow> ('z infra_scheme, 'd response) state) \<Rightarrow>
     ('z infra_scheme, 'd response) state" where
  "role_route E J secret roles h handler = protected_route E J secret h
     (\<lambda>ss. case RequireRole roles ss of Some r \<Rightarrow> ret r | None \<Rightarrow> handler ss)"

section \<open>Error texts\<close>

text \<open>\<open>err.Error()\<close>; \<open>lib\<close> gives the texts of errors of the libraries.\<close>

fun error_text :: "(gerr \<Rightarrow> string) \<Rightarrow> gerr \<Rightarrow> string" where
  "error_text lib (Err_New m) = m"
| "error_text lib (Err_Wrap m e) = m @ '': '' @ error_text lib e"
| "error_text lib ErrSoldOut = ''Tiket telah habis terjual.''"
| "error_text lib ErrActivePendingOrderExists = ''Anda masih memiliki pesanan yang belum diselesaikan untuk event ini.''"
| "error_text lib ErrOrderProcessing = ''Pesanan Anda sedang diproses, silakan tunggu.''"
| "error_text lib ErrSaleEnded = ''Periode penjualan tiket untuk kategori ini telah berakhir.''"
| "error_text lib ErrSaleNotStarted = ''Penjualan tiket untuk kategori ini belum dimulai.''"
| "error_text lib ErrEventEnded = ''Event ini telah berakhir.''"
| "error_text lib ErrTicketInactive = ''Kategori tiket sedang tidak aktif.''"
| "error_text lib ErrInsufficientBalance = ''insufficient available balance for withdrawal''"
| "error_text lib ErrWithdrawalNotFound = ''withdrawal request not found''"
| "error_text lib ErrUnauthorizedAccess = ''unauthorized access to withdrawal request''"
| "error_text lib ErrInvalidAmount = ''withdrawal amount must be at least 10,000''"
| "error_text lib ErrInvalidCredentials = ''invalid email or password''"
| "error_text lib ErrEmailAlreadyExists = ''email already registered''"
| "error_text lib ErrUserNotFound = ''user not found''"
| "error_text lib ErrInvalidToken = ''invalid or expired token''"
| "error_text lib ErrEventNotFound = ''event not found''"
| "error_text lib ErrUnauthorized = ''unauthorized''"
| "error_text lib ErrVenueNotFound = ''venue not found''"
| "error_text lib e = lib e"

text \<open>\<open>strings.Contains\<close>.\<close>

fun Contains :: "string \<Rightarrow> string \<Rightarrow> bool" where
  "Contains [] sub = (sub = [])"
| "Contains (c # cs) sub = (take (length sub) (c # cs) = sub \<or> Contains cs sub)"

section \<open>The user of a request\<close>

definition session_user :: "session \<Rightarrow> string" where
  "session_user ss = (case auth_user ss of None \<Rightarrow> [] | Some u \<Rightarrow> u)"

text \<open>\<open>if !exists || !ok || uidStr == ""\<close>.\<close>

definition with_user :: "session \<Rightarrow> (string \<Rightarrow> ('s, 'd response) state) \<Rightarrow> ('s, 'd response) state" where
  "with_user ss handler = (if session_user ss = [] then ret (Error 401 ''unauthorized'') else handler (session_user ss))"

text \<open>The shape of the reading handlers: an error becomes 500 with a prefix.\<close>

definition answer :: "(gerr \<Rightarrow> string) \<Rightarrow> string \<Rightarrow> string \<Rightarrow> ('s, 'd) go \<Rightarrow> ('s, 'd response) state" where
  "answer lib failure success m = do {
     r \<leftarrow> m;
     ret (case r of Inl e \<Rightarrow> InternalError (failure @ error_text lib e) | Inr d \<Rightarrow> Success 200 success (Some d)) }"

section \<open>Optional columns\<close>

text \<open>\<open>pgTextFromString\<close>: the empty string is NULL.\<close>

definition pgTextFromString :: "string \<Rightarrow> string option" where
  "pgTextFromString v = (if v = [] then None else Some v)"

section \<open>Paging\<close>

text \<open>\<open>strconv.Atoi\<close> with its error dropped: 0 on a syntax error, the nearest bound out of range.\<close>

definition Atoi :: "string \<Rightarrow> int" where
  "Atoi v = ParseInt v"

text \<open>\<open>c.DefaultQuery\<close>: the default applies when the parameter is absent.\<close>

definition DefaultQuery :: "string option \<Rightarrow> string \<Rightarrow> string" where
  "DefaultQuery q fallback = (case q of None \<Rightarrow> fallback | Some v \<Rightarrow> v)"

record Meta =
  me_Page :: int
  me_PerPage :: int
  me_Total :: int
  me_TotalPages :: int

text \<open>\<open>int(math.Ceil(float64(total) / float64(perPage)))\<close>.\<close>

fun f_ceil :: "f64 \<Rightarrow> f64" where
  "f_ceil (Fin q) = Fin (of_int \<lceil>q\<rceil>)"
| "f_ceil x = x"

definition NewMeta :: "int \<Rightarrow> int \<Rightarrow> int \<Rightarrow> Meta" where
  "NewMeta page per_page count = \<lparr>me_Page = page, me_PerPage = per_page, me_Total = count,
     me_TotalPages = f_int64 (f_ceil (fdiv (f_of_int count) (f_of_int per_page)))\<rparr>"

record 'd paged =
  pg_Rows :: 'd
  pg_Meta :: Meta

definition SuccessWithPagination :: "string \<Rightarrow> 'd \<Rightarrow> Meta \<Rightarrow> 'd paged response" where
  "SuccessWithPagination m rows meta = Success 200 m (Some \<lparr>pg_Rows = rows, pg_Meta = meta\<rparr>)"

definition Unauthorized :: "string \<Rightarrow> 'd response" where
  "Unauthorized m = \<lparr>resp_Code = 401, resp_Success = False, resp_Message = m, resp_Data = None, resp_Errors = None\<rparr>"

definition Forbidden :: "string \<Rightarrow> 'd response" where
  "Forbidden m = \<lparr>resp_Code = 403, resp_Success = False, resp_Message = m, resp_Data = None, resp_Errors = None\<rparr>"

section \<open>The number of pages\<close>

lemma round_half_even_error: "\<bar>of_int (round_half_even x) - x\<bar> \<le> 1 / 2"
proof -
  have "of_int \<lfloor>x\<rfloor> \<le> x" "x < of_int \<lfloor>x\<rfloor> + 1" by linarith+
  then show ?thesis by (auto simp: round_half_even_def Let_def abs_le_iff)
qed

text \<open>The relative error of rounding a rational that is neither tiny nor huge.\<close>

lemma fround_error:
  assumes "0 < q" and "pow2 (- 1022) \<le> q" and "q < pow2 1000"
  shows "\<exists>v. fround q = Fin v \<and> \<bar>v - q\<bar> \<le> q / 2 ^ 53"
proof -
  let ?e = "ilog2 q" and ?u = "ulp q"
  let ?v = "of_int (round_half_even (q / ?u)) * ?u"
  note b = ilog2_bounds [OF assms(1)]
  have "pow2 (- 1022) < pow2 (?e + 1)" using assms(2) b(2) by simp
  then have e: "- 1022 \<le> ?e" using pow2_mono [of "?e + 1" "- 1022"] by (cases "?e + 1 \<le> - 1022") auto
  have u: "?u = pow2 ?e / 2 ^ 52"
    using pow2_add [of ?e "- 52"] e by (simp add: ulp_def max_def) (simp add: pow2_def)
  have pos: "0 < ?u" using pow2_pos [of ?e] by (simp add: u)
  have "\<bar>of_int (round_half_even (q / ?u)) - q / ?u\<bar> * ?u \<le> 1 / 2 * ?u"
    using round_half_even_error [of "q / ?u"] pos by (intro mult_right_mono) simp_all
  moreover have "\<bar>of_int (round_half_even (q / ?u)) - q / ?u\<bar> * ?u = \<bar>?v - q\<bar>"
  proof -
    have "\<bar>of_int (round_half_even (q / ?u)) - q / ?u\<bar> * ?u = \<bar>(of_int (round_half_even (q / ?u)) - q / ?u) * ?u\<bar>"
      using pos by (simp add: abs_mult)
    also have "(of_int (round_half_even (q / ?u)) - q / ?u) * ?u = ?v - q" using pos by (simp add: left_diff_distrib)
    finally show ?thesis .
  qed
  ultimately have "\<bar>?v - q\<bar> \<le> ?u / 2" by simp
  also have "\<dots> \<le> q / 2 ^ 53" using b(1) by (simp add: u)
  finally have err: "\<bar>?v - q\<bar> \<le> q / 2 ^ 53" .
  moreover have "q / 2 ^ 53 \<le> q" using assms(1) by simp
  ultimately have "?v \<le> 2 * q" by linarith
  also have "\<dots> < pow2 1024" using assms(3) pow2_mono [of 1001 1024] pow2_add [of 1 1000] by (simp add: pow2_def [of 1])
  finally show ?thesis using err assms(1) by (simp add: fround_def Let_def)
qed

text \<open>A quotient that is not whole keeps a distance from the whole numbers.\<close>

lemma quotient_gap:
  assumes "0 < k" and "\<not> k dvd n"
  shows "of_int (n div k) + 1 / of_int k \<le> (of_int n / of_int k :: rat)"
    and "(of_int n / of_int k :: rat) \<le> of_int (n div k) + 1 - 1 / of_int k"
proof -
  let ?q = "of_int n / of_int k :: rat" and ?m = "n div k"
  have k0: "(0 :: rat) < of_int k" using assms(1) by simp
  have mod: "0 < n mod k" "n mod k < k" using assms(2) pos_mod_sign [OF assms(1), of n] pos_mod_bound [OF assms(1), of n] by (auto simp: dvd_eq_mod_eq_0)
  have n: "n = k * ?m + n mod k" by simp
  show "of_int ?m + 1 / of_int k \<le> ?q"
  proof -
    have "k * ?m + 1 \<le> n" using n mod by linarith
    then have "(of_int (k * ?m + 1) :: rat) \<le> of_int n" by (simp only: of_int_le_iff)
    then show ?thesis unfolding pos_le_divide_eq [OF k0] using k0 by (simp add: algebra_simps)
  qed
  show "?q \<le> of_int ?m + 1 - 1 / of_int k"
  proof -
    have "n + 1 \<le> k * ?m + k" using n mod by linarith
    then have "(of_int (n + 1) :: rat) \<le> of_int (k * ?m + k)" by (simp only: of_int_le_iff)
    then show ?thesis unfolding pos_divide_le_eq [OF k0] using k0 by (simp add: algebra_simps)
  qed
qed

lemma pages_exact:
  assumes "0 \<le> n" and "n < 2 ^ 53" and "0 < k" and "k < 2 ^ 53"
  shows "f_ceil (fdiv (f_of_int n) (f_of_int k)) = Fin (of_int \<lceil>of_int n / of_int k :: rat\<rceil>)"
proof -
  let ?q = "of_int n / of_int k :: rat"
  have nk: "f_of_int n = Fin (of_int n)" "f_of_int k = Fin (of_int k)"
    using fround_whole [of n] fround_whole [of k] assms by (simp_all add: f_of_int_def)
  have div: "fdiv (f_of_int n) (f_of_int k) = fround ?q" using assms(3) by (simp add: nk)
  show ?thesis
  proof (cases "k dvd n")
    case True
    then obtain j where j: "n = k * j" ..
    have "0 \<le> j" using j assms(1,3) by (simp add: zero_le_mult_iff)
    moreover have "1 * j \<le> k * j" using \<open>0 \<le> j\<close> assms(3) by (intro mult_right_mono) simp_all
    ultimately have "fround (of_int j) = Fin (of_int j)" using j assms(2) by (intro fround_whole) simp
    moreover have "?q = of_int j" using j assms(3) by simp
    ultimately show ?thesis unfolding div by simp
  next
    case False
    let ?m = "n div k"
    have k0: "(0 :: rat) < of_int k" using assms(3) by simp
    have n0: "0 < n" using False assms(1) by (cases "n = 0") auto
    note lo = quotient_gap(1) [OF assms(3) False] and hi = quotient_gap(2) [OF assms(3) False]
    have small: "?q / 2 ^ 53 < 1 / of_int k"
    proof -
      have "(of_int n :: rat) < of_int (2 ^ 53)" using assms(2) by (simp only: of_int_less_iff)
      then show ?thesis using k0 by (simp add: field_simps)
    qed
    have q0: "0 < ?q" using n0 k0 by simp
    have r0: "0 < 1 / (of_int k :: rat)" using k0 by simp
    have "0 \<le> ?m" using assms(1,3) by (simp add: pos_imp_zdiv_nonneg_iff)
    then have m0: "0 \<le> (of_int ?m :: rat)" by simp
    have "1 / of_int k \<le> ?q" using lo m0 by linarith
    moreover have "pow2 (- 53) \<le> 1 / of_int k"
    proof -
      have "(of_int k :: rat) \<le> of_int (2 ^ 53)" using assms(4) by (simp only: of_int_le_iff)
      then show ?thesis using k0 by (simp add: pow2_def field_simps)
    qed
    ultimately have low: "pow2 (- 1022) \<le> ?q" using pow2_mono [of "- 1022" "- 53"] by simp
    have "?q \<le> of_int n" using k0 n0 assms(3) by (simp add: field_simps)
    also have "(of_int n :: rat) < of_int (2 ^ 53)" using assms(2) by (simp only: of_int_less_iff)
    also have "\<dots> \<le> pow2 1000" using pow2_mono [of 53 1000] by (simp add: pow2_def [of 53])
    finally have "?q < pow2 1000" .
    then obtain v where v: "fround ?q = Fin v" "\<bar>v - ?q\<bar> \<le> ?q / 2 ^ 53" using fround_error [OF q0 low] by blast
    have "of_int ?m < v" "v < of_int ?m + 1" using v(2) small lo hi unfolding abs_le_iff by linarith+
    then have "\<lceil>v\<rceil> = ?m + 1" by (simp add: ceiling_eq_iff)
    moreover have "of_int ?m < ?q" "?q \<le> of_int ?m + 1" using lo hi r0 by linarith+
    then have "\<lceil>?q\<rceil> = ?m + 1" by (simp add: ceiling_eq_iff)
    ultimately show ?thesis by (simp add: div v(1) del: of_int_add)
  qed
qed

text \<open>
  C40. The page count is exact: for fewer than 2^53 rows and a positive page size below 2^53, the floating
  point computation of \<open>NewMeta\<close> gives the whole-number quotient rounded up, with no rounding error.
\<close>

theorem NewMeta_pages:
  assumes "0 \<le> n" and "n < 2 ^ 53" and "0 < k" and "k < 2 ^ 53"
  shows "me_TotalPages (NewMeta page k n) = (n + k - 1) div k"
proof -
  let ?m = "(n + k - 1) div k"
  have m: "k * ?m \<le> n + k - 1" "n + k - 1 < k * ?m + k"
    using mult_div_mod_eq [of k "n + k - 1"] pos_mod_sign [OF assms(3), of "n + k - 1"] pos_mod_bound [OF assms(3), of "n + k - 1"]
    by linarith+
  have k0: "(0 :: rat) < of_int k" using assms(3) by simp
  have "(of_int (k * ?m) :: rat) < of_int (n + k)" "(of_int n :: rat) \<le> of_int (k * ?m)"
    using m by (simp_all only: of_int_less_iff of_int_le_iff)
  then have c: "\<lceil>of_int n / of_int k :: rat\<rceil> = ?m"
    using k0 by (simp add: ceiling_eq_iff field_simps)
  have "0 \<le> ?m" using assms(1,3) by (simp add: pos_imp_zdiv_nonneg_iff)
  moreover have "1 * ?m \<le> k * ?m" using \<open>0 \<le> ?m\<close> assms(3) by (intro mult_right_mono) simp_all
  ultimately have "0 \<le> ?m" "?m < 2 ^ 63" using m assms(2,4) by simp_all
  then show ?thesis by (simp add: NewMeta_def pages_exact [OF assms] c Let_def)
qed

theorem NewMeta_pages_witness: "me_TotalPages (NewMeta 1 10 31) = 4"
  using NewMeta_pages [of 31 10 1] by simp

end
