(* ===== verification/Auth_Store.thy ===== *)
theory Auth_Store
  imports Gate_Scan Http_Session
begin

text \<open>
  The database of the auth service: the tables \<open>users\<close>, \<open>refresh_tokens\<close> and \<open>password_reset_tokens\<close>
  (\<open>repository/db/models.go\<close>, \<open>migrations/\<close>) and one definition per statement of \<open>users.sql.go\<close>,
  \<open>refresh_tokens.sql.go\<close> and \<open>password_resets.sql.go\<close>, with the constraints of the schema; and the map
  \<open>recentRotations\<close> the service keeps in memory. Texts are sequences of one-byte characters.
\<close>

section \<open>Rows\<close>

record User =
  us_ID :: uuid
  us_Email :: string
  us_PasswordHash :: string
  us_FullName :: string
  us_Phone :: "string option"
  us_Role :: string
  us_AvatarUrl :: "string option"
  us_IsVerified :: bool
  us_IsActive :: bool
  us_CreatedAt :: time
  us_UpdatedAt :: time

record RefreshToken =
  rt_ID :: uuid
  rt_UserID :: uuid
  rt_Token :: string
  rt_UserAgent :: "string option"
  rt_IpAddress :: "string option"
  rt_ExpiresAt :: time
  rt_CreatedAt :: time

record PasswordResetToken =
  pr_ID :: uuid
  pr_UserID :: uuid
  pr_Token :: string
  pr_ExpiresAt :: time
  pr_CreatedAt :: time

record TokenPair =
  tp_AccessToken :: string
  tp_RefreshToken :: string
  tp_ExpiresAt :: int

text \<open>\<open>rotations\<close>: an old refresh token with the pair it was exchanged for and the end of the grace window.\<close>

record auth_db = gate_db +
  users :: "User list"
  refresh_tokens :: "RefreshToken list"
  password_resets :: "PasswordResetToken list"
  rotations :: "string \<Rightarrow> (TokenPair \<times> time) option"

lemma auth_update_order [simp]:
  "s\<lparr>users := us, tick := n\<rparr> = s\<lparr>tick := n, users := us\<rparr>"
  "s\<lparr>refresh_tokens := rts, tick := n\<rparr> = s\<lparr>tick := n, refresh_tokens := rts\<rparr>"
  "s\<lparr>refresh_tokens := rts, users := us\<rparr> = s\<lparr>users := us, refresh_tokens := rts\<rparr>"
  "s\<lparr>password_resets := ps, tick := n\<rparr> = s\<lparr>tick := n, password_resets := ps\<rparr>"
  "s\<lparr>password_resets := ps, users := us\<rparr> = s\<lparr>users := us, password_resets := ps\<rparr>"
  "s\<lparr>password_resets := ps, refresh_tokens := rts\<rparr> = s\<lparr>refresh_tokens := rts, password_resets := ps\<rparr>"
  "s\<lparr>rotations := ro, tick := n\<rparr> = s\<lparr>tick := n, rotations := ro\<rparr>"
  "s\<lparr>rotations := ro, users := us\<rparr> = s\<lparr>users := us, rotations := ro\<rparr>"
  "s\<lparr>rotations := ro, refresh_tokens := rts\<rparr> = s\<lparr>refresh_tokens := rts, rotations := ro\<rparr>"
  by simp_all

definition longer :: "nat \<Rightarrow> string option \<Rightarrow> bool" where
  "longer n v \<longleftrightarrow> (case v of None \<Rightarrow> False | Some x \<Rightarrow> n < length x)"

section \<open>Users\<close>

definition CountUsers :: "env \<Rightarrow> ('z auth_db_scheme, int) go" where
  "CountUsers E = sql E (\<lambda>now u s. (Inr (int (length (filter us_IsActive (users s)))), s))"

definition CreateUser ::
    "env \<Rightarrow> string \<Rightarrow> string \<Rightarrow> string \<Rightarrow> string option \<Rightarrow> string \<Rightarrow> ('z auth_db_scheme, User) go" where
  "CreateUser E email hash name phone role = sql E (\<lambda>now u s.
     if 255 < length email \<or> 255 < length hash \<or> 255 < length name \<or> longer 20 phone \<or> 20 < length role then (Inl ErrOutOfRange, s)
     else if u \<in> us_ID ` set (users s) \<or> email \<in> us_Email ` set (users s) then (Inl ErrConstraint, s)
     else (let r = \<lparr>us_ID = u, us_Email = email, us_PasswordHash = hash, us_FullName = name, us_Phone = phone, us_Role = role,
                    us_AvatarUrl = None, us_IsVerified = False, us_IsActive = True, us_CreatedAt = now, us_UpdatedAt = now\<rparr>
           in (Inr r, s\<lparr>users := users s @ [r]\<rparr>)))"

definition inactive_row :: "time \<Rightarrow> User \<Rightarrow> User" where
  "inactive_row now r = r\<lparr>us_IsActive := False, us_UpdatedAt := now\<rparr>"

definition DeactivateUser :: "env \<Rightarrow> uuid \<Rightarrow> ('z auth_db_scheme, unit) go" where
  "DeactivateUser E uid = sql E (\<lambda>now u s. (Inr (), s\<lparr>users := update_rows (\<lambda>r. us_ID r = uid) (inactive_row now) (users s)\<rparr>))"

definition Queries_GetUserByEmail :: "env \<Rightarrow> string \<Rightarrow> ('z auth_db_scheme, User) go" where
  "Queries_GetUserByEmail E email = sql E (\<lambda>now u s.
     (row_result (find_row (\<lambda>r. us_Email r = email \<and> us_IsActive r) (users s)), s))"

definition GetUserByID :: "env \<Rightarrow> uuid \<Rightarrow> ('z auth_db_scheme, User) go" where
  "GetUserByID E uid = sql E (\<lambda>now u s. (row_result (find_row (\<lambda>r. us_ID r = uid \<and> us_IsActive r) (users s)), s))"

record UserRow =
  ur_ID :: uuid
  ur_FullName :: string
  ur_Email :: string
  ur_Role :: string
  ur_IsActive :: bool

definition user_row :: "User \<Rightarrow> UserRow" where
  "user_row r = \<lparr>ur_ID = us_ID r, ur_FullName = us_FullName r, ur_Email = us_Email r, ur_Role = us_Role r, ur_IsActive = us_IsActive r\<rparr>"

text \<open>Deactivated users are found too.\<close>

definition Queries_GetUsersByIDs :: "env \<Rightarrow> uuid list \<Rightarrow> ('z auth_db_scheme, UserRow list) go" where
  "Queries_GetUsersByIDs E ids = sql E (\<lambda>now u s. (Inr (map user_row (filter (\<lambda>r. us_ID r \<in> set ids) (users s))), s))"

definition ListUsers :: "env \<Rightarrow> int32 \<Rightarrow> int32 \<Rightarrow> ('z auth_db_scheme, User list) go" where
  "ListUsers E lmt off = sql E (\<lambda>now u s. (page_rows lmt off (newest_first us_CreatedAt (filter us_IsActive (users s))), s))"

definition password_row :: "time \<Rightarrow> string \<Rightarrow> User \<Rightarrow> User" where
  "password_row now hash r = r\<lparr>us_PasswordHash := hash, us_UpdatedAt := now\<rparr>"

definition UpdateUserPassword :: "env \<Rightarrow> uuid \<Rightarrow> string \<Rightarrow> ('z auth_db_scheme, unit) go" where
  "UpdateUserPassword E uid hash = sql E (\<lambda>now u s.
     if 255 < length hash \<and> uid \<in> us_ID ` set (users s) then (Inl ErrOutOfRange, s)
     else (Inr (), s\<lparr>users := update_rows (\<lambda>r. us_ID r = uid) (password_row now hash) (users s)\<rparr>))"

definition profile_row :: "time \<Rightarrow> string \<Rightarrow> string option \<Rightarrow> string option \<Rightarrow> User \<Rightarrow> User" where
  "profile_row now name phone avatar r = r\<lparr>us_FullName := name, us_Phone := phone, us_AvatarUrl := avatar, us_UpdatedAt := now\<rparr>"

definition UpdateUserProfile :: "env \<Rightarrow> uuid \<Rightarrow> string \<Rightarrow> string option \<Rightarrow> string option \<Rightarrow> ('z auth_db_scheme, User) go" where
  "UpdateUserProfile E uid name phone avatar = sql E (\<lambda>now u s.
     (case find_row (\<lambda>r. us_ID r = uid \<and> us_IsActive r) (users s) of
        None \<Rightarrow> (Inl ErrNoRows, s)
      | Some r \<Rightarrow>
          if 255 < length name \<or> longer 20 phone then (Inl ErrOutOfRange, s)
          else (Inr (profile_row now name phone avatar r),
                s\<lparr>users := update_rows (\<lambda>r. us_ID r = uid \<and> us_IsActive r) (profile_row now name phone avatar) (users s)\<rparr>)))"

definition role_row :: "time \<Rightarrow> string \<Rightarrow> User \<Rightarrow> User" where
  "role_row now role r = r\<lparr>us_Role := role, us_UpdatedAt := now\<rparr>"

definition UpdateUserRole :: "env \<Rightarrow> uuid \<Rightarrow> string \<Rightarrow> ('z auth_db_scheme, unit) go" where
  "UpdateUserRole E uid role = sql E (\<lambda>now u s.
     if 20 < length role \<and> uid \<in> us_ID ` set (users s) then (Inl ErrOutOfRange, s)
     else (Inr (), s\<lparr>users := update_rows (\<lambda>r. us_ID r = uid) (role_row now role) (users s)\<rparr>))"

interpretation inactive_keyed: keyed_update us_ID "inactive_row now" for now
  by unfold_locales (simp add: inactive_row_def)

interpretation password_keyed: keyed_update us_ID "password_row now hash" for now hash
  by unfold_locales (simp add: password_row_def)

interpretation profile_keyed: keyed_update us_ID "profile_row now name phone avatar" for now name phone avatar
  by unfold_locales (simp add: profile_row_def)

interpretation role_keyed: keyed_update us_ID "role_row now role" for now role
  by unfold_locales (simp add: role_row_def)

section \<open>Refresh tokens\<close>

definition CreateRefreshToken ::
    "env \<Rightarrow> uuid \<Rightarrow> string \<Rightarrow> string option \<Rightarrow> string option \<Rightarrow> time \<Rightarrow> ('z auth_db_scheme, RefreshToken) go" where
  "CreateRefreshToken E uid tok agent ip expires = sql E (\<lambda>now u s.
     if 500 < length tok \<or> longer 45 ip then (Inl ErrOutOfRange, s)
     else if u \<in> rt_ID ` set (refresh_tokens s) \<or> tok \<in> rt_Token ` set (refresh_tokens s) \<or> uid \<notin> us_ID ` set (users s)
       then (Inl ErrConstraint, s)
     else (let r = \<lparr>rt_ID = u, rt_UserID = uid, rt_Token = tok, rt_UserAgent = agent, rt_IpAddress = ip,
                    rt_ExpiresAt = pg_time expires, rt_CreatedAt = now\<rparr>
           in (Inr r, s\<lparr>refresh_tokens := refresh_tokens s @ [r]\<rparr>)))"

definition DeleteExpiredTokens :: "env \<Rightarrow> ('z auth_db_scheme, unit) go" where
  "DeleteExpiredTokens E = sql E (\<lambda>now u s. (Inr (), s\<lparr>refresh_tokens := filter (\<lambda>r. now < rt_ExpiresAt r) (refresh_tokens s)\<rparr>))"

definition DeleteRefreshToken :: "env \<Rightarrow> string \<Rightarrow> ('z auth_db_scheme, unit) go" where
  "DeleteRefreshToken E tok = sql E (\<lambda>now u s. (Inr (), s\<lparr>refresh_tokens := filter (\<lambda>r. rt_Token r \<noteq> tok) (refresh_tokens s)\<rparr>))"

definition DeleteRefreshTokensByUserID :: "env \<Rightarrow> uuid \<Rightarrow> ('z auth_db_scheme, unit) go" where
  "DeleteRefreshTokensByUserID E uid = sql E (\<lambda>now u s.
     (Inr (), s\<lparr>refresh_tokens := filter (\<lambda>r. rt_UserID r \<noteq> uid) (refresh_tokens s)\<rparr>))"

definition GetRefreshToken :: "env \<Rightarrow> string \<Rightarrow> ('z auth_db_scheme, RefreshToken) go" where
  "GetRefreshToken E tok = sql E (\<lambda>now u s.
     (row_result (find_row (\<lambda>r. rt_Token r = tok \<and> now < rt_ExpiresAt r) (refresh_tokens s)), s))"

section \<open>Password reset tokens\<close>

definition CreatePasswordResetToken :: "env \<Rightarrow> uuid \<Rightarrow> string \<Rightarrow> time \<Rightarrow> ('z auth_db_scheme, PasswordResetToken) go" where
  "CreatePasswordResetToken E uid tok expires = sql E (\<lambda>now u s.
     if 255 < length tok then (Inl ErrOutOfRange, s)
     else if u \<in> pr_ID ` set (password_resets s) \<or> tok \<in> pr_Token ` set (password_resets s) \<or> uid \<notin> us_ID ` set (users s)
       then (Inl ErrConstraint, s)
     else (let r = \<lparr>pr_ID = u, pr_UserID = uid, pr_Token = tok, pr_ExpiresAt = pg_time expires, pr_CreatedAt = now\<rparr>
           in (Inr r, s\<lparr>password_resets := password_resets s @ [r]\<rparr>)))"

definition DeleteExpiredPasswordResetTokens :: "env \<Rightarrow> ('z auth_db_scheme, unit) go" where
  "DeleteExpiredPasswordResetTokens E = sql E (\<lambda>now u s.
     (Inr (), s\<lparr>password_resets := filter (\<lambda>r. now \<le> pr_ExpiresAt r) (password_resets s)\<rparr>))"

definition DeletePasswordResetToken :: "env \<Rightarrow> string \<Rightarrow> ('z auth_db_scheme, unit) go" where
  "DeletePasswordResetToken E tok = sql E (\<lambda>now u s.
     (Inr (), s\<lparr>password_resets := filter (\<lambda>r. pr_Token r \<noteq> tok) (password_resets s)\<rparr>))"

definition GetPasswordResetToken :: "env \<Rightarrow> string \<Rightarrow> ('z auth_db_scheme, PasswordResetToken) go" where
  "GetPasswordResetToken E tok = sql E (\<lambda>now u s.
     (row_result (find_row (\<lambda>r. pr_Token r = tok) (password_resets s)), s))"

end
