(* ===== verification/Shared_Config.thy ===== *)
theory Shared_Config
  imports Http_Session "HOL-Library.Signed_Division"
begin

text \<open>
  Configuration (\<open>shared/config/config.go\<close>): the environment of a process is a map from names to values, read
  by \<open>LookupEnv\<close> and \<open>Getenv\<close>. \<open>godotenv.Load\<close> is a parameter, a function on such maps for each list of files; so is
  \<open>strconv.ParseFloat\<close>. \<open>time.ParseDuration\<close> is modelled. Also the parts of the middleware and of the
  consumer that are plain settings.
\<close>

type_synonym environ = "string \<rightharpoonup> string"

definition getEnv :: "environ \<Rightarrow> string \<Rightarrow> string \<Rightarrow> string" where
  "getEnv e key fallback = (case e key of Some v \<Rightarrow> v | None \<Rightarrow> fallback)"

definition Getenv :: "environ \<Rightarrow> string \<Rightarrow> string" where
  "Getenv e key = (case e key of Some v \<Rightarrow> v | None \<Rightarrow> [])"

section \<open>Durations\<close>

text \<open>\<open>time.ParseDuration\<close>. The sums are those of \<open>uint64\<close>.\<close>

definition duration_units :: "(string \<times> int) list" where
  "duration_units = [(''ns'', 1), (''us'', 1000), ([CHR 0xC2, CHR 0xB5, CHR ''s''], 1000), ([CHR 0xCE, CHR 0xBC, CHR ''s''], 1000),
     (''ms'', 1000000), (''s'', Second), (''m'', Minute), (''h'', Hour)]"

fun leadingInt :: "int \<Rightarrow> string \<Rightarrow> (int \<times> string) option" where
  "leadingInt x [] = Some (x, [])"
| "leadingInt x (c # cs) =
     (if \<not> is_digit c then Some (x, c # cs)
      else if 2 ^ 63 div 10 < x then None
      else (let y = x * 10 + int (digit_val c) in if 2 ^ 63 < y then None else leadingInt y cs))"

fun leadingFraction :: "bool \<Rightarrow> int \<Rightarrow> f64 \<Rightarrow> string \<Rightarrow> int \<times> f64 \<times> string" where
  "leadingFraction over x scale [] = (x, scale, [])"
| "leadingFraction over x scale (c # cs) =
     (if \<not> is_digit c then (x, scale, c # cs)
      else if over \<or> (2 ^ 63 - 1) div 10 < x then leadingFraction True x scale cs
      else (let y = x * 10 + int (digit_val c) in
        if 2 ^ 63 < y then leadingFraction True x scale cs else leadingFraction False y (fmul scale (Fin 10)) cs))"

definition unit_char :: "char \<Rightarrow> bool" where
  "unit_char c \<longleftrightarrow> c \<noteq> CHR ''.'' \<and> \<not> is_digit c"

text \<open>One round of the loop: a number, its fraction and its unit; the value in nanoseconds and what is left.\<close>

definition duration_item :: "string \<Rightarrow> (int \<times> string) option" where
  "duration_item v =
     (if \<not> (v \<noteq> [] \<and> (hd v = CHR ''.'' \<or> is_digit (hd v))) then None
      else case leadingInt 0 v of
        None \<Rightarrow> None
      | Some (n, v1) \<Rightarrow>
          (let dot = v1 \<noteq> [] \<and> hd v1 = CHR ''.'';
               (f, scale, v2) = (if dot then leadingFraction False 0 (Fin 1) (tl v1) else (0, Fin 1, v1));
               pre = length v1 \<noteq> length v;
               post = dot \<and> length v2 \<noteq> length (tl v1);
               u = takeWhile unit_char v2; rest = dropWhile unit_char v2
           in if \<not> pre \<and> \<not> post then None
              else if u = [] then None
              else (case map_of duration_units u of
                None \<Rightarrow> None
              | Some unit \<Rightarrow>
                  if 2 ^ 63 div unit < n then None
                  else (let total = n * unit + (if 0 < f then f_int64 (fmul (f_of_int f) (fdiv (f_of_int unit) scale)) else 0)
                        in if 2 ^ 63 < total then None else Some (total, rest)))))"

lemma leadingInt_length: "leadingInt x v = Some (y, w) \<Longrightarrow> length w \<le> length v"
  by (induction x v rule: leadingInt.induct) (auto simp: Let_def split: if_split_asm)

lemma leadingFraction_length: "leadingFraction over x scale v = (y, scale', w) \<Longrightarrow> length w \<le> length v"
  by (induction over x scale v rule: leadingFraction.induct) (auto simp: Let_def split: if_split_asm)

lemma duration_item_length: "duration_item v = Some (n, w) \<Longrightarrow> length w < length v"
proof -
  assume r: "duration_item v = Some (n, w)"
  have shorter: "length (dropWhile unit_char v2) < length v2" if "takeWhile unit_char v2 \<noteq> []" for v2
    using that by (cases v2) (auto simp: le_imp_less_Suc length_dropWhile_le split: if_split_asm)
  show ?thesis
    using r unfolding duration_item_def Let_def
    by (auto split: if_split_asm option.splits prod.splits dest!: leadingInt_length leadingFraction_length shorter)
qed

function duration_items :: "int \<Rightarrow> string \<Rightarrow> int option" where
  "duration_items d v = (if v = [] then Some d
     else case duration_item v of
       None \<Rightarrow> None
     | Some (n, w) \<Rightarrow> (let d' = (d + n) mod 2 ^ 64 in if 2 ^ 63 < d' then None else duration_items d' w))"
  by pat_completeness auto
termination by (relation "measure (\<lambda>(d, v). length v)") (auto dest: duration_item_length)

declare duration_items.simps [simp del]

definition ParseDuration :: "string \<Rightarrow> gerr + time" where
  "ParseDuration s =
     (let signed = s \<noteq> [] \<and> (hd s = CHR ''-'' \<or> hd s = CHR ''+'');
          neg = signed \<and> hd s = CHR ''-'';
          v = (if signed then tl s else s)
      in if v = ''0'' then Inr 0
         else if v = [] then Inl ErrParse
         else (case duration_items 0 v of
           None \<Rightarrow> Inl ErrParse
         | Some d \<Rightarrow> if neg then Inr (- d) else if 2 ^ 63 - 1 < d then Inl ErrParse else Inr d))"

section \<open>The configuration\<close>

record ServerConfig = sv_Port :: string

record DatabaseConfig =
  dc_Host :: string
  dc_Port :: string
  dc_User :: string
  dc_Password :: string
  dc_DBName :: string
  dc_SSLMode :: string

record RedisConfig =
  rc_Host :: string
  rc_Port :: string
  rc_Password :: string

record KafkaConfig = kc_Brokers :: string

record JWTConfig =
  jc_Secret :: string
  jc_AccessExpiry :: time
  jc_RefreshExpiry :: time

record SMTPConfig =
  smtp_Host :: string
  smtp_Port :: string
  smtp_Username :: string
  smtp_Password :: string
  smtp_From :: string

record PlatformConfig = pf_FeePercent :: f64

record Config =
  cf_Server :: ServerConfig
  cf_Database :: DatabaseConfig
  cf_Redis :: RedisConfig
  cf_Kafka :: KafkaConfig
  cf_JWT :: JWTConfig
  cf_SMTP :: SMTPConfig
  cf_Platform :: PlatformConfig

definition DSN :: "DatabaseConfig \<Rightarrow> string" where
  "DSN d = ''postgres://'' @ dc_User d @ '':'' @ dc_Password d @ ''@'' @ dc_Host d @ '':'' @ dc_Port d @
     ''/'' @ dc_DBName d @ ''?sslmode='' @ dc_SSLMode d"

text \<open>\<open>v, _ := time.ParseDuration(...)\<close>.\<close>

definition duration_or_zero :: "string \<Rightarrow> time" where
  "duration_or_zero v = (case ParseDuration v of Inl e \<Rightarrow> 0 | Inr d \<Rightarrow> d)"

definition fee_percent :: "(string \<Rightarrow> gerr + f64) \<Rightarrow> environ \<Rightarrow> f64" where
  "fee_percent parse_float e = (case parse_float (getEnv e ''PLATFORM_FEE_PERCENT'' ''5.0'') of
     Inl x \<Rightarrow> Fin 5 | Inr f \<Rightarrow> if flt f (Fin 0) then Fin 5 else f)"

text \<open>The configuration, and the environment as the files have extended it.\<close>

definition Load :: "(string list \<Rightarrow> environ \<Rightarrow> environ) \<Rightarrow> (string \<Rightarrow> gerr + f64) \<Rightarrow> environ \<Rightarrow> Config \<times> environ" where
  "Load godotenv parse_float e0 = (let e = godotenv [''../../.env''] (godotenv [''../.env''] (godotenv [] e0)) in
     (\<lparr>cf_Server = \<lparr>sv_Port = getEnv e ''SERVER_PORT'' ''8080''\<rparr>,
      cf_Database = \<lparr>dc_Host = getEnv e ''POSTGRES_HOST'' ''localhost'', dc_Port = getEnv e ''POSTGRES_PORT'' ''5432'',
        dc_User = getEnv e ''POSTGRES_USER'' ''entra'', dc_Password = getEnv e ''POSTGRES_PASSWORD'' ''entra_secret'',
        dc_DBName = getEnv e ''POSTGRES_DB'' ''entra'', dc_SSLMode = getEnv e ''POSTGRES_SSLMODE'' ''disable''\<rparr>,
      cf_Redis = \<lparr>rc_Host = getEnv e ''REDIS_HOST'' ''localhost'', rc_Port = getEnv e ''REDIS_PORT'' ''6379'',
        rc_Password = getEnv e ''REDIS_PASSWORD'' []\<rparr>,
      cf_Kafka = \<lparr>kc_Brokers = getEnv e ''KAFKA_BROKERS'' ''localhost:9092''\<rparr>,
      cf_JWT = \<lparr>jc_Secret = getEnv e ''JWT_SECRET'' ''change-me-to-a-strong-secret-key'',
        jc_AccessExpiry = duration_or_zero (getEnv e ''JWT_ACCESS_EXPIRY'' ''15m''),
        jc_RefreshExpiry = duration_or_zero (getEnv e ''JWT_REFRESH_EXPIRY'' ''168h'')\<rparr>,
      cf_SMTP = \<lparr>smtp_Host = getEnv e ''SMTP_HOST'' ''sandbox.smtp.mailtrap.io'', smtp_Port = getEnv e ''SMTP_PORT'' ''2525'',
        smtp_Username = getEnv e ''SMTP_USER'' [], smtp_Password = getEnv e ''SMTP_PASS'' [],
        smtp_From = getEnv e ''SMTP_FROM'' ''noreply@entra.id''\<rparr>,
      cf_Platform = \<lparr>pf_FeePercent = fee_percent parse_float e\<rparr>\<rparr>, e))"

section \<open>Settings of the middleware\<close>

text \<open>\<open>CORS\<close>: the values handed to \<open>gin-contrib/cors\<close>.\<close>

record cors_config =
  co_AllowOrigins :: "string list"
  co_AllowMethods :: "string list"
  co_AllowHeaders :: "string list"
  co_ExposeHeaders :: "string list"
  co_AllowCredentials :: bool
  co_MaxAge :: time

definition CORS :: cors_config where
  "CORS = \<lparr>co_AllowOrigins = [''http://localhost:3000'', ''http://localhost:5173''],
     co_AllowMethods = [''GET'', ''POST'', ''PUT'', ''PATCH'', ''DELETE'', ''OPTIONS''],
     co_AllowHeaders = [''Origin'', ''Content-Type'', ''Accept'', ''Authorization'', ''X-Requested-With'', ''Idempotency-Key'',
       ''idempotency-key'', ''X-Idempotency-Key''],
     co_ExposeHeaders = [''Content-Length'', ''Content-Type'', ''Idempotency-Key''],
     co_AllowCredentials = True, co_MaxAge = 12 * Hour\<rparr>"

text \<open>The level at which \<open>Logger\<close> reports a request.\<close>

datatype log_level = LevelInfo | LevelWarn | LevelError

definition request_level :: "nat \<Rightarrow> log_level" where
  "request_level status = (if 500 \<le> status then LevelError else if 400 \<le> status then LevelWarn else LevelInfo)"

section \<open>Durations that parse\<close>

lemma leadingInt_digits:
  assumes "list_all is_digit ds" and "v = [] \<or> \<not> is_digit (hd v)" and "0 \<le> x"
    and "foldl (\<lambda>a c. 10 * a + int (digit_val c)) x ds \<le> 2 ^ 63"
  shows "leadingInt x (ds @ v) = Some (foldl (\<lambda>a c. 10 * a + int (digit_val c)) x ds, v)"
  using assms
proof (induction ds arbitrary: x)
  case Nil
  then show ?case by (cases v) auto
next
  case (Cons c cs)
  have grows: "y \<le> foldl (\<lambda>a c. 10 * a + int (digit_val c)) y cs" if "0 \<le> y" for y
    using that
  proof (induction cs arbitrary: y)
    case (Cons d ds)
    have "10 * y + int (digit_val d) \<le> foldl (\<lambda>a c. 10 * a + int (digit_val c)) (10 * y + int (digit_val d)) ds"
      by (rule Cons.IH) (use Cons.prems in simp)
    then show ?case using Cons.prems by simp
  qed simp
  let ?y = "10 * x + int (digit_val c)"
  have y: "0 \<le> ?y" "?y \<le> 2 ^ 63" using grows [of ?y] Cons.prems by auto
  then have "\<not> 2 ^ 63 div 10 < x" by simp
  then show ?case using Cons.IH [of ?y] Cons.prems y by (simp add: Let_def algebra_simps)
qed

lemma show_nat_value_int: "foldl (\<lambda>a c. 10 * a + int (digit_val c)) 0 (show_nat n) = int n"
proof -
  have "foldl (\<lambda>a c. 10 * a + int (digit_val c)) (int k) ds = int (foldl (\<lambda>a c. 10 * a + digit_val c) k ds)" for k ds
  proof (induction ds arbitrary: k)
    case (Cons d ds)
    show ?case using Cons.IH [of "10 * k + digit_val d"] by simp
  qed simp
  from this [of 0] show ?thesis by (simp add: show_nat_value)
qed

lemma duration_units_laws:
  assumes "(u, k) \<in> set duration_units"
  shows "u \<noteq> []" and "list_all unit_char u" and "map_of duration_units u = Some k" and "0 < k"
  using assms by (auto simp: duration_units_def unit_char_def is_digit_def duration_defs)

lemma duration_item_whole:
  assumes u: "(u, k) \<in> set duration_units" and n: "int n * k \<le> 2 ^ 63" and w: "w = [] \<or> \<not> unit_char (hd w)"
  shows "duration_item (show_nat n @ u @ w) = Some (int n * k, w)"
proof -
  note l = duration_units_laws [OF u]
  have digits: "list_all is_digit (show_nat n)" "show_nat n \<noteq> []" by (simp_all add: show_nat_digits)
  then have hd: "is_digit (hd (show_nat n))" by (cases "show_nat n") simp_all
  have stop: "u @ w \<noteq> []" "\<not> is_digit (hd (u @ w))" "hd (u @ w) \<noteq> CHR ''.''"
    using l(1,2) by (cases u; simp add: unit_char_def)+
  have "int n * 1 \<le> int n * k" using l(4) by (intro mult_left_mono) simp_all
  then have fits: "int n \<le> 2 ^ 63" using n by simp
  have int: "leadingInt 0 (show_nat n @ u @ w) = Some (int n, u @ w)"
    using leadingInt_digits [of "show_nat n" "u @ w" 0] digits(1) stop(2) fits by (simp add: show_nat_value_int)
  have split: "takeWhile unit_char (u @ w) = u" "dropWhile unit_char (u @ w) = w"
    using l(2) w by (cases w; simp add: list_all_iff takeWhile_append2 dropWhile_append2)+
  have bound: "int n \<le> 2 ^ 63 div k" using n l(4) by (simp add: zdiv_mono1 [of "int n * k" "2 ^ 63" k, simplified])
  show ?thesis
    unfolding duration_item_def using digits(2) hd int stop split l(1,3) bound n by (simp add: Let_def)
qed

text \<open>A unit is needed: digits alone parse only as zero.\<close>

lemma duration_item_bare: "duration_item (show_nat n) = None"
proof -
  have "list_all is_digit (show_nat n)" "show_nat n \<noteq> []" by (simp_all add: show_nat_digits)
  moreover have "\<exists>y. r = Some (y, [])" if "leadingInt x ds = r" "list_all is_digit ds" "r \<noteq> None" for x ds r
    using that by (induction x ds arbitrary: r rule: leadingInt.induct) (auto simp: Let_def split: if_split_asm)
  ultimately show ?thesis
    unfolding duration_item_def by (fastforce split: option.split simp: Let_def)
qed

end
