(* ===== verification/Auth_Service.thy ===== *)
theory Auth_Service
  imports Auth_Store Shared_Config
begin

text \<open>
  The auth service (\<open>service/auth_service.go\<close>) and its HTTP handlers (\<open>handler/auth_handler.go\<close>): accounts,
  token pairs with rotating refresh tokens, password resets. The libraries it calls are the record
  \<open>auth_lib\<close>: bcrypt (\<open>bcrypt_generate\<close> draws its salt from the tick it is called at), \<open>crypto/rand\<close>,
  SHA-256 and the JWT library; the configuration is part of it.
\<close>

record auth_lib =
  al_jwt :: jwt_lib
  al_Secret :: string
  al_AccessExpiry :: time
  al_RefreshExpiry :: time
  bcrypt_generate :: "nat \<Rightarrow> string \<Rightarrow> gerr + string"
  bcrypt_compare :: "string \<Rightarrow> string \<Rightarrow> bool"
  rand_read :: "nat \<Rightarrow> gerr + 8 word list"
  sha256 :: "string \<Rightarrow> 8 word list"
  valid_email :: "string \<Rightarrow> bool"

section \<open>Text encodings\<close>

text \<open>\<open>base64.URLEncoding\<close> with padding.\<close>

definition b64_char :: "nat \<Rightarrow> char" where
  "b64_char n = char_of (if n < 26 then 65 + n else if n < 52 then 71 + n else if n < 62 then n - 4 else if n = 62 then 45 else 95)"

fun EncodeToString :: "8 word list \<Rightarrow> string" where
  "EncodeToString [] = []"
| "EncodeToString [a] = (let v = unat a * 16 in [b64_char (v div 64), b64_char (v mod 64), CHR ''='', CHR ''=''])"
| "EncodeToString [a, b] = (let v = (unat a * 256 + unat b) * 4 in
     [b64_char (v div 4096), b64_char (v div 64 mod 64), b64_char (v mod 64), CHR ''=''])"
| "EncodeToString (a # b # c # bs) = (let v = (unat a * 256 + unat b) * 256 + unat c in
     [b64_char (v div 262144), b64_char (v div 4096 mod 64), b64_char (v div 64 mod 64), b64_char (v mod 64)] @ EncodeToString bs)"

text \<open>\<open>hex.EncodeToString\<close>.\<close>

definition hex_char :: "nat \<Rightarrow> char" where
  "hex_char n = char_of (if n < 10 then 48 + n else 87 + n)"

definition hex_encode :: "8 word list \<Rightarrow> string" where
  "hex_encode bs = concat (map (\<lambda>b. [hex_char (unat b div 16), hex_char (unat b mod 16)]) bs)"

definition HashToken :: "auth_lib \<Rightarrow> string \<Rightarrow> string" where
  "HashToken L token = hex_encode (sha256 L token)"

text \<open>\<open>strings.TrimSpace\<close>.\<close>

definition is_space :: "char \<Rightarrow> bool" where
  "is_space c \<longleftrightarrow> (of_char c :: nat) \<in> {9, 10, 11, 12, 13, 32}"

definition TrimSpace :: "string \<Rightarrow> string" where
  "TrimSpace v = rev (dropWhile is_space (rev (dropWhile is_space v)))"

section \<open>Token pairs\<close>

definition generateTokenPair :: "env \<Rightarrow> auth_lib \<Rightarrow> User \<Rightarrow> string \<Rightarrow> string \<Rightarrow> ('z auth_db_scheme, TokenPair) go" where
  "generateTokenPair E L user agent ip = do {
     now \<leftarrow> Now E;
     let expires = now + al_AccessExpiry L;
     case jwt_sign (al_jwt L) (al_Secret L) \<lparr>cl_UserID = uuid_String E (us_ID user), cl_Role = us_Role user\<rparr>
            (us_Email user) (Unix now) (Unix expires) of
       Inl e \<Rightarrow> err (Err_Wrap ''failed to sign access token'' e)
     | Inr access \<Rightarrow> do {
         n \<leftarrow> step;
         case rand_read L n of
           Inl e \<Rightarrow> err (Err_Wrap ''failed to generate refresh token'' e)
         | Inr bytes \<Rightarrow>
             bindE (Err_Wrap ''failed to store refresh token'')
               (CreateRefreshToken E (us_ID user) (EncodeToString bytes) (pgTextFromString agent) (pgTextFromString ip)
                  (now + al_RefreshExpiry L))
               (\<lambda>_. ok \<lparr>tp_AccessToken = access, tp_RefreshToken = EncodeToString bytes, tp_ExpiresAt = Unix expires\<rparr>) } }"

section \<open>Accounts\<close>

record RegisterRequest =
  rg_Email :: string
  rg_Password :: string
  rg_FullName :: string
  rg_Phone :: string
  rg_Role :: string

record LoginRequest =
  lg_Email :: string
  lg_Password :: string

record UpdateProfileRequest =
  up_FullName :: string
  up_Phone :: string
  up_AvatarURL :: string

text \<open>\<open>bcrypt.GenerateFromPassword\<close>, with the salt of this call.\<close>

definition hash_password :: "auth_lib \<Rightarrow> string \<Rightarrow> ('z infra_scheme, string) go" where
  "hash_password L pw = do { n \<leftarrow> step; ret (bcrypt_generate L n pw) }"

definition Register :: "env \<Rightarrow> auth_lib \<Rightarrow> RegisterRequest \<Rightarrow> ('z auth_db_scheme, User \<times> TokenPair) go" where
  "Register E L req = do {
     found \<leftarrow> Queries_GetUserByEmail E (rg_Email req);
     case found of
       Inr u \<Rightarrow> err ErrEmailAlreadyExists
     | Inl e \<Rightarrow>
         if \<not> errors_Is e ErrNoRows then err (Err_Wrap ''failed to check email'' e)
         else bindE (Err_Wrap ''failed to hash password'') (hash_password L (rg_Password req)) (\<lambda>hash.
              bindE (Err_Wrap ''failed to create user'')
                (CreateUser E (rg_Email req) hash (rg_FullName req) (pgTextFromString (rg_Phone req)) ''customer'') (\<lambda>user.
              check (generateTokenPair E L user [] []) (\<lambda>tokens. ok (user, tokens)))) }"

definition Login :: "env \<Rightarrow> auth_lib \<Rightarrow> LoginRequest \<Rightarrow> string \<Rightarrow> string \<Rightarrow> ('z auth_db_scheme, User \<times> TokenPair) go" where
  "Login E L req agent ip =
     bindE (\<lambda>e. if errors_Is e ErrNoRows then ErrInvalidCredentials else Err_Wrap ''failed to get user'' e)
       (Queries_GetUserByEmail E (lg_Email req)) (\<lambda>user.
         if \<not> bcrypt_compare L (us_PasswordHash user) (lg_Password req) then err ErrInvalidCredentials
         else check (generateTokenPair E L user agent ip) (\<lambda>tokens. ok (user, tokens)))"

text \<open>A refresh token that is not in the grace window: exchanged once, the pair kept for 30 seconds.\<close>

definition drop_rotation :: "string \<Rightarrow> ('z auth_db_scheme, unit) state" where
  "drop_rotation tok = State (\<lambda>s. ((), s\<lparr>rotations := (rotations s)(tok := None)\<rparr>))"

definition store_rotation :: "string \<Rightarrow> TokenPair \<Rightarrow> time \<Rightarrow> ('z auth_db_scheme, unit) state" where
  "store_rotation tok tokens expires = State (\<lambda>s. ((), s\<lparr>rotations := (rotations s)(tok \<mapsto> (tokens, expires))\<rparr>))"

text \<open>What happens once the row of the token has been read.\<close>

definition rotate_token_found :: "env \<Rightarrow> auth_lib \<Rightarrow> string \<Rightarrow> string \<Rightarrow> string \<Rightarrow> RefreshToken \<Rightarrow> ('z auth_db_scheme, TokenPair) go" where
  "rotate_token_found E L tok agent ip rt = do {
     DeleteRefreshToken E tok;
     bindE (\<lambda>e. ErrUserNotFound) (GetUserByID E (rt_UserID rt)) (\<lambda>user.
     check (generateTokenPair E L user agent ip) (\<lambda>tokens. do {
       now \<leftarrow> Now E;
       store_rotation tok tokens (now + 30 * Second);
       ok tokens })) }"

definition rotate_token :: "env \<Rightarrow> auth_lib \<Rightarrow> string \<Rightarrow> string \<Rightarrow> string \<Rightarrow> ('z auth_db_scheme, TokenPair) go" where
  "rotate_token E L tok agent ip =
     bindE (\<lambda>e. if errors_Is e ErrNoRows then ErrInvalidToken else Err_Wrap ''failed to get refresh token'' e)
       (GetRefreshToken E tok) (rotate_token_found E L tok agent ip)"

definition Service_RefreshToken :: "env \<Rightarrow> auth_lib \<Rightarrow> string \<Rightarrow> string \<Rightarrow> string \<Rightarrow> ('z auth_db_scheme, TokenPair) go" where
  "Service_RefreshToken E L tok agent ip = do {
     s \<leftarrow> State_Monad.get;
     case rotations s tok of
       Some (tokens, expires) \<Rightarrow> do {
         now \<leftarrow> Now E;
         if now < expires then ok tokens else do { drop_rotation tok; rotate_token E L tok agent ip } }
     | None \<Rightarrow> rotate_token E L tok agent ip }"

definition user_missing :: "string \<Rightarrow> gerr \<Rightarrow> gerr" where
  "user_missing m e = (if errors_Is e ErrNoRows then ErrUserNotFound else Err_Wrap m e)"

definition GetProfile :: "env \<Rightarrow> string \<Rightarrow> ('z auth_db_scheme, User) go" where
  "GetProfile E user_str = (case uuid_Parse E user_str of
       None \<Rightarrow> err ErrUserNotFound
     | Some uid \<Rightarrow> bindE (user_missing ''failed to get user'') (GetUserByID E uid) ok)"

text \<open>An empty avatar keeps the stored one, when it can be read.\<close>

definition UpdateProfile :: "env \<Rightarrow> string \<Rightarrow> UpdateProfileRequest \<Rightarrow> ('z auth_db_scheme, User) go" where
  "UpdateProfile E user_str req = (case uuid_Parse E user_str of
       None \<Rightarrow> err ErrUserNotFound
     | Some uid \<Rightarrow> do {
         avatar \<leftarrow> (if up_AvatarURL req \<noteq> [] then ret (pgTextFromString (up_AvatarURL req))
           else do {
             existing \<leftarrow> GetUserByID E uid;
             ret (case existing of Inl e \<Rightarrow> None | Inr u \<Rightarrow> us_AvatarUrl u) });
         bindE (user_missing ''failed to update profile'')
           (UpdateUserProfile E uid (up_FullName req) (pgTextFromString (up_Phone req)) avatar) ok })"

definition UpgradeToOrganizer :: "env \<Rightarrow> auth_lib \<Rightarrow> string \<Rightarrow> string \<Rightarrow> string \<Rightarrow> ('z auth_db_scheme, User \<times> TokenPair) go" where
  "UpgradeToOrganizer E L user_str agent ip = (case uuid_Parse E user_str of
       None \<Rightarrow> err ErrUserNotFound
     | Some uid \<Rightarrow> bindE (user_missing ''failed to get user'') (GetUserByID E uid) (\<lambda>user.
         if \<not> us_IsActive user then err (Err_New ''inactive user cannot be upgraded to organizer'')
         else if us_Role user = ''admin'' then err (Err_New ''admin user cannot be changed to organizer'')
         else bindE (Err_Wrap ''failed to upgrade role'')
           (if us_Role user \<noteq> ''organizer'' then UpdateUserRole E uid ''organizer'' else ok ()) (\<lambda>_.
           let user' = (if us_Role user \<noteq> ''organizer'' then user\<lparr>us_Role := ''organizer''\<rparr> else user) in
           bindE (Err_Wrap ''failed to generate tokens'') (generateTokenPair E L user' agent ip) (\<lambda>tokens. ok (user', tokens)))))"

definition Logout :: "env \<Rightarrow> string \<Rightarrow> ('z auth_db_scheme, unit) go" where
  "Logout E tok = DeleteRefreshToken E tok"

section \<open>Passwords\<close>

text \<open>An unknown address gives the empty token and no error.\<close>

definition ForgotPassword :: "env \<Rightarrow> auth_lib \<Rightarrow> string \<Rightarrow> ('z auth_db_scheme, string) go" where
  "ForgotPassword E L email = do {
     found \<leftarrow> Queries_GetUserByEmail E email;
     case found of
       Inl e \<Rightarrow> if errors_Is e ErrNoRows then ok [] else err (Err_Wrap ''failed to get user'' e)
     | Inr user \<Rightarrow> do {
         n \<leftarrow> step;
         let raw = uuid_String E (fresh E n);
         now \<leftarrow> Now E;
         bindE (Err_Wrap ''failed to create reset token'')
           (CreatePasswordResetToken E (us_ID user) (HashToken L raw) (now + 30 * Minute)) (\<lambda>_. ok raw) } }"

definition ResetPassword :: "env \<Rightarrow> auth_lib \<Rightarrow> string \<Rightarrow> string \<Rightarrow> ('z auth_db_scheme, unit) go" where
  "ResetPassword E L token new_password =
     bindE (\<lambda>e. if errors_Is e ErrNoRows then Err_New ''invalid or expired reset token'' else Err_Wrap ''failed to get reset token'' e)
       (GetPasswordResetToken E (HashToken L token)) (\<lambda>rt. do {
         now \<leftarrow> Now E;
         if pr_ExpiresAt rt < now then err (Err_New ''invalid or expired reset token'')
         else bindE (Err_Wrap ''failed to hash password'') (hash_password L new_password) (\<lambda>hash.
              bindE (Err_Wrap ''failed to update password'') (UpdateUserPassword E (pr_UserID rt) hash) (\<lambda>_. do {
                DeletePasswordResetToken E (HashToken L token);
                ok () })) })"

definition ChangePassword :: "env \<Rightarrow> auth_lib \<Rightarrow> string \<Rightarrow> string \<Rightarrow> string \<Rightarrow> ('z auth_db_scheme, unit) go" where
  "ChangePassword E L user_str old_password new_password = (case uuid_Parse E user_str of
       None \<Rightarrow> err ErrUserNotFound
     | Some uid \<Rightarrow> bindE (user_missing ''failed to get user'') (GetUserByID E uid) (\<lambda>user.
         if \<not> bcrypt_compare L (us_PasswordHash user) old_password then err (Err_New ''kata sandi lama tidak cocok'')
         else bindE (Err_Wrap ''failed to hash password'') (hash_password L new_password) (\<lambda>hash.
              bindE (Err_Wrap ''failed to update password'') (UpdateUserPassword E (us_ID user) hash) ok)))"

section \<open>Lookups\<close>

definition GetUsersByIDs :: "env \<Rightarrow> uuid list \<Rightarrow> ('z auth_db_scheme, UserRow list) go" where
  "GetUsersByIDs E ids = Queries_GetUsersByIDs E ids"

definition GetUserByEmail :: "env \<Rightarrow> string \<Rightarrow> ('z auth_db_scheme, User) go" where
  "GetUserByEmail E email = bindE (user_missing ''failed to get user by email'')
     (Queries_GetUserByEmail E (ToLower (TrimSpace email))) ok"

end
