(* ===== verification/Auth_Handlers.thy ===== *)
theory Auth_Handlers
  imports Auth_Service
begin

text \<open>
  The HTTP handlers of the auth service (\<open>handler/auth_handler.go\<close>). A body is \<open>None\<close> when it does not
  decode; the \<open>binding\<close> tags are the functions \<open>bind_*\<close>, with \<open>valid_email\<close> for the address check of the
  validator library. \<open>agent\<close> and \<open>ip\<close> are \<open>c.Request.UserAgent()\<close> and \<open>c.ClientIP()\<close>.
\<close>

section \<open>What is shown of a user\<close>

record PublicUser =
  pu_ID :: uuid
  pu_Email :: string
  pu_FullName :: string
  pu_Phone :: "string option"
  pu_Role :: string
  pu_AvatarUrl :: "string option"
  pu_IsVerified :: bool
  pu_CreatedAt :: time
  pu_UpdatedAt :: time

definition sanitizeUser :: "User \<Rightarrow> PublicUser" where
  "sanitizeUser u = \<lparr>pu_ID = us_ID u, pu_Email = us_Email u, pu_FullName = us_FullName u, pu_Phone = us_Phone u, pu_Role = us_Role u,
     pu_AvatarUrl = us_AvatarUrl u, pu_IsVerified = us_IsVerified u, pu_CreatedAt = us_CreatedAt u, pu_UpdatedAt = us_UpdatedAt u\<rparr>"

record PublicProfile =
  pp_ID :: uuid
  pp_FullName :: string
  pp_AvatarUrl :: "string option"

section \<open>Accounts\<close>

definition bind_register :: "auth_lib \<Rightarrow> RegisterRequest option \<Rightarrow> gerr + RegisterRequest" where
  "bind_register L body = (case body of None \<Rightarrow> Inl ErrBinding
     | Some req \<Rightarrow> if rg_Email req = [] \<or> \<not> valid_email L (rg_Email req) \<or> length (rg_Password req) < 8 \<or> length (rg_FullName req) < 2
         then Inl ErrBinding else Inr req)"

definition Handler_Register ::
    "env \<Rightarrow> auth_lib \<Rightarrow> RegisterRequest option \<Rightarrow> ('z auth_db_scheme, (PublicUser \<times> TokenPair) response) state" where
  "Handler_Register E L body = (case bind_register L body of
       Inl e \<Rightarrow> ret (ValidationError e)
     | Inr req \<Rightarrow> do {
         r \<leftarrow> Register E L req;
         ret (case r of
             Inl e \<Rightarrow> if errors_Is e ErrEmailAlreadyExists then Error 409 ''email already registered'' else InternalError ''failed to register user''
           | Inr (user, tokens) \<Rightarrow> Success 201 ''user registered successfully'' (Some (sanitizeUser user, tokens))) })"

definition bind_login :: "auth_lib \<Rightarrow> LoginRequest option \<Rightarrow> gerr + LoginRequest" where
  "bind_login L body = (case body of None \<Rightarrow> Inl ErrBinding
     | Some req \<Rightarrow> if lg_Email req = [] \<or> \<not> valid_email L (lg_Email req) \<or> lg_Password req = [] then Inl ErrBinding else Inr req)"

definition Handler_Login ::
    "env \<Rightarrow> auth_lib \<Rightarrow> string \<Rightarrow> string \<Rightarrow> LoginRequest option \<Rightarrow> ('z auth_db_scheme, (PublicUser \<times> TokenPair) response) state" where
  "Handler_Login E L agent ip body = (case bind_login L body of
       Inl e \<Rightarrow> ret (ValidationError e)
     | Inr req \<Rightarrow> do {
         r \<leftarrow> Login E L req agent ip;
         ret (case r of
             Inl e \<Rightarrow> if errors_Is e ErrInvalidCredentials then Error 401 ''invalid email or password'' else InternalError ''failed to login''
           | Inr (user, tokens) \<Rightarrow> Success 200 ''login successful'' (Some (sanitizeUser user, tokens))) })"

definition bind_required :: "string option \<Rightarrow> gerr + string" where
  "bind_required body = (case body of None \<Rightarrow> Inl ErrBinding | Some v \<Rightarrow> if v = [] then Inl ErrBinding else Inr v)"

definition Handler_RefreshToken ::
    "env \<Rightarrow> auth_lib \<Rightarrow> string \<Rightarrow> string \<Rightarrow> string option \<Rightarrow> ('z auth_db_scheme, TokenPair response) state" where
  "Handler_RefreshToken E L agent ip body = (case bind_required body of
       Inl e \<Rightarrow> ret (ValidationError e)
     | Inr tok \<Rightarrow> do {
         r \<leftarrow> Service_RefreshToken E L tok agent ip;
         ret (case r of
             Inl e \<Rightarrow> if errors_Is e ErrInvalidToken then Error 401 ''invalid or expired token'' else InternalError ''failed to refresh token''
           | Inr tokens \<Rightarrow> Success 200 ''token refreshed successfully'' (Some tokens)) })"

definition Handler_Logout :: "env \<Rightarrow> string option \<Rightarrow> ('z auth_db_scheme, unit response) state" where
  "Handler_Logout E body = (case bind_required body of
       Inl e \<Rightarrow> ret (ValidationError e)
     | Inr tok \<Rightarrow> do {
         r \<leftarrow> Logout E tok;
         ret (case r of Inl e \<Rightarrow> InternalError ''failed to logout'' | Inr u \<Rightarrow> Success 200 ''logged out successfully'' None) })"

section \<open>Profiles\<close>

text \<open>\<open>response.Unauthorized\<close> instead of \<open>response.Error\<close>: the same body.\<close>

definition profile_failure :: "string \<Rightarrow> gerr \<Rightarrow> 'd response" where
  "profile_failure m e = (if errors_Is e ErrUserNotFound then NotFound ''user not found'' else InternalError m)"

definition Handler_GetProfile :: "env \<Rightarrow> session \<Rightarrow> ('z auth_db_scheme, PublicUser response) state" where
  "Handler_GetProfile E ss = with_user ss (\<lambda>u. do {
     r \<leftarrow> GetProfile E u;
     ret (case r of Inl e \<Rightarrow> profile_failure ''failed to get profile'' e
            | Inr user \<Rightarrow> Success 200 ''profile retrieved'' (Some (sanitizeUser user))) })"

definition Handler_GetPublicProfile :: "env \<Rightarrow> string \<Rightarrow> ('z auth_db_scheme, PublicProfile response) state" where
  "Handler_GetPublicProfile E user_str = do {
     r \<leftarrow> GetProfile E user_str;
     ret (case r of Inl e \<Rightarrow> profile_failure ''failed to get profile'' e
            | Inr user \<Rightarrow> Success 200 ''profile retrieved''
                (Some \<lparr>pp_ID = us_ID user, pp_FullName = us_FullName user, pp_AvatarUrl = us_AvatarUrl user\<rparr>)) }"

definition bind_profile :: "UpdateProfileRequest option \<Rightarrow> gerr + UpdateProfileRequest" where
  "bind_profile body = (case body of None \<Rightarrow> Inl ErrBinding | Some req \<Rightarrow> if length (up_FullName req) < 2 then Inl ErrBinding else Inr req)"

definition Handler_UpdateProfile :: "env \<Rightarrow> session \<Rightarrow> UpdateProfileRequest option \<Rightarrow> ('z auth_db_scheme, PublicUser response) state" where
  "Handler_UpdateProfile E ss body = with_user ss (\<lambda>u. case bind_profile body of
       Inl e \<Rightarrow> ret (ValidationError e)
     | Inr req \<Rightarrow> do {
         r \<leftarrow> UpdateProfile E u req;
         ret (case r of Inl e \<Rightarrow> profile_failure ''failed to update profile'' e
                | Inr user \<Rightarrow> Success 200 ''profile updated'' (Some (sanitizeUser user))) })"

definition Handler_UpgradeToOrganizer ::
    "env \<Rightarrow> auth_lib \<Rightarrow> (gerr \<Rightarrow> string) \<Rightarrow> session \<Rightarrow> string \<Rightarrow> string \<Rightarrow> ('z auth_db_scheme, (PublicUser \<times> TokenPair) response) state" where
  "Handler_UpgradeToOrganizer E L lib ss agent ip = with_user ss (\<lambda>u. do {
     r \<leftarrow> UpgradeToOrganizer E L u agent ip;
     ret (case r of
         Inl e \<Rightarrow> if errors_Is e ErrUserNotFound then NotFound ''user not found'' else Error 400 (error_text lib e)
       | Inr (user, tokens) \<Rightarrow> Success 200 ''role upgraded to organizer successfully'' (Some (sanitizeUser user, tokens))) })"

section \<open>Passwords\<close>

text \<open>
  The mail of a password reset, sent in the background: to whom, from whom, through which server and
  with which login, and the link it carries. The text around the link is fixed.
\<close>

record Mail =
  ml_Addr :: string
  ml_Auth :: "(string \<times> string) option"
  ml_From :: string
  ml_To :: string
  ml_ResetURL :: string

definition TrimRight_slash :: "string \<Rightarrow> string" where
  "TrimRight_slash v = rev (dropWhile (\<lambda>c. c = CHR ''/'') (rev v))"

definition sender_email :: "SMTPConfig \<Rightarrow> string" where
  "sender_email c = (if smtp_From c \<noteq> [] then smtp_From c
     else if Contains (smtp_Username c) ''@'' then smtp_Username c else ''noreply@entra.id'')"

definition reset_mail :: "SMTPConfig \<Rightarrow> string \<Rightarrow> string \<Rightarrow> string \<Rightarrow> Mail" where
  "reset_mail c frontend email token =
     \<lparr>ml_Addr = smtp_Host c @ '':'' @ smtp_Port c,
      ml_Auth = (if smtp_Username c \<noteq> [] then Some (smtp_Username c, smtp_Password c) else None),
      ml_From = sender_email c, ml_To = email,
      ml_ResetURL = TrimRight_slash (if frontend = [] then ''http://localhost:3000'' else frontend) @ ''/reset-password?token='' @ token\<rparr>"

text \<open>The answer, which is the same in every case, and the mail, if one is sent; \<open>frontend\<close> is
  \<open>FRONTEND_URL\<close>.\<close>

definition reset_sent :: "unit response" where
  "reset_sent = Success 200 ''Jika email terdaftar, tautan reset password telah dikirim ke email Anda.'' None"

definition Handler_ForgotPassword ::
    "env \<Rightarrow> auth_lib \<Rightarrow> SMTPConfig \<Rightarrow> string \<Rightarrow> string option \<Rightarrow> ('z auth_db_scheme, unit response \<times> Mail option) state" where
  "Handler_ForgotPassword E L c frontend body = (case bind_required body of
       Inl e \<Rightarrow> ret (ValidationError e, None)
     | Inr email \<Rightarrow>
         if \<not> valid_email L email then ret (ValidationError ErrBinding, None)
         else do {
           r \<leftarrow> ForgotPassword E L email;
           ret (case r of
               Inl e \<Rightarrow> (reset_sent, None)
             | Inr token \<Rightarrow> (reset_sent, if token \<noteq> [] \<and> smtp_Host c \<noteq> [] then Some (reset_mail c frontend email token) else None)) })"

record ResetPasswordRequest =
  rp_Token :: string
  rp_NewPassword :: string

definition bind_reset :: "ResetPasswordRequest option \<Rightarrow> gerr + ResetPasswordRequest" where
  "bind_reset body = (case body of None \<Rightarrow> Inl ErrBinding
     | Some req \<Rightarrow> if rp_Token req = [] \<or> length (rp_NewPassword req) < 8 then Inl ErrBinding else Inr req)"

definition Handler_ResetPassword ::
    "env \<Rightarrow> auth_lib \<Rightarrow> (gerr \<Rightarrow> string) \<Rightarrow> ResetPasswordRequest option \<Rightarrow> ('z auth_db_scheme, unit response) state" where
  "Handler_ResetPassword E L lib body = (case bind_reset body of
       Inl e \<Rightarrow> ret (ValidationError e)
     | Inr req \<Rightarrow> do {
         r \<leftarrow> ResetPassword E L (rp_Token req) (rp_NewPassword req);
         ret (case r of
             Inl e \<Rightarrow> if error_text lib e = ''invalid or expired reset token'' then Error 400 (error_text lib e)
                     else InternalError ''failed to reset password''
           | Inr u \<Rightarrow> Success 200 ''password reset successfully'' None) })"

record ChangePasswordRequest =
  cp_OldPassword :: string
  cp_NewPassword :: string

definition bind_change :: "ChangePasswordRequest option \<Rightarrow> gerr + ChangePasswordRequest" where
  "bind_change body = (case body of None \<Rightarrow> Inl ErrBinding
     | Some req \<Rightarrow> if cp_OldPassword req = [] \<or> length (cp_NewPassword req) < 8 then Inl ErrBinding else Inr req)"

definition Handler_ChangePassword ::
    "env \<Rightarrow> auth_lib \<Rightarrow> (gerr \<Rightarrow> string) \<Rightarrow> session \<Rightarrow> ChangePasswordRequest option \<Rightarrow> ('z auth_db_scheme, unit response) state" where
  "Handler_ChangePassword E L lib ss body = with_user ss (\<lambda>u. case bind_change body of
       Inl e \<Rightarrow> ret (ValidationError e)
     | Inr req \<Rightarrow> do {
         r \<leftarrow> ChangePassword E L u (cp_OldPassword req) (cp_NewPassword req);
         ret (case r of
             Inl e \<Rightarrow> if error_text lib e = ''kata sandi lama tidak cocok'' then Error 400 (error_text lib e)
                     else if errors_Is e ErrUserNotFound then NotFound ''user not found''
                     else InternalError ''failed to change password''
           | Inr v \<Rightarrow> Success 200 ''Kata sandi berhasil diperbarui.'' None) })"

section \<open>Lookups for other services\<close>

fun parse_all :: "env \<Rightarrow> string list \<Rightarrow> string + uuid list" where
  "parse_all E [] = Inr []"
| "parse_all E (v # vs) = (case uuid_Parse E v of None \<Rightarrow> Inl v
     | Some u \<Rightarrow> (case parse_all E vs of Inl w \<Rightarrow> Inl w | Inr us \<Rightarrow> Inr (u # us)))"

text \<open>\<open>binding:"required"\<close> on a slice rejects a missing list, not an empty one.\<close>

definition GetUsersBatch :: "env \<Rightarrow> string list option \<Rightarrow> ('z auth_db_scheme, UserRow list response) state" where
  "GetUsersBatch E body = (case body of
       None \<Rightarrow> ret (ValidationError ErrBinding)
     | Some ids \<Rightarrow> (case parse_all E ids of
         Inl v \<Rightarrow> ret (Error 400 (''invalid uuid: '' @ v))
       | Inr us \<Rightarrow> do {
           r \<leftarrow> GetUsersByIDs E us;
           ret (case r of Inl e \<Rightarrow> InternalError ''failed to fetch users'' | Inr rows \<Rightarrow> Success 200 ''users retrieved'' (Some rows)) }))"

text \<open>The address comes from the query, or from the body when the query has none.\<close>

definition LookupUserByEmail :: "env \<Rightarrow> string \<Rightarrow> string \<Rightarrow> ('z auth_db_scheme, PublicUser response) state" where
  "LookupUserByEmail E query body =
     (let email = (if TrimSpace query \<noteq> [] then TrimSpace query else TrimSpace body) in
      if email = [] then ret (ValidationError ErrBinding)
      else do {
        r \<leftarrow> GetUserByEmail E email;
        ret (case r of Inl e \<Rightarrow> profile_failure ''failed to lookup user'' e
               | Inr user \<Rightarrow> Success 200 ''user retrieved'' (Some (sanitizeUser user))) })"

text \<open>\<open>batchAuth\<close>: the internal secret, or an organizer or administrator.\<close>

definition batch_route ::
    "env \<Rightarrow> auth_lib \<Rightarrow> headers \<Rightarrow> ('z infra_scheme, 'd response) state \<Rightarrow> ('z infra_scheme, 'd response) state" where
  "batch_route E L h handler = do {
     now \<leftarrow> Now E;
     case RequireInternalSecretOrRoles (al_jwt L) now (server_secret E) (app_env E) (al_Secret L) [''organizer'', ''admin''] h of
       Inl r \<Rightarrow> ret r | Inr ss \<Rightarrow> handler }"

end
