(* ===== verification/Auth_Spec.thy ===== *)
theory Auth_Spec
  imports Auth_Handlers
begin

text \<open>
  What the auth service guarantees: the soundness of its tables and the origin of roles over every
  sequence of requests, and the life of sessions, refresh tokens and password resets.
\<close>

section \<open>The service as a state machine\<close>

text \<open>The routes of \<open>handler/routes.go\<close>, with the headers where a route is protected.\<close>

datatype auth_request =
    POST_register "RegisterRequest option"
  | POST_login "LoginRequest option"
  | POST_refresh "string option"
  | POST_forgot "string option"
  | POST_reset "ResetPasswordRequest option"
  | GET_profile headers
  | PUT_profile headers "UpdateProfileRequest option"
  | POST_change headers "ChangePasswordRequest option"
  | POST_logout headers "string option"
  | POST_upgrade headers
  | GET_user string
  | POST_batch headers "string list option"
  | GET_by_email headers string string

definition served_code :: "('s, 'd response) state \<Rightarrow> ('s, nat) state" where
  "served_code m = do { r \<leftarrow> m; ret (resp_Code r) }"

text \<open>One request, from a client with this user agent and address; the answer is its status code.\<close>

fun auth_serve ::
    "env \<Rightarrow> auth_lib \<Rightarrow> (gerr \<Rightarrow> string) \<Rightarrow> SMTPConfig \<Rightarrow> string \<Rightarrow> string \<Rightarrow> string \<Rightarrow> auth_request \<Rightarrow> ('z auth_db_scheme, nat) state" where
  "auth_serve E L lib c frontend agent ip (POST_register body) = served_code (Handler_Register E L body)"
| "auth_serve E L lib c frontend agent ip (POST_login body) = served_code (Handler_Login E L agent ip body)"
| "auth_serve E L lib c frontend agent ip (POST_refresh body) = served_code (Handler_RefreshToken E L agent ip body)"
| "auth_serve E L lib c frontend agent ip (POST_forgot body) =
     served_code (do { r \<leftarrow> Handler_ForgotPassword E L c frontend body; ret (fst r) })"
| "auth_serve E L lib c frontend agent ip (POST_reset body) = served_code (Handler_ResetPassword E L lib body)"
| "auth_serve E L lib c frontend agent ip (GET_profile h) =
     served_code (protected_route E (al_jwt L) (al_Secret L) h (\<lambda>ss. Handler_GetProfile E ss))"
| "auth_serve E L lib c frontend agent ip (PUT_profile h body) =
     served_code (protected_route E (al_jwt L) (al_Secret L) h (\<lambda>ss. Handler_UpdateProfile E ss body))"
| "auth_serve E L lib c frontend agent ip (POST_change h body) =
     served_code (protected_route E (al_jwt L) (al_Secret L) h (\<lambda>ss. Handler_ChangePassword E L lib ss body))"
| "auth_serve E L lib c frontend agent ip (POST_logout h body) =
     served_code (protected_route E (al_jwt L) (al_Secret L) h (\<lambda>ss. Handler_Logout E body))"
| "auth_serve E L lib c frontend agent ip (POST_upgrade h) =
     served_code (protected_route E (al_jwt L) (al_Secret L) h (\<lambda>ss. Handler_UpgradeToOrganizer E L lib ss agent ip))"
| "auth_serve E L lib c frontend agent ip (GET_user v) = served_code (Handler_GetPublicProfile E v)"
| "auth_serve E L lib c frontend agent ip (POST_batch h body) = served_code (batch_route E L h (GetUsersBatch E body))"
| "auth_serve E L lib c frontend agent ip (GET_by_email h query body) =
     served_code (batch_route E L h (LookupUserByEmail E query body))"

section \<open>Soundness of the tables\<close>

text \<open>The keys are unique and every token belongs to a user.\<close>

definition accounts_ok :: "'z auth_db_scheme \<Rightarrow> bool" where
  "accounts_ok s \<longleftrightarrow> distinct (map us_ID (users s)) \<and> distinct (map us_Email (users s))
     \<and> distinct (map rt_ID (refresh_tokens s)) \<and> distinct (map rt_Token (refresh_tokens s))
     \<and> distinct (map pr_ID (password_resets s)) \<and> distinct (map pr_Token (password_resets s))
     \<and> rt_UserID ` set (refresh_tokens s) \<subseteq> us_ID ` set (users s)
     \<and> pr_UserID ` set (password_resets s) \<subseteq> us_ID ` set (users s)"

definition admins :: "'z auth_db_scheme \<Rightarrow> uuid set" where
  "admins s = us_ID ` {r \<in> set (users s). us_Role r = ''admin''}"

definition roles_ok :: "'z auth_db_scheme \<Rightarrow> bool" where
  "roles_ok s \<longleftrightarrow> (\<forall>r \<in> set (users s). us_Role r \<in> {''customer'', ''organizer'', ''admin''})"

definition organizers :: "'z auth_db_scheme \<Rightarrow> uuid set" where
  "organizers s = us_ID ` {r \<in> set (users s). us_Role r = ''organizer''}"

text \<open>The invariant of the service: sound tables, the three roles, no administrator outside \<open>A\<close>, no organizer
  outside \<open>G\<close>.\<close>

definition service_ok :: "uuid set \<Rightarrow> uuid set \<Rightarrow> 'z auth_db_scheme \<Rightarrow> bool" where
  "service_ok A G s \<longleftrightarrow> accounts_ok s \<and> roles_ok s \<and> admins s \<subseteq> A \<and> organizers s \<subseteq> G"

lemma service_ok_free [simp]: "tick_free (service_ok A G)"
  by (simp add: tick_free_def service_ok_def accounts_ok_def admins_def organizers_def roles_ok_def)

text \<open>An update of a user that keeps identity, mail address and role, or makes an organizer of the user \<open>v\<close>.\<close>

definition tame :: "uuid set \<Rightarrow> (User \<Rightarrow> bool) \<Rightarrow> (User \<Rightarrow> User) \<Rightarrow> bool" where
  "tame G p f \<longleftrightarrow> (\<forall>r. us_ID (f r) = us_ID r \<and> us_Email (f r) = us_Email r
     \<and> (us_Role (f r) = us_Role r \<or> us_Role (f r) = ''organizer'' \<and> (p r \<longrightarrow> us_ID r \<in> G)))"

lemma tame_rows [simp]: "tame G p (password_row now hash)" "tame G p (profile_row now name phone avatar)"
    "v \<in> G \<Longrightarrow> tame G (\<lambda>r. us_ID r = v) (role_row now ''organizer'')" "tame G p (inactive_row now)"
  by (simp_all add: tame_def password_row_def profile_row_def role_row_def inactive_row_def)

lemma map_update_rows: "(\<And>r. g (f r) = g r) \<Longrightarrow> map g (update_rows p f rows) = map g rows"
  by (induction rows) auto

lemma image_update_rows: "(\<And>r. g (f r) = g r) \<Longrightarrow> g ` set (update_rows p f rows) = g ` set rows"
  by (metis map_update_rows list.set_map)

lemma service_ok_update:
  assumes "service_ok A G s" and "tame G p f"
  shows "service_ok A G (s\<lparr>users := update_rows p f (users s)\<rparr>)"
proof -
  note f = assms(2) [unfolded tame_def, rule_format]
  have "map us_ID (update_rows p f (users s)) = map us_ID (users s)"
       "map us_Email (update_rows p f (users s)) = map us_Email (users s)"
       "us_ID ` set (update_rows p f (users s)) = us_ID ` set (users s)"
    using f by (simp_all add: map_update_rows image_update_rows)
  then have "accounts_ok (s\<lparr>users := update_rows p f (users s)\<rparr>)"
    using assms(1) by (simp add: service_ok_def accounts_ok_def)
  moreover have "roles_ok (s\<lparr>users := update_rows p f (users s)\<rparr>)"
    unfolding roles_ok_def
  proof
    fix r assume "r \<in> set (users (s\<lparr>users := update_rows p f (users s)\<rparr>))"
    then obtain r' where r': "r' \<in> set (users s)" "r = (if p r' then f r' else r')" by (auto simp: update_rows_def)
    then have "us_Role r' \<in> {''customer'', ''organizer'', ''admin''}" using assms(1) by (simp add: service_ok_def roles_ok_def)
    then show "us_Role r \<in> {''customer'', ''organizer'', ''admin''}" using r'(2) f [of r'] by (auto split: if_splits)
  qed
  moreover have "admins (s\<lparr>users := update_rows p f (users s)\<rparr>) \<subseteq> admins s"
    using f by (fastforce simp: admins_def update_rows_def split: if_splits)
  moreover have "organizers (s\<lparr>users := update_rows p f (users s)\<rparr>) \<subseteq> organizers s \<union> G"
  proof
    fix v assume "v \<in> organizers (s\<lparr>users := update_rows p f (users s)\<rparr>)"
    then obtain r where r: "r \<in> set (users s)" "us_ID (if p r then f r else r) = v" "us_Role (if p r then f r else r) = ''organizer''"
      by (auto simp: organizers_def update_rows_def)
    then show "v \<in> organizers s \<union> G" using f [of r] by (cases "p r") (auto simp: organizers_def)
  qed
  ultimately show ?thesis using assms(1) by (auto simp: service_ok_def)
qed

lemma service_ok_drop:
  assumes "service_ok A G s"
  shows "service_ok A G (s\<lparr>refresh_tokens := filter p (refresh_tokens s)\<rparr>)"
    and "service_ok A G (s\<lparr>password_resets := filter q (password_resets s)\<rparr>)"
    and "service_ok A G (s\<lparr>rotations := ro\<rparr>)"
  using assms by (auto simp: service_ok_def accounts_ok_def admins_def organizers_def roles_ok_def distinct_map_filter)

lemma keeps_users [keeps_rules]:
  "keeps (service_ok A G) (CreateUser E email hash name phone ''customer'')"
  "keeps (service_ok A G) (Queries_GetUserByEmail E email)"
  "keeps (service_ok A G) (GetUserByID E uid)"
  "keeps (service_ok A G) (Queries_GetUsersByIDs E ids)"
  "keeps (service_ok A G) (UpdateUserPassword E uid hash)"
  "keeps (service_ok A G) (UpdateUserProfile E uid name phone avatar)"
  "uid \<in> G \<Longrightarrow> keeps (service_ok A G) (UpdateUserRole E uid ''organizer'')"
proof -
  show "keeps (service_ok A G) (CreateUser E email hash name phone ''customer'')"
    unfolding CreateUser_def
    by (rule keeps_sql) (auto simp: service_ok_def accounts_ok_def admins_def organizers_def roles_ok_def Let_def)
qed (auto simp: Queries_GetUserByEmail_def GetUserByID_def Queries_GetUsersByIDs_def UpdateUserPassword_def UpdateUserProfile_def
  UpdateUserRole_def service_ok_update intro!: keeps_sql split: option.split)

lemma keeps_refresh_tokens [keeps_rules]:
  "keeps (service_ok A G) (CreateRefreshToken E uid tok agent ip expires)"
  "keeps (service_ok A G) (DeleteRefreshToken E tok)"
  "keeps (service_ok A G) (GetRefreshToken E tok)"
proof -
  show "keeps (service_ok A G) (CreateRefreshToken E uid tok agent ip expires)"
    unfolding CreateRefreshToken_def
    by (rule keeps_sql) (auto simp: service_ok_def accounts_ok_def admins_def organizers_def roles_ok_def Let_def)
qed (auto simp: DeleteRefreshToken_def GetRefreshToken_def service_ok_drop intro!: keeps_sql)

lemma keeps_password_resets [keeps_rules]:
  "keeps (service_ok A G) (CreatePasswordResetToken E uid tok expires)"
  "keeps (service_ok A G) (DeletePasswordResetToken E tok)"
  "keeps (service_ok A G) (GetPasswordResetToken E tok)"
proof -
  show "keeps (service_ok A G) (CreatePasswordResetToken E uid tok expires)"
    unfolding CreatePasswordResetToken_def
    by (rule keeps_sql) (auto simp: service_ok_def accounts_ok_def admins_def organizers_def roles_ok_def Let_def)
qed (auto simp: DeletePasswordResetToken_def GetPasswordResetToken_def service_ok_drop intro!: keeps_sql)

lemma keeps_local [keeps_rules]:
  "keeps (service_ok A G) step" "keeps (service_ok A G) (Now E)" "keeps (service_ok A G) (hash_password L pw)"
  "keeps (service_ok A G) (drop_rotation tok)" "keeps (service_ok A G) (store_rotation tok tokens expires)"
proof -
  show step: "keeps (service_ok A G) step" and "keeps (service_ok A G) (Now E)"
    by (simp_all add: keeps_step keeps_Now)
  show "keeps (service_ok A G) (hash_password L pw)"
    unfolding hash_password_def by (intro keeps_rules step)
qed (auto simp: keeps_def drop_rotation_def store_rotation_def service_ok_drop)

lemma keeps_service [keeps_rules]:
  "keeps (service_ok A G) (generateTokenPair E L user agent ip)"
  "keeps (service_ok A G) (Register E L req)"
  "keeps (service_ok A G) (Login E L lreq agent ip)"
  "keeps (service_ok A G) (Service_RefreshToken E L tok agent ip)"
  "keeps (service_ok A G) (GetProfile E v)"
  "keeps (service_ok A G) (UpdateProfile E v preq)"
  "(\<And>u. uuid_Parse E v = Some u \<Longrightarrow> u \<in> G) \<Longrightarrow> keeps (service_ok A G) (UpgradeToOrganizer E L v agent ip)"
  "keeps (service_ok A G) (Logout E tok)"
  "keeps (service_ok A G) (ForgotPassword E L email)"
  "keeps (service_ok A G) (ResetPassword E L tok pw)"
  "keeps (service_ok A G) (ChangePassword E L v pw pw')"
  "keeps (service_ok A G) (GetUsersByIDs E ids)"
  "keeps (service_ok A G) (GetUserByEmail E email)"
proof -
  show pair: "keeps (service_ok A G) (generateTokenPair E L user agent ip)" for user agent ip
    unfolding generateTokenPair_def Let_def by (intro keeps_rules)
  show "keeps (service_ok A G) (Register E L req)"
    unfolding Register_def by (intro keeps_rules pair)
  show "keeps (service_ok A G) (Login E L lreq agent ip)"
    unfolding Login_def by (intro keeps_rules pair)
  show "keeps (service_ok A G) (Service_RefreshToken E L tok agent ip)"
    unfolding Service_RefreshToken_def rotate_token_def rotate_token_found_def by (intro keeps_rules pair)
  show "keeps (service_ok A G) (UpgradeToOrganizer E L v agent ip)" if "\<And>u. uuid_Parse E v = Some u \<Longrightarrow> u \<in> G"
  proof (cases "uuid_Parse E v")
    case None
    then show ?thesis by (simp add: UpgradeToOrganizer_def keeps_return)
  next
    case (Some u)
    with that have "u \<in> G" by simp
    with Some show ?thesis
      unfolding UpgradeToOrganizer_def Let_def by (simp only: option.simps) (intro keeps_rules pair)
  qed
qed (unfold GetProfile_def UpdateProfile_def Logout_def ForgotPassword_def ResetPassword_def ChangePassword_def
  GetUsersByIDs_def GetUserByEmail_def Let_def; intro keeps_rules)+

lemma keeps_routes:
  "(\<And>ss now. JWTAuth J now secret h = (Inr ss :: 'd response + session) \<Longrightarrow> keeps (service_ok A G) (handler ss)) \<Longrightarrow>
     keeps (service_ok A G) (protected_route E J secret h (handler :: session \<Rightarrow> ('z auth_db_scheme, 'd response) state))"
  "keeps (service_ok A G) m \<Longrightarrow> keeps (service_ok A G) (batch_route E L h m)"
  "keeps (service_ok A G) m \<Longrightarrow> keeps (service_ok A G) (served_code m)"
proof -
  assume h: "\<And>ss now. JWTAuth J now secret h = (Inr ss :: 'd response + session) \<Longrightarrow> keeps (service_ok A G) (handler ss)"
  have "keeps (service_ok A G) (case (JWTAuth J now secret h :: 'd response + session) of Inl r \<Rightarrow> ret r | Inr ss \<Rightarrow> handler ss)" for now
    by (cases "JWTAuth J now secret h :: 'd response + session") (simp_all add: keeps_return h)
  then show "keeps (service_ok A G) (protected_route E J secret h handler)"
    unfolding protected_route_def by (intro keeps_bind keeps_local)
qed (unfold batch_route_def served_code_def; intro keeps_rules; assumption)+

lemmas auth_handler_defs = Handler_Register_def Handler_Login_def Handler_RefreshToken_def Handler_Logout_def
  Handler_GetProfile_def Handler_GetPublicProfile_def Handler_UpdateProfile_def
  Handler_ForgotPassword_def Handler_ResetPassword_def Handler_ChangePassword_def GetUsersBatch_def
  LookupUserByEmail_def with_user_def

text \<open>The users who ask to become organizers, with a token of their own.\<close>

definition upgrades :: "env \<Rightarrow> auth_lib \<Rightarrow> auth_request \<Rightarrow> uuid set" where
  "upgrades E L rq = {u. \<exists>h now ss. rq = POST_upgrade h \<and> JWTAuth (al_jwt L) now (al_Secret L) h = (Inr ss :: unit response + session)
     \<and> uuid_Parse E (session_user ss) = Some u}"

lemma JWTAuth_any:
  "JWTAuth J now secret h = (Inr ss :: 'd response + session) \<Longrightarrow> JWTAuth J now secret h = (Inr ss :: 'e response + session)"
  by (auto simp: JWTAuth_def split: if_splits option.splits)

lemma auth_serve_ok:
  assumes "upgrades E L rq \<subseteq> G"
  shows "keeps (service_ok A G) (auth_serve E L lib c frontend agent ip rq)"
proof (cases "\<exists>h. rq = POST_upgrade h")
  case False
  then show ?thesis
    by (cases rq) (simp only: auth_serve.simps auth_handler_defs Let_def, intro keeps_routes keeps_rules | simp)+
next
  case True
  then obtain h where rq: "rq = POST_upgrade h" ..
  have "keeps (service_ok A G) (Handler_UpgradeToOrganizer E L lib ss agent ip)"
    if jwt: "JWTAuth (al_jwt L) now (al_Secret L) h = (Inr ss :: (PublicUser \<times> TokenPair) response + session)" for ss now
  proof -
    have "u \<in> G" if "uuid_Parse E (session_user ss) = Some u" for u
      using that assms JWTAuth_any [OF jwt] unfolding upgrades_def rq by blast
    then show ?thesis unfolding Handler_UpgradeToOrganizer_def with_user_def by (intro keeps_rules)
  qed
  then show ?thesis unfolding rq auth_serve.simps by (intro keeps_routes)
qed

text \<open>
  C8. Whatever requests arrive, in whatever order and under every schedule of faults, the tables of the
  auth service stay sound (unique identifiers, addresses and tokens, no token without its user), every
  role stays one of the three, nobody becomes an administrator, and a user who becomes an organizer has
  asked for it with a valid access token of their own.
\<close>

theorem roles_only_by_upgrade:
  fixes s :: "'z auth_db_scheme"
  assumes "accounts_ok s" and "roles_ok s"
  shows "wp (for_each rqs (\<lambda>rq. do { auth_serve E L lib c frontend agent ip rq; ret () }))
    (\<lambda>_ t. accounts_ok t \<and> roles_ok t \<and> admins t \<subseteq> admins s
      \<and> organizers t \<subseteq> organizers s \<union> (\<Union>rq \<in> set rqs. upgrades E L rq)) s"
proof -
  let ?G = "organizers s \<union> (\<Union>rq \<in> set rqs. upgrades E L rq)"
  have "keeps (service_ok (admins s) ?G) (for_each rqs' (\<lambda>rq. do { auth_serve E L lib c frontend agent ip rq; ret () }))"
    if "set rqs' \<subseteq> set rqs" for rqs'
    using that
  proof (induction rqs')
    case (Cons rq rqs')
    then have "keeps (service_ok (admins s) ?G) (auth_serve E L lib c frontend agent ip rq)" by (intro auth_serve_ok) auto
    with Cons show ?case by (auto intro!: keeps_bind keeps_return)
  qed (simp add: keeps_return)
  from this [OF subset_refl]
  have "wp (for_each rqs (\<lambda>rq. do { auth_serve E L lib c frontend agent ip rq; ret () })) (\<lambda>_. service_ok (admins s) ?G) s"
    by (rule keeps_wp) (simp add: service_ok_def assms)
  then show ?thesis unfolding service_ok_def .
qed

section \<open>A concrete service\<close>

text \<open>Tokens list the secret, the claims and the expiry in clear: every character of a field is preceded
  by an \<open>e\<close>, a full stop ends it.\<close>

fun take_field :: "string \<Rightarrow> string \<times> string" where
  "take_field (e # c # cs) = (if e = CHR ''e'' then apfst ((#) c) (take_field cs) else ([], c # cs))"
| "take_field v = ([], [])"

definition put_field :: "string \<Rightarrow> string" where
  "put_field v = concat (map (\<lambda>c. [CHR ''e'', c]) v) @ ''.''"

lemma take_put_field [simp]: "take_field (put_field v @ w) = (v, w)"
proof (induction v)
  case Nil
  then show ?case by (cases w) (simp_all add: put_field_def)
next
  case (Cons c v)
  then show ?case by (simp add: put_field_def)
qed

definition demo_verify :: "time \<Rightarrow> string \<Rightarrow> string \<Rightarrow> JWTClaims option" where
  "demo_verify now secret tok = (case take_field tok of (secret', tok1) \<Rightarrow> case take_field tok1 of (uid, tok2) \<Rightarrow>
     case take_field tok2 of (role, tok3) \<Rightarrow> (case parse_int tok3 of None \<Rightarrow> None
       | Some ex \<Rightarrow> if secret' = secret \<and> Unix now < ex then Some \<lparr>cl_UserID = uid, cl_Role = role\<rparr> else None))"

definition demo_sign :: "string \<Rightarrow> JWTClaims \<Rightarrow> string \<Rightarrow> int \<Rightarrow> int \<Rightarrow> gerr + string" where
  "demo_sign secret c mail iat ex = Inr (put_field secret @ put_field (cl_UserID c) @ put_field (cl_Role c) @ show_int ex)"

definition demo_signer :: jwt_lib where
  "demo_signer = \<lparr>jwt_hmac = (\<lambda>tok. True), jwt_verify = demo_verify, jwt_sign = demo_sign\<rparr>"

lemma demo_signer_laws [simp]: "jwt_laws demo_signer"
  by (auto simp: jwt_laws_def demo_signer_def demo_sign_def demo_verify_def)

text \<open>Random bytes that count the ticks, a hash that is the password itself.\<close>

definition demo_bytes :: "nat \<Rightarrow> 8 word list" where
  "demo_bytes n = of_nat (4 * n) # replicate 31 0"

definition demo_auth :: auth_lib where
  "demo_auth = \<lparr>al_jwt = demo_signer, al_Secret = ''s'', al_AccessExpiry = 15 * Minute, al_RefreshExpiry = 168 * Hour,
     bcrypt_generate = (\<lambda>n pw. if 60 < length pw then Inl ErrOutOfRange else Inr pw), bcrypt_compare = (=), rand_read = (\<lambda>n. Inr (demo_bytes n)),
     sha256 = map of_char, valid_email = (\<lambda>v. CHR ''@'' \<in> set v)\<rparr>"

lemma demo_auth_simps [simp]:
  "al_jwt demo_auth = demo_signer" "rand_read demo_auth n = Inr (demo_bytes n)" "length (demo_bytes n) = 32"
  "jwt_sign demo_signer = demo_sign" "bcrypt_compare demo_auth = (=)" "bcrypt_generate demo_auth n pw = (if 60 < length pw then Inl ErrOutOfRange else Inr pw)"
  by (simp_all add: demo_auth_def demo_bytes_def demo_signer_def)

definition demo_user :: User where
  "demo_user = \<lparr>us_ID = 5, us_Email = ''a@b.c'', us_PasswordHash = ''password'', us_FullName = ''Ann'', us_Phone = None, us_Role = ''customer'',
     us_AvatarUrl = None, us_IsVerified = False, us_IsActive = True, us_CreatedAt = 0, us_UpdatedAt = 0\<rparr>"

definition demo_accounts :: auth_db where
  "demo_accounts = \<lparr>tick = 0, redis = Map.empty, kafka = [], ticket_types = [], events = [], orders = [], order_items = [], tickets = [],
     withdrawals = [], local_tickets = [], users = [demo_user], refresh_tokens = [], password_resets = [], rotations = Map.empty\<rparr>"

lemma demo_accounts_simps [simp]:
  "tick demo_accounts = 0" "users demo_accounts = [demo_user]" "refresh_tokens demo_accounts = []" "password_resets demo_accounts = []"
  by (simp_all add: demo_accounts_def)

theorem roles_only_by_upgrade_witness:
  "wp (for_each [POST_register (Some \<lparr>rg_Email = ''x@y.z'', rg_Password = ''12345678'', rg_FullName = ''Xu'', rg_Phone = [], rg_Role = ''admin''\<rparr>),
        POST_upgrade \<lparr>hd_Authorization = [], hd_InternalSecret = []\<rparr>]
     (\<lambda>rq. do { auth_serve calm_env demo_auth (\<lambda>e. []) \<lparr>smtp_Host = [], smtp_Port = [], smtp_Username = [], smtp_Password = [], smtp_From = []\<rparr>
        [] [] ''::1'' rq; ret () }))
    (\<lambda>_ t. accounts_ok t \<and> admins t = {} \<and> organizers t = {}) demo_accounts"
proof -
  have ok: "accounts_ok demo_accounts" "roles_ok demo_accounts" by (simp_all add: accounts_ok_def roles_ok_def demo_user_def)
  have none: "admins demo_accounts = {}" "organizers demo_accounts = {}"
    by (auto simp: admins_def organizers_def demo_user_def)
  show ?thesis
    by (rule wp_mono [OF roles_only_by_upgrade [OF ok]]) (auto simp: none upgrades_def JWTAuth_def)
qed

end
