(* ===== verification/Auth_Sessions.thy ===== *)
theory Auth_Sessions
  imports Auth_Spec
begin

text \<open>
  The life of a session in the auth service: logging in, using the access token at the middleware of the
  other services, exchanging the refresh token, and resetting the password.
\<close>

section \<open>Token pairs\<close>

lemma length_EncodeToString: "length (EncodeToString bs) = 4 * ((length bs + 2) div 3)"
proof (induction bs rule: EncodeToString.induct)
  case (4 a b c bs)
  have "4 + 4 * ((n + 2) div 3) = 4 * ((n + 3 + 2) div 3)" for n :: nat by presburger
  from this [of "length bs"] 4 show ?case by (simp add: Let_def)
qed (simp_all add: Let_def)

text \<open>What the libraries promise: signing and the random source work, and 32 random bytes and fresh
  identifiers drawn before tick \<open>k\<close> have not been used before.\<close>

definition can_issue :: "env \<Rightarrow> auth_lib \<Rightarrow> nat \<Rightarrow> 'z auth_db_scheme \<Rightarrow> bool" where
  "can_issue E L k s \<longleftrightarrow> reliable E \<and> jwt_laws (al_jwt L)
     \<and> (\<forall>c mail iat ex. \<exists>tok. jwt_sign (al_jwt L) (al_Secret L) c mail iat ex = Inr tok)
     \<and> (\<forall>n. tick s \<le> n \<and> n < k \<longrightarrow>
          (\<exists>bs. rand_read L n = Inr bs \<and> length bs = 32 \<and> EncodeToString bs \<notin> rt_Token ` set (refresh_tokens s))
          \<and> fresh E n \<notin> rt_ID ` set (refresh_tokens s))"

text \<open>No two draws between two ticks agree.\<close>

definition draws_differ :: "env \<Rightarrow> auth_lib \<Rightarrow> nat \<Rightarrow> nat \<Rightarrow> bool" where
  "draws_differ E L j k \<longleftrightarrow> (\<forall>m n. j \<le> m \<and> m < n \<and> n < k \<longrightarrow>
     fresh E m \<noteq> fresh E n \<and> map_sum id EncodeToString (rand_read L m) \<noteq> map_sum id EncodeToString (rand_read L n))"

lemma can_issue_reliable: "can_issue E L k s \<Longrightarrow> reliable E"
  by (simp add: can_issue_def)

text \<open>The access token of a pair opens a session as this user until it expires.\<close>

definition opens_session :: "env \<Rightarrow> auth_lib \<Rightarrow> User \<Rightarrow> TokenPair \<Rightarrow> bool" where
  "opens_session E L u pair \<longleftrightarrow> (\<forall>now secret. Unix now < tp_ExpiresAt pair \<longrightarrow>
     JWTAuth (al_jwt L) now (al_Secret L) \<lparr>hd_Authorization = ''Bearer '' @ tp_AccessToken pair, hd_InternalSecret = secret\<rparr> =
       (Inr \<lparr>auth_user = Some (uuid_String E (us_ID u)), auth_role = Some (us_Role u)\<rparr> :: unit response + session))"

text \<open>What a successful call leaves behind: one more refresh token.\<close>

definition stored_pair :: "User \<Rightarrow> TokenPair \<Rightarrow> 'z auth_db_scheme \<Rightarrow> 'z auth_db_scheme \<Rightarrow> bool" where
  "stored_pair u pair s t \<longleftrightarrow> (\<exists>row n. rt_Token row = tp_RefreshToken pair \<and> rt_UserID row = us_ID u
     \<and> tp_RefreshToken pair \<notin> rt_Token ` set (refresh_tokens s)
     \<and> t = s\<lparr>tick := n, refresh_tokens := refresh_tokens s @ [row]\<rparr>)"

lemma stored_pairI:
  "rt_Token row = tp_RefreshToken pair \<Longrightarrow> rt_UserID row = us_ID u \<Longrightarrow> tp_RefreshToken pair \<notin> rt_Token ` set (refresh_tokens s) \<Longrightarrow>
   stored_pair u pair s (s\<lparr>tick := n, refresh_tokens := refresh_tokens s @ [row]\<rparr>)"
  unfolding stored_pair_def by blast

text \<open>Where the key and the token of a new row come from.\<close>

definition drawn :: "env \<Rightarrow> auth_lib \<Rightarrow> nat \<Rightarrow> RefreshToken \<Rightarrow> bool" where
  "drawn E L n row \<longleftrightarrow> rt_ID row = fresh E (Suc n) \<and> (\<exists>bs. rand_read L n = Inr bs \<and> rt_Token row = EncodeToString bs)"

text \<open>The promise is made at a state \<open>a\<close>; by the time of the call there may be fewer tokens.\<close>

lemma wp_generateTokenPair:
  fixes s :: "'z auth_db_scheme"
  assumes "can_issue E L k a" and "us_ID u \<in> us_ID ` set (users s)" and "length ip \<le> 45"
    and sub: "set (refresh_tokens s) \<subseteq> set (refresh_tokens a)" and later: "tick a \<le> tick s" "tick s + 3 \<le> k"
    and Q: "\<And>pair row. rt_Token row = tp_RefreshToken pair \<Longrightarrow> rt_UserID row = us_ID u \<Longrightarrow> opens_session E L u pair \<Longrightarrow>
      tp_RefreshToken pair \<notin> rt_Token ` set (refresh_tokens a) \<Longrightarrow> drawn E L (Suc (tick s)) row \<Longrightarrow>
      Q (Inr pair) (s\<lparr>tick := Suc (Suc (Suc (tick s))), refresh_tokens := refresh_tokens s @ [row]\<rparr>)"
  shows "wp (generateTokenPair E L u agent ip) Q s"
proof -
  note iss = assms(1) [unfolded can_issue_def]
  have rel: "reliable E" using iss by simp
  let ?now = "clock E (tick s)"
  obtain access where access: "jwt_sign (al_jwt L) (al_Secret L) \<lparr>cl_UserID = uuid_String E (us_ID u), cl_Role = us_Role u\<rparr>
      (us_Email u) (Unix ?now) (Unix (?now + al_AccessExpiry L)) = Inr access" using iss by blast
  have t1: "tick a \<le> Suc (tick s)" "Suc (tick s) < k" using later by simp_all
  obtain bs where bs: "rand_read L (Suc (tick s)) = Inr bs" "length bs = 32" "EncodeToString bs \<notin> rt_Token ` set (refresh_tokens a)"
    using iss t1 by blast
  have ids: "fresh E (Suc (Suc (tick s))) \<notin> rt_ID ` set (refresh_tokens a)" using iss later by simp
  have new: "EncodeToString bs \<notin> rt_Token ` set (refresh_tokens s)" "fresh E (Suc (Suc (tick s))) \<notin> rt_ID ` set (refresh_tokens s)"
    using bs(3) ids sub by auto
  have ipok: "\<not> longer 45 (pgTextFromString ip)" using assms(3) by (simp add: longer_def pgTextFromString_def)
  have opens: "opens_session E L u \<lparr>tp_AccessToken = access, tp_RefreshToken = EncodeToString bs, tp_ExpiresAt = Unix (?now + al_AccessExpiry L)\<rparr>"
    using iss access bearer_token_header [of access]
    by (auto simp: opens_session_def JWTAuth_def ParseWithClaims_def jwt_laws_def session_of_def)
  have "EncodeToString bs = tp_RefreshToken \<lparr>tp_AccessToken = access, tp_RefreshToken = EncodeToString bs, tp_ExpiresAt = Unix (?now + al_AccessExpiry L)\<rparr>"
    by simp
  with rel access bs new ipok assms(2) show ?thesis
    by (simp add: generateTokenPair_def Let_def CreateRefreshToken_def length_EncodeToString) (rule Q; simp add: opens drawn_def)
qed

section \<open>Logging in\<close>

text \<open>
  C13. A login succeeds exactly when an active user has the address and the password compares with the
  stored hash; it then stores one new refresh token and the access token opens a session as that user,
  with the role of the row, at every service until it expires. A refused login changes nothing and does
  not say which of the two was wrong.
\<close>

theorem login_opens_session:
  fixes s :: "'z auth_db_scheme"
  assumes "can_issue E L k s" and "tick s + 16 \<le> k" and "length ip \<le> 45"
  shows "wp (Login E L req agent ip) (\<lambda>r t.
     case find_row (\<lambda>u. us_Email u = lg_Email req \<and> us_IsActive u) (users s) of
       None \<Rightarrow> r = Inl ErrInvalidCredentials \<and> same_but_tick s t
     | Some u \<Rightarrow>
         if bcrypt_compare L (us_PasswordHash u) (lg_Password req)
         then (\<exists>pair. r = Inr (u, pair) \<and> opens_session E L u pair \<and> stored_pair u pair s t)
         else r = Inl ErrInvalidCredentials \<and> same_but_tick s t) s"
proof (cases "find_row (\<lambda>u. us_Email u = lg_Email req \<and> us_IsActive u) (users s)")
  case None
  then show ?thesis using can_issue_reliable [OF assms(1)]
    by (simp add: Login_def Queries_GetUserByEmail_def row_result_def)
next
  case (Some u)
  then have u: "us_ID u \<in> us_ID ` set (users s)" by (auto dest: find_row_Some)
  show ?thesis
  proof (cases "bcrypt_compare L (us_PasswordHash u) (lg_Password req)")
    case False
    then show ?thesis using Some can_issue_reliable [OF assms(1)]
      by (simp add: Login_def Queries_GetUserByEmail_def row_result_def)
  next
    case True
    then show ?thesis using Some can_issue_reliable [OF assms(1)] u assms
      by (auto simp: Login_def Queries_GetUserByEmail_def row_result_def intro!: wp_generateTokenPair [OF assms(1)] stored_pairI)
  qed
qed

lemma can_issue_demo: "refresh_tokens s = [] \<Longrightarrow> can_issue calm_env demo_auth k s"
  by (simp add: can_issue_def demo_sign_def)

theorem login_opens_session_witness:
  "wp (Login calm_env demo_auth \<lparr>lg_Email = ''a@b.c'', lg_Password = ''password''\<rparr> [] ''::1'')
     (\<lambda>r t. \<exists>pair. r = Inr (demo_user, pair) \<and> opens_session calm_env demo_auth demo_user pair) demo_accounts
   \<and> wp (Login calm_env demo_auth \<lparr>lg_Email = ''a@b.c'', lg_Password = ''guess''\<rparr> [] ''::1'')
     (\<lambda>r t. r = Inl ErrInvalidCredentials) demo_accounts"
proof
  show "wp (Login calm_env demo_auth \<lparr>lg_Email = ''a@b.c'', lg_Password = ''password''\<rparr> [] ''::1'')
     (\<lambda>r t. \<exists>pair. r = Inr (demo_user, pair) \<and> opens_session calm_env demo_auth demo_user pair) demo_accounts"
    by (rule wp_mono [OF login_opens_session [of calm_env demo_auth 16 demo_accounts "''::1''"]])
      (auto simp: can_issue_demo demo_user_def)
  show "wp (Login calm_env demo_auth \<lparr>lg_Email = ''a@b.c'', lg_Password = ''guess''\<rparr> [] ''::1'')
     (\<lambda>r t. r = Inl ErrInvalidCredentials) demo_accounts"
    by (rule wp_mono [OF login_opens_session [of calm_env demo_auth 16 demo_accounts "''::1''"]])
      (auto simp: can_issue_demo demo_user_def)
qed

section \<open>Refreshing\<close>

text \<open>A live refresh token: its row has not expired, its user is active.\<close>

definition live_token :: "env \<Rightarrow> string \<Rightarrow> User \<Rightarrow> 'z auth_db_scheme \<Rightarrow> bool" where
  "live_token E tok u s \<longleftrightarrow> (\<exists>rt. find_row (\<lambda>r. rt_Token r = tok \<and> pg_time (clock E (tick s)) < rt_ExpiresAt r) (refresh_tokens s) = Some rt
     \<and> find_row (\<lambda>r. us_ID r = rt_UserID rt \<and> us_IsActive r) (users s) = Some u)"

text \<open>The effect of one exchange: the old row replaced by one of the same user, the pair kept for the grace
  window, which starts at the last tick.\<close>

definition exchanged :: "env \<Rightarrow> auth_lib \<Rightarrow> string \<Rightarrow> User \<Rightarrow> TokenPair \<Rightarrow> 'z auth_db_scheme \<Rightarrow> 'z auth_db_scheme \<Rightarrow> bool" where
  "exchanged E L tok u pair s t \<longleftrightarrow> (\<exists>row. rt_Token row = tp_RefreshToken pair \<and> rt_UserID row = us_ID u \<and> drawn E L (tick s + 3) row
     \<and> t = s\<lparr>tick := tick s + 6, refresh_tokens := filter (\<lambda>r. rt_Token r \<noteq> tok) (refresh_tokens s) @ [row],
            rotations := (rotations s)(tok \<mapsto> (pair, clock E (tick s + 5) + 30 * Second))\<rparr>)"

lemma wp_exchange:
  fixes s :: "'z auth_db_scheme"
  assumes "can_issue E L k a" and "length ip \<le> 45"
    and "set (filter (\<lambda>r. rt_Token r \<noteq> tok) (refresh_tokens s)) \<subseteq> set (refresh_tokens a)" and "tick a \<le> tick s" "tick s + 5 \<le> k"
    and u: "find_row (\<lambda>r. us_ID r = rt_UserID rt \<and> us_IsActive r) (users s) = Some u"
    and Q: "\<And>pair t. opens_session E L u pair \<Longrightarrow> tp_RefreshToken pair \<notin> rt_Token ` set (refresh_tokens a) \<Longrightarrow>
      exchanged E L tok u pair s t \<Longrightarrow> Q (Inr pair) t"
  shows "wp (rotate_token_found E L tok agent ip rt) Q s"
proof -
  have rel: "reliable E" using assms(1) by (rule can_issue_reliable)
  have ids: "us_ID u \<in> us_ID ` set (users s)" using u by (auto dest: find_row_Some)
  show ?thesis
    using u ids assms(2-5)
    by (auto simp: rotate_token_found_def rel DeleteRefreshToken_def GetUserByID_def row_result_def store_rotation_def simp del: fun_upd_apply
      intro!: wp_generateTokenPair [OF assms(1)] Q) (auto simp: exchanged_def numeral_eq_Suc)
qed

text \<open>An exchanged token is served from memory during the grace window and unknown afterwards.\<close>

lemma wp_replay:
  assumes "reliable E" and "exchanged E L tok u pair s t" and "tok \<noteq> tp_RefreshToken pair"
  shows "wp (Service_RefreshToken E L tok agent ip) (\<lambda>r t'.
    r = (if clock E (tick t) < clock E (tick t - 1) + 30 * Second then Inr pair else Inl ErrInvalidToken)
    \<and> refresh_tokens t' = refresh_tokens t \<and> users t' = users t) t"
proof -
  obtain row n where row: "rt_Token row = tp_RefreshToken pair"
    and t: "t = s\<lparr>tick := Suc n, refresh_tokens := filter (\<lambda>r. rt_Token r \<noteq> tok) (refresh_tokens s) @ [row],
            rotations := (rotations s)(tok \<mapsto> (pair, clock E n + 30 * Second))\<rparr>"
  proof -
    have "tick s + 6 = Suc (tick s + 5)" by simp
    with assms(2) show thesis unfolding exchanged_def by (elim exE conjE) (rule that, assumption, simp only:)
  qed
  have "find_row (\<lambda>r. rt_Token r = tok \<and> now < rt_ExpiresAt r) (refresh_tokens t) = None" for now
    using row assms(3) by (auto simp: t find_row_None)
  then show ?thesis
    by (simp add: t Service_RefreshToken_def rotate_token_def drop_rotation_def GetRefreshToken_def row_result_def assms(1))
qed

text \<open>
  C9. A live refresh token is exchanged once: the old token is gone, exactly one new one is stored, for the
  same user. The same request sent again within 30 seconds gets the same pair and changes nothing;
  afterwards the old token is refused.
\<close>

theorem refresh_rotates_once:
  fixes s :: "'z auth_db_scheme"
  assumes "can_issue E L k s" and "live_token E tok u s" and "rotations s tok = None" and "length ip \<le> 45" and "tick s + 16 \<le> k"
  shows "wp (Service_RefreshToken E L tok agent ip) (\<lambda>r t. \<exists>pair. r = Inr pair \<and> opens_session E L u pair
     \<and> tp_RefreshToken pair \<notin> rt_Token ` set (refresh_tokens s)
     \<and> (\<exists>row. rt_Token row = tp_RefreshToken pair \<and> rt_UserID row = us_ID u
          \<and> refresh_tokens t = filter (\<lambda>r. rt_Token r \<noteq> tok) (refresh_tokens s) @ [row])
     \<and> users t = users s
     \<and> wp (Service_RefreshToken E L tok agent' ip') (\<lambda>r' t'.
          r' = (if clock E (tick t) < clock E (tick t - 1) + 30 * Second then Inr pair else Inl ErrInvalidToken)
          \<and> refresh_tokens t' = refresh_tokens t \<and> users t' = users t) t) s"
proof -
  have rel: "reliable E" using assms(1) by (rule can_issue_reliable)
  obtain rt where rt: "find_row (\<lambda>r. rt_Token r = tok \<and> pg_time (clock E (tick s)) < rt_ExpiresAt r) (refresh_tokens s) = Some rt"
    and u: "find_row (\<lambda>r. us_ID r = rt_UserID rt \<and> us_IsActive r) (users s) = Some u"
    using assms(2) by (auto simp: live_token_def)
  have tok: "tok \<in> rt_Token ` set (refresh_tokens s)" using rt by (auto dest: find_row_Some)
  let ?s = "s\<lparr>tick := Suc (tick s)\<rparr>"
  have "wp (rotate_token_found E L tok agent ip rt) (\<lambda>r t. \<exists>pair. r = Inr pair \<and> opens_session E L u pair
     \<and> tp_RefreshToken pair \<notin> rt_Token ` set (refresh_tokens s) \<and> exchanged E L tok u pair ?s t) ?s"
    using u assms(5) by (intro wp_exchange [OF assms(1,4)]) auto
  then have "wp (rotate_token_found E L tok agent ip rt) (\<lambda>r t. \<exists>pair. r = Inr pair \<and> opens_session E L u pair
     \<and> tp_RefreshToken pair \<notin> rt_Token ` set (refresh_tokens s)
     \<and> (\<exists>row. rt_Token row = tp_RefreshToken pair \<and> rt_UserID row = us_ID u
          \<and> refresh_tokens t = filter (\<lambda>r. rt_Token r \<noteq> tok) (refresh_tokens s) @ [row])
     \<and> users t = users s
     \<and> wp (Service_RefreshToken E L tok agent' ip') (\<lambda>r' t'.
          r' = (if clock E (tick t) < clock E (tick t - 1) + 30 * Second then Inr pair else Inl ErrInvalidToken)
          \<and> refresh_tokens t' = refresh_tokens t \<and> users t' = users t) t) ?s"
  proof (rule wp_mono, elim exE conjE)
    fix r t pair
    assume r: "r = Inr pair" "opens_session E L u pair" "tp_RefreshToken pair \<notin> rt_Token ` set (refresh_tokens s)"
      and ex: "exchanged E L tok u pair ?s t"
    then have "tok \<noteq> tp_RefreshToken pair" using tok by blast
    then have "wp (Service_RefreshToken E L tok agent' ip') (\<lambda>r' t'.
          r' = (if clock E (tick t) < clock E (tick t - 1) + 30 * Second then Inr pair else Inl ErrInvalidToken)
          \<and> refresh_tokens t' = refresh_tokens t \<and> users t' = users t) t"
      by (rule wp_replay [OF rel ex])
    with r ex show "\<exists>pair. r = Inr pair \<and> opens_session E L u pair
     \<and> tp_RefreshToken pair \<notin> rt_Token ` set (refresh_tokens s)
     \<and> (\<exists>row. rt_Token row = tp_RefreshToken pair \<and> rt_UserID row = us_ID u
          \<and> refresh_tokens t = filter (\<lambda>r. rt_Token r \<noteq> tok) (refresh_tokens s) @ [row])
     \<and> users t = users s
     \<and> wp (Service_RefreshToken E L tok agent' ip') (\<lambda>r' t'.
          r' = (if clock E (tick t) < clock E (tick t - 1) + 30 * Second then Inr pair else Inl ErrInvalidToken)
          \<and> refresh_tokens t' = refresh_tokens t \<and> users t' = users t) t"
      by (intro exI [of _ pair]) (auto simp: exchanged_def)
  qed
  then show ?thesis
    by (simp add: Service_RefreshToken_def rotate_token_def rel assms(3) GetRefreshToken_def rt row_result_def)
qed

lemma draws_differ_later: "draws_differ E L j k \<Longrightarrow> j \<le> j' \<Longrightarrow> draws_differ E L j' k"
  unfolding draws_differ_def by (meson le_trans)

lemma can_issue_exchanged:
  assumes "can_issue E L k a" and "exchanged E L tok u pair s t"
    and "set (filter (\<lambda>r. rt_Token r \<noteq> tok) (refresh_tokens s)) \<subseteq> set (refresh_tokens a)" and "tick a \<le> tick s"
    and differ: "draws_differ E L (tick s) k"
  shows "can_issue E L k t"
proof -
  define m where "m = tick s + 3"
  obtain row where row: "drawn E L m row"
    and t: "refresh_tokens t = filter (\<lambda>r. rt_Token r \<noteq> tok) (refresh_tokens s) @ [row]" "tick t = tick s + 6"
    using assms(2) by (auto simp: exchanged_def m_def)
  have "\<exists>bs. rand_read L l = Inr bs \<and> length bs = 32 \<and> EncodeToString bs \<notin> rt_Token ` set (refresh_tokens t)"
    and "fresh E l \<notin> rt_ID ` set (refresh_tokens t)" if n: "tick t \<le> l" "l < k" for l
  proof -
    have late: "tick a \<le> l" "tick s \<le> m" "m < l" "Suc m < l" "l < k" using n t(2) assms(4) by (simp_all add: m_def)
    then obtain bs where bs: "rand_read L l = Inr bs" "length bs = 32" "EncodeToString bs \<notin> rt_Token ` set (refresh_tokens a)"
      and ids: "fresh E l \<notin> rt_ID ` set (refresh_tokens a)" using assms(1) by (auto simp: can_issue_def)
    obtain bs' where bs': "rand_read L m = Inr bs'" "rt_Token row = EncodeToString bs'" "rt_ID row = fresh E (Suc m)"
      using row by (auto simp: drawn_def)
    have "map_sum id EncodeToString (rand_read L m) \<noteq> map_sum id EncodeToString (rand_read L l)"
      using differ late(2,3,5) unfolding draws_differ_def by blast
    then have "rt_Token row \<noteq> EncodeToString bs" by (simp add: bs' bs(1))
    moreover have "rt_ID row \<noteq> fresh E l"
      using differ late unfolding draws_differ_def bs'(3) by (meson le_SucI)
    ultimately show "\<exists>bs. rand_read L l = Inr bs \<and> length bs = 32 \<and> EncodeToString bs \<notin> rt_Token ` set (refresh_tokens t)"
      and "fresh E l \<notin> rt_ID ` set (refresh_tokens t)" using bs ids assms(3) by (auto simp: t(1))
  qed
  with assms(1) show ?thesis by (simp add: can_issue_def)
qed

text \<open>
  The exchange is not atomic: two requests that both read the row before either deletes it both
  succeed, with different pairs, and one session has become two.
\<close>

theorem concurrent_refresh_forks_session:
  fixes s :: "'z auth_db_scheme"
  assumes "can_issue E L k s" and "live_token E tok u s" and "live_token E tok u (s\<lparr>tick := Suc (tick s)\<rparr>)" and "length ip \<le> 45" and "length ip' \<le> 45"
    and "draws_differ E L (tick s) k" and "tick s + 16 \<le> k"
  shows "wp (do { a \<leftarrow> GetRefreshToken E tok; b \<leftarrow> GetRefreshToken E tok; ret (a, b) }) (\<lambda>(a, b) t.
    \<exists>ra rb. a = Inr ra \<and> b = Inr rb \<and>
    wp (rotate_token_found E L tok agent ip ra) (\<lambda>x t. wp (rotate_token_found E L tok agent' ip' rb) (\<lambda>y t'.
      \<exists>p q. x = Inr p \<and> y = Inr q \<and> tp_RefreshToken p \<noteq> tp_RefreshToken q \<and> opens_session E L u p \<and> opens_session E L u q
        \<and> {tp_RefreshToken p, tp_RefreshToken q} \<subseteq> rt_Token ` set (refresh_tokens t')) t) t) s"
proof -
  have rel: "reliable E" using assms(1) by (rule can_issue_reliable)
  obtain ra rb where ra: "find_row (\<lambda>r. rt_Token r = tok \<and> pg_time (clock E (tick s)) < rt_ExpiresAt r) (refresh_tokens s) = Some ra"
      "find_row (\<lambda>r. us_ID r = rt_UserID ra \<and> us_IsActive r) (users s) = Some u"
    and rb: "find_row (\<lambda>r. rt_Token r = tok \<and> pg_time (clock E (Suc (tick s))) < rt_ExpiresAt r) (refresh_tokens s) = Some rb"
      "find_row (\<lambda>r. us_ID r = rt_UserID rb \<and> us_IsActive r) (users s) = Some u"
    using assms(2,3) by (auto simp: live_token_def)
  let ?s = "s\<lparr>tick := Suc (Suc (tick s))\<rparr>"
  have "wp (rotate_token_found E L tok agent ip ra) (\<lambda>x t. wp (rotate_token_found E L tok agent' ip' rb) (\<lambda>y t'.
      \<exists>p q. x = Inr p \<and> y = Inr q \<and> tp_RefreshToken p \<noteq> tp_RefreshToken q \<and> opens_session E L u p \<and> opens_session E L u q
        \<and> {tp_RefreshToken p, tp_RefreshToken q} \<subseteq> rt_Token ` set (refresh_tokens t')) t) ?s"
  proof (rule wp_exchange [OF assms(1,4)])
    fix p t
    assume p: "opens_session E L u p" "tp_RefreshToken p \<notin> rt_Token ` set (refresh_tokens s)" and ex: "exchanged E L tok u p ?s t"
    have issue: "can_issue E L k t" by (rule can_issue_exchanged [OF assms(1) ex]) (auto intro: draws_differ_later [OF assms(6)])
    have tok: "tok \<noteq> tp_RefreshToken p" 
    proof
      assume "tok = tp_RefreshToken p"
      moreover have "rt_Token ra = tok" "ra \<in> set (refresh_tokens s)" using find_row_Some [OF ra(1)] by simp_all
      ultimately show False using p(2) by (simp add: image_iff) metis
    qed
    have p_in: "tp_RefreshToken p \<in> rt_Token ` set (refresh_tokens t)" and "users t = users s" using ex by (auto simp: exchanged_def)
    then show "wp (rotate_token_found E L tok agent' ip' rb) (\<lambda>y t'.
      \<exists>p' q. Inr p = Inr p' \<and> y = Inr q \<and> tp_RefreshToken p' \<noteq> tp_RefreshToken q \<and> opens_session E L u p' \<and> opens_session E L u q
        \<and> {tp_RefreshToken p', tp_RefreshToken q} \<subseteq> rt_Token ` set (refresh_tokens t')) t"
      using rb(2) p(1) tok ex assms(7) by (intro wp_exchange [OF issue assms(5)]) (auto simp: exchanged_def)
  qed (use ra(2) assms(7) in auto)
  with ra(1) rb(1) show ?thesis by (simp add: GetRefreshToken_def rel row_result_def)
qed

text \<open>A session with one refresh token, and an environment whose identifiers stay clear of its key.\<close>

definition demo_token :: RefreshToken where
  "demo_token = \<lparr>rt_ID = 0, rt_UserID = 5, rt_Token = ''old'', rt_UserAgent = None, rt_IpAddress = None, rt_ExpiresAt = 168 * Hour, rt_CreatedAt = 0\<rparr>"

definition demo_session :: auth_db where
  "demo_session = demo_accounts\<lparr>refresh_tokens := [demo_token]\<rparr>"

lemma demo_session_simps [simp]:
  "tick demo_session = 0" "users demo_session = [demo_user]" "refresh_tokens demo_session = [demo_token]"
  "rotations demo_session = Map.empty" "password_resets demo_session = []"
  by (simp_all add: demo_session_def) (simp add: demo_accounts_def)

lemma demo_live_token: "live_token calm_env ''old'' demo_user demo_session" "live_token calm_env ''old'' demo_user (demo_session\<lparr>tick := Suc (tick demo_session)\<rparr>)"
  by (simp_all add: live_token_def demo_token_def demo_user_def pg_time_def duration_defs)

lemma demo_fresh: "n < 16 \<Longrightarrow> unat (of_nat (Suc n) :: uuid) = Suc n"
  by (simp add: unat_of_nat del: of_nat_Suc)

lemma demo_draws:
  assumes "n < 16"
  shows "hd (EncodeToString (demo_bytes n)) = char_of (65 + n)"
proof -
  have "unat (of_nat (4 * n) :: 8 word) = 4 * n" using assms by (simp add: unat_of_nat del: of_nat_mult)
  moreover have "demo_bytes n = of_nat (4 * n) # 0 # 0 # replicate 29 0" by (simp add: demo_bytes_def numeral_eq_Suc del: of_nat_mult)
  ultimately show ?thesis using assms by (simp add: Let_def b64_char_def del: of_nat_mult)
qed

lemma can_issue_session: "can_issue calm_env demo_auth 16 demo_session"
proof -
  have "length (EncodeToString (demo_bytes n)) = 44" for n by (simp add: length_EncodeToString)
  then have "EncodeToString (demo_bytes n) \<noteq> ''old''" for n by (auto dest!: arg_cong [where f = length])
  moreover have "(of_nat (Suc n) :: uuid) \<noteq> 0" if "n < 16" for n using demo_fresh [OF that] by auto
  ultimately show ?thesis by (auto simp: can_issue_def demo_sign_def demo_token_def simp del: of_nat_Suc)
qed

lemma demo_draws_differ: "draws_differ calm_env demo_auth (tick demo_session) 16"
proof -
  have "EncodeToString (demo_bytes m) \<noteq> EncodeToString (demo_bytes n)" if "m < n" "n < 16" for m n
  proof
    assume "EncodeToString (demo_bytes m) = EncodeToString (demo_bytes n)"
    then have "(char_of (65 + m) :: char) = char_of (65 + n)" using demo_draws [of m] demo_draws [of n] that by simp
    then show False using that by (simp add: char_of_eq_iff take_bit_nat_eq_self)
  qed
  moreover have "(of_nat (Suc m) :: uuid) \<noteq> of_nat (Suc n)" if "m < n" "n < 16" for m n
    using demo_fresh [of m] demo_fresh [of n] that by auto
  ultimately show ?thesis by (simp add: draws_differ_def del: of_nat_Suc)
qed

lemma calm_clock: "clock calm_env n < clock calm_env (n - Suc 0) + 30 * Second"
  by (cases n) (simp_all add: Second_def)

theorem refresh_rotates_once_witness:
  "wp (Service_RefreshToken calm_env demo_auth ''old'' [] ''::1'') (\<lambda>r t. \<exists>pair. r = Inr pair
     \<and> wp (Service_RefreshToken calm_env demo_auth ''old'' [] ''::1'') (\<lambda>r' t'. r' = Inr pair) t) demo_session"
  by (rule wp_mono [OF refresh_rotates_once [OF can_issue_session demo_live_token(1), of "''::1''" "[]" "[]" "''::1''"]])
    (auto simp: calm_clock simp del: calm_env_simps elim!: wp_mono)

theorem concurrent_refresh_witness:
  "wp (do { a \<leftarrow> GetRefreshToken calm_env ''old''; b \<leftarrow> GetRefreshToken calm_env ''old''; ret (a, b) }) (\<lambda>(a, b) t.
    \<exists>ra rb. a = Inr ra \<and> b = Inr rb \<and>
    wp (rotate_token_found calm_env demo_auth ''old'' [] [] ra) (\<lambda>x t. wp (rotate_token_found calm_env demo_auth ''old'' [] [] rb) (\<lambda>y t'.
      \<exists>p q. x = Inr p \<and> y = Inr q \<and> tp_RefreshToken p \<noteq> tp_RefreshToken q) t) t) demo_session"
  by (rule wp_mono [OF concurrent_refresh_forks_session [OF can_issue_session demo_live_token _ _ demo_draws_differ, of "[]" "[]" "[]" "[]"]])
    (auto elim!: wp_mono)

end
