(* ===== verification/Auth_Passwords.thy ===== *)
theory Auth_Passwords
  imports Auth_Sessions
begin

text \<open>
  Password resets, registration and the lookup by mail address: what they do, and where they fall short.
\<close>

section \<open>Password resets\<close>

text \<open>What bcrypt promises: a hash of 60 characters that compares with its password.\<close>

definition bcrypt_laws :: "auth_lib \<Rightarrow> bool" where
  "bcrypt_laws L \<longleftrightarrow> (\<forall>n pw hash. bcrypt_generate L n pw = Inr hash \<longrightarrow> length hash \<le> 60 \<and> bcrypt_compare L hash pw)"

text \<open>The row of a reset token that \<open>ForgotPassword\<close> has stored.\<close>

definition reset_row :: "env \<Rightarrow> auth_lib \<Rightarrow> uuid \<Rightarrow> string \<Rightarrow> time \<Rightarrow> nat \<Rightarrow> PasswordResetToken" where
  "reset_row E L uid tok expires n =
     \<lparr>pr_ID = fresh E n, pr_UserID = uid, pr_Token = HashToken L tok, pr_ExpiresAt = pg_time expires, pr_CreatedAt = pg_time (clock E n)\<rparr>"

lemma wp_ForgotPassword:
  assumes "reliable E" and user: "find_row (\<lambda>u. us_Email u = email \<and> us_IsActive u) (users s) = Some user"
    and tok: "tok = uuid_String E (fresh E (Suc (tick s)))" "length (HashToken L tok) \<le> 255"
    and new: "HashToken L tok \<notin> pr_Token ` set (password_resets s)" "fresh E (tick s + 3) \<notin> pr_ID ` set (password_resets s)"
    and post: "Q (Inr tok) (s\<lparr>tick := tick s + 4,
      password_resets := password_resets s @ [reset_row E L (us_ID user) tok (clock E (tick s + 2) + 30 * Minute) (tick s + 3)]\<rparr>)"
  shows "wp (ForgotPassword E L email) Q s"
proof -
  have "us_ID user \<in> us_ID ` set (users s)" using find_row_Some [OF user] by simp
  then show ?thesis
    using assms by (simp add: ForgotPassword_def Queries_GetUserByEmail_def row_result_def CreatePasswordResetToken_def Let_def reset_row_def
      numeral_eq_Suc del: One_nat_def)
qed

text \<open>Using a token whose row is the last one and the only one with its hash.\<close>

lemma wp_ResetPassword:
  assumes "reliable E" and "bcrypt_laws L" and "\<And>n. is_ok (bcrypt_generate L n pw)"
    and rows: "password_resets u = rs @ [r]" "pr_Token r = HashToken L tok" "HashToken L tok \<notin> pr_Token ` set rs"
  shows "wp (ResetPassword E L tok pw) (\<lambda>x t.
     if clock E (Suc (tick u)) \<le> pr_ExpiresAt r
     then x = Inr () \<and> (\<exists>hash now. bcrypt_compare L hash pw \<and> users t = update_rows (\<lambda>a. us_ID a = pr_UserID r) (password_row now hash) (users u))
       \<and> password_resets t = rs \<and> refresh_tokens t = refresh_tokens u
     else x = Inl (Err_New ''invalid or expired reset token'') \<and> same_but_tick u t) u"
proof -
  obtain hash where h: "bcrypt_generate L (Suc (Suc (tick u))) pw = Inr hash" using assms(3) [of "Suc (Suc (tick u))"] by (cases "bcrypt_generate L (Suc (Suc (tick u))) pw") auto
  then have hash: "length hash \<le> 60" "bcrypt_compare L hash pw" using assms(2) by (auto simp: bcrypt_laws_def)
  have "\<And>a. a \<in> set rs \<Longrightarrow> pr_Token a \<noteq> HashToken L tok" using rows(3) by (metis image_eqI)
  moreover from this have "find_row (\<lambda>a. pr_Token a = HashToken L tok) rs = None" by (simp add: find_row_None)
  ultimately have found: "find_row (\<lambda>a. pr_Token a = HashToken L tok) (rs @ [r]) = Some r" and gone: "filter (\<lambda>a. pr_Token a \<noteq> HashToken L tok) (rs @ [r]) = rs"
    using rows(2) by (auto simp: find_row_append)
  show ?thesis using assms(1) rows(1) h hash found gone
    by (auto simp: ResetPassword_def GetPasswordResetToken_def row_result_def hash_password_def UpdateUserPassword_def
      DeletePasswordResetToken_def same_but_tick_def simp del: filter_append)
qed

lemma wp_ResetPassword_unknown:
  assumes "reliable E" and "HashToken L tok \<notin> pr_Token ` set (password_resets u)"
  shows "wp (ResetPassword E L tok pw) (\<lambda>x t. x = Inl (Err_New ''invalid or expired reset token'') \<and> same_but_tick u t) u"
proof -
  have "find_row (\<lambda>a. pr_Token a = HashToken L tok) (password_resets u) = None" using assms(2) by (auto simp: find_row_None image_iff)
  then show ?thesis using assms(1) by (simp add: ResetPassword_def GetPasswordResetToken_def row_result_def same_but_tick_def)
qed

text \<open>
  C27. A reset token works once and for 30 minutes: the token that \<open>ForgotPassword\<close> hands out for an address is accepted,
  whatever else happened to the database but its reset tokens, up to 30 minutes after the clock was read there (to the microsecond
  PostgreSQL keeps). Used in time it stores a hash of the new password for the user with that address and for nobody else and is
  gone, so that a second use fails; used late it changes nothing. The refresh tokens of the user survive the reset, so a
  session opened with the old password goes on.
\<close>

theorem reset_token_works_once:
  fixes s :: "'z auth_db_scheme"
  assumes "reliable E" and "bcrypt_laws L" and "\<And>n. is_ok (bcrypt_generate L n pw)"
    and "find_row (\<lambda>u. us_Email u = email \<and> us_IsActive u) (users s) = Some user"
    and "length (HashToken L (uuid_String E (fresh E (Suc (tick s))))) \<le> 255"
    and "HashToken L (uuid_String E (fresh E (Suc (tick s)))) \<notin> pr_Token ` set (password_resets s)"
    and "fresh E (tick s + 3) \<notin> pr_ID ` set (password_resets s)"
  shows "wp (ForgotPassword E L email) (\<lambda>r t. \<exists>tok. r = Inr tok \<and> users t = users s \<and>
     (\<forall>u :: 'z auth_db_scheme. password_resets u = password_resets t \<longrightarrow> wp (ResetPassword E L tok pw) (\<lambda>r t.
        if clock E (Suc (tick u)) \<le> pg_time (clock E (tick s + 2) + 30 * Minute)
        then r = Inr () \<and> (\<exists>hash now. bcrypt_compare L hash pw \<and> users t = update_rows (\<lambda>a. us_ID a = us_ID user) (password_row now hash) (users u))
          \<and> password_resets t = password_resets s \<and> refresh_tokens t = refresh_tokens u
          \<and> wp (ResetPassword E L tok pw') (\<lambda>r t'. r = Inl (Err_New ''invalid or expired reset token'') \<and> same_but_tick t t') t
        else r = Inl (Err_New ''invalid or expired reset token'') \<and> same_but_tick u t) u)) s"
proof (rule wp_ForgotPassword [OF assms(1,4) refl assms(5-7)], intro exI conjI allI impI, rule refl, simp)
  let ?tok = "uuid_String E (fresh E (Suc (tick s)))"
  let ?r = "reset_row E L (us_ID user) ?tok (clock E (tick s + 2) + 30 * Minute) (tick s + 3)"
  fix u :: "'z auth_db_scheme"
  assume "password_resets u = password_resets (s\<lparr>tick := tick s + 4, password_resets := password_resets s @ [?r]\<rparr>)"
  then have rows: "password_resets u = password_resets s @ [?r]" by simp
  show "wp (ResetPassword E L ?tok pw) (\<lambda>r t.
        if clock E (Suc (tick u)) \<le> pg_time (clock E (tick s + 2) + 30 * Minute)
        then r = Inr () \<and> (\<exists>hash now. bcrypt_compare L hash pw \<and> users t = update_rows (\<lambda>a. us_ID a = us_ID user) (password_row now hash) (users u))
          \<and> password_resets t = password_resets s \<and> refresh_tokens t = refresh_tokens u
          \<and> wp (ResetPassword E L ?tok pw') (\<lambda>r t'. r = Inl (Err_New ''invalid or expired reset token'') \<and> same_but_tick t t') t
        else r = Inl (Err_New ''invalid or expired reset token'') \<and> same_but_tick u t) u"
    by (rule wp_mono [OF wp_ResetPassword [OF assms(1-3) rows _ assms(6)]])
      (use assms(6) in \<open>auto simp: reset_row_def split: if_splits simp del: image_iff intro!: wp_ResetPassword_unknown [OF assms(1)]\<close>)
qed

text \<open>The clock of the witness goes on a second per call: the token is used after 20 seconds, and after an hour instead.\<close>

theorem reset_token_works_once_witness:
  "wp (ForgotPassword calm_env demo_auth ''a@b.c'') (\<lambda>r t. \<exists>tok. r = Inr tok
     \<and> wp (ResetPassword calm_env demo_auth tok ''new-secret'') (\<lambda>r t'. r = Inr () \<and> refresh_tokens t' = refresh_tokens t
          \<and> map us_PasswordHash (users t') = [''new-secret'']
          \<and> wp (ResetPassword calm_env demo_auth tok ''again'') (\<lambda>r t'. \<not> is_ok r) t') (t\<lparr>tick := 20\<rparr>)
     \<and> wp (ResetPassword calm_env demo_auth tok ''new-secret'') (\<lambda>r t'. \<not> is_ok r) (t\<lparr>tick := 3600\<rparr>)) demo_session"
proof (rule wp_mono [OF reset_token_works_once [of calm_env demo_auth "''new-secret''" "''a@b.c''" demo_session demo_user "''again''"]])
  have "length (HashToken demo_auth (demo_name 2)) \<le> 255" by code_simp
  then show "length (HashToken demo_auth (uuid_String calm_env (fresh calm_env (Suc (tick demo_session))))) \<le> 255" by simp
  fix r and t :: auth_db
  let ?in_time = "\<lambda>(u :: auth_db) tok r (t' :: auth_db). r = Inr () \<and> (\<exists>hash now. bcrypt_compare demo_auth hash ''new-secret''
      \<and> users t' = update_rows (\<lambda>a. us_ID a = us_ID demo_user) (password_row now hash) (users u))
    \<and> password_resets t' = password_resets demo_session \<and> refresh_tokens t' = refresh_tokens u
    \<and> wp (ResetPassword calm_env demo_auth tok ''again'') (\<lambda>r v. r = Inl (Err_New ''invalid or expired reset token'') \<and> same_but_tick t' v) t'"
  let ?late = "\<lambda>(u :: auth_db) r t'. r = Inl (Err_New ''invalid or expired reset token'') \<and> same_but_tick u t'"
  assume "\<exists>tok. r = Inr tok \<and> users t = users demo_session \<and> (\<forall>u :: auth_db. password_resets u = password_resets t \<longrightarrow>
    wp (ResetPassword calm_env demo_auth tok ''new-secret'') (\<lambda>r t'.
      if clock calm_env (Suc (tick u)) \<le> pg_time (clock calm_env (tick demo_session + 2) + 30 * Minute) then ?in_time u tok r t' else ?late u r t') u)"
  then obtain tok where r: "r = Inr tok \<and> users t = users demo_session \<and> (\<forall>u :: auth_db. password_resets u = password_resets t \<longrightarrow>
    wp (ResetPassword calm_env demo_auth tok ''new-secret'') (\<lambda>r t'.
      if clock calm_env (Suc (tick u)) \<le> pg_time (clock calm_env (tick demo_session + 2) + 30 * Minute) then ?in_time u tok r t' else ?late u r t') u)" ..
  note use = r [THEN conjunct2, THEN conjunct2, rule_format]
  have "wp (ResetPassword calm_env demo_auth tok ''new-secret'') (?in_time (t\<lparr>tick := 20\<rparr>) tok) (t\<lparr>tick := 20\<rparr>)"
    using use [of "t\<lparr>tick := 20\<rparr>"] by (simp add: duration_defs pg_time_def)
  moreover have "wp (ResetPassword calm_env demo_auth tok ''new-secret'') (?late (t\<lparr>tick := 3600\<rparr>)) (t\<lparr>tick := 3600\<rparr>)"
    using use [of "t\<lparr>tick := 3600\<rparr>"] by (simp add: duration_defs pg_time_def)
  ultimately show "\<exists>tok. r = Inr tok
     \<and> wp (ResetPassword calm_env demo_auth tok ''new-secret'') (\<lambda>r t'. r = Inr () \<and> refresh_tokens t' = refresh_tokens t
          \<and> map us_PasswordHash (users t') = [''new-secret'']
          \<and> wp (ResetPassword calm_env demo_auth tok ''again'') (\<lambda>r t'. \<not> is_ok r) t') (t\<lparr>tick := 20\<rparr>)
     \<and> wp (ResetPassword calm_env demo_auth tok ''new-secret'') (\<lambda>r t'. \<not> is_ok r) (t\<lparr>tick := 3600\<rparr>)"
    using r by (auto simp: demo_user_def password_row_def update_rows_def elim!: wp_mono)
qed (auto simp: bcrypt_laws_def demo_user_def)

section \<open>Losing a session\<close>

text \<open>
  The old refresh token is deleted before the new pair is stored: when the statement that stores the
  pair is lost, the client gets an error and is left with neither token, because the old one is gone and
  not kept for the grace window either.
\<close>

theorem refresh_can_lose_session:
  fixes s :: "'z auth_db_scheme"
  assumes "outcome E (tick s) = Delivered" and "outcome E (tick s + 1) = Delivered" and "outcome E (tick s + 2) = Delivered"
    and "outcome E (tick s + 5) = Lost_request" and "live_token E tok u s" and "rotations s tok = None"
  shows "wp (Service_RefreshToken E L tok agent ip) (\<lambda>r t. \<not> is_ok r
     \<and> refresh_tokens t = filter (\<lambda>r. rt_Token r \<noteq> tok) (refresh_tokens s) \<and> rotations t tok = None) s"
proof -
  obtain rt where rt: "find_row (\<lambda>r. rt_Token r = tok \<and> pg_time (clock E (tick s)) < rt_ExpiresAt r) (refresh_tokens s) = Some rt"
    and u: "find_row (\<lambda>r. us_ID r = rt_UserID rt \<and> us_IsActive r) (users s) = Some u"
    using assms(5) by (auto simp: live_token_def)
  show ?thesis using assms(1-4) rt u assms(6)
    by (simp add: Service_RefreshToken_def rotate_token_def rotate_token_found_def GetRefreshToken_def DeleteRefreshToken_def
      GetUserByID_def row_result_def sql_def wp_external generateTokenPair_def CreateRefreshToken_def Let_def
      numeral_eq_Suc split: sum.split)
qed

text \<open>The environment of the witness: the sixth call is lost.\<close>

definition lossy_env :: env where
  "lossy_env = calm_env\<lparr>outcome := (\<lambda>n. if n = 5 then Lost_request else Delivered)\<rparr>"

theorem refresh_can_lose_session_witness:
  "wp (Service_RefreshToken lossy_env demo_auth ''old'' [] ''::1'') (\<lambda>r t. \<not> is_ok r \<and> refresh_tokens t = []) demo_session"
proof -
  have "live_token lossy_env ''old'' demo_user demo_session"
    using demo_live_token(1) by (simp add: live_token_def lossy_env_def)
  from refresh_can_lose_session [OF _ _ _ _ this, of demo_auth "[]" "''::1''"] show ?thesis
    by (simp add: lossy_env_def) (auto simp: demo_token_def elim!: wp_mono)
qed

section \<open>Registration and lookup\<close>

lemma no_such_address: "email \<notin> us_Email ` set us \<Longrightarrow> find_row (\<lambda>u. us_Email u = email \<and> us_IsActive u) us = None"
  by (induction us) auto

text \<open>
  A good registration appends one active customer with the address as typed and opens a session. The
  address is never normalised when it is stored, but the lookup lower-cases the address it is given: an
  account registered with an upper-case letter can log in and is never found by its address.
\<close>

theorem registered_address_lookup:
  fixes s :: "'z auth_db_scheme"
  assumes "can_issue E L k s" and "tick s + 16 \<le> k" and "bcrypt_laws L" and "bcrypt_generate L (tick s + 1) (rg_Password req) = Inr hash"
    and "length (rg_Email req) \<le> 255" and "length (rg_FullName req) \<le> 255" and "length (rg_Phone req) \<le> 20"
    and "fresh E (tick s + 2) \<notin> us_ID ` set (users s)"
    and new: "rg_Email req \<notin> us_Email ` set (users s)" "ToLower (rg_Email req) \<notin> us_Email ` set (users s)"
    and "rg_Email req \<noteq> []" and "TrimSpace (rg_Email req) = rg_Email req"
  shows "wp (Register E L req) (\<lambda>r t. \<exists>u pair. r = Inr (u, pair) \<and> users t = users s @ [u] \<and> us_Role u = ''customer''
     \<and> us_Email u = rg_Email req \<and> us_IsActive u \<and> bcrypt_compare L (us_PasswordHash u) (rg_Password req) \<and> opens_session E L u pair
     \<and> wp (LookupUserByEmail E (rg_Email req) body) (\<lambda>res t'.
          resp_Code res = (if ToLower (rg_Email req) = rg_Email req then 200 else 404)) t) s"
proof -
  have rel: "reliable E" using assms(1) by (rule can_issue_reliable)
  have hash: "length hash \<le> 60" "bcrypt_compare L hash (rg_Password req)" using assms(3,4) by (auto simp: bcrypt_laws_def)
  have none: "find_row (\<lambda>u. us_Email u = rg_Email req \<and> us_IsActive u) (users s) = None"
    "find_row (\<lambda>u. us_Email u = ToLower (rg_Email req) \<and> us_IsActive u) (users s) = None"
    using new by (simp_all add: no_such_address)
  show ?thesis
    using assms(2,4-8,11,12) hash none new(1)
    by (auto simp: Register_def rel Queries_GetUserByEmail_def row_result_def hash_password_def CreateUser_def Let_def longer_def pgTextFromString_def
      LookupUserByEmail_def GetUserByEmail_def find_row_append user_missing_def profile_failure_def response_defs
      intro!: wp_generateTokenPair [OF assms(1)])
qed

theorem registered_address_lookup_witness:
  "wp (Register calm_env demo_auth \<lparr>rg_Email = ''Bo@c.d'', rg_Password = ''password'', rg_FullName = ''Bo'', rg_Phone = [], rg_Role = ''admin''\<rparr>)
     (\<lambda>r t. is_ok r \<and> map us_Role (users t) = [''customer'', ''customer'']
       \<and> wp (LookupUserByEmail calm_env ''Bo@c.d'' []) (\<lambda>res t'. resp_Code res = 404) t) demo_accounts"
proof -
  have trim: "TrimSpace ''Bo@c.d'' = ''Bo@c.d''" "ToLower ''Bo@c.d'' = ''bo@c.d''" by code_simp+
  let ?req = "\<lparr>rg_Email = ''Bo@c.d'', rg_Password = ''password'', rg_FullName = ''Bo'', rg_Phone = [], rg_Role = ''admin''\<rparr>"
  have laws: "bcrypt_laws demo_auth" by (auto simp: bcrypt_laws_def split: if_splits)
  have "can_issue calm_env demo_auth 16 demo_accounts" by (simp add: can_issue_demo)
  from registered_address_lookup [OF this _ laws, of ?req "''password''" "[]"] show ?thesis
    by (auto simp: trim demo_user_def elim!: wp_mono)
qed

end
