(* ===== verification/Gate_Scan_Spec.thy ===== *)
theory Gate_Scan_Spec
  imports Gate_Scan
begin

text \<open>
  What the gate promises: a ticket is admitted at most once, however scans and synchronisations
  interleave and whatever fails; a ticket that is used stays used; a scan of a fresh ticket admits
  it and tells the ticket service, so that another gate refuses it; a ticket of another event is
  refused.
\<close>

section \<open>Used tickets\<close>

text \<open>The rows of this ticket exist and say it is used.\<close>

definition used_up :: "uuid \<Rightarrow> LocalTicket list \<Rightarrow> bool" where
  "used_up u rows \<longleftrightarrow> (\<exists>l \<in> set rows. lt_ID l = Some u) \<and> (\<forall>l \<in> set rows. lt_ID l = Some u \<longrightarrow> used_status (lt_Status l))"

lemma used_status_simps [simp]: "used_status ''CHECKED_IN''" "used_status ''USED''" "\<not> used_status ''ACTIVE''"
  by (simp_all add: used_status_def)

lemma insert_keeps_used: "used_up u rows \<Longrightarrow> used_up u (snd (insert_local l rows))"
  by (auto simp: insert_local_def used_up_def image_iff)

lemma update_rows_scannable_used:
  "used_up u rows \<Longrightarrow> used_up u (update_rows (scannable k) (\<lambda>r. r\<lparr>lt_Status := status\<rparr>) rows)"
  by (auto simp: used_up_def update_rows_def scannable_def)

lemma update_keeps_used: "used_up u rows \<Longrightarrow> used_up u (snd (update_local k status rows))"
  by (auto simp: update_local_def update_rows_scannable_used split: option.split)

text \<open>A successful check-in is of a ticket that was not used up and is now.\<close>

lemma check_in_uses:
  assumes "fst (update_local k ''CHECKED_IN'' rows) = Inr l"
  shows "\<exists>u. k = Some u \<and> lt_ID l = Some u \<and> \<not> used_up u rows \<and> used_up u (snd (update_local k ''CHECKED_IN'' rows))"
proof -
  obtain l0 where f: "find_row (scannable k) rows = Some l0"
    using assms by (auto simp: update_local_def split: option.splits)
  then have l0: "l0 \<in> set rows" "scannable k l0" by (auto dest: find_row_Some)
  then obtain u where u: "k = Some u" "lt_ID l0 = Some u" "\<not> used_status (lt_Status l0)" by (auto simp: scannable_def)
  have "l0\<lparr>lt_Status := ''CHECKED_IN''\<rparr> \<in> set (update_rows (scannable k) (\<lambda>r. r\<lparr>lt_Status := ''CHECKED_IN''\<rparr>) rows)"
    using l0 by (force simp: update_rows_def)
  then have "\<exists>l \<in> set (update_rows (scannable k) (\<lambda>r. r\<lparr>lt_Status := ''CHECKED_IN''\<rparr>) rows). lt_ID l = Some u"
    by (rule bexI [rotated]) (simp add: u(2))
  moreover have "used_status (lt_Status l)"
    if "l \<in> set (update_rows (scannable k) (\<lambda>r. r\<lparr>lt_Status := ''CHECKED_IN''\<rparr>) rows)" "lt_ID l = Some u" for l
    using that u(1) by (auto simp: update_rows_def scannable_def)
  ultimately have "used_up u (update_rows (scannable k) (\<lambda>r. r\<lparr>lt_Status := ''CHECKED_IN''\<rparr>) rows)"
    by (simp add: used_up_def)
  then show ?thesis using assms f l0 u by (auto simp: update_local_def used_up_def)
qed

section \<open>Interleavings\<close>

text \<open>
  Any number of gates, consumers and scans share one table: a run is any sequence of their writing
  statements, each with its result.
\<close>

datatype gate_stmt = Insert_stmt LocalTicket | Update_stmt "uuid option" string

fun exec_stmt :: "gate_stmt \<Rightarrow> LocalTicket list \<Rightarrow> (gerr + LocalTicket) \<times> LocalTicket list" where
  "exec_stmt (Insert_stmt l) rows = insert_local l rows"
| "exec_stmt (Update_stmt k status) rows = update_local k status rows"

inductive gate_run :: "LocalTicket list \<Rightarrow> (gate_stmt \<times> (gerr + LocalTicket)) list \<Rightarrow> LocalTicket list \<Rightarrow> bool" where
  gate_start: "gate_run rows [] rows"
| gate_step: "gate_run rows trace rows' \<Longrightarrow> exec_stmt st rows' = (r, rows'') \<Longrightarrow> gate_run rows (trace @ [(st, r)]) rows''"

inductive_cases gate_run_snocE: "gate_run rows (trace @ [x]) rows'"

definition admits :: "uuid \<Rightarrow> gate_stmt \<times> (gerr + LocalTicket) \<Rightarrow> bool" where
  "admits u x \<longleftrightarrow> fst x = Update_stmt (Some u) ''CHECKED_IN'' \<and> is_ok (snd x)"

lemma exec_keeps_used: "used_up u rows \<Longrightarrow> used_up u (snd (exec_stmt st rows))"
  by (cases st) (simp_all add: insert_keeps_used update_keeps_used)

lemma exec_admits:
  assumes "admits u (st, fst (exec_stmt st rows))"
  shows "\<not> used_up u rows \<and> used_up u (snd (exec_stmt st rows))"
proof -
  from assms obtain l where "st = Update_stmt (Some u) ''CHECKED_IN''" "fst (update_local (Some u) ''CHECKED_IN'' rows) = Inr l"
    by (auto simp: admits_def is_ok_def split: sum.splits)
  with check_in_uses show ?thesis by fastforce
qed

lemma gate_run_admissions:
  assumes "gate_run rows trace rows'"
  shows "length (filter (admits u) trace) = (if used_up u rows' \<and> filter (admits u) trace \<noteq> [] then 1 else 0) \<and>
    (used_up u rows \<longrightarrow> used_up u rows' \<and> filter (admits u) trace = [])"
  using assms
proof induction
  case (gate_step rows trace rows' st r rows'')
  have e: "r = fst (exec_stmt st rows')" "rows'' = snd (exec_stmt st rows')" using gate_step.hyps(2) by simp_all
  show ?case
  proof (cases "admits u (st, r)")
    case True
    then have "\<not> used_up u rows'" "used_up u rows''" using exec_admits [of u st rows'] by (simp_all add: e)
    then show ?thesis using gate_step.IH True by (auto split: if_splits)
  next
    case False
    have "used_up u rows' \<Longrightarrow> used_up u rows''" unfolding e by (rule exec_keeps_used)
    then show ?thesis using gate_step.IH False by (auto split: if_splits)
  qed
qed simp

section \<open>Scans under faults\<close>

definition used_in :: "uuid \<Rightarrow> 'z gate_db_scheme \<Rightarrow> bool" where
  "used_in u s \<longleftrightarrow> used_up u (local_tickets s)"

lemma used_in_tick_free: "tick_free (used_in u)"
  by (simp add: tick_free_def used_in_def)

lemma keeps_used_Create: "keeps (used_in u) (CreateLocalTicket E l)"
  unfolding CreateLocalTicket_def
  by (rule keeps_sql [OF used_in_tick_free]) (simp add: used_in_def case_prod_beta insert_keeps_used)

lemma keeps_used_Update: "keeps (used_in u) (UpdateLocalTicketStatus E k status)"
  unfolding UpdateLocalTicketStatus_def
  by (rule keeps_sql [OF used_in_tick_free]) (simp add: used_in_def case_prod_beta update_keeps_used)

lemma keeps_used_Sync: "keeps (used_in u) (SyncTicket E t e code status)"
  unfolding SyncTicket_def by (intro keeps_rules keeps_used_Create keeps_used_Update)

text \<open>The internal handlers of the ticket service only read.\<close>

lemma frame_ticket_reads:
  assumes "tick_free f"
  shows "unchanged f (GetTicketByCodeInternal E txt code)" "unchanged f (GetEventGateStatsInternal E txt event)"
proof -
  have r: "unchanged f (Queries_GetTicketByCode E c)" "unchanged f (GetTicket E t)" "unchanged f (ListTicketsByEvent E e)" for c t e
    unfolding read_statements by (rule frame_sql [OF assms]; simp)+
  show "unchanged f (GetTicketByCodeInternal E txt code)" "unchanged f (GetEventGateStatsInternal E txt event)"
    unfolding GetTicketByCodeInternal_def GetTicketByCode_def GetEventGateStatsInternal_def GetEventGateStats_def Let_def
    by (intro frame_rules r)+
qed

lemma keeps_used_refresh: "keeps (used_in u) (refresh_ticket E txt code event)"
proof -
  have "unchanged (used_in u) (http_internal (gate_env E) (GetTicketByCodeInternal E txt code))"
    by (intro frame_http_internal frame_ticket_reads used_in_tick_free)
  then have "keeps (used_in u) (http_internal (gate_env E) (GetTicketByCodeInternal E txt code))"
    unfolding unchanged_def keeps_def by blast
  then show ?thesis
    unfolding refresh_ticket_def copy_ticket_def Let_def by (intro keeps_rules keeps_used_Sync)
qed

lemma wp_local_ticket:
  assumes "\<And>r n. Q r (s\<lparr>tick := n\<rparr>)"
  shows "wp (local_ticket E code) Q s"
  using assms
  by (auto simp: local_ticket_def GetLocalTicketByCode_def GetLocalTicketByID_def sql_def wp_external split: outcome.split option.split sum.split)

lemma check_in_admits:
  "wp (check_in E code event) (\<lambda>r t. (\<forall>u. used_in u s \<longrightarrow> used_in u t) \<and>
     (r = Inr () \<longrightarrow> (\<exists>u. \<not> used_in u s \<and> used_in u t))) s"
proof -
  let ?Q = "\<lambda>r t. (\<forall>u. used_in u s \<longrightarrow> used_in u t) \<and> (r = Inr () \<longrightarrow> (\<exists>u. \<not> used_in u s \<and> used_in u t))"
  have upd: "wp (UpdateLocalTicketStatus E k ''CHECKED_IN'')
      (\<lambda>r t. (\<forall>u. used_in u s \<longrightarrow> used_in u t) \<and> (is_ok r \<longrightarrow> (\<exists>u. \<not> used_in u s \<and> used_in u t))) (s\<lparr>tick := n\<rparr>)" for k n
    by (cases "outcome E n")
      (auto simp: UpdateLocalTicketStatus_def sql_def wp_external used_in_def case_prod_beta update_keeps_used is_ok_def
        split: sum.splits dest!: check_in_uses)
  have admit: "wp (do { updated \<leftarrow> UpdateLocalTicketStatus E (lt_ID l) ''CHECKED_IN'';
      case updated of Inl e \<Rightarrow> err (Err_New ''ticket already used or invalid'')
      | Inr l' \<Rightarrow> do { Publish E ''ticket.scanned'' (uuid_String E (uuidFromPgUUID (lt_ID l'))) (scanned_event E l'); ok () } })
      ?Q (s\<lparr>tick := n\<rparr>)" for l n
    unfolding wp_bind
    by (rule wp_mono [OF upd]) (auto simp: Publish_def wp_external used_in_def split: sum.split outcome.split)
  show ?thesis
    unfolding check_in_def wp_bind
  proof (rule wp_local_ticket)
    fix r :: "gerr + LocalTicket" and n
    show "wp (case r of Inl e \<Rightarrow> err (Err_New ''ticket not found'')
        | Inr l \<Rightarrow> if other_event E event l then err (Err_New ''ticket belongs to another event'')
          else if used_status (lt_Status l) then err (Err_New ''ticket already used or invalid'')
          else do { updated \<leftarrow> UpdateLocalTicketStatus E (lt_ID l) ''CHECKED_IN'';
            case updated of Inl e \<Rightarrow> err (Err_New ''ticket already used or invalid'')
            | Inr l' \<Rightarrow> do { Publish E ''ticket.scanned'' (uuid_String E (uuidFromPgUUID (lt_ID l'))) (scanned_event E l'); ok () } }) ?Q
        (s\<lparr>tick := n\<rparr>)"
      using admit [of _ n] by (cases r) (auto simp del: wp_bind wp_bind_fun, simp_all add: used_in_def)
  qed
qed

lemma scan_admits:
  "wp (ScanTicket E txt code event) (\<lambda>r t. (\<forall>u. used_in u s \<longrightarrow> used_in u t) \<and>
     (r = Inr () \<longrightarrow> (\<exists>u. \<not> used_in u s \<and> used_in u t))) s"
proof -
  have refresh: "wp (refresh_ticket E txt code event) (\<lambda>_ t. \<forall>u. used_in u s \<longrightarrow> used_in u t) s"
    by (rule wpI) (blast dest: keepsD [OF keeps_used_refresh])
  show ?thesis
    unfolding ScanTicket_def wp_bind
  proof (rule wp_mono [OF refresh])
    fix foreign t assume t: "\<forall>u. used_in u s \<longrightarrow> used_in u t"
    show "wp (if foreign then err (Err_New ''ticket belongs to another event'') else check_in E code event)
        (\<lambda>r t. (\<forall>u. used_in u s \<longrightarrow> used_in u t) \<and> (r = Inr () \<longrightarrow> (\<exists>u. \<not> used_in u s \<and> used_in u t))) t"
    proof (cases foreign)
      case False
      have "wp (check_in E code event)
          (\<lambda>r t. (\<forall>u. used_in u s \<longrightarrow> used_in u t) \<and> (r = Inr () \<longrightarrow> (\<exists>u. \<not> used_in u s \<and> used_in u t))) t"
        by (rule wp_mono [OF check_in_admits]) (use t in blast)
      with False show ?thesis by simp
    qed (use t in simp)
  qed
qed

section \<open>A scan without faults\<close>

text \<open>What the ticket service answers for a code it knows.\<close>

lemma wp_ticket_by_code:
  assumes "reliable E" and "find_row (\<lambda>k. tk_TicketCode k = code) (tickets s) = Some tk"
    and "Q (Success 200 ''ticket retrieved'' (Some tk)) (s\<lparr>tick := Suc (tick s)\<rparr>)"
  shows "wp (GetTicketByCodeInternal E txt code) Q s"
  using assms by (simp add: GetTicketByCodeInternal_def GetTicketByCode_def Queries_GetTicketByCode_def)

lemma gate_env_simps [simp]:
  "outcome (gate_env E) = outcome E" "server_secret (gate_env E) = server_secret E" "app_env (gate_env E) = app_env E"
  "reliable (gate_env E) = reliable E"
  by (simp_all add: gate_env_def reliable_def)

lemma wp_http_gate:
  assumes "reliable E" and "secret_accepted (gate_env E)"
  shows "wp (http_internal (gate_env E) handler) Q s = wp handler (\<lambda>r. Q (Inr r)) (s\<lparr>tick := Suc (tick s)\<rparr>)"
  by (rule wp_http_internal) (simp_all add: assms)

text \<open>The columns of a ticket that the gate can store.\<close>

definition storable :: "Ticket \<Rightarrow> bool" where
  "storable tk \<longleftrightarrow> tk_ID tk \<noteq> uuid_Nil \<and> tk_TicketCode tk \<noteq> [] \<and> length (tk_TicketCode tk) \<le> 100 \<and>
     tk_Status tk \<noteq> [] \<and> length (tk_Status tk) \<le> 20"

definition local_row :: "Ticket \<Rightarrow> string \<Rightarrow> LocalTicket" where
  "local_row tk status = \<lparr>lt_ID = Some (tk_ID tk), lt_EventID = pgUUIDFromUUID (tk_EventID tk),
     lt_TicketCode = tk_TicketCode tk, lt_Status = status\<rparr>"

definition event_fits :: "env \<Rightarrow> Ticket \<Rightarrow> string \<Rightarrow> bool" where
  "event_fits E tk event \<longleftrightarrow> event = [] \<or> event = uuid_String E (tk_EventID tk)"

definition unknown_to_gate :: "Ticket \<Rightarrow> LocalTicket list \<Rightarrow> bool" where
  "unknown_to_gate tk rows \<longleftrightarrow> (\<forall>l \<in> set rows. lt_ID l \<noteq> Some (tk_ID tk) \<and> lt_TicketCode l \<noteq> tk_TicketCode tk)"

lemma refresh_new:
  assumes E: "reliable E" "secret_accepted (gate_env E)" "uuid_laws E"
    and tk: "find_row (\<lambda>k. tk_TicketCode k = code) (tickets s) = Some tk" "storable tk" "event_fits E tk event"
    and new: "unknown_to_gate tk (local_tickets s)"
    and post: "\<And>n. Q False (s\<lparr>tick := n, local_tickets := local_tickets s @ [local_row tk (tk_Status tk)]\<rparr>)"
  shows "wp (refresh_ticket E txt code event) Q s"
proof -
  have code: "tk_TicketCode tk = code" using find_row_Some [OF tk(1)] by simp
  have ins: "insert_local (local_row tk (tk_Status tk)) (local_tickets s) =
      (Inr (local_row tk (tk_Status tk)), local_tickets s @ [local_row tk (tk_Status tk)])"
    using tk(2) new by (auto simp: insert_local_def storable_def unknown_to_gate_def local_row_def image_iff)
  have ids: "pgUUIDFromUUID (tk_ID tk) = Some (tk_ID tk)" using tk(2) by (simp add: pgUUIDFromUUID_def storable_def)
  have sync: "wp (SyncTicket E (tk_ID tk) (tk_EventID tk) (tk_TicketCode tk) (tk_Status tk)) (\<lambda>r. Q False) (s\<lparr>tick := m\<rparr>)" for m
    using E(1) ins post by (simp add: SyncTicket_def CreateLocalTicket_def ids local_row_def)
  have copy: "wp (copy_ticket E code tk) (\<lambda>_. Q False) (s\<lparr>tick := m\<rparr>)" for m
    using tk(2) sync by (simp add: copy_ticket_def uuid_roundtrip [OF E(3)] storable_def)
  have tk': "find_row (\<lambda>k. tk_TicketCode k = code) (tickets (s\<lparr>tick := m\<rparr>)) = Some tk" for m using tk(1) by simp
  show ?thesis
    unfolding refresh_ticket_def wp_bind
    by (subst wp_http_gate [OF E(1,2)], rule wp_ticket_by_code [OF E(1) tk'])
      (use tk(3) uuid_String_nonempty [OF E(3)] copy in \<open>auto simp: Success_def Let_def event_fits_def\<close>)
qed

lemma find_new_row:
  assumes "unknown_to_gate tk rows"
  shows "find_row (\<lambda>l. lt_TicketCode l = tk_TicketCode tk) (rows @ [local_row tk st]) = Some (local_row tk st)"
    and "find_row (scannable (Some (tk_ID tk))) (rows @ [local_row tk st]) = (if used_status st then None else Some (local_row tk st))"
    and "update_rows (scannable (Some (tk_ID tk))) f (rows @ [local_row tk st]) =
      rows @ [if used_status st then local_row tk st else f (local_row tk st)]"
proof -
  have f: "find_row (\<lambda>l. lt_TicketCode l = tk_TicketCode tk) rows = None" "find_row (scannable (Some (tk_ID tk))) rows = None"
    using assms by (auto simp: find_row_None unknown_to_gate_def scannable_def)
  have "update_rows (scannable (Some (tk_ID tk))) f rows = rows"
    using assms by (intro map_idI [of rows "\<lambda>r. if scannable (Some (tk_ID tk)) r then f r else r", folded update_rows_def])
      (auto simp: unknown_to_gate_def scannable_def)
  then show "update_rows (scannable (Some (tk_ID tk))) f (rows @ [local_row tk st]) =
      rows @ [if used_status st then local_row tk st else f (local_row tk st)]"
    by (simp add: update_rows_def scannable_def local_row_def)
  show "find_row (\<lambda>l. lt_TicketCode l = tk_TicketCode tk) (rows @ [local_row tk st]) = Some (local_row tk st)"
    "find_row (scannable (Some (tk_ID tk))) (rows @ [local_row tk st]) = (if used_status st then None else Some (local_row tk st))"
    using f by (simp_all add: find_row_append local_row_def scannable_def)
qed

lemma event_fits_local:
  assumes "uuid_laws E" and "event_fits E tk event"
  shows "\<not> other_event E event (local_row tk st)"
  using assms uuid_roundtrip [OF assms(1)]
  by (auto simp: event_fits_def other_event_def local_row_def pgUUIDFromUUID_def uuidFromPgUUID_def split: if_splits)

text \<open>The message of an admission.\<close>

definition scan_message :: "env \<Rightarrow> Ticket \<Rightarrow> message" where
  "scan_message E tk = \<lparr>msg_Topic = ''ticket.scanned'', msg_Key = uuid_String E (tk_ID tk),
     msg_Value = Some (JObj [(''ticket_code'', JStr (tk_TicketCode tk)), (''ticket_id'', JStr (uuid_String E (tk_ID tk)))])\<rparr>"

text \<open>A scan of a ticket the gate has not seen, for the right event.\<close>

lemma wp_first_scan:
  assumes E: "reliable E" "secret_accepted (gate_env E)" "uuid_laws E"
    and tk: "find_row (\<lambda>k. tk_TicketCode k = code) (tickets s) = Some tk" "storable tk" "event_fits E tk event"
    and new: "unknown_to_gate tk (local_tickets s)"
    and admitted: "\<And>n. \<not> used_status (tk_Status tk) \<Longrightarrow> Q (Inr ()) (s\<lparr>tick := n, kafka := kafka s @ [scan_message E tk],
      local_tickets := local_tickets s @ [local_row tk ''CHECKED_IN'']\<rparr>)"
    and refused: "\<And>n. used_status (tk_Status tk) \<Longrightarrow> Q (Inl (Err_New ''ticket already used or invalid''))
      (s\<lparr>tick := n, local_tickets := local_tickets s @ [local_row tk (tk_Status tk)]\<rparr>)"
  shows "wp (ScanTicket E txt code event) Q s"
proof -
  have code: "tk_TicketCode tk = code" using find_row_Some [OF tk(1)] by simp
  note row = find_new_row [OF new, unfolded code] and fits = event_fits_local [OF E(3) tk(3)]
  have id: "lt_ID (local_row tk st) = Some (tk_ID tk)" "lt_Status (local_row tk st) = st"
    "(local_row tk st)\<lparr>lt_Status := st'\<rparr> = local_row tk st'" "lt_TicketCode (local_row tk st) = tk_TicketCode tk" for st st'
    by (simp_all add: local_row_def)
  have "wp (check_in E code event) Q (s\<lparr>tick := m, local_tickets := local_tickets s @ [local_row tk (tk_Status tk)]\<rparr>)" for m
    using E(1) admitted refused
    by (simp add: check_in_def local_ticket_def GetLocalTicketByCode_def UpdateLocalTicketStatus_def row fits id update_local_def
        uuidFromPgUUID_def scan_message_def scanned_event_def Marshal_def)
  then show ?thesis
    unfolding ScanTicket_def wp_bind by (intro refresh_new [OF E tk new]) simp
qed

section \<open>Properties\<close>

text \<open>A gate that knows no ticket yet, and one ticket of order 11.\<close>

definition demo_gate :: gate_db where
  "demo_gate = \<lparr>tick = 0, redis = Map.empty, kafka = [], ticket_types = [], events = [], orders = [], order_items = [],
     tickets = [demo_ticket 21, demo_ticket 22], withdrawals = [], local_tickets = []\<rparr>"

lemma unknown_to_empty [simp]: "unknown_to_gate tk []"
  by (simp add: unknown_to_gate_def)

lemma demo_gate_simps [simp]:
  "find_row (\<lambda>k. tk_TicketCode k = demo_name 22) (tickets demo_gate) = Some (demo_ticket 22)" "storable (demo_ticket 22)"
  "event_fits still_env (demo_ticket 22) (demo_name 2)" "unknown_to_gate tk (local_tickets demo_gate)"
  "secret_accepted (gate_env still_env)" "local_tickets demo_gate = []"
  by (simp_all add: demo_gate_def storable_def demo_name_def event_fits_def unknown_to_gate_def gate_env_def still_env_def
      secret_accepted_def)

text \<open>
  C2. No ticket is admitted twice. Whatever gates, consumers and scans share the table, and however
  their statements interleave, at most one check-in of a ticket succeeds, and none does once the
  ticket is used.
\<close>

theorem no_double_admission:
  assumes "gate_run rows trace rows'"
  shows "length (filter (admits u) trace) \<le> 1 \<and> (used_up u rows \<longrightarrow> filter (admits u) trace = [])"
  using gate_run_admissions [OF assms, of u] by simp

theorem no_double_admission_witness:
  "gate_run [local_row (demo_ticket 22) ''ACTIVE'']
     [(Update_stmt (Some 22) ''CHECKED_IN'', Inr (local_row (demo_ticket 22) ''CHECKED_IN'')),
      (Update_stmt (Some 22) ''CHECKED_IN'', Inl ErrNoRows)] [local_row (demo_ticket 22) ''CHECKED_IN''] \<and>
   length (filter (admits 22) [(Update_stmt (Some 22) ''CHECKED_IN'', Inr (local_row (demo_ticket 22) ''CHECKED_IN'')),
      (Update_stmt (Some 22) ''CHECKED_IN'', Inl ErrNoRows)]) \<le> 1"
    (is "gate_run ?r0 [(?st, ?a), (?st, ?b)] ?r1 \<and> _")
proof -
  have e: "exec_stmt ?st ?r0 = (?a, ?r1)" "exec_stmt ?st ?r1 = (?b, ?r1)"
    by (simp_all add: update_local_def scannable_def local_row_def)
  have "gate_run ?r0 (([] @ [(?st, ?a)]) @ [(?st, ?b)]) ?r1"
    by (rule gate_run.gate_step [OF gate_run.gate_step [OF gate_start e(1)] e(2)])
  then have run: "gate_run ?r0 [(?st, ?a), (?st, ?b)] ?r1" by simp
  show ?thesis using run no_double_admission [OF run, of 22] by (intro conjI) (assumption, blast)
qed

text \<open>
  Every successful scan uses up a ticket, under every schedule of faults: tickets that were used
  stay used, and when \<open>ScanTicket\<close> succeeds there is a ticket that was not used up before and is
  afterwards.
\<close>

theorem scan_uses_a_ticket:
  shows "wp (ScanTicket E txt code event) (\<lambda>r t. (\<forall>u. used_in u s \<longrightarrow> used_in u t) \<and>
    (r = Inr () \<longrightarrow> (\<exists>u. \<not> used_in u s \<and> used_in u t))) s"
  by (rule scan_admits)

theorem scan_uses_a_ticket_witness:
  "wp (ScanTicket (still_env\<lparr>outcome := (\<lambda>n. if n = 2 then Lost_reply else Delivered)\<rparr>) (\<lambda>_. []) (demo_name 22) [])
     (\<lambda>r t. r = Inr () \<longrightarrow> (\<exists>u. used_in u t)) demo_gate"
  by (rule wp_mono [OF scan_uses_a_ticket]) blast

text \<open>
  The first scan of a ticket at a gate decides by the ticket service: for a storable ticket with
  the scanned code, for the right event or none, it succeeds exactly when the ticket is not used yet;
  then the gate stores it checked in and publishes \<open>ticket.scanned\<close>; nothing else changes.
\<close>

theorem first_scan:
  assumes "reliable E" and "secret_accepted (gate_env E)" and "uuid_laws E"
    and "find_row (\<lambda>k. tk_TicketCode k = code) (tickets s) = Some tk" and "storable tk" and "event_fits E tk event"
    and "unknown_to_gate tk (local_tickets s)"
  shows "wp (ScanTicket E txt code event)
    (\<lambda>r t. if used_status (tk_Status tk)
       then r = Inl (Err_New ''ticket already used or invalid'') \<and>
         same_but_tick (s\<lparr>local_tickets := local_tickets s @ [local_row tk (tk_Status tk)]\<rparr>) t
       else r = Inr () \<and>
         same_but_tick (s\<lparr>kafka := kafka s @ [scan_message E tk], local_tickets := local_tickets s @ [local_row tk ''CHECKED_IN'']\<rparr>) t) s"
  by (rule wp_first_scan [OF assms]) (simp_all add: same_but_tick_def)

theorem first_scan_witness:
  "wp (ScanTicket still_env (\<lambda>_. []) (demo_name 22) (demo_name 2)) (\<lambda>r t. r = Inr ()) demo_gate"
  by (rule wp_mono [OF first_scan [where tk = "demo_ticket 22"]]) simp_all

text \<open>
  A ticket of another event is refused: when the gate asks for an event other than the one the
  ticket service names, \<open>ScanTicket\<close> fails and nothing changes.
\<close>

theorem foreign_ticket_refused:
  assumes "reliable E" and "secret_accepted (gate_env E)" and "uuid_laws E"
    and "find_row (\<lambda>k. tk_TicketCode k = code) (tickets s) = Some tk" and "event \<noteq> []" and "event \<noteq> uuid_String E (tk_EventID tk)"
  shows "wp (ScanTicket E txt code event)
    (\<lambda>r t. r = Inl (Err_New ''ticket belongs to another event'') \<and> same_but_tick s t) s"
proof -
  have tk: "find_row (\<lambda>k. tk_TicketCode k = code) (tickets (s\<lparr>tick := m\<rparr>)) = Some tk" for m using assms(4) by simp
  show ?thesis
    unfolding ScanTicket_def refresh_ticket_def wp_bind
    by (subst wp_http_gate [OF assms(1,2)], rule wp_ticket_by_code [OF assms(1) tk])
      (use assms(5,6) uuid_String_nonempty [OF assms(3)] in \<open>auto simp: Success_def Let_def\<close>)
qed

theorem foreign_ticket_refused_witness:
  "wp (ScanTicket still_env (\<lambda>_. []) (demo_name 22) (demo_name 3)) (\<lambda>r t. \<not> is_ok r) demo_gate"
  by (rule wp_mono [OF foreign_ticket_refused [where tk = "demo_ticket 22"]]) (simp_all add: demo_ticket_def)

lemma find_row_updated:
  "(\<And>r. p (f r) = p r) \<Longrightarrow> find_row p (update_rows q f rows) = map_option (\<lambda>r. if q r then f r else r) (find_row p rows)"
  by (induction rows) auto

definition at_gate :: "LocalTicket list \<Rightarrow> ('z gate_db_scheme, unit) state" where
  "at_gate rows = State (\<lambda>s. ((), s\<lparr>local_tickets := rows\<rparr>))"

text \<open>
  Two gates do not admit the same ticket once the first one has told the ticket service: when a
  scan at one gate has succeeded and the ticket service has consumed its message, a scan at another
  gate, with a table of its own that does not know the ticket, is refused.
\<close>

theorem second_gate_refuses:
  fixes s :: "'z gate_db_scheme"
  assumes "reliable E" and "secret_accepted (gate_env E)" and "uuid_laws E"
    and "find_row (\<lambda>k. tk_TicketCode k = code) (tickets s) = Some tk" and "storable tk" and "\<not> used_status (tk_Status tk)"
    and "event_fits E tk event" and "event_fits E tk event'"
    and "unknown_to_gate tk (local_tickets s)" and "unknown_to_gate tk other"
  shows "wp (do { a \<leftarrow> ScanTicket E txt code event; EventConsumer_HandleMessage E (scan_message E tk);
       at_gate other; b \<leftarrow> ScanTicket E txt code event'; ret (a, b) })
    (\<lambda>(a, b) t. a = Inr () \<and> b = Inl (Err_New ''ticket already used or invalid'')) s"
proof -
  have code: "tk_TicketCode tk = code" using find_row_Some [OF assms(4)] by simp
  have second: "wp (ScanTicket E txt code event') (\<lambda>b t. b = Inl (Err_New ''ticket already used or invalid''))
      (u\<lparr>local_tickets := other\<rparr>)"
    if u: "tickets u = update_rows (\<lambda>r. tk_ID r = tk_ID tk) (ticket_status_row now ''USED'') (tickets s)" for u :: "'z gate_db_scheme" and now
  proof -
    let ?tk = "ticket_status_row now ''USED'' tk"
    have f: "find_row (\<lambda>k. tk_TicketCode k = code) (tickets (u\<lparr>local_tickets := other\<rparr>)) = Some ?tk"
      using assms(4) by (simp add: u find_row_updated ticket_status_row_def)
    have "storable ?tk" "event_fits E ?tk event'" "unknown_to_gate ?tk (local_tickets (u\<lparr>local_tickets := other\<rparr>))"
      using assms(5,8,10) by (simp_all add: storable_def event_fits_def unknown_to_gate_def ticket_status_row_def)
    then show ?thesis
      by (rule wp_first_scan [OF assms(1-3) f]) (simp_all add: ticket_status_row_def)
  qed
  show ?thesis
    unfolding wp_bind
    by (rule wp_first_scan [OF assms(1-5,7,9)])
      (use assms(1,4,6) code second in \<open>simp_all add: EventConsumer_HandleMessage_def scan_message_def Queries_GetTicketByCode_def
        UpdateTicketStatus_def at_gate_def\<close>)
qed

theorem second_gate_refuses_witness:
  "wp (do { a \<leftarrow> ScanTicket still_env (\<lambda>_. []) (demo_name 22) (demo_name 2);
       EventConsumer_HandleMessage still_env (scan_message still_env (demo_ticket 22));
       at_gate []; b \<leftarrow> ScanTicket still_env (\<lambda>_. []) (demo_name 22) []; ret (a, b) })
    (\<lambda>(a, b) t. a = Inr () \<and> \<not> is_ok b) demo_gate"
  by (rule wp_mono [OF second_gate_refuses [where tk = "demo_ticket 22"]]) (auto simp: event_fits_def)

end
