(* ===== verification/Ticket_Organizer.thy ===== *)
theory Ticket_Organizer
  imports Gate_Scan_Spec
begin

text \<open>
  What an organizer sees (\<open>service/order_service.go\<close>, \<open>service/withdrawal_service.go\<close>): the events of
  an organizer, asked from the event service over HTTP; sales statistics, orders and their details;
  the balance of an organizer, withdrawal requests, and the administration of withdrawals.
  \<open>fee\<close> is the field \<open>platformFeePercent\<close> of the service.
\<close>

section \<open>The events of an organizer\<close>

text \<open>\<open>pgUUIDFromString\<close> of the event service: the empty string is no uuid.\<close>

definition pgUUIDFromString :: "env \<Rightarrow> string \<Rightarrow> uuid option" where
  "pgUUIDFromString E v = (if v = [] then None else uuid_Parse E v)"

definition GetEventIDsByOrganizer :: "env \<Rightarrow> string \<Rightarrow> ('z event_db_scheme, string list) go" where
  "GetEventIDsByOrganizer E org_str =
     (case pgUUIDFromString E org_str of
        None \<Rightarrow> err ErrUnauthorized
      | Some org \<Rightarrow> bindE (Err_Wrap ''failed to list event IDs'') (ListEventIDsByOrganizer E org)
          (\<lambda>ids. ok (map (uuid_String E) ids)))"

definition GetInternalEventIDs :: "env \<Rightarrow> string \<Rightarrow> ('z event_db_scheme, string list response) state" where
  "GetInternalEventIDs E org_str = do {
     r \<leftarrow> GetEventIDsByOrganizer E org_str;
     ret (case r of Inl e \<Rightarrow> InternalError ''failed to get event IDs'' | Inr ids \<Rightarrow> Success 200 ''event IDs retrieved'' (Some ids)) }"

definition FetchOrganizerEventIDs :: "env \<Rightarrow> string \<Rightarrow> ('z event_db_scheme, string list) go" where
  "FetchOrganizerEventIDs E org_str =
     check (http_internal E (GetInternalEventIDs E org_str))
       (\<lambda>r. if resp_Code r \<noteq> 200 then err (Err_Status (resp_Code r))
            else case resp_Data r of None \<Rightarrow> ok [] | Some ids \<Rightarrow> ok ids)"

text \<open>The loop that parses the identifiers and skips what does not parse.\<close>

definition parsed_ids :: "env \<Rightarrow> string list \<Rightarrow> uuid list" where
  "parsed_ids E ids = List.map_filter (uuid_Parse E) ids"

section \<open>Statistics and orders of an organizer\<close>

definition no_stats :: OrganizerStats where
  "no_stats = \<lparr>os_TotalOrders = 0, os_TotalRevenue = NumNull, os_TicketsSold = 0\<rparr>"

definition GetDashboardStats :: "env \<Rightarrow> string \<Rightarrow> ('z ticket_db_scheme, OrganizerStats) go" where
  "GetDashboardStats E org_str = check (FetchOrganizerEventIDs E org_str)
     (\<lambda>ids. if ids = [] then ok no_stats else GetOrganizerStats E (parsed_ids E ids))"

text \<open>\<open>int32(perPage)\<close> and \<open>int32(offset)\<close> keep the low 32 bits.\<close>

definition page_offset :: "int \<Rightarrow> int \<Rightarrow> int32" where
  "page_offset page per_page = word_of_int ((page - 1) * per_page)"

definition ListOrganizerOrders :: "env \<Rightarrow> string \<Rightarrow> int \<Rightarrow> int \<Rightarrow> ('z ticket_db_scheme, Order list) go" where
  "ListOrganizerOrders E org_str page per_page = check (FetchOrganizerEventIDs E org_str)
     (\<lambda>ids. if ids = [] then ok []
            else ListOrdersByEvents E (parsed_ids E ids) (word_of_int per_page) (page_offset page per_page))"

definition GetSalesTrend :: "env \<Rightarrow> string \<Rightarrow> ('z ticket_db_scheme, DailySales list) go" where
  "GetSalesTrend E org_str = check (FetchOrganizerEventIDs E org_str)
     (\<lambda>ids. if ids = [] then ok [] else GetDailySalesTrend E (parsed_ids E ids))"

definition GetOrganizerOrder :: "env \<Rightarrow> string \<Rightarrow> string \<Rightarrow> ('z ticket_db_scheme, Order \<times> OrderItem list \<times> Ticket list) go" where
  "GetOrganizerOrder E order_str org_str =
     (case uuid_Parse E order_str of
        None \<Rightarrow> err (Err_Wrap ''invalid order id'' ErrParse)
      | Some oid \<Rightarrow>
          bindE (Err_Wrap ''failed to get order'') (GetOrder E oid) (\<lambda>order.
          bindE (Err_Wrap ''failed to fetch organizer events'') (FetchOrganizerEventIDs E org_str) (\<lambda>ids.
            if uuid_String E (o_EventID order) \<notin> set ids then err (Err_New ''unauthorized to access this order'')
            else bindE (Err_Wrap ''failed to list order items'') (ListOrderItems E oid) (\<lambda>items.
                 bindE (Err_Wrap ''failed to list tickets'') (ListTicketsByOrder E oid) (\<lambda>tks.
                   ok (order, items, tks))))))"

section \<open>Balance\<close>

definition GetPlatformFeePercent :: "f64 \<Rightarrow> f64" where
  "GetPlatformFeePercent fee = (if fle fee (Fin 0) then Fin 5 else fee)"

text \<open>The field as \<open>NewTicketService\<close> sets it; \<open>parsed\<close> is what \<open>strconv.ParseFloat\<close> makes of
  \<open>PLATFORM_FEE_PERCENT\<close>, \<open>None\<close> when it is unset or does not parse.\<close>

definition configured_fee :: "f64 option \<Rightarrow> f64" where
  "configured_fee parsed = (case parsed of None \<Rightarrow> Fin 5 | Some x \<Rightarrow> if fle (Fin 0) x then x else Fin 5)"

definition float64ToNumeric :: "f64 \<Rightarrow> numeric" where
  "float64ToNumeric x = numeric_of_f64 2 x"

definition numericToFloat64 :: "numeric \<Rightarrow> f64" where
  "numericToFloat64 n = (case Float64Value n of None \<Rightarrow> Fin 0 | Some x \<Rightarrow> x)"

definition at_least_zero :: "f64 \<Rightarrow> f64" where
  "at_least_zero x = (if flt x (Fin 0) then Fin 0 else x)"

definition fee_amount :: "f64 \<Rightarrow> f64 \<Rightarrow> f64" where
  "fee_amount fee gross = fmul gross (fdiv (GetPlatformFeePercent fee) (Fin 100))"

definition net_revenue :: "f64 \<Rightarrow> OrganizerStats \<Rightarrow> f64" where
  "net_revenue fee stats = (let gross = numericToFloat64 (os_TotalRevenue stats) in at_least_zero (fsub gross (fee_amount fee gross)))"

definition available_balance :: "f64 \<Rightarrow> OrganizerStats \<Rightarrow> WithdrawnSummary \<Rightarrow> f64" where
  "available_balance fee stats summary =
     at_least_zero (fsub (net_revenue fee stats) (numericToFloat64 (ws_TotalDeducted summary)))"

record OrganizerBalanceResponse =
  ob_GrossRevenue :: f64
  ob_PlatformFeePercent :: f64
  ob_PlatformFeeAmount :: f64
  ob_NetRevenue :: f64
  ob_TotalRevenue :: f64
  ob_TotalWithdrawn :: f64
  ob_AvailableBalance :: f64
  ob_PendingAmount :: f64
  ob_PaidAmount :: f64
  ob_TotalRequests :: int

definition balance_response :: "f64 \<Rightarrow> OrganizerStats \<Rightarrow> WithdrawnSummary \<Rightarrow> OrganizerBalanceResponse" where
  "balance_response fee stats summary = (let gross = numericToFloat64 (os_TotalRevenue stats) in
     \<lparr>ob_GrossRevenue = gross, ob_PlatformFeePercent = GetPlatformFeePercent fee, ob_PlatformFeeAmount = fee_amount fee gross,
      ob_NetRevenue = net_revenue fee stats, ob_TotalRevenue = net_revenue fee stats,
      ob_TotalWithdrawn = numericToFloat64 (ws_TotalDeducted summary), ob_AvailableBalance = available_balance fee stats summary,
      ob_PendingAmount = numericToFloat64 (ws_PendingAmount summary), ob_PaidAmount = numericToFloat64 (ws_PaidAmount summary),
      ob_TotalRequests = ws_TotalRequests summary\<rparr>)"

definition GetOrganizerBalance :: "env \<Rightarrow> f64 \<Rightarrow> string \<Rightarrow> ('z ticket_db_scheme, OrganizerBalanceResponse) go" where
  "GetOrganizerBalance E fee org_str =
     (case uuid_Parse E org_str of
        None \<Rightarrow> err (Err_Wrap ''invalid organizer id'' ErrParse)
      | Some org \<Rightarrow>
          bindE (Err_Wrap ''failed to fetch organizer stats'') (GetDashboardStats E org_str) (\<lambda>stats.
          bindE (Err_Wrap ''failed to fetch withdrawal summary'') (GetWithdrawnSummaryByOrganizer E org) (\<lambda>summary.
            ok (balance_response fee stats summary))))"

section \<open>Withdrawal requests\<close>

record CreateWithdrawalRequest =
  wr_Amount :: f64
  wr_BankName :: string
  wr_AccountNumber :: string
  wr_AccountName :: string
  wr_Notes :: string

definition text_or_null :: "string \<Rightarrow> string option" where
  "text_or_null v = (if v = [] then None else Some v)"

text \<open>The checks before the row is written, with the summary read inside the transaction: the
  transaction takes no lock, so it reads what is committed.\<close>

definition withdrawal_check :: "env \<Rightarrow> f64 \<Rightarrow> string \<Rightarrow> uuid \<Rightarrow> CreateWithdrawalRequest \<Rightarrow> ('z ticket_db_scheme, unit) go" where
  "withdrawal_check E fee org_str org req =
     bindE (Err_Wrap ''failed to fetch organizer stats'') (GetDashboardStats E org_str) (\<lambda>stats.
     bindE (Err_Wrap ''failed to fetch withdrawal summary'') (GetWithdrawnSummaryByOrganizer E org) (\<lambda>summary.
       if flt (available_balance fee stats summary) (wr_Amount req) then err ErrInsufficientBalance else ok ()))"

text \<open>The row, written in the transaction that began at \<open>began\<close> (the time \<open>NOW()\<close> gives throughout) and
  kept when the commit takes effect.\<close>

definition tx_CreateWithdrawal ::
    "env \<Rightarrow> time \<Rightarrow> uuid \<Rightarrow> CreateWithdrawalRequest \<Rightarrow> ('z ticket_db_scheme, Withdrawal) go" where
  "tx_CreateWithdrawal E began org req = sql E (\<lambda>now u s.
     case decimal_15_2 (float64ToNumeric (wr_Amount req)) of
       Inl e \<Rightarrow> (Inl e, s)
     | Inr a \<Rightarrow>
         if 100 < length (wr_BankName req) \<or> 100 < length (wr_AccountNumber req) \<or> 150 < length (wr_AccountName req)
           then (Inl ErrOutOfRange, s)
         else if u \<in> w_ID ` set (withdrawals s) then (Inl ErrConstraint, s)
         else (Inr \<lparr>w_ID = u, w_OrganizerID = org, w_Amount = a, w_BankName = wr_BankName req,
                    w_AccountNumber = wr_AccountNumber req, w_AccountName = wr_AccountName req, w_Status = ''PENDING'',
                    w_RejectionReason = None, w_Notes = text_or_null (wr_Notes req), w_CreatedAt = pg_time began,
                    w_UpdatedAt = pg_time began\<rparr>, s))"

definition tx_Commit :: "env \<Rightarrow> Withdrawal \<Rightarrow> ('z ticket_db_scheme, unit) go" where
  "tx_Commit E w = external E (\<lambda>n. State (\<lambda>s. (Inr (), s\<lparr>withdrawals := withdrawals s @ [w]\<rparr>)))"

definition withdrawal_store :: "env \<Rightarrow> time \<Rightarrow> uuid \<Rightarrow> CreateWithdrawalRequest \<Rightarrow> ('z ticket_db_scheme, Withdrawal) go" where
  "withdrawal_store E began org req =
     bindE (Err_Wrap ''failed to create withdrawal'') (tx_CreateWithdrawal E began org req) (\<lambda>w.
     bindE (Err_Wrap ''failed to commit transaction'') (tx_Commit E w) (\<lambda>u. ok w))"

definition tx_Begin :: "env \<Rightarrow> ('z ticket_db_scheme, time) go" where
  "tx_Begin E = external E (\<lambda>n. ok (clock E n))"

text \<open>\<open>has_pool\<close> is \<open>s.pool != nil\<close>; without a pool the statements run on their own.\<close>

definition RequestWithdrawal :: "env \<Rightarrow> f64 \<Rightarrow> bool \<Rightarrow> string \<Rightarrow> CreateWithdrawalRequest \<Rightarrow> ('z ticket_db_scheme, Withdrawal) go" where
  "RequestWithdrawal E fee has_pool org_str req =
     (case uuid_Parse E org_str of
        None \<Rightarrow> err (Err_Wrap ''invalid organizer id'' ErrParse)
      | Some org \<Rightarrow>
          if flt (wr_Amount req) (Fin 10000) then err ErrInvalidAmount
          else if has_pool then
            bindE (Err_Wrap ''failed to begin transaction'') (tx_Begin E) (\<lambda>began.
            check (withdrawal_check E fee org_str org req) (\<lambda>u. withdrawal_store E began org req))
          else check (GetOrganizerBalance E fee org_str) (\<lambda>balance.
            if flt (ob_AvailableBalance balance) (wr_Amount req) then err ErrInsufficientBalance
            else bindE (Err_Wrap ''failed to create withdrawal'')
              (CreateWithdrawal E org (float64ToNumeric (wr_Amount req)) (wr_BankName req) (wr_AccountNumber req)
                 (wr_AccountName req) (text_or_null (wr_Notes req)) ''PENDING'') ok))"

section \<open>Lists, details and administration\<close>

definition page_or_first :: "int \<Rightarrow> int" where
  "page_or_first page = (if page < 1 then 1 else page)"

definition per_page_or_default :: "int \<Rightarrow> int \<Rightarrow> int" where
  "per_page_or_default fallback per_page = (if per_page < 1 \<or> 100 < per_page then fallback else per_page)"

definition ListOrganizerWithdrawals :: "env \<Rightarrow> string \<Rightarrow> int \<Rightarrow> int \<Rightarrow> ('z ticket_db_scheme, Withdrawal list) go" where
  "ListOrganizerWithdrawals E org_str page per_page =
     (case uuid_Parse E org_str of
        None \<Rightarrow> err (Err_Wrap ''invalid organizer id'' ErrParse)
      | Some org \<Rightarrow> (let p = page_or_first page; n = per_page_or_default 20 per_page
          in ListWithdrawalsByOrganizer E org (word_of_int n) (page_offset p n)))"

definition GetOrganizerWithdrawalDetail :: "env \<Rightarrow> string \<Rightarrow> string \<Rightarrow> ('z ticket_db_scheme, Withdrawal) go" where
  "GetOrganizerWithdrawalDetail E w_str org_str =
     (case uuid_Parse E w_str of
        None \<Rightarrow> err (Err_Wrap ''invalid withdrawal id'' ErrParse)
      | Some wid \<Rightarrow>
     (case uuid_Parse E org_str of
        None \<Rightarrow> err (Err_Wrap ''invalid organizer id'' ErrParse)
      | Some org \<Rightarrow> bindE (\<lambda>e. ErrWithdrawalNotFound) (GetWithdrawal E wid)
          (\<lambda>w. if w_OrganizerID w \<noteq> org then err ErrUnauthorizedAccess else ok w)))"

definition AdminListWithdrawals :: "env \<Rightarrow> string \<Rightarrow> int \<Rightarrow> int \<Rightarrow> ('z ticket_db_scheme, Withdrawal list) go" where
  "AdminListWithdrawals E status page per_page = (let p = page_or_first page; n = per_page_or_default 20 per_page in
     if status \<noteq> [] then ListWithdrawalsByStatus E status (word_of_int n) (page_offset p n)
     else ListAllWithdrawals E (word_of_int n) (page_offset p n))"

record UpdateWithdrawalStatusRequest =
  uw_Status :: string
  uw_RejectionReason :: string

definition AdminUpdateWithdrawalStatus :: "env \<Rightarrow> string \<Rightarrow> UpdateWithdrawalStatusRequest \<Rightarrow> ('z ticket_db_scheme, Withdrawal) go" where
  "AdminUpdateWithdrawalStatus E w_str req =
     (case uuid_Parse E w_str of
        None \<Rightarrow> err (Err_Wrap ''invalid withdrawal id'' ErrParse)
      | Some wid \<Rightarrow> bindE (Err_Wrap ''failed to update withdrawal'')
          (UpdateWithdrawalStatus E wid (uw_Status req) (text_or_null (uw_RejectionReason req))) ok)"

record AdminPlatformStatsResponse =
  ap_TotalGMV :: f64
  ap_PlatformFeePercent :: f64
  ap_TotalPlatformRevenue :: f64
  ap_TotalWithdrawnPaid :: f64
  ap_PendingWithdrawals :: f64
  ap_TotalPaidOrdersCount :: int
  ap_PendingRequestsCount :: int

definition GetAdminPlatformStats :: "env \<Rightarrow> f64 \<Rightarrow> ('z ticket_db_scheme, AdminPlatformStatsResponse) go" where
  "GetAdminPlatformStats E fee =
     bindE (Err_Wrap ''failed to fetch platform GMV'') (GetPlatformTotalGMV E) (\<lambda>(gmv, paid_orders).
     bindE (Err_Wrap ''failed to fetch platform withdrawal summary'') (GetPlatformWithdrawalSummary E) (\<lambda>sm.
       ok \<lparr>ap_TotalGMV = numericToFloat64 gmv, ap_PlatformFeePercent = GetPlatformFeePercent fee,
           ap_TotalPlatformRevenue = fee_amount fee (numericToFloat64 gmv),
           ap_TotalWithdrawnPaid = numericToFloat64 (pw_TotalPaidAmount sm),
           ap_PendingWithdrawals = numericToFloat64 (pw_PendingAmount sm),
           ap_TotalPaidOrdersCount = paid_orders, ap_PendingRequestsCount = pw_PendingCount sm\<rparr>))"

end
