(* ===== verification/Ticket_Handlers.thy ===== *)
theory Ticket_Handlers
  imports Ticket_Organizer Http_Session
begin

text \<open>
  The HTTP handlers of the ticket service (\<open>handler/order_handler.go\<close>, \<open>handler/ticket_handler.go\<close>,
  \<open>handler/withdrawal_handler.go\<close>) and the routes that guard them (\<open>handler/routes.go\<close>). A request body is
  \<open>None\<close> when it does not decode into the request type; the \<open>binding\<close> tags are the functions \<open>bind_*\<close>.
\<close>

section \<open>The user of a request\<close>

text \<open>The two checks of the withdrawal handlers.\<close>

definition with_organizer :: "session \<Rightarrow> (string \<Rightarrow> ('s, 'd response) state) \<Rightarrow> ('s, 'd response) state" where
  "with_organizer ss handler = (case auth_user ss of
       None \<Rightarrow> ret (Error 401 ''unauthorized'')
     | Some u \<Rightarrow> if u = [] then ret (Error 401 ''invalid organizer session'') else handler u)"

definition with_admin :: "session \<Rightarrow> ('s, 'd response) state \<Rightarrow> ('s, 'd response) state" where
  "with_admin ss handler = (if auth_role ss \<noteq> Some ''admin''
     then ret (Forbidden ''insufficient permissions: admin role required'') else handler)"

section \<open>Orders\<close>

definition bind_create_order :: "CreateOrderRequest option \<Rightarrow> gerr + CreateOrderRequest" where
  "bind_create_order body = (case body of None \<Rightarrow> Inl ErrBinding
     | Some req \<Rightarrow> if req_EventID req = [] \<or> req_TicketTypeID req = [] \<or> sint (req_Quantity req) < 1 \<or> req_Price req = Fin 0
         then Inl ErrBinding else Inr req)"

definition create_order_failure :: "(gerr \<Rightarrow> string) \<Rightarrow> gerr \<Rightarrow> Order response" where
  "create_order_failure lib e = (let m = error_text lib e in
     if errors_Is e ErrSoldOut then Error 409 m
     else if errors_Is e ErrActivePendingOrderExists then Error 409 m
     else if errors_Is e ErrSaleEnded \<or> errors_Is e ErrSaleNotStarted \<or> errors_Is e ErrEventEnded \<or> errors_Is e ErrTicketInactive
       then Error 409 m
     else if errors_Is e ErrOrderProcessing then Error 429 m
     else InternalError m)"

text \<open>\<open>idem\<close> is the header \<open>Idempotency-Key\<close>; \<open>None\<close> is a queue that did not settle within the fuel.\<close>

definition Handler_CreateOrder ::
    "nat \<Rightarrow> env \<Rightarrow> (gerr \<Rightarrow> string) \<Rightarrow> session \<Rightarrow> string \<Rightarrow> CreateOrderRequest option \<Rightarrow>
     ('z ticket_db_scheme, Order response option) state" where
  "Handler_CreateOrder fuel E lib ss idem body =
     (if session_user ss = [] then ret (Some (Error 401 ''unauthorized''))
      else case bind_create_order body of
        Inl e \<Rightarrow> ret (Some (ValidationError e))
      | Inr req \<Rightarrow> do {
          r \<leftarrow> CreateOrder fuel E (session_user ss)
                 (if req_IdempotencyKey req = [] then req\<lparr>req_IdempotencyKey := idem\<rparr> else req);
          ret (case r of
              None \<Rightarrow> None
            | Some (Inl e) \<Rightarrow> Some (create_order_failure lib e)
            | Some (Inr o') \<Rightarrow> Some (Success 201 ''order created'' (Some o'))) })"

definition Handler_CreatePaymentToken ::
    "env \<Rightarrow> (gerr \<Rightarrow> string) \<Rightarrow> (nat \<Rightarrow> string \<Rightarrow> int \<Rightarrow> gerr + string) \<Rightarrow> session \<Rightarrow> string \<Rightarrow>
     ('z ticket_db_scheme, (string \<times> string) response) state" where
  "Handler_CreatePaymentToken E lib snap ss order_str =
     (if auth_user ss = None then ret (Error 401 ''unauthorized'')
      else if order_str = [] then ret (ValidationError ErrBinding)
      else do {
        r \<leftarrow> CreatePaymentToken E snap order_str (session_user ss);
        ret (case r of
            Inl e \<Rightarrow> if Contains (error_text lib e) ''access denied'' then Error 403 (error_text lib e)
                    else InternalError (''failed to get payment token: '' @ error_text lib e)
          | Inr p \<Rightarrow> Success 200 ''payment token generated'' (Some p)) })"

definition queue_failure :: "(gerr \<Rightarrow> string) \<Rightarrow> gerr \<Rightarrow> 'd response" where
  "queue_failure lib e = (let m = error_text lib e in
     if Contains m ''access denied'' then Error 403 m
     else if Contains m ''not found'' then NotFound m
     else InternalError m)"

definition Handler_GetOrderQueueStatus ::
    "env \<Rightarrow> (gerr \<Rightarrow> string) \<Rightarrow> session \<Rightarrow> string \<Rightarrow> ('z ticket_db_scheme, QueueStatusResponse response) state" where
  "Handler_GetOrderQueueStatus E lib ss order_str =
     (if order_str = [] then ret (ValidationError ErrBinding)
      else do {
        r \<leftarrow> GetOrderQueueStatus E order_str (session_user ss);
        ret (case r of Inl e \<Rightarrow> queue_failure lib e | Inr q \<Rightarrow> Success 200 ''queue status retrieved'' (Some q)) })"

definition Handler_CancelOrder ::
    "env \<Rightarrow> (gerr \<Rightarrow> string) \<Rightarrow> session \<Rightarrow> string \<Rightarrow> ('z ticket_db_scheme, unit response) state" where
  "Handler_CancelOrder E lib ss order_str =
     (if order_str = [] then ret (ValidationError ErrBinding)
      else do {
        r \<leftarrow> CancelOrderInQueue E order_str (session_user ss);
        ret (case r of Inl e \<Rightarrow> queue_failure lib e | Inr u \<Rightarrow> Success 200 ''order cancelled successfully'' None) })"

text \<open>The webhook binds into a map and answers 200 in any case.\<close>

definition MidtransWebhook ::
    "env \<Rightarrow> (nat \<Rightarrow> string \<Rightarrow> gerr + string \<times> string) \<Rightarrow> json option \<Rightarrow> ('z ticket_db_scheme, unit response) state" where
  "MidtransWebhook E core body =
     (case Unmarshal_map body of
        None \<Rightarrow> ret (ValidationError ErrBinding)
      | Some payload \<Rightarrow> do {
          r \<leftarrow> HandleMidtransNotification E core payload;
          ret (case r of Inl e \<Rightarrow> Success 200 ''webhook received but encountered error'' None
                 | Inr u \<Rightarrow> Success 200 ''webhook processed'' None) })"

definition Handler_ListMyOrders :: "env \<Rightarrow> (gerr \<Rightarrow> string) \<Rightarrow> session \<Rightarrow> ('z ticket_db_scheme, Order list response) state" where
  "Handler_ListMyOrders E lib ss = with_user ss (\<lambda>u. answer lib ''failed to fetch orders: '' ''orders retrieved'' (ListMyOrders E u))"

definition Handler_ListMyTickets :: "env \<Rightarrow> (gerr \<Rightarrow> string) \<Rightarrow> session \<Rightarrow> ('z ticket_db_scheme, Ticket list response) state" where
  "Handler_ListMyTickets E lib ss = with_user ss (\<lambda>u. answer lib ''failed to fetch tickets: '' ''tickets retrieved'' (ListMyTickets E u))"

definition Handler_GetOrganizerStats :: "env \<Rightarrow> (gerr \<Rightarrow> string) \<Rightarrow> session \<Rightarrow> ('z ticket_db_scheme, OrganizerStats response) state" where
  "Handler_GetOrganizerStats E lib ss = with_user ss (\<lambda>u. answer lib ''failed to fetch stats: '' ''stats retrieved'' (GetDashboardStats E u))"

definition Handler_GetSalesTrend :: "env \<Rightarrow> (gerr \<Rightarrow> string) \<Rightarrow> session \<Rightarrow> ('z ticket_db_scheme, DailySales list response) state" where
  "Handler_GetSalesTrend E lib ss = with_user ss (\<lambda>u. answer lib ''failed to fetch sales trend: '' ''sales trend retrieved'' (GetSalesTrend E u))"

definition Handler_GetOrganizerOrder ::
    "env \<Rightarrow> (gerr \<Rightarrow> string) \<Rightarrow> session \<Rightarrow> string \<Rightarrow> ('z ticket_db_scheme, (Order \<times> OrderItem list \<times> Ticket list) response) state" where
  "Handler_GetOrganizerOrder E lib ss order_str = with_user ss
     (\<lambda>u. answer lib ''failed to get order: '' ''order retrieved'' (GetOrganizerOrder E order_str u))"

definition Handler_ListOrganizerOrders ::
    "env \<Rightarrow> (gerr \<Rightarrow> string) \<Rightarrow> session \<Rightarrow> string option \<Rightarrow> string option \<Rightarrow> ('z ticket_db_scheme, Order list response) state" where
  "Handler_ListOrganizerOrders E lib ss page per_page = with_organizer ss
     (\<lambda>u. answer lib ''failed to fetch orders: '' ''orders retrieved''
        (ListOrganizerOrders E u (page_or_first (Atoi (DefaultQuery page ''1'')))
          (per_page_or_default 10 (Atoi (DefaultQuery per_page ''10'')))))"

section \<open>Withdrawals\<close>

definition bind_withdrawal :: "CreateWithdrawalRequest option \<Rightarrow> gerr + CreateWithdrawalRequest" where
  "bind_withdrawal body = (case body of None \<Rightarrow> Inl ErrBinding
     | Some req \<Rightarrow> if \<not> fle (Fin 10000) (wr_Amount req) \<or> wr_BankName req = [] \<or> wr_AccountNumber req = [] \<or> wr_AccountName req = []
         then Inl ErrBinding else Inr req)"

definition bind_withdrawal_status :: "UpdateWithdrawalStatusRequest option \<Rightarrow> gerr + UpdateWithdrawalStatusRequest" where
  "bind_withdrawal_status body = (case body of None \<Rightarrow> Inl ErrBinding
     | Some req \<Rightarrow> if uw_Status req = ''APPROVED'' \<or> uw_Status req = ''PAID'' \<or> uw_Status req = ''REJECTED'' \<or> uw_Status req = ''PENDING''
         then Inr req else Inl ErrBinding)"

definition Handler_GetOrganizerBalance ::
    "env \<Rightarrow> (gerr \<Rightarrow> string) \<Rightarrow> f64 \<Rightarrow> session \<Rightarrow> ('z ticket_db_scheme, OrganizerBalanceResponse response) state" where
  "Handler_GetOrganizerBalance E lib fee ss = with_organizer ss
     (\<lambda>u. answer lib ''failed to get balance: '' ''balance retrieved'' (GetOrganizerBalance E fee u))"

definition withdrawal_failure :: "(gerr \<Rightarrow> string) \<Rightarrow> gerr \<Rightarrow> Withdrawal response" where
  "withdrawal_failure lib e =
     (if errors_Is e ErrInsufficientBalance then Error 400 ''saldo tidak mencukupi untuk melakukan penarikan''
      else if errors_Is e ErrInvalidAmount then Error 400 ''minimal penarikan dana adalah Rp 10.000''
      else InternalError (''failed to submit withdrawal request: '' @ error_text lib e))"

definition Handler_RequestWithdrawal ::
    "env \<Rightarrow> (gerr \<Rightarrow> string) \<Rightarrow> f64 \<Rightarrow> bool \<Rightarrow> session \<Rightarrow> CreateWithdrawalRequest option \<Rightarrow> ('z ticket_db_scheme, Withdrawal response) state" where
  "Handler_RequestWithdrawal E lib fee has_pool ss body = with_organizer ss
     (\<lambda>u. case bind_withdrawal body of
        Inl e \<Rightarrow> ret (ValidationError e)
      | Inr req \<Rightarrow> do {
          r \<leftarrow> RequestWithdrawal E fee has_pool u req;
          ret (case r of Inl e \<Rightarrow> withdrawal_failure lib e
                 | Inr w \<Rightarrow> Success 201 ''withdrawal request submitted successfully'' (Some w)) })"

definition Handler_ListOrganizerWithdrawals ::
    "env \<Rightarrow> (gerr \<Rightarrow> string) \<Rightarrow> session \<Rightarrow> string option \<Rightarrow> string option \<Rightarrow> ('z ticket_db_scheme, Withdrawal list response) state" where
  "Handler_ListOrganizerWithdrawals E lib ss page per_page = with_organizer ss
     (\<lambda>u. answer lib ''failed to list withdrawals: '' ''withdrawals retrieved''
        (ListOrganizerWithdrawals E u (Atoi (DefaultQuery page ''1'')) (Atoi (DefaultQuery per_page ''20''))))"

definition Handler_GetOrganizerWithdrawal ::
    "env \<Rightarrow> (gerr \<Rightarrow> string) \<Rightarrow> session \<Rightarrow> string \<Rightarrow> ('z ticket_db_scheme, Withdrawal response) state" where
  "Handler_GetOrganizerWithdrawal E lib ss w_str = with_organizer ss
     (\<lambda>u. do {
        r \<leftarrow> GetOrganizerWithdrawalDetail E w_str u;
        ret (case r of
            Inl e \<Rightarrow> if errors_Is e ErrWithdrawalNotFound then Error 404 ''withdrawal request not found''
                    else if errors_Is e ErrUnauthorizedAccess then Error 403 ''unauthorized access to this withdrawal''
                    else InternalError (''failed to get withdrawal: '' @ error_text lib e)
          | Inr w \<Rightarrow> Success 200 ''withdrawal retrieved'' (Some w)) })"

definition Handler_AdminListWithdrawals ::
    "env \<Rightarrow> (gerr \<Rightarrow> string) \<Rightarrow> session \<Rightarrow> string \<Rightarrow> string option \<Rightarrow> string option \<Rightarrow> ('z ticket_db_scheme, Withdrawal list response) state" where
  "Handler_AdminListWithdrawals E lib ss status page per_page = with_admin ss
     (answer lib ''failed to list withdrawals: '' ''admin withdrawals list retrieved''
        (AdminListWithdrawals E status (Atoi (DefaultQuery page ''1'')) (Atoi (DefaultQuery per_page ''20''))))"

definition Handler_AdminUpdateWithdrawalStatus ::
    "env \<Rightarrow> (gerr \<Rightarrow> string) \<Rightarrow> session \<Rightarrow> string \<Rightarrow> UpdateWithdrawalStatusRequest option \<Rightarrow> ('z ticket_db_scheme, Withdrawal response) state" where
  "Handler_AdminUpdateWithdrawalStatus E lib ss w_str body = with_admin ss
     (case bind_withdrawal_status body of
        Inl e \<Rightarrow> ret (ValidationError e)
      | Inr req \<Rightarrow> answer lib ''failed to update withdrawal status: '' ''withdrawal status updated''
          (AdminUpdateWithdrawalStatus E w_str req))"

definition Handler_GetAdminPlatformStats ::
    "env \<Rightarrow> (gerr \<Rightarrow> string) \<Rightarrow> f64 \<Rightarrow> session \<Rightarrow> ('z ticket_db_scheme, AdminPlatformStatsResponse response) state" where
  "Handler_GetAdminPlatformStats E lib fee ss = with_admin ss
     (answer lib ''failed to get platform stats: '' ''platform stats retrieved'' (GetAdminPlatformStats E fee))"

section \<open>Routes\<close>

text \<open>The group \<open>/tickets/admin\<close>: behind \<open>JWTAuth\<close> and \<open>RequireRole("admin")\<close>.\<close>

definition admin_route ::
    "env \<Rightarrow> jwt_lib \<Rightarrow> string \<Rightarrow> headers \<Rightarrow> (session \<Rightarrow> ('z infra_scheme, 'd response) state) \<Rightarrow> ('z infra_scheme, 'd response) state" where
  "admin_route E J secret h handler = role_route E J secret [''admin''] h handler"

text \<open>The group \<open>/internal\<close> of a service: behind \<open>RequireInternalSecret\<close>.\<close>

definition internal_route :: "env \<Rightarrow> string \<Rightarrow> ('s, 'd response) state \<Rightarrow> ('s, 'd response) state" where
  "internal_route E provided handler = (case RequireInternalSecret (server_secret E) (app_env E) provided of
     Some r \<Rightarrow> ret r | None \<Rightarrow> handler)"

end
