(* ===== verification/Ticket_Withdrawal_Spec.thy ===== *)
theory Ticket_Withdrawal_Spec
  imports Ticket_Organizer
begin

text \<open>
  Facts about the money side of the ticket service: the balance of an organizer is the net revenue of
  the organizer's events minus what is pending, approved or paid out; a withdrawal request alone never
  takes more than that, two of them together can.
\<close>

section \<open>The revenue of an organizer\<close>

definition events_of :: "'z event_db_scheme \<Rightarrow> uuid \<Rightarrow> uuid list" where
  "events_of s org = map ev_ID (filter (\<lambda>r. ev_OrganizerID r = org) (events s))"

definition stats_of :: "'z ticket_db_scheme \<Rightarrow> uuid \<Rightarrow> OrganizerStats" where
  "stats_of s org = (if events_of s org = [] then no_stats else organizer_stats s (events_of s org))"

definition balance_of :: "f64 \<Rightarrow> 'z ticket_db_scheme \<Rightarrow> uuid \<Rightarrow> f64" where
  "balance_of fee s org = available_balance fee (stats_of s org) (withdrawn_summary s org)"

lemma parsed_ids_roundtrip [simp]: "uuid_laws E \<Longrightarrow> parsed_ids E (map (uuid_String E) ids) = ids"
  by (induction ids) (simp_all add: parsed_ids_def uuid_roundtrip)

lemma money_tick_free [simp]:
  "events_of (s\<lparr>tick := n\<rparr>) org = events_of s org" "stats_of (s\<lparr>tick := n\<rparr>) org = stats_of s org"
  "withdrawn_summary (s\<lparr>tick := n\<rparr>) org = withdrawn_summary s org" "balance_of fee (s\<lparr>tick := n\<rparr>) org = balance_of fee s org"
  by (simp_all add: events_of_def stats_of_def organizer_stats_def order_quantity_def [abs_def] withdrawn_summary_def balance_of_def)

lemma stats_of_withdrawals [simp]: "stats_of (s\<lparr>withdrawals := ws\<rparr>) org = stats_of s org"
  by (simp add: stats_of_def events_of_def organizer_stats_def order_quantity_def [abs_def])

text \<open>The call to the event service gives the events of the organizer or an error.\<close>

lemma reads_FetchOrganizerEventIDs:
  assumes "uuid_Parse E org_str = Some org"
  shows "reads (FetchOrganizerEventIDs E org_str) (\<lambda>ids. ids = map (uuid_String E) (events_of s org)) s"
  using assms
  by (auto simp: reads_def FetchOrganizerEventIDs_def http_internal_def GetInternalEventIDs_def GetEventIDsByOrganizer_def
      pgUUIDFromString_def ListEventIDsByOrganizer_def sql_def wp_external events_of_def response_defs
      RequireInternalSecret_def split: outcome.split)

lemma reads_GetDashboardStats:
  assumes "uuid_laws E" and "uuid_Parse E org_str = Some org"
  shows "reads (GetDashboardStats E org_str) (\<lambda>st. st = stats_of s org) s"
  unfolding GetDashboardStats_def
proof (rule reads_bindE [OF reads_FetchOrganizerEventIDs [OF assms(2)]])
  fix ids n assume ids: "ids = map (uuid_String E) (events_of s org)"
  show "reads (if ids = [] then ok no_stats else GetOrganizerStats E (parsed_ids E ids)) (\<lambda>st. st = stats_of s org) (s\<lparr>tick := n\<rparr>)"
    using assms(1) by (auto simp: ids reads_def GetOrganizerStats_def sql_def wp_external stats_of_def organizer_stats_def
        order_quantity_def [abs_def] split: outcome.split)
qed

lemma reads_summary: "reads (GetWithdrawnSummaryByOrganizer E org) (\<lambda>x. x = withdrawn_summary s org) s"
  by (auto simp: reads_def GetWithdrawnSummaryByOrganizer_def sql_def wp_external split: outcome.split)

lemma reads_withdrawal_check:
  assumes "uuid_laws E" and "uuid_Parse E org_str = Some org"
  shows "reads (withdrawal_check E fee org_str org req) (\<lambda>u. \<not> flt (balance_of fee s org) (wr_Amount req)) s"
  unfolding withdrawal_check_def
proof (intro reads_bindE [OF reads_GetDashboardStats [OF assms]] reads_bindE [OF reads_summary])
  fix st n sm m assume "st = stats_of s org" "sm = withdrawn_summary (s\<lparr>tick := n\<rparr>) org"
  then show "reads (if flt (available_balance fee st sm) (wr_Amount req) then err ErrInsufficientBalance else ok ())
      (\<lambda>u. \<not> flt (balance_of fee s org) (wr_Amount req)) (s\<lparr>tick := n, tick := m\<rparr>)"
    by (auto simp: reads_def balance_of_def)
qed

lemma reads_GetOrganizerBalance:
  assumes "uuid_laws E" and "uuid_Parse E org_str = Some org"
  shows "reads (GetOrganizerBalance E fee org_str) (\<lambda>b. b = balance_response fee (stats_of s org) (withdrawn_summary s org)) s"
  unfolding GetOrganizerBalance_def assms(2) option.case
proof (intro reads_bindE [OF reads_GetDashboardStats [OF assms]] reads_bindE [OF reads_summary])
  fix st n sm m assume "st = stats_of s org" "sm = withdrawn_summary (s\<lparr>tick := n\<rparr>) org"
  then show "reads (ok (balance_response fee st sm))
      (\<lambda>b. b = balance_response fee (stats_of s org) (withdrawn_summary s org)) (s\<lparr>tick := n, tick := m\<rparr>)"
    by (auto simp: reads_def)
qed

section \<open>Whole amounts\<close>

definition rupiah :: "numeric \<Rightarrow> int" where
  "rupiah n = (case n of Num q \<Rightarrow> \<lfloor>q\<rfloor> | _ \<Rightarrow> 0)"

definition withdrawals_of :: "'z ticket_db_scheme \<Rightarrow> uuid \<Rightarrow> Withdrawal list" where
  "withdrawals_of s org = filter (\<lambda>w. w_OrganizerID w = org) (withdrawals s)"

text \<open>What is pending, approved or paid out.\<close>

definition withdrawn :: "'z ticket_db_scheme \<Rightarrow> uuid \<Rightarrow> int" where
  "withdrawn s org = sum_list (map (\<lambda>w. if deducted_status (w_Status w) then rupiah (w_Amount w) else 0) (withdrawals_of s org))"

definition whole :: "numeric \<Rightarrow> bool" where
  "whole n \<longleftrightarrow> n = Num (of_int (rupiah n)) \<and> 0 \<le> rupiah n"

lemma whole_of_int [simp]: "rupiah (Num (of_int a)) = a" "whole (Num (of_int a)) \<longleftrightarrow> 0 \<le> a"
  by (simp_all add: rupiah_def whole_def)

lemma foldl_num_add:
  "\<forall>w \<in> set ws. whole (w_Amount w) \<Longrightarrow> foldl num_add (Num (of_int a)) (map (\<lambda>w. if p w then w_Amount w else Num 0) ws) =
     Num (of_int (a + sum_list (map (\<lambda>w. if p w then rupiah (w_Amount w) else 0) ws)))"
proof (induction ws arbitrary: a)
  case (Cons w ws)
  obtain b where b: "w_Amount w = Num (of_int b)" using Cons.prems by (auto simp: whole_def)
  show ?case using Cons.IH [of "a + (if p w then b else 0)"] Cons.prems by (auto simp: b)
qed simp

lemma total_deducted:
  assumes "\<forall>w \<in> set (withdrawals_of s org). whole (w_Amount w)"
  shows "ws_TotalDeducted (withdrawn_summary s org) = Num (of_int (withdrawn s org))"
  using foldl_num_add [OF assms, of 0 "\<lambda>w. deducted_status (w_Status w)"]
  by (simp add: withdrawn_summary_def sum_where_def num_sum_def withdrawn_def withdrawals_of_def Let_def)

text \<open>The organizer's account: a whole net revenue that covers the withdrawals.\<close>

definition account :: "f64 \<Rightarrow> uuid \<Rightarrow> int \<Rightarrow> 'z ticket_db_scheme \<Rightarrow> bool" where
  "account fee org net s \<longleftrightarrow> net_revenue fee (stats_of s org) = Fin (of_int net) \<and> 0 \<le> net \<and> net < 2 ^ 53 \<and>
     (\<forall>w \<in> set (withdrawals_of s org). whole (w_Amount w))"

lemma withdrawn_nonneg: "account fee org net s \<Longrightarrow> 0 \<le> withdrawn s org"
  unfolding withdrawn_def by (rule sum_list_nonneg) (auto simp: account_def whole_def)

lemma balance_whole:
  assumes "account fee org net s" and "withdrawn s org < 2 ^ 53"
  shows "balance_of fee s org = Fin (of_int (max 0 (net - withdrawn s org)))"
proof -
  let ?d = "withdrawn s org"
  have d: "\<bar>?d\<bar> < 2 ^ 53" "\<bar>net - ?d\<bar> < 2 ^ 53"
    using assms withdrawn_nonneg [OF assms(1)] by (auto simp: account_def)
  have w: "numericToFloat64 (Num (of_int ?d)) = Fin (of_int ?d)"
    using fround_whole [OF d(1)] by (simp add: numericToFloat64_def)
  have "fround (of_int net - of_int ?d) = Fin (of_int (net - ?d))" using fround_whole [OF d(2)] by simp
  then show ?thesis
    using assms(1) by (auto simp: balance_of_def available_balance_def account_def total_deducted w fsub_def at_least_zero_def max_def)
qed

section \<open>A request\<close>

text \<open>The row a request stores.\<close>

definition pending_row :: "uuid \<Rightarrow> uuid \<Rightarrow> CreateWithdrawalRequest \<Rightarrow> numeric \<Rightarrow> time \<Rightarrow> Withdrawal" where
  "pending_row u org req a now = \<lparr>w_ID = u, w_OrganizerID = org, w_Amount = a, w_BankName = wr_BankName req,
     w_AccountNumber = wr_AccountNumber req, w_AccountName = wr_AccountName req, w_Status = ''PENDING'',
     w_RejectionReason = None, w_Notes = text_or_null (wr_Notes req), w_CreatedAt = now, w_UpdatedAt = now\<rparr>"

lemma pending_row_simps [simp]:
  "w_ID (pending_row u org req a now) = u" "w_OrganizerID (pending_row u org req a now) = org"
  "w_Amount (pending_row u org req a now) = a" "w_Status (pending_row u org req a now) = ''PENDING''"
  by (simp_all add: pending_row_def)

definition stored :: "uuid \<Rightarrow> CreateWithdrawalRequest \<Rightarrow> 'z ticket_db_scheme \<Rightarrow> gerr + Withdrawal \<Rightarrow> 'z ticket_db_scheme \<Rightarrow> bool" where
  "stored org req s r t \<longleftrightarrow> (\<exists>n u a now. decimal_15_2 (float64ToNumeric (wr_Amount req)) = Inr a \<and>
     t = s\<lparr>tick := n, withdrawals := withdrawals s @ [pending_row u org req a now]\<rparr> \<and>
     (\<forall>x. r = Inr x \<longrightarrow> x = pending_row u org req a now))"

definition refused :: "'z ticket_db_scheme \<Rightarrow> gerr + Withdrawal \<Rightarrow> 'z ticket_db_scheme \<Rightarrow> bool" where
  "refused s r t \<longleftrightarrow> (\<exists>n e. t = s\<lparr>tick := n\<rparr> \<and> r = Inl e)"

lemma refused_simps [simp]: "refused s (Inl e) s" "refused s (Inl e) (s\<lparr>tick := n\<rparr>)"
proof -
  have "s = s\<lparr>tick := tick s\<rparr>" by simp
  then show "refused s (Inl e) s" unfolding refused_def by blast
qed (auto simp: refused_def)

lemma storedI:
  "decimal_15_2 (float64ToNumeric (wr_Amount req)) = Inr a \<Longrightarrow> (\<And>x. r = Inr x \<Longrightarrow> x = pending_row u org req a now) \<Longrightarrow>
   stored org req s r (s\<lparr>tick := n, withdrawals := withdrawals s @ [pending_row u org req a now]\<rparr>)"
  unfolding stored_def by blast

lemma store_effect:
  fixes s :: "'z ticket_db_scheme"
  shows "wp (withdrawal_store E began org req) (\<lambda>r t. refused s r t \<or> stored org req s r t) s"
    and "wp (bindE h (CreateWithdrawal E org (float64ToNumeric (wr_Amount req)) (wr_BankName req) (wr_AccountNumber req)
                 (wr_AccountName req) (text_or_null (wr_Notes req)) ''PENDING'') ok) (\<lambda>r t. refused s r t \<or> stored org req s r t) s"
  by (auto simp: withdrawal_store_def tx_CreateWithdrawal_def tx_Commit_def CreateWithdrawal_def sql_def wp_external Let_def
      simp flip: pending_row_def split: outcome.split sum.split intro!: storedI)

lemma wp_tx_Begin:
  assumes "\<And>began n. wp (f began) Q (s\<lparr>tick := n\<rparr>)" and "\<And>e n. Q (Inl e) (s\<lparr>tick := n\<rparr>)"
  shows "wp (bindE h (tx_Begin E) f) Q s"
  using assms by (simp add: tx_Begin_def wp_external split: outcome.split)

text \<open>Whatever fails, a request stores nothing, or one pending row whose amount is within the balance.\<close>

lemma request_effect:
  assumes "uuid_laws E" and "uuid_Parse E org_str = Some org"
  shows "wp (RequestWithdrawal E fee has_pool org_str req) (\<lambda>r t. refused s r t \<or>
     (\<not> flt (wr_Amount req) (Fin 10000) \<and> \<not> flt (balance_of fee s org) (wr_Amount req) \<and> stored org req s r t)) s"
proof -
  let ?Q = "\<lambda>r t. refused s r t \<or>
     (\<not> flt (wr_Amount req) (Fin 10000) \<and> \<not> flt (balance_of fee s org) (wr_Amount req) \<and> stored org req s r t)"
  have shift: "refused (s\<lparr>tick := n\<rparr>) r t = refused s r t" "stored org req (s\<lparr>tick := n\<rparr>) r t = stored org req s r t" for n r t
    by (simp_all add: refused_def stored_def)
  have err: "?Q (Inl e) (s\<lparr>tick := n\<rparr>)" for e n by (auto simp: refused_def)
  have pool: "wp (bindE h (withdrawal_check E fee org_str org req) (\<lambda>u. withdrawal_store E began org req)) ?Q (s\<lparr>tick := n\<rparr>)"
    if "\<not> flt (wr_Amount req) (Fin 10000)" for h began n
    unfolding wp_bindE
  proof (rule reads_wp [OF reads_withdrawal_check [OF assms, of fee req]])
    fix u m assume "\<not> flt (balance_of fee (s\<lparr>tick := n\<rparr>) org) (wr_Amount req)"
    then show "case Inr u of Inl e \<Rightarrow> ?Q (Inl (h e)) (s\<lparr>tick := n, tick := m\<rparr>)
        | Inr x \<Rightarrow> wp (withdrawal_store E began org req) ?Q (s\<lparr>tick := n, tick := m\<rparr>)"
      using that by (auto intro!: wp_mono [OF store_effect(1)] simp: shift)
  qed (use err in simp)
  have nopool: "wp (check (GetOrganizerBalance E fee org_str) (\<lambda>balance.
            if flt (ob_AvailableBalance balance) (wr_Amount req) then err ErrInsufficientBalance
            else bindE h
              (CreateWithdrawal E org (float64ToNumeric (wr_Amount req)) (wr_BankName req) (wr_AccountNumber req)
                 (wr_AccountName req) (text_or_null (wr_Notes req)) ''PENDING'') ok)) ?Q s"
    if "\<not> flt (wr_Amount req) (Fin 10000)" for h
    unfolding wp_bindE
  proof (rule reads_wp [OF reads_GetOrganizerBalance [OF assms, of fee]])
    fix b m assume "b = balance_response fee (stats_of s org) (withdrawn_summary s org)"
    then have b: "ob_AvailableBalance b = balance_of fee s org" by (simp add: balance_response_def balance_of_def Let_def)
    show "case Inr b of Inl e \<Rightarrow> ?Q (Inl e) (s\<lparr>tick := m\<rparr>) | Inr balance \<Rightarrow>
       wp (if flt (ob_AvailableBalance balance) (wr_Amount req) then err ErrInsufficientBalance
            else bindE h
              (CreateWithdrawal E org (float64ToNumeric (wr_Amount req)) (wr_BankName req) (wr_AccountNumber req)
                 (wr_AccountName req) (text_or_null (wr_Notes req)) ''PENDING'') ok) ?Q (s\<lparr>tick := m\<rparr>)"
      using that b err by (auto intro!: wp_mono [OF store_effect(2)] simp: shift simp del: wp_bindE)
  qed (use err in simp)
  show ?thesis
    using assms(2) pool nopool by (auto simp: RequestWithdrawal_def simp del: wp_bindE intro!: wp_tx_Begin)
qed

section \<open>Accounts after a request\<close>

lemma float64ToNumeric_whole [simp]: "float64ToNumeric (Fin (of_int a)) = Num (of_int a)"
proof -
  have "(of_int a :: rat) * 10 ^ 2 = of_int (a * 100)" by simp
  then have "round_half_even (of_int a * 10 ^ 2) = a * 100" by (simp only: round_half_even_of_int)
  then show ?thesis by (simp add: float64ToNumeric_def)
qed

lemma round_cents_whole [simp]: "round_cents (of_int a) = of_int a"
proof -
  have "\<lfloor>(of_int b :: rat) * 100 + 1 / 2\<rfloor> = b * 100" for b by (rule floor_unique) simp_all
  from this [of a] this [of "- a"] show ?thesis by (simp add: round_cents_def)
qed

lemma decimal_whole:
  "decimal_15_2 (Num (of_int a)) = (if \<bar>a\<bar> < 10 ^ 13 then Inr (Num (of_int a)) else Inl ErrOutOfRange)"
proof -
  have "(\<bar>of_int a\<bar> < (10 ^ 13 :: rat)) = (\<bar>a\<bar> < 10 ^ 13)"
    by (metis of_int_abs of_int_less_iff of_int_numeral of_int_power)
  then show ?thesis by simp
qed

lemma withdrawals_of_append [simp]:
  "withdrawals_of (s\<lparr>tick := n, withdrawals := withdrawals s @ [w]\<rparr>) org =
     withdrawals_of s org @ (if w_OrganizerID w = org then [w] else [])"
  by (simp add: withdrawals_of_def)

lemma account_append:
  assumes "account fee org net s" and "w_OrganizerID w = org \<longrightarrow> whole (w_Amount w)"
  shows "account fee org net (s\<lparr>tick := n, withdrawals := withdrawals s @ [w]\<rparr>)"
  using assms by (auto simp: account_def)

lemma withdrawn_append [simp]:
  "withdrawn (s\<lparr>tick := n, withdrawals := withdrawals s @ [w]\<rparr>) org =
     withdrawn s org + (if w_OrganizerID w = org \<and> deducted_status (w_Status w) then rupiah (w_Amount w) else 0)"
  by (simp add: withdrawn_def)

lemma account_tick [simp]: "account fee org net (s\<lparr>tick := n\<rparr>) = account fee org net s" "withdrawn (s\<lparr>tick := n\<rparr>) org = withdrawn s org"
  by (simp_all add: account_def withdrawn_def withdrawals_of_def)

lemma balance_fits:
  assumes "account fee org net s" and "withdrawn s org \<le> net"
  shows "balance_of fee s org = Fin (of_int (net - withdrawn s org))"
  using balance_whole [OF assms(1)] assms by (simp add: account_def)

text \<open>An organizer with one paid order of 100000 rupiah, at the fee of 5 percent.\<close>

definition demo_money :: gate_db where
  "demo_money = \<lparr>tick = 0, redis = Map.empty, kafka = [], ticket_types = [], events = [demo_event],
     orders = [demo_order 11\<lparr>o_Status := ''PAID''\<rparr>], order_items = [demo_item 11], tickets = [], withdrawals = [], local_tickets = []\<rparr>"

lemma demo_fee: "fmul (Fin 100000) (fdiv (Fin 5) (Fin 100)) = Fin 5000"
proof -
  have d: "fround (1 / 20) = Fin (of_int 7205759403792794 * (1 / 2 ^ 57))"
    by (rule fround_eqI [where k = "- 5"]) (simp_all add: pow2_def round_half_evenI)
  have "fround (100000 * (of_int 7205759403792794 * (1 / 2 ^ 57))) = Fin (of_int 5497558138880000 * (1 / 2 ^ 40))"
    by (rule fround_eqI [where k = 12]) (simp_all add: pow2_def round_half_evenI)
  with d show ?thesis by simp
qed
lemma demo_account [simp]: "account (Fin 5) 3 95000 demo_money" "withdrawn demo_money 3 = 0"
proof -
  have f: "fround 100000 = Fin 100000" "fround (100000 - 5000) = Fin 95000"
    using fround_whole [of 100000] fround_whole [of 95000] by simp_all
  have "net_revenue (Fin 5) (stats_of demo_money 3) = Fin 95000"
    using demo_fee f by (simp add: net_revenue_def stats_of_def events_of_def demo_money_def demo_event_def organizer_stats_def
        num_sum_def numericToFloat64_def fee_amount_def GetPlatformFeePercent_def fle_def fsub_def at_least_zero_def paid_status_def
        Let_def demo_order_def)
  then show "account (Fin 5) 3 95000 demo_money" "withdrawn demo_money 3 = 0"
    by (simp_all add: account_def withdrawals_of_def withdrawn_def demo_money_def)
qed

definition demo_withdrawal :: "int \<Rightarrow> CreateWithdrawalRequest" where
  "demo_withdrawal a = \<lparr>wr_Amount = Fin (of_int a), wr_BankName = ''BCA'', wr_AccountNumber = ''1'', wr_AccountName = ''A'', wr_Notes = []\<rparr>"

lemma demo_withdrawal_amount [simp]: "wr_Amount (demo_withdrawal a) = Fin (of_int a)"
  by (simp add: demo_withdrawal_def)

text \<open>
  C10. A withdrawal request never takes more than the organizer earned. When the organizer's net
  revenue is a whole number of rupiah that covers what is pending, approved or paid out, it still covers
  it after any one \<open>RequestWithdrawal\<close> of a whole amount, by whomever, with or without a pool, whatever
  the balance it saw and under every schedule of faults.
\<close>

theorem withdrawal_within_revenue:
  assumes "uuid_laws E" and "account fee org net s" and "withdrawn s org \<le> net" and "wr_Amount req = Fin (of_int a)"
  shows "wp (RequestWithdrawal E fee has_pool org_str req) (\<lambda>r t. account fee org net t \<and> withdrawn t org \<le> net) s"
proof (cases "uuid_Parse E org_str")
  case None
  then show ?thesis using assms by (simp add: RequestWithdrawal_def)
next
  case (Some o')
  show ?thesis
  proof (rule wp_mono [OF request_effect [OF assms(1) Some]], elim disjE conjE)
    fix r t assume "refused s r t"
    then show "account fee org net t \<and> withdrawn t org \<le> net" using assms(2,3) by (auto simp: refused_def)
  next
    fix r t assume bal: "\<not> flt (balance_of fee s o') (wr_Amount req)" and low: "\<not> flt (wr_Amount req) (Fin 10000)" and "stored o' req s r t"
    then obtain n u x now where x: "decimal_15_2 (Num (of_int a)) = Inr x"
      and t: "t = s\<lparr>tick := n, withdrawals := withdrawals s @ [pending_row u o' req x now]\<rparr>"
      using assms(4) by (auto simp: stored_def)
    from x have x: "x = Num (of_int a)" by (simp add: decimal_whole split: if_splits)
    have a: "0 \<le> a" using low assms(4) by simp
    have "o' = org \<longrightarrow> a \<le> net - withdrawn s org" using bal balance_fits [OF assms(2,3)] assms(4) by auto
    then show "account fee org net t \<and> withdrawn t org \<le> net"
      using account_append [OF assms(2), of "pending_row u o' req x now"] a assms(3) by (auto simp: t x)
  qed
qed

theorem withdrawal_within_revenue_witness:
  "wp (RequestWithdrawal (still_env\<lparr>outcome := (\<lambda>n. if n = 4 then Lost_reply else Delivered)\<rparr>) (Fin 5) True (demo_name 3) (demo_withdrawal 90000))
     (\<lambda>r t. withdrawn t 3 \<le> 95000) demo_money"
proof -
  have "uuid_laws (still_env\<lparr>outcome := (\<lambda>n. if n = 4 then Lost_reply else Delivered)\<rparr>)" by (simp add: uuid_laws_def)
  then show ?thesis
    by (rule wp_mono [OF withdrawal_within_revenue [where fee = "Fin 5" and org = 3 and net = 95000 and a = 90000]]) simp_all
qed

section \<open>Requests without faults\<close>

definition served :: "env \<Rightarrow> string \<Rightarrow> uuid \<Rightarrow> bool" where
  "served E org_str org \<longleftrightarrow> reliable E \<and> secret_accepted E \<and> uuid_laws E \<and> org_str \<noteq> [] \<and> uuid_Parse E org_str = Some org"

lemma wp_events_served:
  assumes "served E org_str org" and "\<And>n. Q (Inr (map (uuid_String E) (events_of s org))) (s\<lparr>tick := n\<rparr>)"
  shows "wp (FetchOrganizerEventIDs E org_str) Q s"
  using assms
  by (simp add: served_def FetchOrganizerEventIDs_def GetInternalEventIDs_def GetEventIDsByOrganizer_def
      pgUUIDFromString_def ListEventIDsByOrganizer_def Success_def events_of_def)

lemma wp_stats_served:
  assumes "served E org_str org" and "\<And>n. Q (Inr (stats_of s org)) (s\<lparr>tick := n\<rparr>)"
  shows "wp (GetDashboardStats E org_str) Q s"
proof -
  have e: "reliable E" "uuid_laws E" using assms(1) by (simp_all add: served_def)
  have o: "organizer_stats (s\<lparr>tick := n\<rparr>) ids = organizer_stats s ids" for n ids
    by (simp add: organizer_stats_def order_quantity_def [abs_def])
  show ?thesis
    unfolding GetDashboardStats_def wp_bindE
    by (rule wp_events_served [OF assms(1)], cases "events_of s org = []")
      (use assms(2) in \<open>simp_all add: e GetOrganizerStats_def stats_of_def o\<close>)
qed

lemma wp_check_served:
  assumes "served E org_str org"
    and "\<And>n. Q (if flt (balance_of fee s org) (wr_Amount req) then Inl ErrInsufficientBalance else Inr ()) (s\<lparr>tick := n\<rparr>)"
  shows "wp (withdrawal_check E fee org_str org req) Q s"
  unfolding withdrawal_check_def wp_bindE
  by (rule wp_stats_served [OF assms(1)], cases "flt (balance_of fee s org) (wr_Amount req)")
    (use assms in \<open>simp_all add: served_def GetWithdrawnSummaryByOrganizer_def balance_of_def\<close>)

lemma wp_balance_served:
  assumes "served E org_str org" and "\<And>n. Q (Inr (balance_response fee (stats_of s org) (withdrawn_summary s org))) (s\<lparr>tick := n\<rparr>)"
  shows "wp (GetOrganizerBalance E fee org_str) Q s"
proof -
  have e: "reliable E" "uuid_Parse E org_str = Some org" using assms(1) by (simp_all add: served_def)
  show ?thesis
    unfolding GetOrganizerBalance_def e option.case wp_bindE
    by (rule wp_stats_served [OF assms(1)]) (use e assms(2) in \<open>simp add: GetWithdrawnSummaryByOrganizer_def\<close>)
qed

text \<open>A request the table can store: \<open>a\<close> whole rupiah, and texts that fit their columns.\<close>

definition storable_request :: "CreateWithdrawalRequest \<Rightarrow> int \<Rightarrow> bool" where
  "storable_request req a \<longleftrightarrow> wr_Amount req = Fin (of_int a) \<and> 0 \<le> a \<and> a < 10 ^ 13 \<and> length (wr_BankName req) \<le> 100 \<and>
     length (wr_AccountNumber req) \<le> 100 \<and> length (wr_AccountName req) \<le> 150"

definition new_ids :: "env \<Rightarrow> 'z ticket_db_scheme \<Rightarrow> bool" where
  "new_ids E s \<longleftrightarrow> (\<forall>n. fresh E n \<notin> w_ID ` set (withdrawals s) \<and> fresh E n \<noteq> fresh E (n + 2))"

lemma new_ids_tick [simp]: "new_ids E (s\<lparr>tick := n\<rparr>) = new_ids E s"
  by (simp add: new_ids_def)

lemma wp_store_served:
  assumes "reliable E" and "storable_request req a" and "fresh E (tick s) \<notin> w_ID ` set (withdrawals s)"
    and "\<And>now. Q (Inr (pending_row (fresh E (tick s)) org req (Num (of_int a)) now))
      (s\<lparr>tick := tick s + 2, withdrawals := withdrawals s @ [pending_row (fresh E (tick s)) org req (Num (of_int a)) now]\<rparr>)"
  shows "wp (withdrawal_store E began org req) Q s"
  using assms(1-3) assms(4) [unfolded pending_row_def]
  by (simp add: withdrawal_store_def tx_CreateWithdrawal_def tx_Commit_def storable_request_def decimal_whole Let_def
      del: decimal_15_2.simps)

lemma wp_create_served:
  assumes "reliable E" and "storable_request req a" and "fresh E (tick s) \<notin> w_ID ` set (withdrawals s)"
    and "\<And>n u now. Q (Inr (pending_row u org req (Num (of_int a)) now))
      (s\<lparr>tick := n, withdrawals := withdrawals s @ [pending_row u org req (Num (of_int a)) now]\<rparr>)"
  shows "wp (bindE h (CreateWithdrawal E org (Num (of_int a)) (wr_BankName req) (wr_AccountNumber req)
                 (wr_AccountName req) (text_or_null (wr_Notes req)) ''PENDING'') ok) Q s"
  using assms(1-3) assms(4) [unfolded pending_row_def]
  by (simp add: CreateWithdrawal_def storable_request_def decimal_whole Let_def del: decimal_15_2.simps)

text \<open>
  Without faults \<open>RequestWithdrawal\<close> is exact: of a whole amount, less than 10000 rupiah is refused
  as \<open>ErrInvalidAmount\<close>, more than the net revenue less what was taken before as
  \<open>ErrInsufficientBalance\<close>, both without any change; everything else appends one pending row of that
  amount for that organizer and changes nothing else, with a pool or without.
\<close>

theorem withdrawal_granted:
  assumes "served E org_str org" and "account fee org net s" and "withdrawn s org \<le> net" and "storable_request req a" and "new_ids E s"
  shows "wp (RequestWithdrawal E fee has_pool org_str req) (\<lambda>r t.
    if a < 10000 then r = Inl ErrInvalidAmount \<and> same_but_tick s t
    else if net - withdrawn s org < a then r = Inl ErrInsufficientBalance \<and> same_but_tick s t
    else \<exists>w. r = Inr w \<and> same_but_tick (s\<lparr>withdrawals := withdrawals s @ [w]\<rparr>) t \<and> w_OrganizerID w = org \<and>
      w_Status w = ''PENDING'' \<and> w_Amount w = Num (of_int a)) s"
proof -
  have e: "reliable E" "uuid_Parse E org_str = Some org" using assms(1) by (simp_all add: served_def)
  have a: "wr_Amount req = Fin (of_int a)" using assms(4) by (simp add: storable_request_def)
  have bal: "balance_of fee s org = Fin (of_int (net - withdrawn s org))" by (rule balance_fits [OF assms(2,3)])
  have new: "w \<in> set (withdrawals s) \<Longrightarrow> fresh E m \<noteq> w_ID w" for m w using assms(5) by (auto simp: new_ids_def image_iff)
  have low: "(of_int a < (10000 :: rat)) = (a < 10000)" by (metis of_int_less_iff of_int_numeral)
  have b: "ob_AvailableBalance (balance_response fee (stats_of s org) (withdrawn_summary s org)) = balance_of fee s org"
    by (simp add: balance_response_def balance_of_def Let_def)
  let ?Q = "\<lambda>r t.
    if net - withdrawn s org < a then r = Inl ErrInsufficientBalance \<and> same_but_tick s t
    else \<exists>w. r = Inr w \<and> same_but_tick (s\<lparr>withdrawals := withdrawals s @ [w]\<rparr>) t \<and> w_OrganizerID w = org \<and>
      w_Status w = ''PENDING'' \<and> w_Amount w = Num (of_int a)"
  have pool: "wp (check (withdrawal_check E fee org_str org req) (\<lambda>u. withdrawal_store E began org req)) ?Q (s\<lparr>tick := n\<rparr>)" for began n
    unfolding wp_bindE
    by (rule wp_check_served [OF assms(1)], cases "net - withdrawn s org < a")
      (auto simp: bal a same_but_tick_def intro!: wp_store_served [OF e(1) assms(4)] simp: new)
  have nopool: "wp (check (GetOrganizerBalance E fee org_str) (\<lambda>balance.
            if flt (ob_AvailableBalance balance) (wr_Amount req) then err ErrInsufficientBalance
            else bindE h (CreateWithdrawal E org (float64ToNumeric (wr_Amount req)) (wr_BankName req) (wr_AccountNumber req)
                 (wr_AccountName req) (text_or_null (wr_Notes req)) ''PENDING'') ok)) ?Q s" for h
    unfolding wp_bindE [where h = "\<lambda>e. e"]
    by (rule wp_balance_served [OF assms(1)], cases "net - withdrawn s org < a")
      (auto simp: b bal a same_but_tick_def simp del: wp_bindE intro!: wp_create_served [OF e(1) assms(4)] simp: new)
  have begun: "wp (bindE h (tx_Begin E) f) Q s = wp (f (clock E (tick s))) Q (s\<lparr>tick := Suc (tick s)\<rparr>)" for h f Q
    using e(1) by (simp add: tx_Begin_def)
  show ?thesis
  proof (cases "a < 10000")
    case True
    then show ?thesis using e a low by (simp add: RequestWithdrawal_def)
  next
    case False
    then have "\<not> flt (wr_Amount req) (Fin 10000)" using a low by simp
    then show ?thesis
      using False pool nopool by (cases has_pool) (simp_all add: RequestWithdrawal_def e begun del: wp_bindE)
  qed
qed

lemma demo_requests [simp]:
  "served still_env (demo_name 3) 3" "0 \<le> a \<Longrightarrow> a < 10 ^ 13 \<Longrightarrow> storable_request (demo_withdrawal a) a" "new_ids still_env demo_money"
proof -
  have "of_nat n + (2 :: uuid) \<noteq> of_nat n" for n by simp
  then have "(1 :: uuid) + (2 + of_nat n) \<noteq> 1 + of_nat n" for n by simp
  then show "new_ids still_env demo_money" by (simp add: new_ids_def demo_money_def still_env_def eq_commute)
qed (simp_all add: served_def storable_request_def demo_withdrawal_def)

theorem withdrawal_granted_witness:
  "wp (RequestWithdrawal still_env (Fin 5) True (demo_name 3) (demo_withdrawal 90000)) (\<lambda>r t. is_ok r) demo_money"
  by (rule wp_mono [OF withdrawal_granted [where fee = "Fin 5" and org = 3 and net = 95000 and a = 90000]]) auto

text \<open>
  C25. Two requests that overlap can take more than there is: when both read the balance before either
  has stored its row, each amount within the balance, both are stored, and what is taken grows by both
  amounts. The transaction takes no lock.
\<close>

theorem overlapping_withdrawals_overdraw:
  assumes "served E org_str org" and "account fee org net s" and "withdrawn s org \<le> net"
    and "storable_request r1 a1" and "storable_request r2 a2" and "new_ids E s"
    and "a1 \<le> net - withdrawn s org" and "a2 \<le> net - withdrawn s org"
  shows "wp (do { c1 \<leftarrow> withdrawal_check E fee org_str org r1; c2 \<leftarrow> withdrawal_check E fee org_str org r2;
       w1 \<leftarrow> withdrawal_store E b1 org r1; w2 \<leftarrow> withdrawal_store E b2 org r2; ret (c1, c2, w1, w2) })
    (\<lambda>(c1, c2, w1, w2) t. is_ok c1 \<and> is_ok c2 \<and> is_ok w1 \<and> is_ok w2 \<and> withdrawn t org = withdrawn s org + a1 + a2) s"
proof -
  have e: "reliable E" using assms(1) by (simp add: served_def)
  have a: "wr_Amount r1 = Fin (of_int a1)" "wr_Amount r2 = Fin (of_int a2)" using assms(4,5) by (simp_all add: storable_request_def)
  have bal: "balance_of fee s org = Fin (of_int (net - withdrawn s org))" by (rule balance_fits [OF assms(2,3)])
  have new: "fresh E m \<notin> w_ID ` set (withdrawals s)" "fresh E (m + 2) \<noteq> fresh E m" for m
    using assms(6) by (metis new_ids_def)+
  have d: "deducted_status ''PENDING''" by (simp add: deducted_status_def)
  show ?thesis
    unfolding wp_bind
    by (rule wp_check_served [OF assms(1)], rule wp_check_served [OF assms(1)], rule wp_store_served [OF e assms(4)],
        simp add: new, rule wp_store_served [OF e assms(5)], simp add: new [simplified])
      (use assms(7,8) in \<open>simp add: bal a d withdrawn_def withdrawals_of_def\<close>)
qed

theorem overlapping_withdrawals_witness:
  "wp (do { c1 \<leftarrow> withdrawal_check still_env (Fin 5) (demo_name 3) 3 (demo_withdrawal 90000);
       c2 \<leftarrow> withdrawal_check still_env (Fin 5) (demo_name 3) 3 (demo_withdrawal 80000);
       w1 \<leftarrow> withdrawal_store still_env 0 3 (demo_withdrawal 90000); w2 \<leftarrow> withdrawal_store still_env 0 3 (demo_withdrawal 80000);
       ret (c1, c2, w1, w2) }) (\<lambda>(c1, c2, w1, w2) t. is_ok w1 \<and> is_ok w2 \<and> withdrawn t 3 = 170000) demo_money"
  by (rule wp_mono [OF overlapping_withdrawals_overdraw [where net = 95000 and ?a1.0 = 90000 and ?a2.0 = 80000]]) auto

section \<open>Administration and access\<close>

lemma sum_updated:
  fixes f :: "'r \<Rightarrow> int"
  assumes "distinct (map k rows)" and "find_row (\<lambda>r. k r = x) rows = Some w"
  shows "sum_list (map f (update_rows (\<lambda>r. k r = x) g rows)) = sum_list (map f rows) - f w + f (g w)"
  using assms
proof (induction rows)
  case (Cons r rows)
  have same: "update_rows (\<lambda>r. k r = x) g rows = rows" if "k r = x"
  proof -
    have "\<forall>r' \<in> set rows. k r' \<noteq> x" using that Cons.prems(1) by (auto simp: image_iff)
    then show ?thesis unfolding update_rows_def by (intro map_idI) simp
  qed
  show ?case using Cons same by (auto split: if_splits)
qed simp

lemma withdrawn_sum:
  "withdrawn s org = sum_list (map (\<lambda>w. if w_OrganizerID w = org \<and> deducted_status (w_Status w) then rupiah (w_Amount w) else 0) (withdrawals s))"
proof -
  have "sum_list (map f (filter p ws)) = sum_list (map (\<lambda>w. if p w then f w else (0 :: int)) ws)" for p f and ws :: "Withdrawal list"
    by (induction ws) auto
  then show ?thesis by (simp add: withdrawn_def withdrawals_of_def if_if_eq_conj cong: if_cong)
qed

text \<open>
  The administration moves a withdrawal from any status to any other, and the balance follows: what
  is taken changes by the amount of the row, from counted to not counted or back. Rejecting a
  withdrawal that was paid out gives its amount back to the organizer's balance.
\<close>

theorem withdrawal_status_moves_balance:
  fixes s :: "'z ticket_db_scheme"
  assumes "reliable E" and "uuid_Parse E w_str = Some wid" and "find_row (\<lambda>w. w_ID w = wid) (withdrawals s) = Some w"
    and "distinct (map w_ID (withdrawals s))" and "length (uw_Status req) \<le> 30"
  shows "wp (AdminUpdateWithdrawalStatus E w_str req) (\<lambda>r t. is_ok r \<and>
    (\<forall>org. withdrawn t org = withdrawn s org + (if w_OrganizerID w \<noteq> org then 0
       else (if deducted_status (uw_Status req) then rupiah (w_Amount w) else 0) -
            (if deducted_status (w_Status w) then rupiah (w_Amount w) else 0)))) s"
proof -
  have "sum_list (map (\<lambda>w. if w_OrganizerID w = org \<and> deducted_status (w_Status w) then rupiah (w_Amount w) else 0)
      (update_rows (\<lambda>r. w_ID r = wid) (withdrawal_row now (uw_Status req) reason) (withdrawals s))) =
    withdrawn s org + (if w_OrganizerID w \<noteq> org then 0
       else (if deducted_status (uw_Status req) then rupiah (w_Amount w) else 0) -
            (if deducted_status (w_Status w) then rupiah (w_Amount w) else 0))" for org now reason
    unfolding sum_updated [OF assms(4,3)] by (simp add: withdrawn_sum withdrawal_row_def)
  then have "withdrawn (s\<lparr>tick := n, withdrawals := update_rows (\<lambda>r. w_ID r = wid) (withdrawal_row now (uw_Status req) reason) (withdrawals s)\<rparr>) org =
    withdrawn s org + (if w_OrganizerID w \<noteq> org then 0
       else (if deducted_status (uw_Status req) then rupiah (w_Amount w) else 0) -
            (if deducted_status (w_Status w) then rupiah (w_Amount w) else 0))" for n org now reason
    by (subst withdrawn_sum) simp
  with assms(1,2,3,5) show ?thesis by (simp add: AdminUpdateWithdrawalStatus_def UpdateWithdrawalStatus_def)
qed

theorem withdrawal_status_witness:
  "wp (AdminUpdateWithdrawalStatus still_env (demo_name 7) \<lparr>uw_Status = ''REJECTED'', uw_RejectionReason = []\<rparr>)
     (\<lambda>r t. withdrawn t 3 = 0) (demo_money\<lparr>withdrawals := [(pending_row 7 3 (demo_withdrawal 90000) (Num (of_int 90000)) 0)\<lparr>w_Status := ''PAID''\<rparr>]\<rparr>)"
  by (rule wp_mono [OF withdrawal_status_moves_balance [where wid = 7]])
    (auto simp: pending_row_def withdrawn_def withdrawals_of_def deducted_status_def)

text \<open>
  An organizer only sees what is the organizer's: under every schedule of faults reading an order
  or a withdrawal changes nothing, an order that is returned is for an event of the organizer and comes
  with exactly its own items and tickets, and a withdrawal that is returned is the organizer's.
\<close>

theorem organizer_sees_own:
  fixes s :: "'z ticket_db_scheme"
  assumes "uuid_laws E" and "uuid_Parse E org_str = Some org"
  shows "wp (GetOrganizerOrder E id_str org_str) (\<lambda>r t. same_but_tick s t \<and> (\<forall>order items tks. r = Inr (order, items, tks) \<longrightarrow>
      order \<in> set (orders s) \<and> o_EventID order \<in> set (events_of s org) \<and>
      set items = {i \<in> set (order_items s). oi_OrderID i = o_ID order} \<and>
      set tks = {k \<in> set (tickets s). tk_OrderID k = o_ID order})) s \<and>
    wp (GetOrganizerWithdrawalDetail E id_str org_str) (\<lambda>r t. same_but_tick s t \<and> (\<forall>w. r = Inr w \<longrightarrow>
      w \<in> set (withdrawals_of s org))) s"
proof -
  have find: "reads (GetOrder E oid) (\<lambda>order. order \<in> set (orders s) \<and> o_ID order = oid) s" for oid and s :: "'z ticket_db_scheme"
    by (auto simp: reads_def GetOrder_def sql_def wp_external row_result_def dest: find_row_Some split: outcome.split option.split)
  have items: "reads (ListOrderItems E oid) (\<lambda>xs. set xs = {i \<in> set (order_items s). oi_OrderID i = oid}) s" for oid and s :: "'z ticket_db_scheme"
    by (auto simp: reads_def ListOrderItems_def sql_def wp_external split: outcome.split)
  have tks: "reads (ListTicketsByOrder E oid) (\<lambda>xs. set xs = {k \<in> set (tickets s). tk_OrderID k = oid}) s" for oid and s :: "'z ticket_db_scheme"
    by (auto simp: reads_def ListTicketsByOrder_def sql_def wp_external split: outcome.split)
  have det: "reads (GetWithdrawal E wid) (\<lambda>w. w \<in> set (withdrawals s)) s" for wid
    by (auto simp: reads_def GetWithdrawal_def sql_def wp_external row_result_def dest: find_row_Some split: outcome.split option.split)
  have order: "reads (GetOrganizerOrder E id_str org_str) (\<lambda>(order, items, tks).
      order \<in> set (orders s) \<and> o_EventID order \<in> set (events_of s org) \<and>
      set items = {i \<in> set (order_items s). oi_OrderID i = o_ID order} \<and>
      set tks = {k \<in> set (tickets s). tk_OrderID k = o_ID order}) s"
    unfolding GetOrganizerOrder_def
    by (cases "uuid_Parse E id_str")
      (auto intro!: reads_bindE [OF find] reads_bindE [OF reads_FetchOrganizerEventIDs [OF assms(2)]] reads_bindE [OF items]
         reads_bindE [OF tks] simp: uuid_String_inject [OF assms(1)])
  have detail: "reads (GetOrganizerWithdrawalDetail E id_str org_str) (\<lambda>w. w \<in> set (withdrawals_of s org)) s"
    unfolding GetOrganizerWithdrawalDetail_def assms(2) option.case
    by (cases "uuid_Parse E id_str") (auto intro!: reads_bindE [OF det] simp: withdrawals_of_def)
  show ?thesis
    by (intro conjI wp_mono [OF order [unfolded reads_def]] wp_mono [OF detail [unfolded reads_def]])
      (auto simp: same_but_tick_def)
qed

theorem organizer_sees_own_witness:
  "wp (GetOrganizerOrder still_env (demo_name 11) (demo_name 3)) (\<lambda>r t. same_but_tick demo_money t) demo_money"
  by (rule wp_mono [OF organizer_sees_own [where org = 3, THEN conjunct1]]) simp_all

end
