(* ===== verification/Ticket_Handlers_Spec.thy ===== *)
theory Ticket_Handlers_Spec
  imports Ticket_Handlers Ticket_Withdrawal_Spec
begin

text \<open>Facts about the routes of the ticket service: who can reach what.\<close>

lemma Contains_iff: "Contains s sub \<longleftrightarrow> (\<exists>a b. s = a @ sub @ b)"
proof (induction s)
  case (Cons c cs)
  have "take (length sub) (c # cs) = sub \<longleftrightarrow> (\<exists>b. c # cs = sub @ b)"
    by (metis append_eq_conv_conj append_take_drop_id)
  moreover have "(\<exists>a b. c # cs = a @ sub @ b) \<longleftrightarrow> (\<exists>b. c # cs = sub @ b) \<or> (\<exists>a b. cs = a @ sub @ b)"
    by (metis append_Cons append_Nil list.exhaust list.inject)
  ultimately show ?case using Cons.IH by simp
qed simp

text \<open>The claims the middleware accepts from a request at some time.\<close>

definition accepted :: "jwt_lib \<Rightarrow> string \<Rightarrow> headers \<Rightarrow> JWTClaims \<Rightarrow> bool" where
  "accepted J secret h c \<longleftrightarrow> (\<exists>tok now. bearer_token (hd_Authorization h) = Some tok \<and> ParseWithClaims J now secret tok = Some c)"

lemma JWTAuth_Inl: "JWTAuth J now secret h = Inl r \<Longrightarrow> \<exists>m. r = Error 401 m"
  by (auto simp: JWTAuth_def split: option.splits if_splits)

lemma JWTAuth_Inr: "JWTAuth J now secret h = Inr ss \<Longrightarrow> \<exists>c. accepted J secret h c \<and> ss = session_of c"
  by (auto simp: JWTAuth_def accepted_def split: option.splits if_splits)

lemma wp_protected_route:
  assumes "\<And>m n. Q (Error 401 m) (s\<lparr>tick := n\<rparr>)"
    and "\<And>c n. accepted J secret h c \<Longrightarrow> wp (handler (session_of c)) Q (s\<lparr>tick := n\<rparr>)"
  shows "wp (protected_route E J secret h handler) Q s"
  using assms by (auto simp: protected_route_def split: sum.split dest!: JWTAuth_Inl JWTAuth_Inr)

lemma wp_admin_route:
  assumes "\<And>c m n. c = 401 \<or> c = 403 \<Longrightarrow> Q (Error c m) (s\<lparr>tick := n\<rparr>)"
    and "\<And>c n. accepted J secret h c \<Longrightarrow> cl_Role c = ''admin'' \<Longrightarrow> wp (handler (session_of c)) Q (s\<lparr>tick := n\<rparr>)"
  shows "wp (admin_route E J secret h handler) Q s"
  unfolding admin_route_def role_route_def
  by (rule wp_protected_route) (use assms in \<open>auto simp: RequireRole_def session_of_def\<close>)

text \<open>Requests the witnesses send: \<open>demo_jwt\<close> accepts the token \<open>t\<close> and reads its role out of the secret.\<close>

definition demo_jwt :: "JWTClaims \<Rightarrow> jwt_lib" where
  "demo_jwt c = \<lparr>jwt_hmac = (\<lambda>_. True), jwt_verify = (\<lambda>now secret tok. if tok = ''t'' then Some c else None),
     jwt_sign = (\<lambda>secret c mail iat ex. Inl ErrParse)\<rparr>"

definition demo_headers :: headers where
  "demo_headers = \<lparr>hd_Authorization = ''Bearer t'', hd_InternalSecret = []\<rparr>"

lemma accepted_demo: "accepted (demo_jwt c) secret demo_headers d \<longleftrightarrow> d = c"
  using bearer_token_header [of "''t''"] by (auto simp: accepted_def demo_headers_def demo_jwt_def ParseWithClaims_def)

text \<open>
  Only an administrator decides on withdrawals: whenever a request to the route of
  \<open>AdminUpdateWithdrawalStatus\<close> changes the table of withdrawals, its bearer token was accepted and carries
  the role \<open>admin\<close>; without such a token the answer is 401 or 403.
\<close>

theorem withdrawals_decided_by_admin:
  shows "wp (admin_route E J secret h (\<lambda>ss. Handler_AdminUpdateWithdrawalStatus E lib ss w_str body))
    (\<lambda>r t. (\<exists>c. accepted J secret h c \<and> cl_Role c = ''admin'') \<or>
       (withdrawals t = withdrawals s \<and> (resp_Code r = 401 \<or> resp_Code r = 403))) s"
  by (rule wp_admin_route) (auto simp: Error_def intro!: wpI)

theorem withdrawals_decided_by_admin_witness:
  "wp (admin_route still_env (demo_jwt \<lparr>cl_UserID = demo_name 5, cl_Role = ''customer''\<rparr>) ''k'' demo_headers
     (\<lambda>ss. Handler_AdminUpdateWithdrawalStatus still_env (\<lambda>_. []) ss (demo_name 7) None))
     (\<lambda>r t. withdrawals t = [] \<and> (resp_Code r = 401 \<or> resp_Code r = 403)) demo_money"
  by (rule wp_mono [OF withdrawals_decided_by_admin]) (auto simp: accepted_demo demo_money_def)

lemma queue_failure_code [simp]: "resp_Code (queue_failure lib e) \<noteq> 200"
  by (simp add: queue_failure_def Let_def response_defs)

text \<open>
  Over HTTP an order belongs to its user: whoever presents a token of another user (or none) is
  refused when asking for the place of the order in the queue, giving it up or paying it; nothing
  changes, whatever fails on the way.
\<close>

theorem foreign_order_over_http:
  fixes s :: "'z ticket_db_scheme"
  assumes "uuid_Parse E v = Some oid" and "find_row (\<lambda>r. o_ID r = oid) (orders s) = Some order"
    and "\<And>c. accepted J secret h c \<Longrightarrow> cl_UserID c \<noteq> [] \<and> cl_UserID c \<noteq> uuid_String E (o_UserID order)"
  shows "wp (protected_route E J secret h (\<lambda>ss. Handler_GetOrderQueueStatus E lib ss v)) (\<lambda>r t. resp_Code r \<noteq> 200 \<and> same_but_tick s t) s \<and>
    wp (protected_route E J secret h (\<lambda>ss. Handler_CancelOrder E lib ss v)) (\<lambda>r t. resp_Code r \<noteq> 200 \<and> same_but_tick s t) s \<and>
    wp (protected_route E J secret h (\<lambda>ss. Handler_CreatePaymentToken E lib snap ss v)) (\<lambda>r t. resp_Code r \<noteq> 200 \<and> same_but_tick s t) s"
proof (intro conjI)
  have f: "find_row (\<lambda>r. o_ID r = oid) (orders (s\<lparr>tick := n\<rparr>)) = Some order" for n using assms(2) by simp
  have user: "accepted J secret h c \<Longrightarrow> uuid_String E (o_UserID order) \<noteq> cl_UserID c \<and> cl_UserID c \<noteq> []" for c
    using assms(3) by metis
  note defs = session_of_def session_user_def response_defs same_but_tick_def assms(1) user
  show "wp (protected_route E J secret h (\<lambda>ss. Handler_GetOrderQueueStatus E lib ss v)) (\<lambda>r t. resp_Code r \<noteq> 200 \<and> same_but_tick s t) s"
    by (rule wp_protected_route)
      (auto simp: Handler_GetOrderQueueStatus_def GetOrderQueueStatus_def defs simp del: wp_bindE intro!: wp_read_order [OF f])
  show "wp (protected_route E J secret h (\<lambda>ss. Handler_CancelOrder E lib ss v)) (\<lambda>r t. resp_Code r \<noteq> 200 \<and> same_but_tick s t) s"
    by (rule wp_protected_route)
      (auto simp: Handler_CancelOrder_def CancelOrderInQueue_def defs simp del: wp_bindE intro!: wp_read_order [OF f])
  show "wp (protected_route E J secret h (\<lambda>ss. Handler_CreatePaymentToken E lib snap ss v)) (\<lambda>r t. resp_Code r \<noteq> 200 \<and> same_but_tick s t) s"
    by (rule wp_protected_route)
      (auto simp: Handler_CreatePaymentToken_def CreatePaymentToken_def defs simp del: wp_bindE intro!: wp_read_order [OF f] split: if_splits)
qed

theorem foreign_order_over_http_witness:
  "wp (protected_route still_env (demo_jwt \<lparr>cl_UserID = demo_name 6, cl_Role = ''customer''\<rparr>) ''k'' demo_headers
     (\<lambda>ss. Handler_CancelOrder still_env (\<lambda>_. []) ss (demo_name 12))) (\<lambda>r t. resp_Code r \<noteq> 200) (demo_queue 1200)"
  by (rule wp_mono [OF foreign_order_over_http [where oid = 12 and order = "demo_order 12", THEN conjunct2, THEN conjunct1]])
    (auto simp: accepted_demo)

end
