(* ===== verification/Ticket_Attendees.thy ===== *)
theory Ticket_Attendees
  imports Ticket_Handlers_Spec Auth_Spec
begin

text \<open>
  The attendees of an event (\<open>GetEventAttendees\<close> of \<open>service/order_service.go\<close> and its handler): the
  ticket service joins its tickets with the events of the organizer, asked from the event service, and
  with the profiles of the holders, asked from the auth service. The three databases are parts of one
  state, as each service keeps to its own tables.
\<close>

section \<open>The service\<close>

record AttendeeResponse =
  at_ID :: uuid
  at_OrderID :: uuid
  at_UserID :: uuid
  at_EventID :: uuid
  at_TicketTypeID :: uuid
  at_TicketCode :: string
  at_Status :: string
  at_CreatedAt :: time
  at_UpdatedAt :: time
  at_UserName :: string
  at_UserEmail :: string
  at_User :: "string \<times> string"

text \<open>The holders in the order they are first met.\<close>

definition holder_ids :: "env \<Rightarrow> Ticket list \<Rightarrow> string list" where
  "holder_ids E tks = foldl (\<lambda>acc k. if uuid_String E (tk_UserID k) \<in> set acc then acc else acc @ [uuid_String E (tk_UserID k)]) [] tks"

text \<open>The call to \<open>/api/v1/auth/users/batch\<close>: any failure leaves the profiles empty; a later entry of the
  answer replaces an earlier one.\<close>

definition fetch_profiles :: "env \<Rightarrow> auth_lib \<Rightarrow> string list \<Rightarrow> ('z auth_db_scheme, string \<Rightarrow> (string \<times> string) option) state" where
  "fetch_profiles E L ids = do {
     r \<leftarrow> external E (\<lambda>n. do {
            x \<leftarrow> batch_route E L \<lparr>hd_Authorization = [], hd_InternalSecret = client_secret E\<rparr> (GetUsersBatch E (Some ids));
            ok x });
     ret (case r of Inl e \<Rightarrow> Map.empty
       | Inr x \<Rightarrow> if resp_Code x \<noteq> 200 then Map.empty
                 else case resp_Data x of None \<Rightarrow> Map.empty
                   | Some rows \<Rightarrow> map_of (rev (map (\<lambda>u. (uuid_String E (ur_ID u), (ur_FullName u, ur_Email u))) rows))) }"

definition attendee :: "env \<Rightarrow> (string \<Rightarrow> (string \<times> string) option) \<Rightarrow> Ticket \<Rightarrow> AttendeeResponse" where
  "attendee E profiles k =
     (let prof = (case profiles (uuid_String E (tk_UserID k)) of None \<Rightarrow> ([], []) | Some p \<Rightarrow> p);
          name = (if fst prof = [] then ''Pengunjung'' else fst prof)
      in \<lparr>at_ID = tk_ID k, at_OrderID = tk_OrderID k, at_UserID = tk_UserID k, at_EventID = tk_EventID k,
          at_TicketTypeID = tk_TicketTypeID k, at_TicketCode = tk_TicketCode k, at_Status = tk_Status k,
          at_CreatedAt = tk_CreatedAt k, at_UpdatedAt = tk_UpdatedAt k, at_UserName = name, at_UserEmail = snd prof,
          at_User = (name, snd prof)\<rparr>)"

definition GetEventAttendees :: "env \<Rightarrow> auth_lib \<Rightarrow> string \<Rightarrow> string \<Rightarrow> ('z auth_db_scheme, AttendeeResponse list) go" where
  "GetEventAttendees E L event_str org_str = (case uuid_Parse E event_str of
       None \<Rightarrow> err (Err_Wrap ''invalid event id'' ErrParse)
     | Some event \<Rightarrow>
         bindE (Err_Wrap ''failed to fetch organizer events'') (FetchOrganizerEventIDs E org_str) (\<lambda>ids.
           if event_str \<notin> set ids then err (Err_New ''unauthorized to access this event'')
           else bindE (Err_Wrap ''failed to list tickets'') (ListTicketsByEvent E event) (\<lambda>tks. do {
             profiles \<leftarrow> (if holder_ids E tks \<noteq> [] then fetch_profiles E L (holder_ids E tks) else ret Map.empty);
             ok (map (attendee E profiles) tks) })))"

definition Handler_GetEventAttendees ::
    "env \<Rightarrow> auth_lib \<Rightarrow> (gerr \<Rightarrow> string) \<Rightarrow> session \<Rightarrow> string \<Rightarrow> ('z auth_db_scheme, AttendeeResponse list response) state" where
  "Handler_GetEventAttendees E L lib ss event_str = with_user ss
     (\<lambda>u. answer lib ''failed to get attendees: '' ''attendees retrieved'' (GetEventAttendees E L event_str u))"

section \<open>Who is shown\<close>

text \<open>What may be shown of a holder: the profile of the user, or the anonymous visitor.\<close>

definition shown_as :: "User list \<Rightarrow> AttendeeResponse \<Rightarrow> bool" where
  "shown_as us x \<longleftrightarrow> (at_UserName x = ''Pengunjung'' \<and> at_UserEmail x = []) \<or>
     (\<exists>u \<in> set us. us_ID u = at_UserID x \<and> at_UserEmail x = us_Email u
        \<and> at_UserName x = (if us_FullName u = [] then ''Pengunjung'' else us_FullName u))"

definition profiles_of :: "env \<Rightarrow> User list \<Rightarrow> (string \<Rightarrow> (string \<times> string) option) \<Rightarrow> bool" where
  "profiles_of E us profiles \<longleftrightarrow> (\<forall>v p. profiles v = Some p \<longrightarrow>
     (\<exists>u \<in> set us. uuid_String E (us_ID u) = v \<and> p = (us_FullName u, us_Email u)))"

lemma attendee_shown:
  assumes "uuid_laws E" and "profiles_of E us profiles"
  shows "shown_as us (attendee E profiles k)"
proof (cases "profiles (uuid_String E (tk_UserID k))")
  case None
  then show ?thesis by (simp add: shown_as_def attendee_def Let_def)
next
  case (Some p)
  then obtain u where "u \<in> set us" "uuid_String E (us_ID u) = uuid_String E (tk_UserID k)" "p = (us_FullName u, us_Email u)"
    using assms(2) unfolding profiles_of_def by blast
  moreover from this(2) have "us_ID u = tk_UserID k" using assms(1) by (simp add: uuid_String_inject)
  ultimately show ?thesis using Some by (auto simp: shown_as_def attendee_def Let_def)
qed

lemma wp_fetch_profiles:
  fixes s :: "'z auth_db_scheme"
  assumes Q: "\<And>profiles n. profiles_of E (users s) profiles \<Longrightarrow> Q profiles (s\<lparr>tick := n\<rparr>)"
  shows "wp (fetch_profiles E L ids) Q s"
proof -
  have empty: "profiles_of E (users s) Map.empty" by (simp add: profiles_of_def)
  have rows: "profiles_of E (users s) (map_of (rev (map (\<lambda>u. (uuid_String E (ur_ID u), (ur_FullName u, ur_Email u)))
      (map user_row (filter p (users s))))))" for p
    by (auto simp: profiles_of_def user_row_def dest!: map_of_SomeD)
  show ?thesis
    by (auto simp: fetch_profiles_def wp_external batch_route_def GetUsersBatch_def GetUsersByIDs_def Queries_GetUsersByIDs_def sql_def
        response_defs RequireInternalSecretOrRoles_def Let_def empty intro!: Q rows [simplified]
        split: outcome.split sum.split option.split if_split)
qed

lemma reads_profiles:
  fixes s :: "'z auth_db_scheme"
  assumes "\<And>profiles. profiles_of E (users s) profiles \<Longrightarrow> P (f profiles)"
  shows "reads (do { profiles \<leftarrow> (if c then fetch_profiles E L ids else ret Map.empty); ok (f profiles) }) P s"
proof -
  have "\<exists>m. s\<lparr>tick := n\<rparr> = s\<lparr>tick := m\<rparr>" for n by blast
  moreover have "\<exists>n. s = s\<lparr>tick := n\<rparr>" by (rule exI [of _ "tick s"]) simp
  moreover have "profiles_of E (users s) Map.empty" by (simp add: profiles_of_def)
  ultimately show ?thesis by (auto simp: reads_def assms intro!: wp_fetch_profiles)
qed

text \<open>
  C19. An organizer sees attendees of own events only: whatever the event and the auth service do and
  whatever fails, an answer lists exactly the tickets of an event of the organizer in the order they were
  issued, each with the profile of its holder or as an anonymous visitor, and nothing changes.
\<close>

theorem attendees_of_own_event:
  fixes s :: "'z auth_db_scheme"
  assumes "uuid_laws E" and "uuid_Parse E org_str = Some org"
  shows "wp (GetEventAttendees E L event_str org_str) (\<lambda>r t. same_but_tick s t \<and> (\<forall>xs. r = Inr xs \<longrightarrow>
     (\<exists>event \<in> set (events_of s org). event_str = uuid_String E event
        \<and> map at_ID xs = map tk_ID (sort_key tk_CreatedAt (filter (\<lambda>k. tk_EventID k = event) (tickets s))))
     \<and> (\<forall>x \<in> set xs. shown_as (users s) x))) s"
proof (cases "uuid_Parse E event_str")
  case None
  then show ?thesis by (simp add: GetEventAttendees_def)
next
  case (Some event)
  have tks: "reads (ListTicketsByEvent E event) (\<lambda>xs. xs = sort_key tk_CreatedAt (filter (\<lambda>k. tk_EventID k = event) (tickets s))) s"
    for s :: "'z auth_db_scheme"
    by (auto simp: reads_def ListTicketsByEvent_def sql_def wp_external split: outcome.split)
  have ids: "map at_ID (map (attendee E profiles) ks) = map tk_ID ks" for profiles ks by (simp add: attendee_def Let_def)
  have "reads (GetEventAttendees E L event_str org_str) (\<lambda>xs.
     (\<exists>event \<in> set (events_of s org). event_str = uuid_String E event
        \<and> map at_ID xs = map tk_ID (sort_key tk_CreatedAt (filter (\<lambda>k. tk_EventID k = event) (tickets s))))
     \<and> (\<forall>x \<in> set xs. shown_as (users s) x)) s"
    unfolding GetEventAttendees_def Some option.case
  proof (intro reads_bindE [OF reads_FetchOrganizerEventIDs [OF assms(2)]])
    fix strs n assume strs: "strs = map (uuid_String E) (events_of s org)"
    show "reads (if event_str \<notin> set strs then err (Err_New ''unauthorized to access this event'')
           else bindE (Err_Wrap ''failed to list tickets'') (ListTicketsByEvent E event) (\<lambda>tks. do {
             profiles \<leftarrow> (if holder_ids E tks \<noteq> [] then fetch_profiles E L (holder_ids E tks) else ret Map.empty);
             ok (map (attendee E profiles) tks) })) (\<lambda>xs.
       (\<exists>event \<in> set (events_of s org). event_str = uuid_String E event
          \<and> map at_ID xs = map tk_ID (sort_key tk_CreatedAt (filter (\<lambda>k. tk_EventID k = event) (tickets s))))
       \<and> (\<forall>x \<in> set xs. shown_as (users s) x)) (s\<lparr>tick := n\<rparr>)"
    proof (cases "event_str \<in> set strs")
      case True
      then obtain ev where ev: "ev \<in> set (events_of s org)" "event_str = uuid_String E ev" by (auto simp: strs)
      then have "ev = event" using Some assms(1) by (auto simp: uuid_roundtrip)
      with ev True show ?thesis
        by (auto intro!: reads_bindE [OF tks] reads_profiles bexI [of _ event] simp: ids [simplified] attendee_shown [OF assms(1)])
    qed simp
  qed
  then show ?thesis by (rule reads_wp) (auto simp: same_but_tick_def)
qed

definition demo_hall :: auth_db where
  "demo_hall = \<lparr>tick = 0, redis = Map.empty, kafka = [], ticket_types = [], events = events demo_money, orders = [], order_items = [],
     tickets = [\<lparr>tk_ID = 21, tk_OrderID = 11, tk_UserID = 5, tk_EventID = 2, tk_TicketTypeID = 1, tk_TicketCode = ''c'', tk_Status = ''ACTIVE'',
       tk_CreatedAt = 0, tk_UpdatedAt = 0\<rparr>],
     withdrawals = [], local_tickets = [], users = [], refresh_tokens = [], password_resets = [], rotations = Map.empty\<rparr>"

theorem attendees_of_own_event_witness:
  "wp (GetEventAttendees still_env demo_auth (demo_name 2) (demo_name 3)) (\<lambda>r t. same_but_tick demo_hall t \<and> (\<forall>xs. r = Inr xs \<longrightarrow>
     (\<forall>x \<in> set xs. at_UserName x = ''Pengunjung''))) demo_hall"
  by (rule wp_mono [OF attendees_of_own_event [where org = 3]]) (auto simp: shown_as_def demo_hall_def)

end
