(* ===== verification/Event_Store.thy ===== *)
theory Event_Store
  imports Ticket_Attendees
begin

text \<open>
  The rest of the database of the event service: the tables \<open>venues\<close> and \<open>categories\<close> beside \<open>events\<close> and
  \<open>ticket_types\<close> of \<open>Event_Inventory\<close>, and the statements of \<open>events.sql.go\<close>, \<open>ticket_types.sql.go\<close>,
  \<open>venues.sql.go\<close> and \<open>categories.sql.go\<close> that organizers and visitors use, with the constraints of the schema
  (\<open>migrations/000001_init_events.up.sql\<close>): unique slugs, foreign keys, \<open>VARCHAR(n)\<close>, \<open>DECIMAL(p, s)\<close>, and ticket
  types that go with their event.
\<close>

section \<open>Rows\<close>

record Venue =
  ve_ID :: uuid
  ve_OrganizerID :: uuid
  ve_Name :: string
  ve_Address :: string
  ve_City :: string
  ve_Province :: "string option"
  ve_Country :: string
  ve_Latitude :: numeric
  ve_Longitude :: numeric
  ve_Capacity :: "int32 option"
  ve_Description :: "string option"
  ve_CreatedAt :: time
  ve_UpdatedAt :: time

record Category =
  ca_ID :: uuid
  ca_Name :: string
  ca_Slug :: string
  ca_Icon :: "string option"
  ca_CreatedAt :: time

record catalog_db = auth_db +
  venues :: "Venue list"
  categories :: "Category list"

lemma catalog_update_order [simp]:
  "s\<lparr>events := es, tick := n\<rparr> = s\<lparr>tick := n, events := es\<rparr>"
  "s\<lparr>events := es, redis := rd\<rparr> = s\<lparr>redis := rd, events := es\<rparr>"
  "s\<lparr>events := es, kafka := ms\<rparr> = s\<lparr>kafka := ms, events := es\<rparr>"
  "s\<lparr>events := es, ticket_types := tts\<rparr> = s\<lparr>ticket_types := tts, events := es\<rparr>"
  "s\<lparr>venues := vs, tick := n\<rparr> = s\<lparr>tick := n, venues := vs\<rparr>"
  by simp_all

text \<open>Prices are compared as PostgreSQL compares them: NaN above every number, NULL last.\<close>

fun numeric_le :: "numeric \<Rightarrow> numeric \<Rightarrow> bool" where
  "numeric_le x NumNull = True"
| "numeric_le NumNull y = False"
| "numeric_le x NumNaN = True"
| "numeric_le NumNaN y = False"
| "numeric_le (Num a) (Num b) = (a \<le> b)"

instantiation numeric :: linorder
begin

definition less_eq_numeric :: "numeric \<Rightarrow> numeric \<Rightarrow> bool" where
  "less_eq_numeric = numeric_le"

definition less_numeric :: "numeric \<Rightarrow> numeric \<Rightarrow> bool" where
  "less_numeric x y \<longleftrightarrow> numeric_le x y \<and> \<not> numeric_le y x"

instance
proof
  fix x y z :: numeric
  show "x < y \<longleftrightarrow> x \<le> y \<and> \<not> y \<le> x" by (simp add: less_eq_numeric_def less_numeric_def)
  show "x \<le> x" by (cases x) (simp_all add: less_eq_numeric_def)
  show "x \<le> z" if "x \<le> y" "y \<le> z"
    using that by (cases x; cases y; cases z) (simp_all add: less_eq_numeric_def)
  show "x = y" if "x \<le> y" "y \<le> x"
    using that by (cases x; cases y) (simp_all add: less_eq_numeric_def)
  show "x \<le> y \<or> y \<le> x" by (cases x; cases y) (auto simp: less_eq_numeric_def)
qed

end

text \<open>A nullable \<open>DECIMAL(p, s)\<close> column: rounds half away from zero, fails on more than \<open>p - s\<close> integer digits.\<close>

definition round_scale :: "nat \<Rightarrow> rat \<Rightarrow> rat" where
  "round_scale s q = (if 0 \<le> q then of_int \<lfloor>q * 10 ^ s + 1 / 2\<rfloor> / 10 ^ s else - (of_int \<lfloor>- q * 10 ^ s + 1 / 2\<rfloor> / 10 ^ s))"

fun decimal_col :: "nat \<Rightarrow> nat \<Rightarrow> numeric \<Rightarrow> gerr + numeric" where
  "decimal_col p s NumNull = Inr NumNull"
| "decimal_col p s NumNaN = Inr NumNaN"
| "decimal_col p s (Num q) = (if \<bar>round_scale s q\<bar> < 10 ^ (p - s) then Inr (Num (round_scale s q)) else Inl ErrOutOfRange)"

section \<open>Events\<close>

text \<open>The columns an organizer sets (\<open>CreateEventParams\<close>, \<open>UpdateEventParams\<close>).\<close>

record EventParams =
  ep_VenueID :: "uuid option"
  ep_CategoryID :: "uuid option"
  ep_Title :: string
  ep_Slug :: string
  ep_Description :: "string option"
  ep_BannerUrl :: "string option"
  ep_StartDate :: time
  ep_EndDate :: time
  ep_Status :: string
  ep_IsOnline :: bool
  ep_OnlineUrl :: "string option"
  ep_MaxAttendees :: "int32 option"

definition event_too_long :: "EventParams \<Rightarrow> bool" where
  "event_too_long p \<longleftrightarrow> 255 < length (ep_Title p) \<or> 255 < length (ep_Slug p) \<or> 20 < length (ep_Status p)"

definition dangling :: "'z catalog_db_scheme \<Rightarrow> EventParams \<Rightarrow> bool" where
  "dangling s p \<longleftrightarrow> (case ep_VenueID p of None \<Rightarrow> False | Some v \<Rightarrow> v \<notin> ve_ID ` set (venues s))
     \<or> (case ep_CategoryID p of None \<Rightarrow> False | Some c \<Rightarrow> c \<notin> ca_ID ` set (categories s))"

definition event_row :: "time \<Rightarrow> EventParams \<Rightarrow> Event \<Rightarrow> Event" where
  "event_row now p r = r\<lparr>ev_VenueID := ep_VenueID p, ev_CategoryID := ep_CategoryID p, ev_Title := ep_Title p, ev_Slug := ep_Slug p,
     ev_Description := ep_Description p, ev_BannerUrl := ep_BannerUrl p, ev_StartDate := Some (pg_time (ep_StartDate p)),
     ev_EndDate := Some (pg_time (ep_EndDate p)), ev_Status := ep_Status p, ev_IsOnline := ep_IsOnline p,
     ev_OnlineUrl := ep_OnlineUrl p, ev_MaxAttendees := ep_MaxAttendees p, ev_UpdatedAt := now\<rparr>"

definition new_event :: "uuid \<Rightarrow> uuid \<Rightarrow> time \<Rightarrow> EventParams \<Rightarrow> Event" where
  "new_event u org now p = event_row now p \<lparr>ev_ID = u, ev_OrganizerID = org, ev_VenueID = None, ev_CategoryID = None, ev_Title = [],
     ev_Slug = [], ev_Description = None, ev_BannerUrl = None, ev_StartDate = None, ev_EndDate = None, ev_Status = [], ev_IsOnline = False,
     ev_OnlineUrl = None, ev_MaxAttendees = None, ev_CreatedAt = now, ev_UpdatedAt = now\<rparr>"

definition Queries_CreateEvent :: "env \<Rightarrow> uuid \<Rightarrow> EventParams \<Rightarrow> ('z catalog_db_scheme, Event) go" where
  "Queries_CreateEvent E org p = sql E (\<lambda>now u s.
     if event_too_long p then (Inl ErrOutOfRange, s)
     else if dangling s p \<or> u \<in> ev_ID ` set (events s) \<or> ep_Slug p \<in> ev_Slug ` set (events s) then (Inl ErrConstraint, s)
     else (Inr (new_event u org now p), s\<lparr>events := events s @ [new_event u org now p]\<rparr>))"

text \<open>\<open>ON DELETE CASCADE\<close>: the ticket types of a deleted event go too.\<close>

definition Queries_DeleteEvent :: "env \<Rightarrow> uuid \<Rightarrow> uuid \<Rightarrow> ('z catalog_db_scheme, unit) go" where
  "Queries_DeleteEvent E eid org = sql E (\<lambda>now u s.
     (let gone = ev_ID ` set (filter (\<lambda>r. ev_ID r = eid \<and> ev_OrganizerID r = org) (events s)) in
      (Inr (), s\<lparr>events := filter (\<lambda>r. \<not> (ev_ID r = eid \<and> ev_OrganizerID r = org)) (events s),
                ticket_types := filter (\<lambda>t. tt_EventID t \<notin> gone) (ticket_types s)\<rparr>)))"

definition GetEventBySlug :: "env \<Rightarrow> string \<Rightarrow> ('z event_db_scheme, Event) go" where
  "GetEventBySlug E slug = sql E (\<lambda>now u s. (row_result (find_row (\<lambda>r. ev_Slug r = slug) (events s)), s))"

definition event_start :: "Event \<Rightarrow> time" where
  "event_start r = (case ev_StartDate r of None \<Rightarrow> 0 | Some t \<Rightarrow> t)"

definition published :: "Event \<Rightarrow> bool" where
  "published r \<longleftrightarrow> ev_Status r = ''published''"

definition Queries_ListEvents :: "env \<Rightarrow> int32 \<Rightarrow> int32 \<Rightarrow> ('z event_db_scheme, Event list) go" where
  "Queries_ListEvents E lmt off = sql E (\<lambda>now u s. (page_rows lmt off (sort_key event_start (filter published (events s))), s))"

definition CountPublishedEvents :: "env \<Rightarrow> ('z event_db_scheme, int) go" where
  "CountPublishedEvents E = sql E (\<lambda>now u s. (Inr (int (length (filter published (events s)))), s))"

definition ListEventsByCategory :: "env \<Rightarrow> uuid \<Rightarrow> int32 \<Rightarrow> int32 \<Rightarrow> ('z event_db_scheme, Event list) go" where
  "ListEventsByCategory E cat lmt off = sql E (\<lambda>now u s.
     (page_rows lmt off (sort_key event_start (filter (\<lambda>r. ev_CategoryID r = Some cat \<and> published r) (events s))), s))"

definition Queries_ListEventsByOrganizer :: "env \<Rightarrow> uuid \<Rightarrow> int32 \<Rightarrow> int32 \<Rightarrow> ('z event_db_scheme, Event list) go" where
  "Queries_ListEventsByOrganizer E org lmt off = sql E (\<lambda>now u s.
     (page_rows lmt off (newest_first ev_CreatedAt (filter (\<lambda>r. ev_OrganizerID r = org) (events s))), s))"

definition CountEventsByOrganizer :: "env \<Rightarrow> uuid \<Rightarrow> ('z event_db_scheme, int) go" where
  "CountEventsByOrganizer E org = sql E (\<lambda>now u s. (Inr (int (length (filter (\<lambda>r. ev_OrganizerID r = org) (events s)))), s))"

text \<open>\<open>ilike text pattern\<close> is the operator \<open>ILIKE\<close>; a NULL query makes the pattern NULL and matches nothing.\<close>

definition matches :: "(string \<Rightarrow> string \<Rightarrow> bool) \<Rightarrow> string option \<Rightarrow> Event \<Rightarrow> bool" where
  "matches ilike query r = (case query of None \<Rightarrow> False
     | Some q \<Rightarrow> ilike (ev_Title r) (''%'' @ q @ ''%'')
         \<or> (case ev_Description r of None \<Rightarrow> False | Some d \<Rightarrow> ilike d (''%'' @ q @ ''%'')))"

definition Queries_SearchEvents ::
    "env \<Rightarrow> (string \<Rightarrow> string \<Rightarrow> bool) \<Rightarrow> string option \<Rightarrow> int32 \<Rightarrow> int32 \<Rightarrow> ('z event_db_scheme, Event list) go" where
  "Queries_SearchEvents E ilike query lmt off = sql E (\<lambda>now u s.
     (page_rows lmt off (sort_key event_start (filter (\<lambda>r. published r \<and> matches ilike query r) (events s))), s))"

definition Queries_UpdateEvent :: "env \<Rightarrow> uuid \<Rightarrow> uuid \<Rightarrow> EventParams \<Rightarrow> ('z catalog_db_scheme, Event) go" where
  "Queries_UpdateEvent E eid org p = sql E (\<lambda>now u s.
     (case find_row (\<lambda>r. ev_ID r = eid \<and> ev_OrganizerID r = org) (events s) of
        None \<Rightarrow> (Inl ErrNoRows, s)
      | Some r \<Rightarrow>
          if event_too_long p then (Inl ErrOutOfRange, s)
          else if dangling s p \<or> ep_Slug p \<in> ev_Slug ` {x \<in> set (events s). ev_ID x \<noteq> eid} then (Inl ErrConstraint, s)
          else (Inr (event_row now p r),
                s\<lparr>events := update_rows (\<lambda>r. ev_ID r = eid \<and> ev_OrganizerID r = org) (event_row now p) (events s)\<rparr>)))"

definition event_status_row :: "time \<Rightarrow> string \<Rightarrow> Event \<Rightarrow> Event" where
  "event_status_row now status r = r\<lparr>ev_Status := status, ev_UpdatedAt := now\<rparr>"

definition UpdateEventStatus :: "env \<Rightarrow> uuid \<Rightarrow> string \<Rightarrow> ('z event_db_scheme, Event) go" where
  "UpdateEventStatus E eid status = sql E (\<lambda>now u s.
     (case find_row (\<lambda>r. ev_ID r = eid) (events s) of
        None \<Rightarrow> (Inl ErrNoRows, s)
      | Some r \<Rightarrow> if 20 < length status then (Inl ErrOutOfRange, s)
          else (Inr (event_status_row now status r), s\<lparr>events := update_rows (\<lambda>r. ev_ID r = eid) (event_status_row now status) (events s)\<rparr>)))"

interpretation event_keyed: keyed_update ev_ID "event_row now p" for now p
  by unfold_locales (simp add: event_row_def)

interpretation event_status_keyed: keyed_update ev_ID "event_status_row now status" for now status
  by unfold_locales (simp add: event_status_row_def)

section \<open>Ticket types\<close>

record TicketTypeParams =
  tp_Name :: string
  tp_Description :: "string option"
  tp_Price :: numeric
  tp_Quantity :: int32
  tp_MaxPerOrder :: "int32 option"
  tp_SaleStart :: time
  tp_SaleEnd :: time

definition type_row :: "time \<Rightarrow> TicketTypeParams \<Rightarrow> numeric \<Rightarrow> TicketType \<Rightarrow> TicketType" where
  "type_row now p price r = r\<lparr>tt_Name := tp_Name p, tt_Description := tp_Description p, tt_Price := price, tt_Quantity := tp_Quantity p,
     tt_MaxPerOrder := tp_MaxPerOrder p, tt_SaleStart := Some (pg_time (tp_SaleStart p)), tt_SaleEnd := Some (pg_time (tp_SaleEnd p)),
     tt_UpdatedAt := now\<rparr>"

definition new_type :: "uuid \<Rightarrow> uuid \<Rightarrow> time \<Rightarrow> TicketTypeParams \<Rightarrow> numeric \<Rightarrow> TicketType" where
  "new_type u eid now p price = type_row now p price \<lparr>tt_ID = u, tt_EventID = eid, tt_Name = [], tt_Description = None, tt_Price = NumNull,
     tt_Quantity = 0, tt_Sold = 0, tt_MaxPerOrder = None, tt_SaleStart = None, tt_SaleEnd = None, tt_IsActive = True,
     tt_CreatedAt = now, tt_UpdatedAt = now\<rparr>"

definition Queries_CreateTicketType :: "env \<Rightarrow> uuid \<Rightarrow> TicketTypeParams \<Rightarrow> ('z event_db_scheme, TicketType) go" where
  "Queries_CreateTicketType E eid p = sql E (\<lambda>now u s.
     if 100 < length (tp_Name p) then (Inl ErrOutOfRange, s)
     else (case decimal_15_2 (tp_Price p) of
         Inl e \<Rightarrow> (Inl e, s)
       | Inr price \<Rightarrow>
           if u \<in> tt_ID ` set (ticket_types s) \<or> eid \<notin> ev_ID ` set (events s) then (Inl ErrConstraint, s)
           else (Inr (new_type u eid now p price), s\<lparr>ticket_types := ticket_types s @ [new_type u eid now p price]\<rparr>)))"

definition Queries_DeleteTicketType :: "env \<Rightarrow> uuid \<Rightarrow> ('z event_db_scheme, unit) go" where
  "Queries_DeleteTicketType E tid = sql E (\<lambda>now u s. (Inr (), s\<lparr>ticket_types := filter (\<lambda>r. tt_ID r \<noteq> tid) (ticket_types s)\<rparr>))"

definition ListTicketTypesByEvent :: "env \<Rightarrow> uuid \<Rightarrow> ('z event_db_scheme, TicketType list) go" where
  "ListTicketTypesByEvent E eid = sql E (\<lambda>now u s.
     (Inr (sort_key tt_Price (filter (\<lambda>r. tt_EventID r = eid \<and> tt_IsActive r) (ticket_types s))), s))"

definition Queries_UpdateTicketType :: "env \<Rightarrow> uuid \<Rightarrow> TicketTypeParams \<Rightarrow> ('z event_db_scheme, TicketType) go" where
  "Queries_UpdateTicketType E tid p = sql E (\<lambda>now u s.
     (case find_row (\<lambda>r. tt_ID r = tid) (ticket_types s) of
        None \<Rightarrow> (Inl ErrNoRows, s)
      | Some r \<Rightarrow>
          if 100 < length (tp_Name p) then (Inl ErrOutOfRange, s)
          else (case decimal_15_2 (tp_Price p) of
              Inl e \<Rightarrow> (Inl e, s)
            | Inr price \<Rightarrow> (Inr (type_row now p price r),
                s\<lparr>ticket_types := update_rows (\<lambda>r. tt_ID r = tid) (type_row now p price) (ticket_types s)\<rparr>))))"

interpretation type_keyed: keyed_update tt_ID "type_row now p price" for now p price
  by unfold_locales (simp add: type_row_def)

section \<open>Venues and categories\<close>

record VenueParams =
  vp_Name :: string
  vp_Address :: string
  vp_City :: string
  vp_Province :: "string option"
  vp_Country :: string
  vp_Latitude :: numeric
  vp_Longitude :: numeric
  vp_Capacity :: "int32 option"
  vp_Description :: "string option"

definition venue_too_long :: "VenueParams \<Rightarrow> bool" where
  "venue_too_long p \<longleftrightarrow> 255 < length (vp_Name p) \<or> 100 < length (vp_City p) \<or> longer 100 (vp_Province p) \<or> 100 < length (vp_Country p)"

definition venue_row :: "time \<Rightarrow> VenueParams \<Rightarrow> numeric \<Rightarrow> numeric \<Rightarrow> Venue \<Rightarrow> Venue" where
  "venue_row now p lat lng r = r\<lparr>ve_Name := vp_Name p, ve_Address := vp_Address p, ve_City := vp_City p, ve_Province := vp_Province p,
     ve_Country := vp_Country p, ve_Latitude := lat, ve_Longitude := lng, ve_Capacity := vp_Capacity p,
     ve_Description := vp_Description p, ve_UpdatedAt := now\<rparr>"

definition new_venue :: "uuid \<Rightarrow> uuid \<Rightarrow> time \<Rightarrow> VenueParams \<Rightarrow> numeric \<Rightarrow> numeric \<Rightarrow> Venue" where
  "new_venue u org now p lat lng = venue_row now p lat lng \<lparr>ve_ID = u, ve_OrganizerID = org, ve_Name = [], ve_Address = [], ve_City = [],
     ve_Province = None, ve_Country = [], ve_Latitude = NumNull, ve_Longitude = NumNull, ve_Capacity = None, ve_Description = None,
     ve_CreatedAt = now, ve_UpdatedAt = now\<rparr>"

definition CountVenues :: "env \<Rightarrow> ('z catalog_db_scheme, int) go" where
  "CountVenues E = sql E (\<lambda>now u s. (Inr (int (length (venues s))), s))"

definition Queries_CreateVenue :: "env \<Rightarrow> uuid \<Rightarrow> VenueParams \<Rightarrow> ('z catalog_db_scheme, Venue) go" where
  "Queries_CreateVenue E org p = sql E (\<lambda>now u s.
     if venue_too_long p then (Inl ErrOutOfRange, s)
     else (case decimal_col 10 8 (vp_Latitude p) of Inl e \<Rightarrow> (Inl e, s)
       | Inr lat \<Rightarrow> (case decimal_col 11 8 (vp_Longitude p) of Inl e \<Rightarrow> (Inl e, s)
         | Inr lng \<Rightarrow> if u \<in> ve_ID ` set (venues s) then (Inl ErrConstraint, s)
             else (Inr (new_venue u org now p lat lng), s\<lparr>venues := venues s @ [new_venue u org now p lat lng]\<rparr>))))"

text \<open>An event that names the venue keeps it from being deleted.\<close>

definition DeleteVenue :: "env \<Rightarrow> uuid \<Rightarrow> uuid \<Rightarrow> ('z catalog_db_scheme, unit) go" where
  "DeleteVenue E vid org = sql E (\<lambda>now u s.
     if (\<exists>r \<in> set (venues s). ve_ID r = vid \<and> ve_OrganizerID r = org) \<and> Some vid \<in> ev_VenueID ` set (events s) then (Inl ErrConstraint, s)
     else (Inr (), s\<lparr>venues := filter (\<lambda>r. \<not> (ve_ID r = vid \<and> ve_OrganizerID r = org)) (venues s)\<rparr>))"

definition GetVenueByID :: "env \<Rightarrow> uuid \<Rightarrow> ('z catalog_db_scheme, Venue) go" where
  "GetVenueByID E vid = sql E (\<lambda>now u s. (row_result (find_row (\<lambda>r. ve_ID r = vid) (venues s)), s))"

text \<open>\<open>ORDER BY name\<close> in a collation of the database, given as its comparison of two names.\<close>

definition Queries_ListVenues :: "env \<Rightarrow> (string \<Rightarrow> nat) \<Rightarrow> int32 \<Rightarrow> int32 \<Rightarrow> ('z catalog_db_scheme, Venue list) go" where
  "Queries_ListVenues E collate lmt off = sql E (\<lambda>now u s. (page_rows lmt off (sort_key (collate \<circ> ve_Name) (venues s)), s))"

definition ListVenuesByOrganizer :: "env \<Rightarrow> (string \<Rightarrow> nat) \<Rightarrow> uuid \<Rightarrow> int32 \<Rightarrow> int32 \<Rightarrow> ('z catalog_db_scheme, Venue list) go" where
  "ListVenuesByOrganizer E collate org lmt off = sql E (\<lambda>now u s.
     (page_rows lmt off (sort_key (collate \<circ> ve_Name) (filter (\<lambda>r. ve_OrganizerID r = org) (venues s))), s))"

definition UpdateVenue :: "env \<Rightarrow> uuid \<Rightarrow> uuid \<Rightarrow> VenueParams \<Rightarrow> ('z catalog_db_scheme, Venue) go" where
  "UpdateVenue E vid org p = sql E (\<lambda>now u s.
     (case find_row (\<lambda>r. ve_ID r = vid \<and> ve_OrganizerID r = org) (venues s) of
        None \<Rightarrow> (Inl ErrNoRows, s)
      | Some r \<Rightarrow>
          if venue_too_long p then (Inl ErrOutOfRange, s)
          else (case decimal_col 10 8 (vp_Latitude p) of Inl e \<Rightarrow> (Inl e, s)
            | Inr lat \<Rightarrow> (case decimal_col 11 8 (vp_Longitude p) of Inl e \<Rightarrow> (Inl e, s)
              | Inr lng \<Rightarrow> (Inr (venue_row now p lat lng r),
                  s\<lparr>venues := update_rows (\<lambda>r. ve_ID r = vid \<and> ve_OrganizerID r = org) (venue_row now p lat lng) (venues s)\<rparr>)))))"

definition GetCategoryByID :: "env \<Rightarrow> uuid \<Rightarrow> ('z catalog_db_scheme, Category) go" where
  "GetCategoryByID E cid = sql E (\<lambda>now u s. (row_result (find_row (\<lambda>r. ca_ID r = cid) (categories s)), s))"

definition GetCategoryBySlug :: "env \<Rightarrow> string \<Rightarrow> ('z catalog_db_scheme, Category) go" where
  "GetCategoryBySlug E slug = sql E (\<lambda>now u s. (row_result (find_row (\<lambda>r. ca_Slug r = slug) (categories s)), s))"

definition ListCategories :: "env \<Rightarrow> (string \<Rightarrow> nat) \<Rightarrow> ('z catalog_db_scheme, Category list) go" where
  "ListCategories E collate = sql E (\<lambda>now u s. (Inr (sort_key (collate \<circ> ca_Name) (categories s)), s))"

end
