(* ===== verification/Event_Catalog.thy ===== *)
theory Event_Catalog
  imports Event_Store
begin

text \<open>
  The catalogue of the event service: \<open>service/event_service.go\<close> and \<open>service/venue_service.go\<close> with their HTTP
  handlers (\<open>handler/event_handler.go\<close>, \<open>ticket_type_handler.go\<close>, \<open>venue_handler.go\<close>, \<open>category_handler.go\<close>). Events are
  cached in Redis under \<open>event:<id or slug>\<close>, pages of the public list under \<open>events:page:...\<close>; the stock counters
  \<open>ticket_stock:<id>\<close> that \<open>Ticket_Stock\<close> reserves from are set here when a ticket type is created or changed and when
  an event is published. The record \<open>catalog_lib\<close> holds the libraries: \<open>time.Parse(time.RFC3339, _)\<close>,
  \<open>strconv.ParseFloat\<close> (its value, 0 or an infinity beside an error), the JSON codecs of the two kinds of cache entries,
  the keys a Redis \<open>SCAN\<close> reports, and the operator \<open>ILIKE\<close> and the collation of the database.
\<close>

record catalog_lib =
  lib_ParseTime :: "string \<Rightarrow> gerr + time"
  lib_ParseFloat :: "string \<Rightarrow> f64"
  event_encode :: "Event \<Rightarrow> string"
  event_decode :: "string \<Rightarrow> Event option"
  page_encode :: "Event list \<times> int \<Rightarrow> string"
  page_decode :: "string \<Rightarrow> (Event list \<times> int) option"
  lib_Scan :: "nat \<Rightarrow> time \<Rightarrow> rstore \<Rightarrow> string list"
  lib_ILike :: "string \<Rightarrow> string \<Rightarrow> bool"
  lib_Collate :: "string \<Rightarrow> nat"

section \<open>Helpers\<close>

text \<open>\<open>pgInt4FromInt32\<close>: zero is NULL.\<close>

definition pgInt4FromInt32 :: "int32 \<Rightarrow> int32 option" where
  "pgInt4FromInt32 v = (if v = 0 then None else Some v)"

definition generateSlug :: "env \<Rightarrow> string \<Rightarrow> ('z infra_scheme, string) state" where
  "generateSlug E title = do {
     n \<leftarrow> step;
     ret (map (\<lambda>c. if c = CHR '' '' then CHR ''-'' else c) (ToLower title) @ ''-'' @ take 8 (uuid_String E (fresh E n))) }"

text \<open>A price is any JSON value: a number, or text that is parsed; everything else counts as zero.\<close>

definition parsePrice :: "catalog_lib \<Rightarrow> json option \<Rightarrow> f64" where
  "parsePrice C v = (case v of Some (JNum x) \<Rightarrow> x | Some (JStr t) \<Rightarrow> lib_ParseFloat C t | _ \<Rightarrow> Fin 0)"

text \<open>\<open>strconv.FormatFloat(x, 'f', -1, 64)\<close>: the fewest decimal digits that read back as the same double. \<open>decimals d\<close>
  rounds to \<open>d\<close> decimals (to tens, hundreds, ... for a negative \<open>d\<close>); the search starts at or below one significant
  digit, and 17 significant digits are always enough.\<close>

definition decimals :: "int \<Rightarrow> rat \<Rightarrow> rat" where
  "decimals d q = (if 0 \<le> d then of_int (round_half_even (q * 10 ^ nat d)) / 10 ^ nat d
     else of_int (round_half_even (q / 10 ^ nat (- d))) * 10 ^ nat (- d))"

fun shortest_from :: "nat \<Rightarrow> int \<Rightarrow> rat \<Rightarrow> rat" where
  "shortest_from 0 d q = q"
| "shortest_from (Suc n) d q = (if fround (decimals d q) = Fin q then decimals d q else shortest_from n (d + 1) q)"

definition shortest_decimal :: "rat \<Rightarrow> rat" where
  "shortest_decimal q = (if q = 0 then 0 else shortest_from 20 (- ((ilog2 \<bar>q\<bar> + 1) * 30103 div 100000) - 1) q)"

fun price_numeric :: "f64 \<Rightarrow> numeric" where
  "price_numeric (Fin q) = Num (shortest_decimal q)"
| "price_numeric NaN = NumNaN"
| "price_numeric x = NumNull"

definition pgNumericFromFloat :: "f64 \<Rightarrow> numeric" where
  "pgNumericFromFloat x = (if x = Fin 0 then NumNull else numeric_of_f64 6 x)"

section \<open>Requests\<close>

record CreateEventRequest =
  er_VenueID :: string
  er_CategoryID :: string
  er_Title :: string
  er_Description :: string
  er_BannerURL :: string
  er_StartDate :: string
  er_EndDate :: string
  er_Status :: string
  er_IsOnline :: bool
  er_OnlineURL :: string
  er_MaxAttendees :: int32

type_synonym UpdateEventRequest = CreateEventRequest

record CreateTicketTypeRequest =
  tr_Name :: string
  tr_Description :: string
  tr_Price :: "json option"
  tr_Quantity :: int32
  tr_MaxPerOrder :: int32
  tr_SaleStart :: string
  tr_SaleEnd :: string

type_synonym UpdateTicketTypeRequest = CreateTicketTypeRequest

record CreateVenueRequest =
  vr_Name :: string
  vr_Address :: string
  vr_City :: string
  vr_Province :: string
  vr_Country :: string
  vr_Latitude :: f64
  vr_Longitude :: f64
  vr_Capacity :: int32
  vr_Description :: string

section \<open>Caches and stock counters\<close>

definition event_key :: "string \<Rightarrow> string" where
  "event_key v = ''event:'' @ v"

definition page_key :: "int \<Rightarrow> int \<Rightarrow> string" where
  "page_key page per_page = ''events:page:'' @ show_int page @ '':perpage:'' @ show_int per_page"

text \<open>The keys \<open>SCAN\<close> reports are deleted one by one; a failing scan ends the loop.\<close>

definition invalidateEventCache :: "env \<Rightarrow> catalog_lib \<Rightarrow> string \<Rightarrow> ('z infra_scheme, unit) state" where
  "invalidateEventCache E C event_str = (if \<not> has_redis E then ret ()
     else do {
       (if event_str \<noteq> [] then do { redis_cmd E (do_del [event_key event_str]); ret () } else ret ());
       found \<leftarrow> external E (\<lambda>n. State (\<lambda>s. (Inr (lib_Scan C n (clock E n) (redis s)), s)));
       case found of Inl e \<Rightarrow> ret ()
         | Inr keys \<Rightarrow> for_each keys (\<lambda>k. do { redis_cmd E (do_del [k]); ret () }) })"

definition set_stock :: "env \<Rightarrow> uuid \<Rightarrow> int32 \<Rightarrow> ('z infra_scheme, unit) state" where
  "set_stock E tid avail = do { redis_cmd E (do_set (stock_key (uuid_String E tid)) (show_int (sint avail)) None); ret () }"

definition PrewarmTicketStock :: "env \<Rightarrow> string \<Rightarrow> ('z event_db_scheme, unit) state" where
  "PrewarmTicketStock E event_str = (if \<not> has_redis E then ret ()
     else case pgUUIDFromString E event_str of
       None \<Rightarrow> ret ()
     | Some eid \<Rightarrow> do {
         r \<leftarrow> ListTicketTypesByEvent E eid;
         case r of Inl e \<Rightarrow> ret ()
           | Inr tts \<Rightarrow> for_each tts (\<lambda>t. set_stock E (tt_ID t) (int32_avail (tt_Quantity t) (tt_Sold t))) })"

text \<open>After a ticket type was created or changed: nothing is left once its sale has ended.\<close>

definition publish_stock :: "env \<Rightarrow> TicketType \<Rightarrow> ('z infra_scheme, unit) state" where
  "publish_stock E t = (if \<not> has_redis E then ret ()
     else do {
       late \<leftarrow> (case tt_SaleEnd t of None \<Rightarrow> ret False | Some e \<Rightarrow> do { now \<leftarrow> Now E; ret (e < now) });
       set_stock E (tt_ID t) (if late then 0 else int32_avail (tt_Quantity t) (tt_Sold t)) })"

section \<open>Events\<close>

definition or_draft :: "string \<Rightarrow> string" where
  "or_draft status = (if status = [] then ''draft'' else status)"

definition event_params :: "env \<Rightarrow> CreateEventRequest \<Rightarrow> time \<Rightarrow> time \<Rightarrow> string \<Rightarrow> EventParams" where
  "event_params E req start finish slug = \<lparr>ep_VenueID = pgUUIDFromString E (er_VenueID req), ep_CategoryID = pgUUIDFromString E (er_CategoryID req),
     ep_Title = er_Title req, ep_Slug = slug, ep_Description = pgTextFromString (er_Description req), ep_BannerUrl = pgTextFromString (er_BannerURL req),
     ep_StartDate = start, ep_EndDate = finish, ep_Status = or_draft (er_Status req), ep_IsOnline = er_IsOnline req,
     ep_OnlineUrl = pgTextFromString (er_OnlineURL req), ep_MaxAttendees = pgInt4FromInt32 (er_MaxAttendees req)\<rparr>"

text \<open>Both dates of a request.\<close>

definition with_dates :: "catalog_lib \<Rightarrow> string \<Rightarrow> string \<Rightarrow> string \<Rightarrow> string \<Rightarrow> (time \<Rightarrow> time \<Rightarrow> ('s, 'a) go) \<Rightarrow> ('s, 'a) go" where
  "with_dates C bad_start bad_end start finish f = (case lib_ParseTime C start of
       Inl e \<Rightarrow> err (Err_Wrap bad_start e)
     | Inr t1 \<Rightarrow> (case lib_ParseTime C finish of Inl e \<Rightarrow> err (Err_Wrap bad_end e) | Inr t2 \<Rightarrow> f t1 t2))"

definition CreateEvent :: "env \<Rightarrow> catalog_lib \<Rightarrow> string \<Rightarrow> CreateEventRequest \<Rightarrow> ('z catalog_db_scheme, Event) go" where
  "CreateEvent E C org_str req = (case pgUUIDFromString E org_str of
       None \<Rightarrow> err ErrUnauthorized
     | Some org \<Rightarrow> with_dates C ''invalid start_date format'' ''invalid end_date format'' (er_StartDate req) (er_EndDate req) (\<lambda>start finish. do {
         slug \<leftarrow> generateSlug E (er_Title req);
         bindE (Err_Wrap ''failed to create event'') (Queries_CreateEvent E org (event_params E req start finish slug)) (\<lambda>ev. do {
           invalidateEventCache E C [];
           ok ev }) }))"

definition cached :: "env \<Rightarrow> string \<Rightarrow> (string \<Rightarrow> 'c option) \<Rightarrow> ('z infra_scheme, 'c option) state" where
  "cached E key decode = (if \<not> has_redis E then ret None
     else do {
       r \<leftarrow> redis_cmd E (do_get key);
       ret (case r of Inl e \<Rightarrow> None | Inr v \<Rightarrow> decode v) })"

definition remember :: "env \<Rightarrow> string \<Rightarrow> string \<Rightarrow> ('z infra_scheme, unit) state" where
  "remember E key v = (if \<not> has_redis E then ret () else do { redis_cmd E (do_set key v (Some (5 * Minute))); ret () })"

definition GetEvent :: "env \<Rightarrow> catalog_lib \<Rightarrow> string \<Rightarrow> ('z event_db_scheme, Event) go" where
  "GetEvent E C v = do {
     hit \<leftarrow> cached E (event_key v) (event_decode C);
     case hit of
       Some ev \<Rightarrow> ok ev
     | None \<Rightarrow>
         bindE (\<lambda>e. if errors_Is e ErrNoRows then ErrEventNotFound else Err_Wrap ''failed to get event'' e)
           (case pgUUIDFromString E v of Some eid \<Rightarrow> GetEventByID E eid | None \<Rightarrow> GetEventBySlug E v) (\<lambda>ev. do {
             remember E (event_key v) (event_encode C ev);
             ok ev }) }"

definition ListEvents :: "env \<Rightarrow> catalog_lib \<Rightarrow> int \<Rightarrow> int \<Rightarrow> ('z event_db_scheme, Event list \<times> int) go" where
  "ListEvents E C page per_page = do {
     hit \<leftarrow> cached E (page_key page per_page) (page_decode C);
     case hit of
       Some p \<Rightarrow> ok p
     | None \<Rightarrow>
         bindE (Err_Wrap ''failed to list events'') (Queries_ListEvents E (word_of_int per_page) (page_offset page per_page)) (\<lambda>evs.
         bindE (Err_Wrap ''failed to count events'') (CountPublishedEvents E) (\<lambda>total_rows. do {
           remember E (page_key page per_page) (page_encode C (evs, total_rows));
           ok (evs, total_rows) })) }"

definition ListTicketTypesForEvent :: "env \<Rightarrow> string \<Rightarrow> ('z event_db_scheme, TicketType list) go" where
  "ListTicketTypesForEvent E v = (let list = (\<lambda>eid. bindE (Err_Wrap ''failed to get ticket types'') (ListTicketTypesByEvent E eid) ok) in
     case pgUUIDFromString E v of
       Some eid \<Rightarrow> list eid
     | None \<Rightarrow> bindE (\<lambda>e. if errors_Is e ErrNoRows then ErrEventNotFound else Err_Wrap ''failed to get event by slug'' e)
         (GetEventBySlug E v) (\<lambda>ev. list (ev_ID ev)))"

definition UpdateEvent :: "env \<Rightarrow> catalog_lib \<Rightarrow> string \<Rightarrow> string \<Rightarrow> UpdateEventRequest \<Rightarrow> ('z catalog_db_scheme, Event) go" where
  "UpdateEvent E C event_str org_str req = (case pgUUIDFromString E event_str of
       None \<Rightarrow> err ErrEventNotFound
     | Some eid \<Rightarrow> (case pgUUIDFromString E org_str of
         None \<Rightarrow> err ErrUnauthorized
       | Some org \<Rightarrow> with_dates C ''invalid start_date format'' ''invalid end_date format'' (er_StartDate req) (er_EndDate req) (\<lambda>start finish. do {
           slug \<leftarrow> generateSlug E (er_Title req);
           bindE (\<lambda>e. if errors_Is e ErrNoRows then ErrEventNotFound else Err_Wrap ''failed to update event'' e)
             (Queries_UpdateEvent E eid org (event_params E req start finish slug)) (\<lambda>ev. do {
               invalidateEventCache E C event_str;
               (if ToLower (or_draft (er_Status req)) = ''published'' then PrewarmTicketStock E event_str else ret ());
               ok ev }) })))"

definition DeleteEvent :: "env \<Rightarrow> catalog_lib \<Rightarrow> string \<Rightarrow> string \<Rightarrow> ('z catalog_db_scheme, unit) go" where
  "DeleteEvent E C event_str org_str = (case pgUUIDFromString E event_str of
       None \<Rightarrow> err ErrEventNotFound
     | Some eid \<Rightarrow> (case pgUUIDFromString E org_str of
         None \<Rightarrow> err ErrUnauthorized
       | Some org \<Rightarrow> check (Queries_DeleteEvent E eid org) (\<lambda>_. do { invalidateEventCache E C event_str; ok () })))"

definition SearchEvents :: "env \<Rightarrow> catalog_lib \<Rightarrow> string \<Rightarrow> int \<Rightarrow> int \<Rightarrow> ('z event_db_scheme, Event list) go" where
  "SearchEvents E C query page per_page =
     Queries_SearchEvents E (lib_ILike C) (pgTextFromString query) (word_of_int per_page) (page_offset page per_page)"

definition ListEventsByOrganizer :: "env \<Rightarrow> string \<Rightarrow> int \<Rightarrow> int \<Rightarrow> ('z event_db_scheme, Event list \<times> int) go" where
  "ListEventsByOrganizer E org_str page per_page = (case pgUUIDFromString E org_str of
       None \<Rightarrow> err ErrUnauthorized
     | Some org \<Rightarrow>
         bindE (Err_Wrap ''failed to list events'') (Queries_ListEventsByOrganizer E org (word_of_int per_page) (page_offset page per_page)) (\<lambda>evs.
         bindE (Err_Wrap ''failed to count events'') (CountEventsByOrganizer E org) (\<lambda>total_rows. ok (evs, total_rows))))"

section \<open>Ticket types\<close>

text \<open>The event of the path must belong to the organizer.\<close>

definition owned_event :: "env \<Rightarrow> uuid \<Rightarrow> uuid \<Rightarrow> ('z event_db_scheme, 'a) go \<Rightarrow> ('z event_db_scheme, 'a) go" where
  "owned_event E org eid m = bindE (Err_Wrap ''failed to get event'') (GetEventByID E eid) (\<lambda>ev.
     if ev_OrganizerID ev \<noteq> org then err ErrUnauthorized else m)"

definition type_params :: "catalog_lib \<Rightarrow> CreateTicketTypeRequest \<Rightarrow> time \<Rightarrow> time \<Rightarrow> TicketTypeParams" where
  "type_params C req start finish = \<lparr>tp_Name = tr_Name req, tp_Description = pgTextFromString (tr_Description req),
     tp_Price = price_numeric (parsePrice C (tr_Price req)), tp_Quantity = tr_Quantity req,
     tp_MaxPerOrder = pgInt4FromInt32 (tr_MaxPerOrder req), tp_SaleStart = start, tp_SaleEnd = finish\<rparr>"

definition CreateTicketType :: "env \<Rightarrow> catalog_lib \<Rightarrow> string \<Rightarrow> string \<Rightarrow> CreateTicketTypeRequest \<Rightarrow> ('z event_db_scheme, TicketType) go" where
  "CreateTicketType E C org_str event_str req = (case pgUUIDFromString E org_str of
       None \<Rightarrow> err ErrUnauthorized
     | Some org \<Rightarrow> (case pgUUIDFromString E event_str of
         None \<Rightarrow> err ErrEventNotFound
       | Some eid \<Rightarrow> owned_event E org eid
           (with_dates C ''invalid sale_start format'' ''invalid sale_end format'' (tr_SaleStart req) (tr_SaleEnd req) (\<lambda>start finish.
              bindE (Err_Wrap ''failed to create ticket type'') (Queries_CreateTicketType E eid (type_params C req start finish)) (\<lambda>t. do {
                publish_stock E t;
                ok t })))))"

text \<open>The three identifiers of the path; any that does not parse is refused.\<close>

definition with_path :: "env \<Rightarrow> string \<Rightarrow> string \<Rightarrow> string \<Rightarrow> (uuid \<Rightarrow> uuid \<Rightarrow> uuid \<Rightarrow> ('s, 'a) go) \<Rightarrow> ('s, 'a) go" where
  "with_path E org_str event_str ticket_str f =
     (case (pgUUIDFromString E org_str, pgUUIDFromString E event_str, pgUUIDFromString E ticket_str) of
        (Some org, Some eid, Some tid) \<Rightarrow> f org eid tid | _ \<Rightarrow> err ErrUnauthorized)"

definition UpdateTicketType ::
    "env \<Rightarrow> catalog_lib \<Rightarrow> string \<Rightarrow> string \<Rightarrow> string \<Rightarrow> UpdateTicketTypeRequest \<Rightarrow> ('z event_db_scheme, TicketType) go" where
  "UpdateTicketType E C org_str event_str ticket_str req = with_path E org_str event_str ticket_str (\<lambda>org eid tid.
     owned_event E org eid
       (with_dates C ''invalid sale_start format'' ''invalid sale_end format'' (tr_SaleStart req) (tr_SaleEnd req) (\<lambda>start finish.
          bindE (Err_Wrap ''failed to update ticket type'') (Queries_UpdateTicketType E tid (type_params C req start finish)) (\<lambda>t. do {
            publish_stock E t;
            ok t }))))"

definition DeleteTicketType :: "env \<Rightarrow> string \<Rightarrow> string \<Rightarrow> string \<Rightarrow> ('z event_db_scheme, unit) go" where
  "DeleteTicketType E org_str event_str ticket_str = with_path E org_str event_str ticket_str (\<lambda>org eid tid.
     owned_event E org eid (bindE (Err_Wrap ''failed to delete ticket type'') (Queries_DeleteTicketType E tid) ok))"

section \<open>Venues\<close>

definition venue_params :: "CreateVenueRequest \<Rightarrow> VenueParams" where
  "venue_params req = \<lparr>vp_Name = vr_Name req, vp_Address = vr_Address req, vp_City = vr_City req, vp_Province = pgTextFromString (vr_Province req),
     vp_Country = (if vr_Country req = [] then ''Indonesia'' else vr_Country req), vp_Latitude = pgNumericFromFloat (vr_Latitude req),
     vp_Longitude = pgNumericFromFloat (vr_Longitude req), vp_Capacity = pgInt4FromInt32 (vr_Capacity req),
     vp_Description = pgTextFromString (vr_Description req)\<rparr>"

definition CreateVenue :: "env \<Rightarrow> string \<Rightarrow> CreateVenueRequest \<Rightarrow> ('z catalog_db_scheme, Venue) go" where
  "CreateVenue E org_str req = (case pgUUIDFromString E org_str of
       None \<Rightarrow> err ErrUnauthorized
     | Some org \<Rightarrow> bindE (Err_Wrap ''failed to create venue'') (Queries_CreateVenue E org (venue_params req)) ok)"

definition GetVenue :: "env \<Rightarrow> string \<Rightarrow> ('z catalog_db_scheme, Venue) go" where
  "GetVenue E venue_str = (case pgUUIDFromString E venue_str of
       None \<Rightarrow> err ErrVenueNotFound
     | Some vid \<Rightarrow> bindE (\<lambda>e. if errors_Is e ErrNoRows then ErrVenueNotFound else Err_Wrap ''failed to get venue'' e) (GetVenueByID E vid) ok)"

definition ListVenues :: "env \<Rightarrow> catalog_lib \<Rightarrow> int \<Rightarrow> int \<Rightarrow> ('z catalog_db_scheme, Venue list \<times> int) go" where
  "ListVenues E C page per_page =
     bindE (Err_Wrap ''failed to list venues'') (Queries_ListVenues E (lib_Collate C) (word_of_int per_page) (page_offset page per_page)) (\<lambda>vs.
     bindE (Err_Wrap ''failed to count venues'') (CountVenues E) (\<lambda>total_rows. ok (vs, total_rows)))"

end
