(* ===== verification/Event_Handlers.thy ===== *)
theory Event_Handlers
  imports Event_Catalog
begin

text \<open>
  The HTTP handlers of the event service (\<open>handler/event_handler.go\<close>, \<open>ticket_type_handler.go\<close>, \<open>venue_handler.go\<close>,
  \<open>category_handler.go\<close>). A body is \<open>None\<close> when it does not decode into its request type. Routes that change
  anything stand behind \<open>JWTAuth\<close> and \<open>RequireRole("organizer", "admin")\<close> (\<open>organizer_route\<close>); the others are public.
\<close>

section \<open>Requests\<close>

definition bind_event :: "CreateEventRequest option \<Rightarrow> gerr + CreateEventRequest" where
  "bind_event body = (case body of None \<Rightarrow> Inl ErrBinding
     | Some req \<Rightarrow> if length (er_Title req) < 3 \<or> er_StartDate req = [] \<or> er_EndDate req = [] then Inl ErrBinding else Inr req)"

definition bind_ticket_type :: "CreateTicketTypeRequest option \<Rightarrow> gerr + CreateTicketTypeRequest" where
  "bind_ticket_type body = (case body of None \<Rightarrow> Inl ErrBinding
     | Some req \<Rightarrow> if tr_Name req = [] \<or> tr_Quantity req = 0 \<or> tr_SaleStart req = [] \<or> tr_SaleEnd req = [] then Inl ErrBinding else Inr req)"

definition bind_venue :: "CreateVenueRequest option \<Rightarrow> gerr + CreateVenueRequest" where
  "bind_venue body = (case body of None \<Rightarrow> Inl ErrBinding
     | Some req \<Rightarrow> if length (vr_Name req) < 3 \<or> vr_Address req = [] \<or> vr_City req = [] then Inl ErrBinding else Inr req)"

text \<open>The user of the session, or 401 (\<open>response.Unauthorized\<close>).\<close>

definition with_owner :: "session \<Rightarrow> (string \<Rightarrow> ('s, 'd response) state) \<Rightarrow> ('s, 'd response) state" where
  "with_owner ss handler = (if session_user ss = [] then ret (Unauthorized ''unauthorized'') else handler (session_user ss))"

text \<open>\<open>?page=\<close> and \<open>?per_page=\<close>.\<close>

definition query_page :: "string option \<Rightarrow> int" where
  "query_page v = page_or_first (Atoi (DefaultQuery v ''1''))"

definition query_per_page :: "string option \<Rightarrow> int" where
  "query_per_page v = per_page_or_default 10 (Atoi (DefaultQuery v ''10''))"

definition paged_answer :: "string \<Rightarrow> string \<Rightarrow> int \<Rightarrow> int \<Rightarrow> ('s, 'r list \<times> int) go \<Rightarrow> ('s, 'r list paged response) state" where
  "paged_answer failure success page per_page m = do {
     r \<leftarrow> m;
     ret (case r of Inl e \<Rightarrow> InternalError failure
            | Inr (rows, total_rows) \<Rightarrow> SuccessWithPagination success rows (NewMeta page per_page total_rows)) }"

section \<open>Events\<close>

definition not_found_or :: "gerr \<Rightarrow> string \<Rightarrow> string \<Rightarrow> gerr \<Rightarrow> 'd response" where
  "not_found_or missing m failure e = (if errors_Is e missing then NotFound m else InternalError failure)"

definition Event_Create :: "env \<Rightarrow> catalog_lib \<Rightarrow> session \<Rightarrow> CreateEventRequest option \<Rightarrow> ('z catalog_db_scheme, Event response) state" where
  "Event_Create E C ss body = with_owner ss (\<lambda>org. case bind_event body of
       Inl e \<Rightarrow> ret (ValidationError e)
     | Inr req \<Rightarrow> do {
         r \<leftarrow> CreateEvent E C org req;
         ret (case r of Inl e \<Rightarrow> InternalError ''failed to create event'' | Inr ev \<Rightarrow> Success 201 ''event created successfully'' (Some ev)) })"

definition Event_Get :: "env \<Rightarrow> catalog_lib \<Rightarrow> string \<Rightarrow> ('z event_db_scheme, Event response) state" where
  "Event_Get E C v = do {
     r \<leftarrow> GetEvent E C v;
     ret (case r of Inl e \<Rightarrow> not_found_or ErrEventNotFound ''event not found'' ''failed to get event'' e
            | Inr ev \<Rightarrow> Success 200 ''event retrieved'' (Some ev)) }"

definition Event_ListTickets :: "env \<Rightarrow> string \<Rightarrow> ('z event_db_scheme, TicketType list response) state" where
  "Event_ListTickets E v = do {
     r \<leftarrow> ListTicketTypesForEvent E v;
     ret (case r of Inl e \<Rightarrow> not_found_or ErrEventNotFound ''event not found'' ''failed to get tickets'' e
            | Inr tts \<Rightarrow> Success 200 ''tickets retrieved'' (Some tts)) }"

definition Event_List :: "env \<Rightarrow> catalog_lib \<Rightarrow> string option \<Rightarrow> string option \<Rightarrow> ('z event_db_scheme, Event list paged response) state" where
  "Event_List E C page per_page = paged_answer ''failed to list events'' ''events retrieved'' (query_page page) (query_per_page per_page)
     (ListEvents E C (query_page page) (query_per_page per_page))"

definition Event_ListByOrganizer ::
    "env \<Rightarrow> session \<Rightarrow> string option \<Rightarrow> string option \<Rightarrow> ('z event_db_scheme, Event list paged response) state" where
  "Event_ListByOrganizer E ss page per_page = with_owner ss (\<lambda>org.
     paged_answer ''failed to list organizer events'' ''events retrieved'' (query_page page) (query_per_page per_page)
       (ListEventsByOrganizer E org (query_page page) (query_per_page per_page)))"

definition Event_Update ::
    "env \<Rightarrow> catalog_lib \<Rightarrow> session \<Rightarrow> string \<Rightarrow> UpdateEventRequest option \<Rightarrow> ('z catalog_db_scheme, Event response) state" where
  "Event_Update E C ss event_str body = with_owner ss (\<lambda>org. case bind_event body of
       Inl e \<Rightarrow> ret (ValidationError e)
     | Inr req \<Rightarrow> do {
         r \<leftarrow> UpdateEvent E C event_str org req;
         ret (case r of Inl e \<Rightarrow> not_found_or ErrEventNotFound ''event not found'' ''failed to update event'' e
                | Inr ev \<Rightarrow> Success 200 ''event updated'' (Some ev)) })"

definition Event_Delete :: "env \<Rightarrow> catalog_lib \<Rightarrow> session \<Rightarrow> string \<Rightarrow> ('z catalog_db_scheme, unit response) state" where
  "Event_Delete E C ss event_str = with_owner ss (\<lambda>org. do {
     r \<leftarrow> DeleteEvent E C event_str org;
     ret (case r of Inl e \<Rightarrow> InternalError ''failed to delete event'' | Inr u \<Rightarrow> Success 200 ''event deleted'' None) })"

definition Event_Search ::
    "env \<Rightarrow> catalog_lib \<Rightarrow> string \<Rightarrow> string option \<Rightarrow> string option \<Rightarrow> ('z event_db_scheme, Event list response) state" where
  "Event_Search E C query page per_page = do {
     r \<leftarrow> SearchEvents E C query (query_page page) (query_per_page per_page);
     ret (case r of Inl e \<Rightarrow> InternalError ''failed to search events'' | Inr evs \<Rightarrow> Success 200 ''search results'' (Some evs)) }"

section \<open>Ticket types\<close>

text \<open>The comparison is \<open>==\<close>, so a wrapped error is not recognised. \<open>c.GetString\<close> gives the empty string without a session.\<close>

definition type_failure :: "(gerr \<Rightarrow> string) \<Rightarrow> string \<Rightarrow> gerr \<Rightarrow> 'd response" where
  "type_failure lib m e = (if e = ErrUnauthorized then Error 403 m else InternalError (error_text lib e))"

definition TicketType_Create ::
    "env \<Rightarrow> catalog_lib \<Rightarrow> (gerr \<Rightarrow> string) \<Rightarrow> session \<Rightarrow> string \<Rightarrow> CreateTicketTypeRequest option \<Rightarrow>
     ('z event_db_scheme, TicketType response) state" where
  "TicketType_Create E C lib ss event_str body = (case bind_ticket_type body of
       Inl e \<Rightarrow> ret (ValidationError e)
     | Inr req \<Rightarrow> do {
         r \<leftarrow> CreateTicketType E C (session_user ss) event_str req;
         ret (case r of Inl e \<Rightarrow> type_failure lib ''not allowed to create ticket for this event'' e
                | Inr t \<Rightarrow> Success 201 ''ticket type created'' (Some t)) })"

definition TicketType_Update ::
    "env \<Rightarrow> catalog_lib \<Rightarrow> (gerr \<Rightarrow> string) \<Rightarrow> session \<Rightarrow> string \<Rightarrow> string \<Rightarrow> UpdateTicketTypeRequest option \<Rightarrow>
     ('z event_db_scheme, TicketType response) state" where
  "TicketType_Update E C lib ss event_str ticket_str body = (case bind_ticket_type body of
       Inl e \<Rightarrow> ret (ValidationError e)
     | Inr req \<Rightarrow> do {
         r \<leftarrow> UpdateTicketType E C (session_user ss) event_str ticket_str req;
         ret (case r of Inl e \<Rightarrow> type_failure lib ''not allowed to update this ticket type'' e
                | Inr t \<Rightarrow> Success 200 ''ticket type updated'' (Some t)) })"

definition TicketType_Delete ::
    "env \<Rightarrow> (gerr \<Rightarrow> string) \<Rightarrow> session \<Rightarrow> string \<Rightarrow> string \<Rightarrow> ('z event_db_scheme, unit response) state" where
  "TicketType_Delete E lib ss event_str ticket_str = do {
     r \<leftarrow> DeleteTicketType E (session_user ss) event_str ticket_str;
     ret (case r of Inl e \<Rightarrow> type_failure lib ''not allowed to delete this ticket type'' e
            | Inr u \<Rightarrow> Success 200 ''ticket type deleted'' None) }"

section \<open>Venues and categories\<close>

definition Venue_Create :: "env \<Rightarrow> session \<Rightarrow> CreateVenueRequest option \<Rightarrow> ('z catalog_db_scheme, Venue response) state" where
  "Venue_Create E ss body = with_owner ss (\<lambda>org. case bind_venue body of
       Inl e \<Rightarrow> ret (ValidationError e)
     | Inr req \<Rightarrow> do {
         r \<leftarrow> CreateVenue E org req;
         ret (case r of Inl e \<Rightarrow> InternalError ''failed to create venue'' | Inr v \<Rightarrow> Success 201 ''venue created successfully'' (Some v)) })"

definition Venue_Get :: "env \<Rightarrow> string \<Rightarrow> ('z catalog_db_scheme, Venue response) state" where
  "Venue_Get E v = do {
     r \<leftarrow> GetVenue E v;
     ret (case r of Inl e \<Rightarrow> not_found_or ErrVenueNotFound ''venue not found'' ''failed to get venue'' e
            | Inr ve \<Rightarrow> Success 200 ''venue retrieved'' (Some ve)) }"

definition Venue_List :: "env \<Rightarrow> catalog_lib \<Rightarrow> string option \<Rightarrow> string option \<Rightarrow> ('z catalog_db_scheme, Venue list paged response) state" where
  "Venue_List E C page per_page = paged_answer ''failed to list venues'' ''venues retrieved'' (query_page page) (query_per_page per_page)
     (ListVenues E C (query_page page) (query_per_page per_page))"

definition Category_List :: "env \<Rightarrow> catalog_lib \<Rightarrow> ('z catalog_db_scheme, Category list response) state" where
  "Category_List E C = do {
     r \<leftarrow> ListCategories E (lib_Collate C);
     ret (case r of Inl e \<Rightarrow> InternalError ''failed to list categories'' | Inr cs \<Rightarrow> Success 200 ''categories retrieved'' (Some cs)) }"

section \<open>Routes\<close>

definition organizer_route ::
    "env \<Rightarrow> jwt_lib \<Rightarrow> string \<Rightarrow> headers \<Rightarrow> (session \<Rightarrow> ('z infra_scheme, 'd response) state) \<Rightarrow> ('z infra_scheme, 'd response) state" where
  "organizer_route E J secret h handler = role_route E J secret [''organizer'', ''admin''] h handler"

end
