(* ===== verification/Event_Catalog_Spec.thy ===== *)
theory Event_Catalog_Spec
  imports Event_Handlers
begin

text \<open>
  What the catalogue guarantees over every sequence of requests: the soundness of its tables and the
  ownership of events; and what it does not guarantee about ticket types.
\<close>

section \<open>The service as a state machine\<close>

text \<open>The routes of \<open>handler/routes.go\<close>, with the headers where a route is protected; the internal routes carry
  the header \<open>X-Internal-Secret\<close>.\<close>

datatype catalog_request =
    INTERNAL_reserve string string "int32 option"
  | INTERNAL_release string string "int32 option"
  | INTERNAL_type string string
  | INTERNAL_events string string
  | GET_events "string option" "string option"
  | GET_event string
  | GET_event_tickets string
  | GET_search string "string option" "string option"
  | GET_categories
  | GET_venues "string option" "string option"
  | GET_venue string
  | GET_own_events headers "string option" "string option"
  | POST_event headers "CreateEventRequest option"
  | PUT_event headers string "UpdateEventRequest option"
  | DELETE_event headers string
  | POST_ticket headers string "CreateTicketTypeRequest option"
  | PUT_ticket headers string string "UpdateTicketTypeRequest option"
  | DELETE_ticket headers string string
  | POST_venue headers "CreateVenueRequest option"

text \<open>One request; the answer is its status code.\<close>

fun catalog_serve ::
    "env \<Rightarrow> catalog_lib \<Rightarrow> (gerr \<Rightarrow> string) \<Rightarrow> jwt_lib \<Rightarrow> string \<Rightarrow> catalog_request \<Rightarrow> ('z catalog_db_scheme, nat) state" where
  "catalog_serve E C lib J secret (INTERNAL_reserve x v body) = served_code (internal_route E x (ReserveTickets E v body))"
| "catalog_serve E C lib J secret (INTERNAL_release x v body) = served_code (internal_route E x (ReleaseTickets E v body))"
| "catalog_serve E C lib J secret (INTERNAL_type x v) = served_code (internal_route E x (GetTicketType E v))"
| "catalog_serve E C lib J secret (INTERNAL_events x v) = served_code (internal_route E x (GetInternalEventIDs E v))"
| "catalog_serve E C lib J secret (GET_events page per_page) = served_code (Event_List E C page per_page)"
| "catalog_serve E C lib J secret (GET_event v) = served_code (Event_Get E C v)"
| "catalog_serve E C lib J secret (GET_event_tickets v) = served_code (Event_ListTickets E v)"
| "catalog_serve E C lib J secret (GET_search query page per_page) = served_code (Event_Search E C query page per_page)"
| "catalog_serve E C lib J secret GET_categories = served_code (Category_List E C)"
| "catalog_serve E C lib J secret (GET_venues page per_page) = served_code (Venue_List E C page per_page)"
| "catalog_serve E C lib J secret (GET_venue v) = served_code (Venue_Get E v)"
| "catalog_serve E C lib J secret (GET_own_events h page per_page) =
     served_code (organizer_route E J secret h (\<lambda>ss. Event_ListByOrganizer E ss page per_page))"
| "catalog_serve E C lib J secret (POST_event h body) = served_code (organizer_route E J secret h (\<lambda>ss. Event_Create E C ss body))"
| "catalog_serve E C lib J secret (PUT_event h v body) = served_code (organizer_route E J secret h (\<lambda>ss. Event_Update E C ss v body))"
| "catalog_serve E C lib J secret (DELETE_event h v) = served_code (organizer_route E J secret h (\<lambda>ss. Event_Delete E C ss v))"
| "catalog_serve E C lib J secret (POST_ticket h v body) =
     served_code (organizer_route E J secret h (\<lambda>ss. TicketType_Create E C lib ss v body))"
| "catalog_serve E C lib J secret (PUT_ticket h v w body) =
     served_code (organizer_route E J secret h (\<lambda>ss. TicketType_Update E C lib ss v w body))"
| "catalog_serve E C lib J secret (DELETE_ticket h v w) =
     served_code (organizer_route E J secret h (\<lambda>ss. TicketType_Delete E lib ss v w))"
| "catalog_serve E C lib J secret (POST_venue h body) = served_code (organizer_route E J secret h (\<lambda>ss. Venue_Create E ss body))"

fun request_headers :: "catalog_request \<Rightarrow> headers option" where
  "request_headers (GET_own_events h page per_page) = Some h"
| "request_headers (POST_event h body) = Some h"
| "request_headers (PUT_event h v body) = Some h"
| "request_headers (DELETE_event h v) = Some h"
| "request_headers (POST_ticket h v body) = Some h"
| "request_headers (PUT_ticket h v w body) = Some h"
| "request_headers (DELETE_ticket h v w) = Some h"
| "request_headers (POST_venue h body) = Some h"
| "request_headers _ = None"

text \<open>The user whose accepted token a request carries, at whatever time.\<close>

definition senders :: "env \<Rightarrow> jwt_lib \<Rightarrow> string \<Rightarrow> catalog_request \<Rightarrow> uuid set" where
  "senders E J secret rq = {u. \<exists>h c. request_headers rq = Some h \<and> accepted J secret h c \<and> uuid_Parse E (cl_UserID c) = Some u}"

section \<open>Soundness of the tables\<close>

definition catalog_ok :: "'z catalog_db_scheme \<Rightarrow> bool" where
  "catalog_ok s \<longleftrightarrow> distinct (map ev_ID (events s)) \<and> distinct (map ev_Slug (events s)) \<and> distinct (map tt_ID (ticket_types s))
     \<and> distinct (map ve_ID (venues s)) \<and> tt_EventID ` set (ticket_types s) \<subseteq> ev_ID ` set (events s)
     \<and> ev_VenueID ` set (events s) \<subseteq> insert None (Some ` ve_ID ` set (venues s))
     \<and> ev_CategoryID ` set (events s) \<subseteq> insert None (Some ` ca_ID ` set (categories s))"

text \<open>The events of everybody outside \<open>G\<close> are the list \<open>fenced\<close>, in this order.\<close>

definition catalog_inv :: "uuid set \<Rightarrow> Event list \<Rightarrow> 'z catalog_db_scheme \<Rightarrow> bool" where
  "catalog_inv G fenced s \<longleftrightarrow> catalog_ok s \<and> filter (\<lambda>r. ev_OrganizerID r \<notin> G) (events s) = fenced"

lemma catalog_inv_free [simp]: "tick_free (catalog_inv G fenced)"
  by (simp add: tick_free_def catalog_inv_def catalog_ok_def)

lemma catalog_inv_redis [simp]: "catalog_inv G fenced (s\<lparr>redis := rd\<rparr>) = catalog_inv G fenced s"
  by (simp add: catalog_inv_def catalog_ok_def)

lemma event_row_simps [simp]:
  "ev_ID (event_row now p r) = ev_ID r" "ev_OrganizerID (event_row now p r) = ev_OrganizerID r" "ev_Slug (event_row now p r) = ep_Slug p"
  "ev_VenueID (event_row now p r) = ep_VenueID p" "ev_CategoryID (event_row now p r) = ep_CategoryID p"
  by (simp_all add: event_row_def)

lemma new_event_simps [simp]:
  "ev_ID (new_event u org now p) = u" "ev_OrganizerID (new_event u org now p) = org" "ev_Slug (new_event u org now p) = ep_Slug p"
  "ev_VenueID (new_event u org now p) = ep_VenueID p" "ev_CategoryID (new_event u org now p) = ep_CategoryID p"
  by (simp_all add: new_event_def)

lemma type_row_simps [simp]:
  "tt_ID (type_row now p price r) = tt_ID r" "tt_EventID (type_row now p price r) = tt_EventID r" "tt_Sold (type_row now p price r) = tt_Sold r"
  "tt_ID (new_type u eid now p price) = u" "tt_EventID (new_type u eid now p price) = eid" "tt_Sold (new_type u eid now p price) = 0"
  by (simp_all add: type_row_def new_type_def)

text \<open>An update of one event gives it a slug no other event has.\<close>

lemma distinct_slugs_update:
  assumes "distinct (map ev_ID es)" and "distinct (map ev_Slug es)" and "ep_Slug p \<notin> ev_Slug ` {x \<in> set es. ev_ID x \<noteq> eid}"
  shows "distinct (map ev_Slug (update_rows (\<lambda>r. ev_ID r = eid \<and> ev_OrganizerID r = org) (event_row now p) es))"
  using assms
proof (induction es)
  case (Cons r es)
  let ?upd = "update_rows (\<lambda>r. ev_ID r = eid \<and> ev_OrganizerID r = org) (event_row now p)"
  have IH: "distinct (map ev_Slug (?upd es))" using Cons.prems by (intro Cons.IH) auto
  show ?case
  proof (cases "ev_ID r = eid")
    case True
    then have "\<forall>x \<in> set es. ev_ID x \<noteq> eid" using Cons.prems(1) by (metis distinct.simps(2) image_eqI list.set_map list.simps(9))
    then have "?upd es = es" by (simp add: update_rows_def map_idI)
    then show ?thesis using True Cons.prems \<open>\<forall>x \<in> set es. ev_ID x \<noteq> eid\<close> by auto
  next
    case False
    then have "ev_Slug r \<in> ev_Slug ` {x \<in> set (r # es). ev_ID x \<noteq> eid}" by (intro imageI) simp
    then have "ev_Slug r \<noteq> ep_Slug p" using Cons.prems(3) by metis
    moreover have "ev_Slug ` set (?upd es) \<subseteq> insert (ep_Slug p) (ev_Slug ` set es)" by (auto simp: update_rows_def)
    ultimately show ?thesis using False IH Cons.prems(2) by auto
  qed
qed simp

lemma fenced_update:
  "(\<And>r. p r \<Longrightarrow> ev_OrganizerID r \<in> G) \<Longrightarrow> (\<And>r. ev_OrganizerID (f r) = ev_OrganizerID r) \<Longrightarrow>
     filter (\<lambda>r. ev_OrganizerID r \<notin> G) (update_rows p f es) = filter (\<lambda>r. ev_OrganizerID r \<notin> G) es"
  by (induction es) auto

lemma not_dangling:
  "\<not> dangling s p \<Longrightarrow> ep_VenueID p \<in> insert None (Some ` ve_ID ` set (venues s)) \<and> ep_CategoryID p \<in> insert None (Some ` ca_ID ` set (categories s))"
  by (cases "ep_VenueID p"; cases "ep_CategoryID p") (auto simp: dangling_def)


lemma catalog_new_event:
  assumes "catalog_inv G fenced s" and "\<not> dangling s p" and "u \<notin> ev_ID ` set (events s)" and "ep_Slug p \<notin> ev_Slug ` set (events s)" and "org \<in> G"
  shows "catalog_inv G fenced (s\<lparr>events := events s @ [new_event u org now p]\<rparr>)"
  using assms(1,3-5) not_dangling [OF assms(2)] unfolding catalog_inv_def catalog_ok_def by (simp add: le_supI1 subset_insertI2)

lemma catalog_deleted_event:
  assumes inv: "catalog_inv G fenced s" and "org \<in> G"
  shows "catalog_inv G fenced (s\<lparr>events := filter (\<lambda>r. \<not> (ev_ID r = eid \<and> ev_OrganizerID r = org)) (events s),
     ticket_types := filter (\<lambda>t. tt_EventID t \<notin> ev_ID ` set (filter (\<lambda>r. ev_ID r = eid \<and> ev_OrganizerID r = org) (events s))) (ticket_types s)\<rparr>)"
proof -
  let ?es = "filter (\<lambda>r. \<not> (ev_ID r = eid \<and> ev_OrganizerID r = org)) (events s)"
  have "filter (\<lambda>r. ev_OrganizerID r \<notin> G) ?es = filter (\<lambda>r. ev_OrganizerID r \<notin> G) (events s)"
    using assms(2) by (auto simp: filter_filter intro: filter_cong)
  moreover have "tt_EventID t \<in> ev_ID ` set ?es"
    if t: "t \<in> set (ticket_types s)" and kept: "tt_EventID t \<notin> ev_ID ` set (filter (\<lambda>r. ev_ID r = eid \<and> ev_OrganizerID r = org) (events s))" for t
  proof -
    have "tt_EventID t \<in> ev_ID ` set (events s)" using inv t by (auto simp: catalog_inv_def catalog_ok_def)
    then obtain r where "r \<in> set (events s)" "tt_EventID t = ev_ID r" by blast
    then show ?thesis using kept by auto
  qed
  ultimately show ?thesis
    using inv unfolding catalog_inv_def catalog_ok_def by (simp add: distinct_map_filter image_subset_iff)
qed

lemma catalog_updated_event:
  assumes inv: "catalog_inv G fenced s" and "org \<in> G" and "\<not> dangling s p" and "ep_Slug p \<notin> ev_Slug ` {x \<in> set (events s). ev_ID x \<noteq> eid}"
  shows "catalog_inv G fenced (s\<lparr>events := update_rows (\<lambda>r. ev_ID r = eid \<and> ev_OrganizerID r = org) (event_row now p) (events s)\<rparr>)"
proof -
  let ?es = "update_rows (\<lambda>r. ev_ID r = eid \<and> ev_OrganizerID r = org) (event_row now p) (events s)"
  have "map ev_ID ?es = map ev_ID (events s)" "ev_ID ` set ?es = ev_ID ` set (events s)"
    by (simp_all add: map_update_rows image_update_rows)
  moreover have "filter (\<lambda>r. ev_OrganizerID r \<notin> G) ?es = fenced"
    using assms(1,2) by (subst fenced_update) (auto simp: catalog_inv_def)
  moreover have "distinct (map ev_Slug ?es)"
    using assms(1,4) by (intro distinct_slugs_update) (auto simp: catalog_inv_def catalog_ok_def)
  moreover have "ev_VenueID ` set ?es \<subseteq> insert None (Some ` ve_ID ` set (venues s))"
      "ev_CategoryID ` set ?es \<subseteq> insert None (Some ` ca_ID ` set (categories s))"
    using inv not_dangling [OF assms(3)] by (auto simp: update_rows_def catalog_inv_def catalog_ok_def)
  ultimately show ?thesis using inv by (simp add: catalog_inv_def catalog_ok_def)
qed

lemma keeps_catalog_writes:
  "org \<in> G \<Longrightarrow> keeps (catalog_inv G fenced) (Queries_CreateEvent E org p)"
  "org \<in> G \<Longrightarrow> keeps (catalog_inv G fenced) (Queries_UpdateEvent E eid org p)"
  unfolding Queries_CreateEvent_def Queries_UpdateEvent_def
  by (intro keeps_sql; simp add: catalog_new_event catalog_updated_event split: option.split)+

lemma keeps_DeleteEvent: "org \<in> G \<Longrightarrow> keeps (catalog_inv G fenced) (Queries_DeleteEvent E eid org)"
  unfolding Queries_DeleteEvent_def Let_def
  by (rule keeps_sql, simp, simp only: snd_conv, erule catalog_deleted_event)

lemma catalog_types_update:
  assumes "catalog_inv G fenced s" and "\<And>r. tt_ID (f r) = tt_ID r" and "\<And>r. tt_EventID (f r) = tt_EventID r"
  shows "catalog_inv G fenced (s\<lparr>ticket_types := update_rows p f (ticket_types s)\<rparr>)"
  using assms by (simp add: catalog_inv_def catalog_ok_def map_update_rows image_update_rows)

lemma sold_row_keys [simp]:
  "tt_ID (take_row now q r) = tt_ID r" "tt_EventID (take_row now q r) = tt_EventID r"
  "tt_ID (give_row now q r) = tt_ID r" "tt_EventID (give_row now q r) = tt_EventID r"
  by (simp_all add: take_row_def give_row_def)

lemma keeps_catalog_types:
  "keeps (catalog_inv G fenced) (Queries_CreateTicketType E eid tp)"
  "keeps (catalog_inv G fenced) (Queries_UpdateTicketType E tid tp)"
  "keeps (catalog_inv G fenced) (Queries_DeleteTicketType E tid)"
  "keeps (catalog_inv G fenced) (IncrementTicketSold E tid q)"
  "keeps (catalog_inv G fenced) (DecrementTicketSold E tid q)"
proof -
  show "keeps (catalog_inv G fenced) (Queries_CreateTicketType E eid tp)"
    unfolding Queries_CreateTicketType_def
    by (intro keeps_sql) (auto simp: catalog_inv_def catalog_ok_def split: sum.split)
  show "keeps (catalog_inv G fenced) (Queries_UpdateTicketType E tid tp)"
    unfolding Queries_UpdateTicketType_def
    by (intro keeps_sql) (auto simp: catalog_types_update split: option.split sum.split)
  show "keeps (catalog_inv G fenced) (Queries_DeleteTicketType E tid)"
    unfolding Queries_DeleteTicketType_def
    by (intro keeps_sql) (auto simp: catalog_inv_def catalog_ok_def distinct_map_filter)
  show "keeps (catalog_inv G fenced) (IncrementTicketSold E tid q)"
    unfolding IncrementTicketSold_def increment_sold_def
    by (intro keeps_sql) (auto simp: catalog_types_update split: option.split)
  show "keeps (catalog_inv G fenced) (DecrementTicketSold E tid q)"
    unfolding DecrementTicketSold_def decrement_sold_def
    by (intro keeps_sql) (auto simp: catalog_types_update split: option.split)
qed

lemma keeps_catalog_venue: "keeps (catalog_inv G fenced) (Queries_CreateVenue E org p)"
  unfolding Queries_CreateVenue_def
  by (intro keeps_sql) (auto simp: catalog_inv_def catalog_ok_def new_venue_def venue_row_def split: sum.split)

section \<open>What the catalogue does to an assertion\<close>

lemma pgUUID_in:
  "(\<And>u. pgUUIDFromString E v = Some u \<Longrightarrow> keeps I (f u)) \<Longrightarrow> keeps I m \<Longrightarrow> keeps I (case pgUUIDFromString E v of None \<Rightarrow> m | Some u \<Rightarrow> f u)"
  by (simp split: option.split)

text \<open>An organizer among \<open>G\<close>, named by the session.\<close>

definition named_in :: "env \<Rightarrow> uuid set \<Rightarrow> string \<Rightarrow> bool" where
  "named_in E G v \<longleftrightarrow> (\<forall>u. pgUUIDFromString E v = Some u \<longrightarrow> u \<in> G)"

lemma named_senders:
  "request_headers rq = Some h \<Longrightarrow> accepted J secret h c \<Longrightarrow> senders E J secret rq \<subseteq> G \<Longrightarrow> named_in E G (session_user (session_of c))"
  by (auto simp: named_in_def senders_def session_user_def session_of_def pgUUIDFromString_def split: if_splits)

lemma keeps_with_dates [keeps_rules]:
  "(\<And>t1 t2. keeps I (f t1 t2)) \<Longrightarrow> keeps I (with_dates C bad_start bad_end start finish f)"
  unfolding with_dates_def by (intro keeps_rules)

lemma keeps_organizer_route:
  assumes "tick_free I" and "\<And>c. accepted J secret h c \<Longrightarrow> keeps I (handler (session_of c))"
  shows "keeps I (organizer_route E J secret h handler)"
  unfolding keeps_iff_wp organizer_route_def role_route_def
proof (intro allI impI)
  fix s assume s: "I s"
  show "wp (protected_route E J secret h (\<lambda>ss. case RequireRole [''organizer'', ''admin''] ss of Some r \<Rightarrow> ret r | None \<Rightarrow> handler ss)) (\<lambda>_. I) s"
    using assms s by (intro wp_protected_route) (auto simp: tick_free_def intro: keeps_wp split: option.split)
qed

lemma cache_names [simp]: "\<not> queue_name (event_key v)" "\<not> queue_name (page_key page per_page)"
  by (simp_all add: queue_name_def event_key_def page_key_def)

text \<open>An assertion that the commands and the statements of the catalogue keep, those of organizers among \<open>G\<close>
  where they write events.\<close>

locale catalog_commands =
  fixes I :: "'z catalog_db_scheme \<Rightarrow> bool" and G :: "uuid set"
  assumes tick_free: "tick_free I"
    and del_free: "I s \<Longrightarrow> I (s\<lparr>redis := (redis s)(k := None)\<rparr>)"
    and set_free: "I s \<Longrightarrow> \<not> queue_name k \<Longrightarrow> I (s\<lparr>redis := (redis s)(k \<mapsto> (RStr v, d))\<rparr>)"
    and event_writes: "org \<in> G \<Longrightarrow> keeps I (Queries_CreateEvent E org p)" "org \<in> G \<Longrightarrow> keeps I (Queries_UpdateEvent E eid org p)"
      "org \<in> G \<Longrightarrow> keeps I (Queries_DeleteEvent E eid org)"
    and type_writes: "keeps I (Queries_CreateTicketType E eid tp)" "keeps I (Queries_UpdateTicketType E tid tp)"
      "keeps I (Queries_DeleteTicketType E tid)" "keeps I (IncrementTicketSold E tid q)" "keeps I (DecrementTicketSold E tid q)"
    and venue_writes: "keeps I (Queries_CreateVenue E org vp)"
begin

lemma keeps_commands:
  "keeps I (redis_cmd E (do_get k))" "keeps I (redis_cmd E (do_del [k]))" "\<not> queue_name k \<Longrightarrow> keeps I (redis_cmd E (do_set k v ttl))"
proof -
  have del: "(\<lambda>j. if j = k then None else rd j) = rd(k := None)" for rd :: rstore by (rule ext) simp
  show "keeps I (redis_cmd E (do_get k))" "keeps I (redis_cmd E (do_del [k]))" "\<not> queue_name k \<Longrightarrow> keeps I (redis_cmd E (do_set k v ttl))"
    by (rule keeps_redis_cmd [OF tick_free]; simp add: do_del_def do_set_def del del_free set_free)+
qed

lemma keeps_lookups:
  "keeps I (GetTicketTypeByID E tid)" "keeps I (GetEventByID E eid)"
  "keeps I (ListEventIDsByOrganizer E org)" "keeps I (GetEventBySlug E v)"
  "keeps I (Queries_ListEvents E lmt off)" "keeps I (CountPublishedEvents E)"
  "keeps I (Queries_ListEventsByOrganizer E org lmt off)" "keeps I (CountEventsByOrganizer E org)"
  "keeps I (Queries_SearchEvents E ilike query lmt off)" "keeps I (ListTicketTypesByEvent E eid)"
  "keeps I (CountVenues E)" "keeps I (GetVenueByID E vid)"
  "keeps I (Queries_ListVenues E collate lmt off)" "keeps I (ListCategories E collate)"
  by (auto simp: GetTicketTypeByID_def GetEventByID_def ListEventIDsByOrganizer_def GetEventBySlug_def Queries_ListEvents_def
      CountPublishedEvents_def Queries_ListEventsByOrganizer_def CountEventsByOrganizer_def Queries_SearchEvents_def
      ListTicketTypesByEvent_def CountVenues_def GetVenueByID_def Queries_ListVenues_def ListCategories_def intro!: keeps_sql [OF tick_free])

lemma keeps_caches:
  "keeps I step" "keeps I (Now E)" "keeps I (generateSlug E title)"
  "keeps I (invalidateEventCache E C v)" "keeps I (set_stock E tid avail)"
  "keeps I (PrewarmTicketStock E v)" "keeps I (publish_stock E t)"
  "keeps I (cached E key decode)" "\<not> queue_name key \<Longrightarrow> keeps I (remember E key w)"
proof -
  note local = keeps_step [OF tick_free] keeps_Now [OF tick_free]
  have scan: "keeps I (external E (\<lambda>n. State (\<lambda>s. (Inr (lib_Scan C n (clock E n) (redis s)), s))))" for E C
    by (rule keeps_external [OF tick_free]) (simp add: keeps_def)
  show "keeps I step" "keeps I (Now E)" by (rule local)+
  show "keeps I (generateSlug E title)" unfolding generateSlug_def by (intro keeps_rules local)
  show "keeps I (invalidateEventCache E C v)" unfolding invalidateEventCache_def by (intro keeps_rules keeps_commands scan)
  show set: "keeps I (set_stock E tid avail)" for E tid avail unfolding set_stock_def by (intro keeps_rules keeps_commands) simp
  show "keeps I (PrewarmTicketStock E v)" unfolding PrewarmTicketStock_def by (intro keeps_rules keeps_lookups set)
  show "keeps I (publish_stock E t)" unfolding publish_stock_def by (intro keeps_rules set local)
  show "keeps I (cached E key decode)" unfolding cached_def by (intro keeps_rules keeps_commands)
  show "\<not> queue_name key \<Longrightarrow> keeps I (remember E key w)" unfolding remember_def by (intro keeps_rules keeps_commands)
qed

lemma keeps_services:
  "named_in E G org \<Longrightarrow> keeps I (CreateEvent E C org req)"
  "named_in E G org \<Longrightarrow> keeps I (UpdateEvent E C v org req)"
  "named_in E G org \<Longrightarrow> keeps I (DeleteEvent E C v org)"
  "keeps I (GetEvent E C v)" "keeps I (ListEvents E C page per_page)"
  "keeps I (ListTicketTypesForEvent E v)" "keeps I (SearchEvents E C query page per_page)"
  "keeps I (ListEventsByOrganizer E org page per_page)" "keeps I (GetEventIDsByOrganizer E org)"
  "keeps I (CreateTicketType E C org v treq)" "keeps I (UpdateTicketType E C org v w treq)"
  "keeps I (DeleteTicketType E org v w)"
  "keeps I (CreateVenue E org vreq)" "keeps I (GetVenue E v)"
  "keeps I (ListVenues E C page per_page)"
proof -
  assume "named_in E G org"
  then have org: "pgUUIDFromString E org = Some u \<Longrightarrow> u \<in> G" for u by (simp add: named_in_def)
  show "keeps I (CreateEvent E C org req)"
    unfolding CreateEvent_def by (intro pgUUID_in keeps_rules keeps_caches keeps_lookups event_writes org)
  show "keeps I (UpdateEvent E C v org req)"
    unfolding UpdateEvent_def by (intro pgUUID_in keeps_rules keeps_caches keeps_lookups event_writes org)
  show "keeps I (DeleteEvent E C v org)"
    unfolding DeleteEvent_def by (intro pgUUID_in keeps_rules keeps_caches keeps_lookups event_writes org)
qed (unfold GetEvent_def ListEvents_def ListTicketTypesForEvent_def SearchEvents_def ListEventsByOrganizer_def GetEventIDsByOrganizer_def
  CreateTicketType_def UpdateTicketType_def DeleteTicketType_def CreateVenue_def GetVenue_def ListVenues_def owned_event_def with_path_def Let_def;
  intro keeps_rules keeps_caches keeps_lookups type_writes venue_writes; simp)+

lemma keeps_handlers:
  "named_in E G (session_user ss) \<Longrightarrow> keeps I (Event_Create E C ss body)"
  "named_in E G (session_user ss) \<Longrightarrow> keeps I (Event_Update E C ss v body)"
  "named_in E G (session_user ss) \<Longrightarrow> keeps I (Event_Delete E C ss v)"
  "keeps I (Event_Get E C v)" "keeps I (Event_ListTickets E v)"
  "keeps I (Event_List E C page per_page)" "keeps I (Event_Search E C query page per_page)"
  "keeps I (Event_ListByOrganizer E ss page per_page)" "keeps I (GetInternalEventIDs E v)"
  "keeps I (TicketType_Create E C lib ss v tbody)" "keeps I (TicketType_Update E C lib ss v w tbody)"
  "keeps I (TicketType_Delete E lib ss v w)" "keeps I (Venue_Create E ss vbody)"
  "keeps I (Venue_Get E v)" "keeps I (Venue_List E C page per_page)"
  "keeps I (Category_List E C)" "keeps I (ReserveTickets E v qty)"
  "keeps I (ReleaseTickets E v qty)" "keeps I (GetTicketType E v)"
  unfolding Event_Create_def Event_Update_def Event_Delete_def Event_Get_def Event_ListTickets_def Event_List_def Event_Search_def
    Event_ListByOrganizer_def GetInternalEventIDs_def TicketType_Create_def TicketType_Update_def TicketType_Delete_def Venue_Create_def
    Venue_Get_def Venue_List_def Category_List_def ReserveTickets_def ReleaseTickets_def GetTicketType_def with_owner_def paged_answer_def
  by (intro keeps_rules keeps_services keeps_lookups keeps_caches type_writes tick_free; assumption?)+

lemma catalog_serve_ok:
  assumes "senders E J secret rq \<subseteq> G"
  shows "keeps I (catalog_serve E C lib J secret rq)"
proof -
  have internal: "keeps I m \<Longrightarrow> keeps I (internal_route E x m)" for x m
    unfolding internal_route_def by (intro keeps_rules)
  have code: "keeps I m \<Longrightarrow> keeps I (served_code m)" for m
    unfolding served_code_def by (intro keeps_rules)
  note named = named_senders [OF _ _ assms]
  show ?thesis
    by (cases rq; simp only: catalog_serve.simps; intro code internal keeps_organizer_route keeps_rules tick_free keeps_handlers; simp add: named)
qed

end

interpretation fenced: catalog_commands "catalog_inv G fenced" G for G fenced
  by unfold_locales
    (simp_all add: keeps_catalog_writes keeps_DeleteEvent keeps_catalog_types keeps_catalog_venue)

section \<open>Events belong to their organizer\<close>

text \<open>
  C17. Events belong to their organizer: whatever requests arrive, in whatever order and under every schedule
  of faults, the tables of the catalogue stay sound (unique identifiers and slugs, no ticket type without its
  event, no event in an unknown venue or category), and the events of an organizer whose accepted token none
  of the requests carries are the same rows as before.
\<close>

theorem events_changed_by_owner:
  fixes s :: "'z catalog_db_scheme"
  assumes "catalog_ok s"
  shows "wp (for_each rqs (\<lambda>rq. do { catalog_serve E C lib J secret rq; ret () }))
    (\<lambda>_ t. catalog_ok t \<and> (\<forall>org. org \<notin> (\<Union>rq \<in> set rqs. senders E J secret rq) \<longrightarrow>
       filter (\<lambda>r. ev_OrganizerID r = org) (events t) = filter (\<lambda>r. ev_OrganizerID r = org) (events s))) s"
proof -
  let ?G = "\<Union>rq \<in> set rqs. senders E J secret rq"
  let ?X = "filter (\<lambda>r. ev_OrganizerID r \<notin> ?G) (events s)"
  have "keeps (catalog_inv ?G ?X) (for_each rqs' (\<lambda>rq. do { catalog_serve E C lib J secret rq; ret () }))" if "set rqs' \<subseteq> set rqs" for rqs'
    using that
  proof (induction rqs')
    case (Cons rq rqs')
    then have "keeps (catalog_inv ?G ?X) (catalog_serve E C lib J secret rq)" by (intro fenced.catalog_serve_ok) auto
    with Cons show ?case by (auto intro!: keeps_bind keeps_return)
  qed (simp add: keeps_return)
  from this [OF subset_refl]
  have inv: "wp (for_each rqs (\<lambda>rq. do { catalog_serve E C lib J secret rq; ret () })) (\<lambda>_. catalog_inv ?G ?X) s"
    by (rule keeps_wp) (simp add: catalog_inv_def assms)
  have part: "filter (\<lambda>r. ev_OrganizerID r = org) es = filter (\<lambda>r. ev_OrganizerID r = org) (filter (\<lambda>r. ev_OrganizerID r \<notin> ?G) es)"
    if "org \<notin> ?G" for org es
    using that by (auto simp: filter_filter intro: filter_cong)
  show ?thesis
  proof (rule wp_mono [OF inv], intro conjI allI impI)
    fix t :: "'z catalog_db_scheme" and org assume t: "catalog_inv ?G ?X t"
    then show "catalog_ok t" by (simp add: catalog_inv_def)
    assume org: "org \<notin> ?G"
    show "filter (\<lambda>r. ev_OrganizerID r = org) (events t) = filter (\<lambda>r. ev_OrganizerID r = org) (events s)"
      using part [OF org, of "events t"] part [OF org, of "events s"] t by (simp only: catalog_inv_def)
  qed
qed

text \<open>A concrete catalogue: one event of the organizer 3 and one ticket type.\<close>

definition demo_catalog :: catalog_db where
  "demo_catalog = \<lparr>tick = 0, redis = Map.empty, kafka = [], ticket_types = [demo_type], events = [demo_event], orders = [], order_items = [],
     tickets = [], withdrawals = [], local_tickets = [], users = [], refresh_tokens = [], password_resets = [], rotations = Map.empty,
     venues = [], categories = []\<rparr>"

lemma demo_catalog_simps [simp]:
  "tick demo_catalog = 0" "redis demo_catalog = Map.empty" "ticket_types demo_catalog = [demo_type]" "events demo_catalog = [demo_event]"
  by (simp_all add: demo_catalog_def)

definition demo_lib :: catalog_lib where
  "demo_lib = \<lparr>lib_ParseTime = (\<lambda>v. if v = [] then Inl ErrParse else Inr (int (length v) * Second)), lib_ParseFloat = (\<lambda>v. Fin 0),
     event_encode = (\<lambda>e. []), event_decode = (\<lambda>v. None), page_encode = (\<lambda>p. []), page_decode = (\<lambda>v. None),
     lib_Scan = (\<lambda>n t rd. []), lib_ILike = (\<lambda>x p. False), lib_Collate = length\<rparr>"

theorem events_changed_by_owner_witness:
  "wp (for_each [DELETE_event demo_headers (demo_name 2)] (\<lambda>rq. do {
       catalog_serve still_env demo_lib (\<lambda>e. []) (demo_jwt \<lparr>cl_UserID = demo_name 6, cl_Role = ''organizer''\<rparr>) ''k'' rq; ret () }))
    (\<lambda>_ t. catalog_ok t \<and> filter (\<lambda>r. ev_OrganizerID r = 3) (events t) = [demo_event]) demo_catalog"
proof -
  have "catalog_ok demo_catalog" by (simp add: catalog_ok_def demo_type_def demo_event_def) (simp add: demo_catalog_def)
  from events_changed_by_owner [OF this] show ?thesis
    by (rule wp_mono) (auto simp: senders_def accepted_demo demo_event_def)
qed

end
