(* ===== verification/Event_Stock_Spec.thy ===== *)
theory Event_Stock_Spec
  imports Event_Catalog_Spec
begin

text \<open>
  The stock counters an organizer's changes publish and the reservations buyers take from them: a new
  ticket type sells exactly its quantity, and the ways in which a change of a ticket type breaks the count.
\<close>

section \<open>Publishing a counter\<close>

lemma int32_avail_wraps:
  assumes "0 \<le> sint sold"
  shows "sint (int32_avail quantity sold) =
    (let d = sint quantity - sint sold in if d < - (2 ^ 31) then d + 2 ^ 32 else max 0 d)"
proof -
  define d where "d = sint quantity - sint sold"
  have b: "- (2 ^ 32) < d" "d < 2 ^ 31"
    using assms sint32_bounds [of quantity] sint32_bounds [of sold] by (simp_all add: d_def)
  have w: "quantity - sold = (word_of_int d :: int32)" by (simp add: d_def)
  show ?thesis
  proof (cases "d < - (2 ^ 31)")
    case True
    have "quantity - sold = (word_of_int (d + 2 ^ 32) :: int32)"
      unfolding w by (rule word_of_int_eq_iff [THEN iffD2]) (simp add: take_bit_eq_mod)
    then have "sint (quantity - sold) = d + 2 ^ 32"
      using True b sint32_of_int [of "d + 2 ^ 32"] by simp
    then show ?thesis using True b by (simp add: int32_avail_def Let_def d_def)
  next
    case False
    then have "sint (quantity - sold) = d" using b unfolding w by (simp add: sint32_of_int)
    then show ?thesis using False by (simp add: int32_avail_def Let_def d_def)
  qed
qed

lemma wp_publish_stock:
  assumes "reliable E" and "has_redis E" and "case tt_SaleEnd t of None \<Rightarrow> True | Some e \<Rightarrow> clock E (tick s) \<le> e"
    and "\<And>n. Q () (s\<lparr>tick := n, redis := (redis s)(stock_key (uuid_String E (tt_ID t)) \<mapsto>
        (RStr (show_int (sint (int32_avail (tt_Quantity t) (tt_Sold t)))), None))\<rparr>)"
  shows "wp (publish_stock E t) Q s"
  using assms by (cases "tt_SaleEnd t") (simp_all add: publish_stock_def set_stock_def do_set_def not_less)

lemma int32_avail_in_int64 [simp]: "0 \<le> sint (int32_avail q sold)" "in_int64 (sint (int32_avail q sold))"
  using int32_avail_nonneg [of q sold] sint32_bounds [of "int32_avail q sold"] by (simp_all add: in_int64_def)

text \<open>
  The published counter is what is left, computed in 32 bits: while the sale lasts it is the quantity less
  the tickets sold, or zero when more were sold than the quantity allows, unless the difference leaves the
  range of \<open>int32\<close>. A negative quantity passes the binding, and \<open>- 2^31\<close> with one ticket sold publishes more
  than two thousand million tickets.
\<close>

theorem published_counter:
  assumes "reliable E" and "has_redis E" and "case tt_SaleEnd t of None \<Rightarrow> True | Some e \<Rightarrow> clock E (tick s) \<le> e"
    and "0 \<le> sint (tt_Sold t)"
  shows "wp (publish_stock E t) (\<lambda>_ s'. counter (redis s') (stock_key (uuid_String E (tt_ID t))) =
    Some (let d = sint (tt_Quantity t) - sint (tt_Sold t) in if d < - (2 ^ 31) then d + 2 ^ 32 else max 0 d)) s"
  by (rule wp_publish_stock [OF assms(1-3)]) (subst int32_avail_wraps [OF assms(4), symmetric], simp)

theorem published_counter_witness:
  "wp (publish_stock still_env demo_type) (\<lambda>_ s'. counter (redis s') (stock_key (demo_name 1)) = Some 3) demo_catalog \<and>
   wp (publish_stock still_env (demo_type\<lparr>tt_Quantity := - (2 ^ 31), tt_Sold := 1\<rparr>))
     (\<lambda>_ s'. counter (redis s') (stock_key (demo_name 1)) = Some (2 ^ 31 - 1)) demo_catalog"
  using published_counter [of still_env demo_catalog demo_type]
    published_counter [of still_env demo_catalog "demo_type\<lparr>tt_Quantity := - (2 ^ 31), tt_Sold := 1\<rparr>"]
  by (simp add: demo_type_def Let_def)

section \<open>Selling a new ticket type\<close>

text \<open>The request names a sale that is open whenever the clock is read, a price the column holds and a short name.\<close>

definition good_type_request :: "env \<Rightarrow> catalog_lib \<Rightarrow> CreateTicketTypeRequest \<Rightarrow> bool" where
  "good_type_request E C req \<longleftrightarrow> length (tr_Name req) \<le> 100 \<and> is_ok (decimal_15_2 (price_numeric (parsePrice C (tr_Price req))))
     \<and> (\<exists>t1 t2. lib_ParseTime C (tr_SaleStart req) = Inr t1 \<and> lib_ParseTime C (tr_SaleEnd req) = Inr t2
        \<and> (\<forall>n. pg_time t1 \<le> clock E n \<and> clock E n \<le> pg_time t2))"

lemma type_row_fields [simp]:
  "tt_Quantity (type_row now p price r) = tp_Quantity p" "tt_IsActive (type_row now p price r) = tt_IsActive r"
  "tt_SaleStart (type_row now p price r) = Some (pg_time (tp_SaleStart p))" "tt_SaleEnd (type_row now p price r) = Some (pg_time (tp_SaleEnd p))"
  "tt_Quantity (new_type u eid now p price) = tp_Quantity p" "tt_IsActive (new_type u eid now p price)"
  "tt_SaleStart (new_type u eid now p price) = Some (pg_time (tp_SaleStart p))" "tt_SaleEnd (new_type u eid now p price) = Some (pg_time (tp_SaleEnd p))"
  by (simp_all add: type_row_def new_type_def)

lemma type_params_fields [simp]:
  "tp_Quantity (type_params C req t1 t2) = tr_Quantity req" "tp_Name (type_params C req t1 t2) = tr_Name req"
  "tp_Price (type_params C req t1 t2) = price_numeric (parsePrice C (tr_Price req))"
  "tp_SaleStart (type_params C req t1 t2) = t1" "tp_SaleEnd (type_params C req t1 t2) = t2"
  by (simp_all add: type_params_def)

text \<open>
  C18. A new ticket type sells exactly its quantity: created by the organizer of a published event for a sale that
  is open, it is a new row with nothing sold whose counter in Redis is the quantity, and the reservation of a
  buyer that follows is granted if and only if the quantity covers it, in both stores.
\<close>

theorem new_type_sells_its_quantity:
  fixes s :: "'z event_db_scheme"
  assumes E: "reliable E" "uuid_laws E" "secret_accepted E" "has_redis E" "has_events E"
    and path: "pgUUIDFromString E org_str = Some org" "pgUUIDFromString E event_str = Some eid"
    and ev: "find_row (\<lambda>r. ev_ID r = eid) (events s) = Some ev" "ev_OrganizerID ev = org" "\<And>n. event_refusal (clock E n) (Inr ev) = None"
    and req: "good_type_request E C req" "0 < sint (tr_Quantity req)" and new: "fresh E (Suc (tick s)) \<notin> tt_ID ` set (ticket_types s)"
    and q: "0 < sint q"
  shows "wp (CreateTicketType E C org_str event_str req) (\<lambda>r t. \<exists>tt. r = Inr tt \<and> ticket_types t = ticket_types s @ [tt] \<and> tt_EventID tt = eid
     \<and> counter (redis t) (stock_key (uuid_String E (tt_ID tt))) = Some (sint (tr_Quantity req))
     \<and> wp (ReserveTicketStock E (uuid_String E (tt_ID tt)) q) (\<lambda>r' t'. let n = sint (tr_Quantity req); left = (if sint q \<le> n then n - sint q else n) in
          r' = (if sint q \<le> n then Inr () else Inl ErrSoldOut) \<and> row_left (tt_ID tt) n left t'
          \<and> counter (redis t') (stock_key (uuid_String E (tt_ID tt))) = Some left) t) s"
proof -
  obtain t1 t2 price where req': "length (tr_Name req) \<le> 100" "lib_ParseTime C (tr_SaleStart req) = Inr t1" "lib_ParseTime C (tr_SaleEnd req) = Inr t2"
      "decimal_15_2 (price_numeric (parsePrice C (tr_Price req))) = Inr price" "\<And>n. pg_time t1 \<le> clock E n \<and> clock E n \<le> pg_time t2"
    using req(1) unfolding good_type_request_def is_ok_def by (auto split: sum.splits)
  let ?u = "fresh E (Suc (tick s))"
  let ?tt = "new_type ?u eid (pg_time (clock E (Suc (tick s)))) (type_params C req t1 t2) price"
  have no_row: "find_row (\<lambda>r. tt_ID r = ?u) (ticket_types s) = None" using new unfolding find_row_None by (metis image_eqI)
  have owned: "eid \<in> ev_ID ` set (events s)" using ev(1) by (auto dest: find_row_Some)
  have sold: "sint (int32_avail (tr_Quantity req) 0) = sint (tr_Quantity req)"
    using req(2) by (simp add: int32_avail_def)
  then have range: "0 \<le> sint (tr_Quantity req)" "in_int64 (sint (tr_Quantity req))"
    using int32_avail_in_int64 [of "tr_Quantity req" 0] by simp_all
  have reserve: "wp (ReserveTicketStock E (uuid_String E ?u) q) (\<lambda>r' t'. let n = sint (tr_Quantity req); left = (if sint q \<le> n then n - sint q else n) in
      r' = (if sint q \<le> n then Inr () else Inl ErrSoldOut) \<and> row_left ?u n left t'
      \<and> counter (redis t') (stock_key (uuid_String E ?u)) = Some left) t"
    if "ticket_types t = ticket_types s @ [?tt]" "events t = events s" "counter (redis t) (stock_key (uuid_String E ?u)) = Some (sint (tr_Quantity req))"
    for t :: "'z event_db_scheme"
  proof (rule wp_ReserveTicketStock [OF E(1,3,4,5) _ q])
    show "uuid_Parse E (uuid_String E ?u) = Some ?u" using E(2) by (simp add: uuid_roundtrip)
    show "row_left ?u (sint (tr_Quantity req)) (sint (tr_Quantity req)) t"
      using that(1) no_row req(2) by (simp add: row_left_def find_row_append row_ok_def)
    show "type_on_sale E ?u t"
      using that(1,2) no_row ev(1,3) req'(5) by (simp add: type_on_sale_def find_row_append on_sale_def sale_refusal_def not_less)
  qed (use that(3) in \<open>simp_all add: Let_def\<close>)
  show ?thesis
    using E path ev(1,2) req' new owned
    by (simp add: CreateTicketType_def owned_event_def GetEventByID_def with_dates_def Queries_CreateTicketType_def)
      (rule wp_publish_stock, simp_all add: sold range, rule wp_mono [OF reserve], simp_all add: sold range Let_def split: if_splits)
qed

text \<open>Requests of the organizer 3 for the event 2; times are written as that many characters.\<close>

definition demo_type_request :: "int32 \<Rightarrow> CreateTicketTypeRequest" where
  "demo_type_request n = \<lparr>tr_Name = ''VIP'', tr_Description = [], tr_Price = None, tr_Quantity = n, tr_MaxPerOrder = 0,
     tr_SaleStart = ''s'', tr_SaleEnd = replicate 2000 CHR ''e''\<rparr>"

lemma price_of_zero [simp]: "price_numeric (parsePrice C None) = Num 0" "round_cents 0 = 0"
  by (simp_all add: parsePrice_def shortest_decimal_def round_cents_def floor_eq_iff)

lemma demo_type_request_ok [simp]: "good_type_request still_env demo_lib (demo_type_request n)" "tr_Quantity (demo_type_request n) = n"
  by (simp_all add: good_type_request_def demo_type_request_def demo_lib_def pg_time_def duration_defs)

lemma still_env_fresh [simp]: "fresh still_env n = of_nat (Suc n)"
  by (simp add: still_env_def)

theorem new_type_sells_its_quantity_witness:
  "wp (CreateTicketType still_env demo_lib (demo_name 3) (demo_name 2) (demo_type_request 5)) (\<lambda>r t. \<exists>tt. r = Inr tt
     \<and> counter (redis t) (stock_key (demo_name (tt_ID tt))) = Some 5
     \<and> wp (ReserveTicketStock still_env (demo_name (tt_ID tt)) 6) (\<lambda>r' t'. r' = Inl ErrSoldOut) t) demo_catalog"
  by (rule wp_mono [OF new_type_sells_its_quantity [where org = 3 and eid = 2 and ev = demo_event and q = 6]])
    (auto simp: pgUUIDFromString_def demo_event_def demo_type_def event_refusal_def Let_def elim!: wp_mono)

section \<open>Changing the ticket types of others\<close>

text \<open>
  C29. The ticket types of other organizers are not protected: the check of \<open>UpdateTicketType\<close> and \<open>DeleteTicketType\<close>
  is about the event in the path only, so an organizer with an event of their own can overwrite or delete any
  ticket type, whatever event it belongs to.
\<close>

theorem foreign_ticket_type_changed:
  assumes E: "reliable E" and path: "pgUUIDFromString E org_str = Some org" "pgUUIDFromString E event_str = Some eid"
    "pgUUIDFromString E ticket_str = Some tid"
    and own: "find_row (\<lambda>r. ev_ID r = eid) (events s) = Some ev" "ev_OrganizerID ev = org"
    and any: "find_row (\<lambda>r. tt_ID r = tid) (ticket_types s) = Some tt" and req: "good_type_request E C req"
  shows "wp (UpdateTicketType E C org_str event_str ticket_str req) (\<lambda>r t. \<exists>tt'. r = Inr tt' \<and> tt_EventID tt' = tt_EventID tt
       \<and> tt_Quantity tt' = tr_Quantity req \<and> find_row (\<lambda>r. tt_ID r = tid) (ticket_types t) = Some tt') s \<and>
    wp (DeleteTicketType E org_str event_str ticket_str) (\<lambda>r t. r = Inr () \<and> find_row (\<lambda>r. tt_ID r = tid) (ticket_types t) = None) s"
proof -
  obtain t1 t2 price where req': "length (tr_Name req) \<le> 100" "lib_ParseTime C (tr_SaleStart req) = Inr t1" "lib_ParseTime C (tr_SaleEnd req) = Inr t2"
      "decimal_15_2 (price_numeric (parsePrice C (tr_Price req))) = Inr price" "\<And>n. pg_time t1 \<le> clock E n \<and> clock E n \<le> pg_time t2"
    using req unfolding good_type_request_def is_ok_def by (auto split: sum.splits)
  have gone: "find_row (\<lambda>r. tt_ID r = tid) (filter (\<lambda>r. tt_ID r \<noteq> tid) rows) = None" for rows by (simp add: find_row_None)
  note defs = with_path_def path owned_event_def GetEventByID_def own
  have "wp (publish_stock E t) (\<lambda>_ t'. ticket_types t' = rows) s'" if "ticket_types s' = rows" for t rows and s' :: "'a catalog_db_scheme"
    using that E by (simp add: publish_stock_def set_stock_def do_set_def Let_def split: option.split)
  with E req' any gone show ?thesis
    by (auto simp: UpdateTicketType_def DeleteTicketType_def defs with_dates_def Queries_UpdateTicketType_def Queries_DeleteTicketType_def
      publish_stock_def set_stock_def do_set_def Let_def type_keyed.find_updated split: option.split)
qed

text \<open>The organizer 6 has an event of their own beside the one of the organizer 3.\<close>

definition demo_rivals :: catalog_db where
  "demo_rivals = demo_catalog\<lparr>events := [demo_event, demo_event\<lparr>ev_ID := 4, ev_OrganizerID := 6, ev_Slug := ''fair''\<rparr>]\<rparr>"

theorem foreign_ticket_type_changed_witness:
  "wp (UpdateTicketType still_env demo_lib (demo_name 6) (demo_name 4) (demo_name 1) (demo_type_request 9)) (\<lambda>r t. \<exists>tt'. r = Inr tt'
     \<and> tt_EventID tt' = 2 \<and> tt_Quantity tt' = 9 \<and> find_row (\<lambda>r. tt_ID r = 1) (ticket_types t) = Some tt') demo_rivals \<and>
   wp (DeleteTicketType still_env (demo_name 6) (demo_name 4) (demo_name 1)) (\<lambda>r t. r = Inr ()) demo_rivals"
proof -
  have "wp (UpdateTicketType still_env demo_lib (demo_name 6) (demo_name 4) (demo_name 1) (demo_type_request 9)) (\<lambda>r t. \<exists>tt'. r = Inr tt'
       \<and> tt_EventID tt' = tt_EventID demo_type \<and> tt_Quantity tt' = tr_Quantity (demo_type_request 9)
       \<and> find_row (\<lambda>r. tt_ID r = 1) (ticket_types t) = Some tt') demo_rivals \<and>
    wp (DeleteTicketType still_env (demo_name 6) (demo_name 4) (demo_name 1))
      (\<lambda>r t. r = Inr () \<and> find_row (\<lambda>r. tt_ID r = 1) (ticket_types t) = None) demo_rivals"
    by (rule foreign_ticket_type_changed [where org = 6 and eid = 4 and ev = "demo_event\<lparr>ev_ID := 4, ev_OrganizerID := 6, ev_Slug := ''fair''\<rparr>"])
      (simp_all add: demo_rivals_def pgUUIDFromString_def, simp_all add: demo_event_def demo_type_def)
  then show ?thesis by (auto simp: demo_type_def elim!: wp_mono)
qed

section \<open>A change during a checkout\<close>

text \<open>When fewer tickets are left than asked for, the internal handler keeps the row, on sale or not.\<close>

lemma Client_Reserve_short:
  assumes "reliable E" and "uuid_Parse E v = Some u" and "0 < sint q" and "row_left u n b s" and "b < sint q"
  shows "wp (Client_ReserveTickets E v q) (\<lambda>_. row_left u n b) s"
proof -
  obtain t where t: "find_row (\<lambda>r. tt_ID r = u) (ticket_types s) = Some t" "row_ok t"
    and n: "n = sint (tt_Quantity t)" "b = sint (tt_Quantity t) - sint (tt_Sold t)" using assms(4) by (auto simp: row_left_def)
  have "\<not> can_take q t" using assms(5) n by (simp add: can_take_def)
  then have rows: "increment_sold u q now (ticket_types s) = (Inl ErrNoRows, ticket_types s)" for now
    using increment_sold_found [OF t assms(3)] by (metis prod.collapse)
  have keep: "row_left u n b (s\<lparr>tick := k\<rparr>)" for k using assms(4) by (simp add: row_left_def)
  show ?thesis
    using assms(1-3) t rows keep
    by (simp add: Client_ReserveTickets_def sendReservationRequest_def http_internal_def ReserveTickets_def bind_reservation_def
      GetTicketTypeByID_def GetEventByID_def IncrementTicketSold_def response_defs split: option.split)
qed

text \<open>
  C21. A change of a ticket type during a checkout oversells: a reservation takes its tickets in Redis first and
  tells the event service second. When the organizer edits the ticket type in between, even with the same
  quantity, the counter is set back to what the database says and forgets the reservation under way. A
  second buyer is then granted all the tickets that were left before, although the first took some of them:
  the event service refuses, but the ticket service does not look at its answer.
\<close>

theorem edit_during_checkout_oversells:
  fixes s :: "'z event_db_scheme"
  assumes E: "reliable E" "uuid_laws E" "secret_accepted E" "has_redis E" "has_events E"
    and path: "pgUUIDFromString E org_str = Some org" "pgUUIDFromString E event_str = Some eid"
    and own: "find_row (\<lambda>r. ev_ID r = eid) (events s) = Some ev" "ev_OrganizerID ev = org" "\<And>n. event_refusal (clock E n) (Inr ev) = None"
    and row: "find_row (\<lambda>r. tt_ID r = tid) (ticket_types s) = Some tt" "tt_EventID tt = eid" "row_ok tt" "tt_IsActive tt"
    and req: "good_type_request E C req" "tr_Quantity req = tt_Quantity tt"
    and left: "a = sint (tt_Quantity tt) - sint (tt_Sold tt)" "counter (redis s) (stock_key (uuid_String E tid)) = Some a"
    and q: "0 < sint q" "sint q \<le> a" "sint q' = a"
  shows "wp (do { redis_cmd E (do_reserve (stock_key (uuid_String E tid)) q);
                  UpdateTicketType E C org_str event_str (uuid_String E tid) req;
                  first \<leftarrow> confirm_reserve E (uuid_String E tid) q;
                  second \<leftarrow> ReserveTicketStock E (uuid_String E tid) q';
                  ret (first, second) })
    (\<lambda>(first, second) t. first = Inr () \<and> second = Inr () \<and> row_left tid (sint (tt_Quantity tt)) (a - sint q) t) s"
proof -
  let ?k = "stock_key (uuid_String E tid)" and ?n = "sint (tt_Quantity tt)"
  obtain t1 t2 price where req': "length (tr_Name req) \<le> 100" "lib_ParseTime C (tr_SaleStart req) = Inr t1" "lib_ParseTime C (tr_SaleEnd req) = Inr t2"
      "decimal_15_2 (price_numeric (parsePrice C (tr_Price req))) = Inr price" "\<And>n. pg_time t1 \<le> clock E n \<and> clock E n \<le> pg_time t2"
    using req unfolding good_type_request_def is_ok_def by (auto split: sum.splits)
  have tid: "uuid_Parse E (uuid_String E tid) = Some tid" "pgUUIDFromString E (uuid_String E tid) = Some tid"
    using E(2) by (simp_all add: uuid_roundtrip pgUUIDFromString_def uuid_String_nonempty)
  have avail: "sint (int32_avail (tt_Quantity tt) (tt_Sold tt)) = a" using int32_avail_row [OF row(3)] left(1) by simp
  have a: "0 < sint q'" "0 \<le> a" "in_int64 a" using q int32_avail_in_int64(2) [of "tt_Quantity tt" "tt_Sold tt"] avail by simp_all
  have idt: "tt_ID tt = tid" using row(1) by (auto dest: find_row_Some)
  have served: "wp (ReserveTicketStock E (uuid_String E tid) q') (\<lambda>r t. r = Inr () \<and> row_left tid ?n (a - sint q) t) t"
    if "row_left tid ?n (a - sint q) t" "counter (redis t) ?k = Some a" for t :: "'z event_db_scheme"
  proof -
    have "wp (confirm_reserve E (uuid_String E tid) q') (\<lambda>r u. r = Inr () \<and> row_left tid ?n (a - sint q) u) u"
      if "row_left tid ?n (a - sint q) u" for u :: "'z event_db_scheme"
      using Client_Reserve_short [OF E(1) tid(1) a(1) that] q E(5) by (auto simp: confirm_reserve_def elim: wp_mono)
    then show ?thesis
      using that E q do_reserve_counter [OF that(2) a(1)] by (simp add: ReserveTicketStock_def row_left_def)
  qed
  have confirmed: "wp (confirm_reserve E (uuid_String E tid) q) (\<lambda>first. wp (ReserveTicketStock E (uuid_String E tid) q')
      (\<lambda>second t. first = Inr () \<and> second = Inr () \<and> row_left tid ?n (a - sint q) t)) t"
    if "row_left tid ?n a t" "type_on_sale E tid t" "counter (redis t) ?k = Some a" for t :: "'z event_db_scheme"
    unfolding confirm_reserve_def using E(5) q that
    by simp (rule wp_Client_Reserve [OF E(1,3) tid(1) q(1) that(1,2)], auto intro: wp_mono [OF served])
  have updated: "row_left tid ?n a t \<and> type_on_sale E tid t"
    if "ticket_types t = update_rows (\<lambda>r. tt_ID r = tid) (type_row now (type_params C req t1 t2) price) (ticket_types s)" "events t = events s"
    for now and t :: "'z event_db_scheme"
    using that row own req(2) left(1) req'(5)
    by (simp add: row_left_def type_on_sale_def type_keyed.find_updated row_ok_def on_sale_def sale_refusal_def not_less)
  show ?thesis
    using E path own(1,2) row(1) req' tid req(2) do_reserve_counter [OF left(2) q(1)] q(2)
    by (simp add: UpdateTicketType_def with_path_def owned_event_def GetEventByID_def with_dates_def Queries_UpdateTicketType_def)
      (rule wp_publish_stock, simp_all add: avail a idt, rule confirmed,
       rule conjunct1 [OF updated], simp_all add: a, rule conjunct2 [OF updated], simp_all)
qed

text \<open>Three tickets are left; the first buyer takes two of them, the second is then granted all three.\<close>

theorem edit_during_checkout_oversells_witness:
  "wp (do { redis_cmd still_env (do_reserve (stock_key (demo_name 1)) 2);
            UpdateTicketType still_env demo_lib (demo_name 3) (demo_name 2) (demo_name 1) (demo_type_request 3);
            first \<leftarrow> confirm_reserve still_env (demo_name 1) 2;
            second \<leftarrow> ReserveTicketStock still_env (demo_name 1) 3;
            ret (first, second) })
    (\<lambda>(first, second) t. first = Inr () \<and> second = Inr () \<and> row_left 1 3 1 t)
    (demo_catalog\<lparr>redis := (redis demo_catalog)(stock_key (demo_name 1) \<mapsto> (RStr (show_int 3), None))\<rparr>)"
proof -
  have "wp (do { redis_cmd still_env (do_reserve (stock_key (uuid_String still_env 1)) 2);
            UpdateTicketType still_env demo_lib (demo_name 3) (demo_name 2) (uuid_String still_env 1) (demo_type_request 3);
            first \<leftarrow> confirm_reserve still_env (uuid_String still_env 1) 2;
            second \<leftarrow> ReserveTicketStock still_env (uuid_String still_env 1) 3;
            ret (first, second) })
    (\<lambda>(first, second) t. first = Inr () \<and> second = Inr () \<and> row_left 1 (sint (tt_Quantity demo_type)) (3 - sint (2 :: int32)) t)
    (demo_catalog\<lparr>redis := (redis demo_catalog)(stock_key (demo_name 1) \<mapsto> (RStr (show_int 3), None))\<rparr>)"
    by (rule edit_during_checkout_oversells [where org = 3 and eid = 2 and ev = demo_event and tt = demo_type])
      (simp_all add: pgUUIDFromString_def demo_event_def demo_type_def event_refusal_def row_ok_def in_int64_def)
  then show ?thesis by (simp add: demo_type_def)
qed

end
