(* ===== verification/Event_Cache_Spec.thy ===== *)
theory Event_Cache_Spec
  imports Event_Catalog_Spec
begin

text \<open>
  The cache of the catalogue after a change of an event: the address the change was sent to shows the new row at once,
  the old address keeps showing the old one.
\<close>

section \<open>What a change does to the cache\<close>

text \<open>\<open>SCAN\<close> with the pattern \<open>events:page:*\<close> reports names of pages only.\<close>

definition scan_laws :: "catalog_lib \<Rightarrow> bool" where
  "scan_laws C \<longleftrightarrow> (\<forall>n t rd. \<forall>k \<in> set (lib_Scan C n t rd). take 12 k = ''events:page:'')"

text \<open>The events, and what Redis holds under the names of events.\<close>

definition cache_side :: "'z event_db_scheme \<Rightarrow> Event list \<times> (string \<Rightarrow> (rval \<times> time option) option)" where
  "cache_side s = (events s, \<lambda>v. redis s (event_key v))"

lemma event_key_apart [simp]:
  "event_key v \<noteq> stock_key w" "event_key v = event_key w \<longleftrightarrow> v = w" "take 12 k = ''events:page:'' \<Longrightarrow> event_key v \<noteq> k"
  by (auto simp: event_key_def stock_key_def)

lemma keeps_cache_del: "take 12 k = ''events:page:'' \<Longrightarrow> unchanged cache_side (redis_cmd E (do_del [k]))"
  unfolding redis_cmd_def do_del_def
  by (rule frame_external) (auto simp: tick_free_def cache_side_def unchanged_def)

lemma keeps_cache_stock: "unchanged cache_side (set_stock E tid n)"
proof -
  have "unchanged cache_side (redis_cmd E (do_set (stock_key v) w None))" for v w
    unfolding redis_cmd_def do_set_def
    by (rule frame_external) (auto simp: tick_free_def cache_side_def unchanged_def)
  then show ?thesis unfolding set_stock_def by (intro frame_rules)
qed

lemma keeps_cache_prewarm: "unchanged cache_side (PrewarmTicketStock E v)"
proof -
  have "unchanged cache_side (ListTicketTypesByEvent E eid)" for eid
    unfolding ListTicketTypesByEvent_def by (rule frame_sql) (simp_all add: tick_free_def cache_side_def)
  then show ?thesis unfolding PrewarmTicketStock_def by (intro frame_rules keeps_cache_stock)
qed

lemma wp_invalidate:
  fixes s :: "'z event_db_scheme"
  assumes E: "reliable E" "has_redis E" and scan: "scan_laws C" and v: "v \<noteq> []"
    and post: "\<And>t. cache_side t = (events s, (\<lambda>w. redis s (event_key w))(v := None)) \<Longrightarrow> Q () t"
  shows "wp (invalidateEventCache E C v) Q s"
proof -
  have pages: "unchanged cache_side (for_each keys (\<lambda>k. do { redis_cmd E (do_del [k]); ret () }))"
    if "\<forall>k \<in> set keys. take 12 k = ''events:page:''" for keys
    using that by (induction keys) (auto intro!: frame_rules keeps_cache_del)
  have rest: "wp (for_each (lib_Scan C n now rd) (\<lambda>k. do { redis_cmd E (do_del [k]); ret () })) Q t"
    if t: "cache_side t = (events s, (\<lambda>w. redis s (event_key w))(v := None))" for n now rd and t :: "'z event_db_scheme"
  proof (rule wpI)
    fix x and u :: "'z event_db_scheme"
    assume "run_state (for_each (lib_Scan C n now rd) (\<lambda>k. do { redis_cmd E (do_del [k]); ret () })) t = (x, u)"
    with pages [of "lib_Scan C n now rd"] have "cache_side u = cache_side t"
      using scan by (auto simp: scan_laws_def dest: unchangedD)
    then show "Q x u" using t post [of u] by simp
  qed
  show ?thesis
    using E v by (simp add: invalidateEventCache_def do_del_def) (rule rest, simp add: cache_side_def fun_eq_iff)
qed

section \<open>Fresh by identifier, stale by address\<close>

text \<open>A request whose row the table accepts.\<close>

definition good_event_request :: "env \<Rightarrow> catalog_lib \<Rightarrow> UpdateEventRequest \<Rightarrow> uuid \<Rightarrow> EventParams \<Rightarrow> 'z catalog_db_scheme \<Rightarrow> bool" where
  "good_event_request E C req eid p s \<longleftrightarrow> (\<exists>t1 t2 slug. lib_ParseTime C (er_StartDate req) = Inr t1 \<and> lib_ParseTime C (er_EndDate req) = Inr t2 \<and>
     fst (run_state (generateSlug E (er_Title req)) s) = slug \<and> p = event_params E req t1 t2 slug) \<and>
     \<not> event_too_long p \<and> \<not> dangling s p \<and> ep_Slug p \<notin> ev_Slug ` {x \<in> set (events s). ev_ID x \<noteq> eid}"

lemma wp_GetEvent_fresh:
  fixes s :: "'z event_db_scheme"
  assumes "reliable E" "has_redis E" and "pgUUIDFromString E v = Some eid" and "find_row (\<lambda>r. ev_ID r = eid) (events s) = Some r"
    and "redis s (event_key v) = None"
  shows "wp (GetEvent E C v) (\<lambda>x _. x = Inr r) s"
  using assms by (simp add: GetEvent_def cached_def do_get_def rlookup_def GetEventByID_def remember_def do_set_def)

lemma wp_GetEvent_cached:
  fixes s :: "'z event_db_scheme"
  assumes "reliable E" "has_redis E" and "redis s (event_key v) = Some (RStr entry, Some d)" "event_decode C entry = Some r" and "clock E (tick s) < d"
  shows "wp (GetEvent E C v) (\<lambda>x t. x = Inr r \<and> redis t = redis s) s"
  using assms by (simp add: GetEvent_def cached_def do_get_def rlookup_def)

lemma find_owned:
  assumes "find_row (\<lambda>r. ev_ID r = eid) es = Some r" and "ev_OrganizerID r = org"
  shows "find_row (\<lambda>r. ev_ID r = eid \<and> ev_OrganizerID r = org) es = Some r"
    and "find_row (\<lambda>r. ev_ID r = eid) (update_rows (\<lambda>r. ev_ID r = eid \<and> ev_OrganizerID r = org) (event_row now p) es) = Some (event_row now p r)"
  using assms by (induction es) (auto split: if_splits)

text \<open>
  A changed event is fresh under its identifier and stale under its address: after a successful change (with the cache on
  and nothing failing) a request by the identifier gets the new row, but a request by the old slug still gets the old
  row, as long as it is cached.
\<close>

theorem changed_event_stale_by_slug:
  fixes s :: "'z catalog_db_scheme"
  assumes E: "reliable E" "has_redis E" and C: "scan_laws C"
    and path: "pgUUIDFromString E event_str = Some eid" "pgUUIDFromString E org_str = Some org"
    and row: "find_row (\<lambda>r. ev_ID r = eid) (events s) = Some r" "ev_OrganizerID r = org"
    and req: "good_event_request E C req eid p s"
    and old: "pgUUIDFromString E v = None" "redis s (event_key v) = Some (RStr entry, Some d)" "event_decode C entry = Some r" "\<And>n. clock E n < d"
  shows "wp (UpdateEvent E C event_str org_str req) (\<lambda>x t. \<exists>now. x = Inr (event_row now p r) \<and>
      wp (GetEvent E C event_str) (\<lambda>y _. y = Inr (event_row now p r)) t \<and> wp (GetEvent E C v) (\<lambda>z _. z = Inr r) t) s"
proof -
  obtain t1 t2 where t12: "lib_ParseTime C (er_StartDate req) = Inr t1" "lib_ParseTime C (er_EndDate req) = Inr t2"
      and p: "p = event_params E req t1 t2 (fst (run_state (generateSlug E (er_Title req)) s))"
      and ok: "\<not> event_too_long p" "\<not> dangling s p" "ep_Slug p \<notin> ev_Slug ` {x \<in> set (events s). ev_ID x \<noteq> eid}"
    using req unfolding good_event_request_def by blast
  have nonempty: "event_str \<noteq> []" using path(1) by (auto simp: pgUUIDFromString_def)
  have apart: "v \<noteq> event_str" using path(1) old(1) by auto
  let ?now = "pg_time (clock E (Suc (tick s)))"
  let ?new = "event_row ?now p r"
  define Q where "Q = (\<lambda>(x :: gerr + Event) (t :: 'z catalog_db_scheme). \<exists>now. x = Inr (event_row now p r) \<and>
      wp (GetEvent E C event_str) (\<lambda>y _. y = Inr (event_row now p r)) t \<and> wp (GetEvent E C v) (\<lambda>z _. z = Inr r) t)"
  let ?es = "update_rows (\<lambda>r. ev_ID r = eid \<and> ev_OrganizerID r = org) (event_row ?now p) (events s)"
  have served: "Q (Inr ?new) t" if t: "cache_side t = (?es, (\<lambda>w. redis s (event_key w))(event_str := None))" for t :: "'z catalog_db_scheme"
  proof -
    have keys: "redis t (event_key w) = (if w = event_str then None else redis s (event_key w))" for w
      using t by (auto simp: cache_side_def dest: fun_cong [of _ _ w])
    have "wp (GetEvent E C event_str) (\<lambda>y _. y = Inr ?new) t"
      by (rule wp_GetEvent_fresh [OF E path(1)]) (use t find_owned(2) [OF row] keys in \<open>simp_all add: cache_side_def\<close>)
    moreover have "wp (GetEvent E C v) (\<lambda>z _. z = Inr r) t"
      by (rule wp_mono [OF wp_GetEvent_cached [OF E _ old(3,4)]]) (use keys apart old(2) in simp_all)
    ultimately show ?thesis unfolding Q_def by blast
  qed
  have prewarmed: "wp (PrewarmTicketStock E event_str) (\<lambda>_. Q (Inr ?new)) t"
    if t: "cache_side t = (?es, (\<lambda>w. redis s (event_key w))(event_str := None))" for t :: "'z catalog_db_scheme"
  proof (rule wpI)
    fix x and u :: "'z catalog_db_scheme"
    assume "run_state (PrewarmTicketStock E event_str) t = (x, u)"
    with keeps_cache_prewarm [of E event_str] have "cache_side u = cache_side t" by (auto dest: unchangedD)
    then show "Q (Inr ?new) u" using served [of u] t by simp
  qed
  have params: "event_params E req t1 t2 (map (\<lambda>c. if c = CHR '' '' then CHR ''-'' else c) (ToLower (er_Title req)) @
      CHR ''-'' # take 8 (uuid_String E (fresh E (tick s)))) = p"
    by (simp add: p generateSlug_def step_def)
  have tick: "dangling (s\<lparr>tick := n\<rparr>) p = dangling s p" for n by (simp add: dangling_def cong: option.case_cong)
  have "wp (UpdateEvent E C event_str org_str req) Q s"
    using path t12 ok E(1) find_owned(1) [OF row]
    by (simp add: UpdateEvent_def with_dates_def generateSlug_def Queries_UpdateEvent_def params tick)
      (intro conjI impI wp_invalidate [OF E C nonempty]; (rule prewarmed served, simp))
  then show ?thesis by (simp add: Q_def)
qed

text \<open>The concert gets a new title while its address is cached.\<close>

definition retitled :: UpdateEventRequest where
  "retitled = \<lparr>er_VenueID = [], er_CategoryID = [], er_Title = ''Matinee'', er_Description = [], er_BannerURL = [],
     er_StartDate = ''a'', er_EndDate = ''b'', er_Status = ''published'', er_IsOnline = False, er_OnlineURL = [], er_MaxAttendees = 0\<rparr>"

theorem changed_event_stale_by_slug_witness:
  "\<exists>p. wp (UpdateEvent still_env (demo_lib\<lparr>event_decode := \<lambda>v. Some demo_event\<rparr>) (demo_name 2) (demo_name 3) retitled) (\<lambda>x t. \<exists>now.
     x = Inr (event_row now p demo_event) \<and> ep_Title p = ''Matinee'' \<and>
     wp (GetEvent still_env (demo_lib\<lparr>event_decode := \<lambda>v. Some demo_event\<rparr>) (demo_name 2)) (\<lambda>y _. y = Inr (event_row now p demo_event)) t \<and>
     wp (GetEvent still_env (demo_lib\<lparr>event_decode := \<lambda>v. Some demo_event\<rparr>) ''concert'') (\<lambda>z _. z = Inr demo_event) t)
     (demo_catalog\<lparr>redis := [event_key ''concert'' \<mapsto> (RStr ''entry'', Some (2000 * Second))]\<rparr>)"
proof -
  let ?C = "demo_lib\<lparr>event_decode := \<lambda>v. Some demo_event\<rparr>"
  let ?s = "demo_catalog\<lparr>redis := [event_key ''concert'' \<mapsto> (RStr ''entry'', Some (2000 * Second))]\<rparr>"
  let ?p = "event_params still_env retitled Second Second (fst (run_state (generateSlug still_env (er_Title retitled)) ?s))"
  have good: "good_event_request still_env ?C retitled 2 ?p ?s"
    by (simp add: good_event_request_def demo_lib_def retitled_def demo_catalog_def dangling_def event_params_def pgUUIDFromString_def demo_event_def
        event_too_long_def generateSlug_def step_def or_draft_def ToLower_def) auto
  have slug: "demo_parse ''concert'' = None" by (simp add: demo_parse_def)
  have laws: "scan_laws ?C" by (simp add: scan_laws_def demo_lib_def)
  have "wp (UpdateEvent still_env ?C (demo_name 2) (demo_name 3) retitled) (\<lambda>x t. \<exists>now. x = Inr (event_row now ?p demo_event) \<and>
     wp (GetEvent still_env ?C (demo_name 2)) (\<lambda>y _. y = Inr (event_row now ?p demo_event)) t \<and>
     wp (GetEvent still_env ?C ''concert'') (\<lambda>z _. z = Inr demo_event) t) ?s"
    by (rule changed_event_stale_by_slug [OF _ _ laws _ _ _ _ good, where org = 3 and d = "2000 * Second" and entry = "''entry''"])
      (simp_all add: pgUUIDFromString_def demo_event_def slug Second_def)
  moreover have "ep_Title ?p = ''Matinee''" by (simp add: event_params_def retitled_def)
  ultimately show ?thesis by (intro exI [of _ ?p]) (erule wp_mono, blast)
qed

end
