(* ===== verification/Kafka_Claim.thy ===== *)
theory Kafka_Claim
  imports Entra_Infra
begin

text \<open>
  \<open>ConsumerGroup\<close> of \<open>shared/kafka/consumer.go\<close>: the loop over the messages of a claim and the loop over the
  sessions of the group.
\<close>

text \<open>\<open>ConsumeClaim\<close>. The value carried along is the offset from which the group resumes: \<open>MarkMessage\<close> moves it
  past the message, a failed message is logged and left unmarked.\<close>

fun ConsumeClaim :: "(message \<Rightarrow> ('s, unit) go) \<Rightarrow> nat \<Rightarrow> message list \<Rightarrow> nat \<Rightarrow> ('s, nat) state" where
  "ConsumeClaim handler offset [] mark = ret mark"
| "ConsumeClaim handler offset (msg # msgs) mark = do {
     r \<leftarrow> handler msg;
     ConsumeClaim handler (Suc offset) msgs (case r of Inl e \<Rightarrow> mark | Inr u \<Rightarrow> Suc offset) }"

text \<open>
  \<open>Consume\<close> for one partition, whose messages are \<open>msgs\<close>. A session, as the library runs it, hands the claim so
  many messages from the marked offset on and then ends, with an error of \<open>group.Consume\<close> or none (a
  rebalance) and with what \<open>ctx.Err()\<close> says after it. The answer is the marked offset and the error with which
  \<open>Consume\<close> returned, \<open>None\<close> when it would go on.
\<close>

record claim_session =
  cs_Messages :: nat
  cs_Error :: "gerr option"
  cs_ContextErr :: "gerr option"

fun Consume :: "(message \<Rightarrow> ('s, unit) go) \<Rightarrow> message list \<Rightarrow> nat \<Rightarrow> claim_session list \<Rightarrow> ('s, nat \<times> gerr option) state" where
  "Consume handler msgs mark [] = ret (mark, None)"
| "Consume handler msgs mark (ss # sessions) = do {
     mark' \<leftarrow> ConsumeClaim handler mark (take (cs_Messages ss) (drop mark msgs)) mark;
     case cs_Error ss of
       Some e \<Rightarrow> ret (mark', Some (Err_Wrap ''consumer group error'' e))
     | None \<Rightarrow> (case cs_ContextErr ss of
         Some e \<Rightarrow> ret (mark', Some e)
       | None \<Rightarrow> Consume handler msgs mark' sessions) }"

text \<open>The resume offset never goes back and stays within the claim.\<close>

lemma ConsumeClaim_mark:
  "mark \<le> offset \<Longrightarrow> yields (\<lambda>m. mark \<le> m \<and> m \<le> offset + length msgs) (ConsumeClaim handler offset msgs mark)"
proof (induction msgs arbitrary: offset mark)
  case (Cons msg msgs)
  have "yields (\<lambda>m. mark \<le> m \<and> m \<le> offset + length (msg # msgs))
      (ConsumeClaim handler (Suc offset) msgs (case r of Inl e \<Rightarrow> mark | Inr u \<Rightarrow> Suc offset))" for r
  proof (cases r)
    case (Inl e)
    then show ?thesis using Cons.IH [of mark "Suc offset"] Cons.prems by (auto elim: yields_mono)
  next
    case (Inr u)
    then show ?thesis using Cons.IH [of "Suc offset" "Suc offset"] Cons.prems by (auto elim: yields_mono)
  qed
  then show ?case unfolding ConsumeClaim.simps by (rule yields_bind)
qed (simp add: yields_return)

lemma keeps_ConsumeClaim: "(\<And>msg. keeps I (handler msg)) \<Longrightarrow> keeps I (ConsumeClaim handler offset msgs mark)"
  by (induction msgs arbitrary: offset mark) (auto intro: keeps_rules)

lemma ConsumeClaim_append:
  "ConsumeClaim handler offset (xs @ ys) mark = do {
     m \<leftarrow> ConsumeClaim handler offset xs mark;
     ConsumeClaim handler (offset + length xs) ys m }"
  by (induction xs arbitrary: offset mark) simp_all

lemma keeps_Consume: "(\<And>msg. keeps I (handler msg)) \<Longrightarrow> keeps I (Consume handler msgs mark sessions)"
  by (induction sessions arbitrary: mark) (auto intro!: keeps_rules keeps_ConsumeClaim split: option.split)

text \<open>The marked offset never goes back and never passes the end of the partition.\<close>

lemma Consume_mark:
  "mark \<le> length msgs \<Longrightarrow> yields (\<lambda>(m, e). mark \<le> m \<and> m \<le> length msgs) (Consume handler msgs mark sessions)"
proof (induction sessions arbitrary: mark)
  case (Cons ss sessions)
  have claim: "yields (\<lambda>m. mark \<le> m \<and> m \<le> length msgs) (ConsumeClaim handler mark (take (cs_Messages ss) (drop mark msgs)) mark)"
    by (rule yields_mono [OF ConsumeClaim_mark]) (use Cons.prems in \<open>auto simp: min_def split: if_splits\<close>)
  have rest: "yields (\<lambda>(m, e). mark \<le> m \<and> m \<le> length msgs) (Consume handler msgs mark' sessions)" if "mark \<le> mark'" "mark' \<le> length msgs" for mark'
    by (rule yields_mono [OF Cons.IH [OF that(2)]]) (use that(1) in auto)
  show ?case
    unfolding yields_iff_wp Consume.simps wp_bind
    by (intro allI, rule wp_mono [OF yields_wp [OF claim]]) (auto split: option.split intro: yields_wp [OF rest])
qed (simp add: yields_return)

end
