(* ===== verification/Payment_Intents.thy ===== *)
theory Payment_Intents
  imports Event_Handlers Kafka_Claim
begin

text \<open>
  The payment service: the table \<open>payments\<close> and its statements (\<open>repository/db/payments.sql.go\<close>,
  \<open>migrations/000001_init_payments.up.sql\<close>), the service (\<open>service/payment_service.go\<close>), its Kafka consumer
  (\<open>consumer/event_consumer.go\<close>) and its one public route (\<open>handler/payment_handler.go\<close>).
\<close>

section \<open>The table\<close>

record Payment =
  pa_ID :: uuid
  pa_ReferenceID :: uuid
  pa_ReferenceType :: string
  pa_UserID :: uuid
  pa_Amount :: numeric
  pa_Status :: string
  pa_PaymentUrl :: "string option"
  pa_CreatedAt :: time
  pa_UpdatedAt :: time

record payment_db = catalog_db +
  payments :: "Payment list"

lemma payment_update_order [simp]:
  "s\<lparr>payments := ps, tick := n\<rparr> = s\<lparr>tick := n, payments := ps\<rparr>"
  by simp

definition CreatePayment ::
    "env \<Rightarrow> uuid \<Rightarrow> string \<Rightarrow> uuid \<Rightarrow> numeric \<Rightarrow> string \<Rightarrow> string option \<Rightarrow> ('z payment_db_scheme, Payment) go" where
  "CreatePayment E ref kind user amt status url = sql E (\<lambda>now u s.
     case decimal_15_2 amt of
       Inl e \<Rightarrow> (Inl e, s)
     | Inr amount \<Rightarrow>
         if 20 < length kind \<or> 20 < length status then (Inl ErrOutOfRange, s)
         else if u \<in> pa_ID ` set (payments s) then (Inl ErrConstraint, s)
         else (let p = \<lparr>pa_ID = u, pa_ReferenceID = ref, pa_ReferenceType = kind, pa_UserID = user, pa_Amount = amount,
                        pa_Status = status, pa_PaymentUrl = url, pa_CreatedAt = now, pa_UpdatedAt = now\<rparr>
               in (Inr p, s\<lparr>payments := payments s @ [p]\<rparr>)))"

definition GetPayment :: "env \<Rightarrow> uuid \<Rightarrow> ('z payment_db_scheme, Payment) go" where
  "GetPayment E pid = sql E (\<lambda>now u s. (row_result (find_row (\<lambda>r. pa_ID r = pid) (payments s)), s))"

text \<open>Nothing makes a reference unique and the query names no order: the database may answer with any of the matching rows.
  \<open>pick\<close> is its choice, a position for each call and each list of candidates.\<close>

type_synonym row_choice = "nat \<Rightarrow> Payment list \<Rightarrow> nat"

definition GetPaymentByReferenceID :: "env \<Rightarrow> row_choice \<Rightarrow> uuid \<Rightarrow> string \<Rightarrow> ('z payment_db_scheme, Payment) go" where
  "GetPaymentByReferenceID E pick ref kind = external E (\<lambda>n. State (\<lambda>s.
     let rows = filter (\<lambda>r. pa_ReferenceID r = ref \<and> pa_ReferenceType r = kind) (payments s)
     in (if rows = [] then Inl ErrNoRows else Inr (rows ! (pick n rows mod length rows)), s)))"

definition payment_row :: "time \<Rightarrow> string \<Rightarrow> Payment \<Rightarrow> Payment" where
  "payment_row now status r = r\<lparr>pa_Status := status, pa_UpdatedAt := now\<rparr>"

definition UpdatePaymentStatus :: "env \<Rightarrow> uuid \<Rightarrow> string \<Rightarrow> ('z payment_db_scheme, Payment) go" where
  "UpdatePaymentStatus E pid status = sql E (\<lambda>now u s.
     (case find_row (\<lambda>r. pa_ID r = pid) (payments s) of
        None \<Rightarrow> (Inl ErrNoRows, s)
      | Some r \<Rightarrow> if 20 < length status then (Inl ErrOutOfRange, s)
          else (Inr (payment_row now status r), s\<lparr>payments := update_rows (\<lambda>r. pa_ID r = pid) (payment_row now status) (payments s)\<rparr>)))"

interpretation payment_keyed: keyed_update pa_ID "payment_row now status" for now status
  by unfold_locales (simp add: payment_row_def)

section \<open>The service\<close>

definition payment_url :: "string \<Rightarrow> string" where
  "payment_url ref_str = ''https://sandbox.entra.local/pay/'' @ ref_str"

definition CreatePaymentIntent :: "env \<Rightarrow> string \<Rightarrow> string \<Rightarrow> string \<Rightarrow> f64 \<Rightarrow> ('z payment_db_scheme, unit) go" where
  "CreatePaymentIntent E ref_str kind user_str amount = (case uuid_Parse E ref_str of
       None \<Rightarrow> err ErrParse
     | Some rid \<Rightarrow> (case uuid_Parse E user_str of
         None \<Rightarrow> err ErrParse
       | Some user \<Rightarrow> check (CreatePayment E rid kind user (numeric_of_f64 6 amount) ''PENDING'' (Some (payment_url ref_str))) (\<lambda>_. ok ())))"

definition HandleReferenceCancelled :: "env \<Rightarrow> row_choice \<Rightarrow> string \<Rightarrow> string \<Rightarrow> ('z payment_db_scheme, unit) go" where
  "HandleReferenceCancelled E pick ref_str kind = (case uuid_Parse E ref_str of
       None \<Rightarrow> err ErrParse
     | Some rid \<Rightarrow> check (GetPaymentByReferenceID E pick rid kind) (\<lambda>p.
         if pa_Status p = ''PENDING'' then check (UpdatePaymentStatus E (pa_ID p) ''EXPIRED'') (\<lambda>_. ok ()) else ok ()))"

section \<open>The consumer\<close>

text \<open>Type assertions that fail leave the zero value.\<close>

definition float_or_zero :: "json option \<Rightarrow> f64" where
  "float_or_zero j = (case as_float j of None \<Rightarrow> Fin 0 | Some x \<Rightarrow> x)"

definition Payment_HandleMessage :: "env \<Rightarrow> row_choice \<Rightarrow> message \<Rightarrow> ('z payment_db_scheme, unit) go" where
  "Payment_HandleMessage E pick msg =
     (if msg_Topic msg = ''order.created'' then
        (case Unmarshal_map (msg_Value msg) of None \<Rightarrow> ok ()
         | Some payload \<Rightarrow> do {
             CreatePaymentIntent E (string_or_empty (payload ''order_id'')) ''TICKET'' (string_or_empty (payload ''user_id''))
               (float_or_zero (payload ''amount''));
             ok () })
      else if msg_Topic msg = ''order.cancelled'' then
        (case Unmarshal_map (msg_Value msg) of None \<Rightarrow> ok ()
         | Some payload \<Rightarrow> do { HandleReferenceCancelled E pick (string_or_empty (payload ''order_id'')) ''TICKET''; ok () })
      else if msg_Topic msg = ''topup.created'' then
        (case Unmarshal_map (msg_Value msg) of None \<Rightarrow> ok ()
         | Some payload \<Rightarrow> do {
             CreatePaymentIntent E (string_or_empty (payload ''reference_id'')) ''TOPUP'' (string_or_empty (payload ''user_id''))
               (float_or_zero (payload ''amount''));
             ok () })
      else ok ())"

section \<open>The route\<close>

text \<open>\<open>kinds\<close>: the query parameters \<open>reference_type\<close> and \<open>type\<close>; the path has no third one.\<close>

definition GetPaymentByReference :: "env \<Rightarrow> row_choice \<Rightarrow> string \<Rightarrow> string \<Rightarrow> string \<Rightarrow> ('z payment_db_scheme, Payment response) state" where
  "GetPaymentByReference E pick ref_str kind1 kind2 = (case uuid_Parse E ref_str of
       None \<Rightarrow> ret (ValidationError ErrParse)
     | Some rid \<Rightarrow> do {
         r \<leftarrow> GetPaymentByReferenceID E pick rid (if kind1 \<noteq> [] then kind1 else if kind2 \<noteq> [] then kind2 else ''TICKET'');
         ret (case r of Inl e \<Rightarrow> Error 404 ''payment not found'' | Inr p \<Rightarrow> Success 200 ''payment found'' (Some p)) })"

end
