(* ===== verification/Payment_Intents_Spec.thy ===== *)
theory Payment_Intents_Spec
  imports Payment_Intents Ticket_Checkout_Spec
begin

text \<open>
  From the order to its payment intent and back: what the payment service makes of the messages the ticket
  service publishes, delivered once or more than once, and which messages the consumers lose.
\<close>

section \<open>Messages\<close>

definition order_created_message :: "env \<Rightarrow> string \<Rightarrow> CreateOrderRequest \<Rightarrow> Order \<Rightarrow> message" where
  "order_created_message E user req o' =
     \<lparr>msg_Topic = ''order.created'', msg_Key = uuid_String E (o_ID o'), msg_Value = order_created_event E user req o'\<rparr>"

definition order_cancelled_message :: "string \<Rightarrow> message" where
  "order_cancelled_message order_str = \<lparr>msg_Topic = ''order.cancelled'', msg_Key = order_str, msg_Value = order_cancelled_event order_str\<rparr>"

lemma storable_subtotal_finite: "decimal_15_2 (numeric_of_f64 6 (subtotal req)) = Inr amount \<Longrightarrow> amount \<noteq> NumNaN \<Longrightarrow> \<exists>q. subtotal req = Fin q"
  by (cases "subtotal req") auto

text \<open>The intent the payment service makes of an order.\<close>

definition intent_of :: "env \<Rightarrow> uuid \<Rightarrow> uuid \<Rightarrow> numeric \<Rightarrow> uuid \<Rightarrow> time \<Rightarrow> Payment" where
  "intent_of E oid user amount u now = \<lparr>pa_ID = u, pa_ReferenceID = oid, pa_ReferenceType = ''TICKET'', pa_UserID = user, pa_Amount = amount,
     pa_Status = ''PENDING'', pa_PaymentUrl = Some (payment_url (uuid_String E oid)), pa_CreatedAt = now, pa_UpdatedAt = now\<rparr>"

lemma intent_of_fields [simp]:
  "pa_ID (intent_of E oid user amount u now) = u" "pa_ReferenceID (intent_of E oid user amount u now) = oid"
  "pa_ReferenceType (intent_of E oid user amount u now) = ''TICKET''" "pa_UserID (intent_of E oid user amount u now) = user"
  "pa_Amount (intent_of E oid user amount u now) = amount" "pa_Status (intent_of E oid user amount u now) = ''PENDING''"
  by (simp_all add: intent_of_def)

lemma wp_order_created:
  assumes "reliable E" and "uuid_laws E" and "decimal_15_2 (numeric_of_f64 6 (subtotal req)) = Inr amount" and "amount \<noteq> NumNaN"
    and "fresh E (tick s) \<notin> pa_ID ` set (payments s)"
    and "Q (Inr ()) (s\<lparr>tick := Suc (tick s), payments := payments s @ [intent_of E (o_ID o') user amount (fresh E (tick s)) (pg_time (clock E (tick s)))]\<rparr>)"
  shows "wp (Payment_HandleMessage E pick (order_created_message E (uuid_String E user) req o')) Q s"
proof -
  obtain q where "subtotal req = Fin q" using storable_subtotal_finite [OF assms(3,4)] ..
  then show ?thesis
    using assms
    by (simp add: Payment_HandleMessage_def order_created_message_def order_created_event_def Marshal_def string_or_empty_def float_or_zero_def
      CreatePaymentIntent_def uuid_roundtrip CreatePayment_def Let_def intent_of_def del: decimal_15_2.simps numeric_of_f64.simps)
qed

text \<open>Whichever of the matching rows the database picks, it is expired.\<close>

lemma wp_order_cancelled:
  assumes "reliable E" and "uuid_Parse E order_str = Some oid"
    and rows: "filter (\<lambda>r. pa_ReferenceID r = oid \<and> pa_ReferenceType r = ''TICKET'') (payments s) = rows" "rows \<noteq> []"
    and pending: "\<And>p. p \<in> set rows \<Longrightarrow> pa_Status p = ''PENDING'' \<and> find_row (\<lambda>r. pa_ID r = pa_ID p) (payments s) = Some p"
    and post: "\<And>p n now. p \<in> set rows \<Longrightarrow>
      Q (Inr ()) (s\<lparr>tick := n, payments := update_rows (\<lambda>r. pa_ID r = pa_ID p) (payment_row now ''EXPIRED'') (payments s)\<rparr>)"
  shows "wp (Payment_HandleMessage E pick (order_cancelled_message order_str)) Q s"
proof -
  have "rows ! (pick n rows mod length rows) \<in> set rows" for n using rows(2) by simp
  note picked = pending [OF this] post [OF this]
  show ?thesis
    using assms(1,2) rows picked
    by (simp add: Payment_HandleMessage_def order_cancelled_message_def order_cancelled_event_def Marshal_def string_or_empty_def
      HandleReferenceCancelled_def GetPaymentByReferenceID_def UpdatePaymentStatus_def Let_def)
qed

text \<open>The intents of one order, appended to those of others.\<close>

lemma update_appended:
  assumes "pa_ID p \<notin> pa_ID ` set ps"
  shows "update_rows (\<lambda>r. pa_ID r = pa_ID p) f (ps @ p # qs) = ps @ f p # update_rows (\<lambda>r. pa_ID r = pa_ID p) f qs"
proof -
  have "update_rows (\<lambda>r. pa_ID r = pa_ID p) f ps = ps" using assms unfolding update_rows_def by (intro map_idI) (metis image_eqI)
  then show ?thesis by (simp add: update_rows_def)
qed

lemma find_appended:
  assumes "\<And>p. p \<in> set ps \<Longrightarrow> \<not> P p" and "P q"
  shows "find_row P (ps @ q # qs) = Some q"
  using assms by (induction ps) (auto simp: find_row_def)

section \<open>One message, one intent\<close>

text \<open>
  C23. An order and its payment agree: what the ticket service publishes for a stored order becomes one pending intent
  of the buyer over exactly the amount stored with the order, found under the order's identifier; the message of
  its cancellation turns that row, and no other, into an expired one.
\<close>

theorem order_opens_intent:
  assumes E: "reliable E" "uuid_laws E" and amt: "decimal_15_2 (numeric_of_f64 6 (subtotal req)) = Inr amount" "amount \<noteq> NumNaN"
    and new: "\<And>p. p \<in> set (payments s) \<Longrightarrow> pa_ReferenceID p \<noteq> o_ID o'" "fresh E (tick s) \<notin> pa_ID ` set (payments s)"
  shows "wp (do {
       Payment_HandleMessage E pick (order_created_message E (uuid_String E user) req o');
       opened \<leftarrow> GetPaymentByReference E pick (uuid_String E (o_ID o')) [] [];
       Payment_HandleMessage E pick (order_cancelled_message (uuid_String E (o_ID o')));
       closed \<leftarrow> GetPaymentByReference E pick (uuid_String E (o_ID o')) [] [];
       ret (opened, closed) })
    (\<lambda>(opened, closed) t. \<exists>p now. resp_Code opened = 200 \<and> resp_Data opened = Some p \<and> pa_ReferenceID p = o_ID o' \<and> pa_UserID p = user
       \<and> pa_Amount p = amount \<and> pa_Status p = ''PENDING'' \<and> resp_Code closed = 200 \<and> resp_Data closed = Some (payment_row now ''EXPIRED'' p)
       \<and> payments t = payments s @ [payment_row now ''EXPIRED'' p]) s"
proof -
  let ?p = "intent_of E (o_ID o') user amount (fresh E (tick s)) (pg_time (clock E (tick s)))"
  let ?expired = "\<lambda>now. payment_row now ''EXPIRED'' ?p"
  have order: "uuid_Parse E (uuid_String E (o_ID o')) = Some (o_ID o')" using E(2) by (simp add: uuid_roundtrip)
  have found: "filter (\<lambda>r. pa_ReferenceID r = o_ID o' \<and> pa_ReferenceType r = ''TICKET'') (payments s) = []"
    using new(1) by (auto simp: filter_empty_conv)
  have row: "find_row (\<lambda>r. pa_ID r = pa_ID ?p) (payments s @ [?p]) = Some ?p"
    by (rule find_appended; use new in force)
  have updated: "update_rows (\<lambda>r. pa_ID r = pa_ID ?p) f (payments s @ [?p]) = payments s @ [f ?p]" for f
    using update_appended [of ?p "payments s" f "[]"] new(2) by (simp add: update_rows_def)
  show ?thesis
    unfolding wp_bind
    by (rule wp_order_created [OF E amt new(2)])
      (simp add: GetPaymentByReference_def order GetPaymentByReferenceID_def E(1) found response_defs Let_def,
       rule wp_order_cancelled [OF E(1) order, where rows = "[?p]"],
       use found row updated in \<open>auto simp: E(1) response_defs GetPaymentByReference_def GetPaymentByReferenceID_def order Let_def payment_row_def\<close>)
qed


section \<open>At least once\<close>

text \<open>
  C35. A message delivered twice makes two intents, as nothing ties an intent to its order: the cancellation of the order then expires
  one of them, whichever row the database answers with, and the other stays payable.
\<close>

theorem redelivered_order_stays_payable:
  assumes E: "reliable E" "uuid_laws E" and amt: "decimal_15_2 (numeric_of_f64 6 (subtotal req)) = Inr amount" "amount \<noteq> NumNaN"
    and new: "\<And>p. p \<in> set (payments s) \<Longrightarrow> pa_ReferenceID p \<noteq> o_ID o'"
      "fresh E (tick s) \<notin> pa_ID ` set (payments s)" "fresh E (Suc (tick s)) \<notin> pa_ID ` set (payments s)" "fresh E (Suc (tick s)) \<noteq> fresh E (tick s)"
  shows "wp (for_each [order_created_message E (uuid_String E user) req o', order_created_message E (uuid_String E user) req o',
         order_cancelled_message (uuid_String E (o_ID o'))]
       (\<lambda>msg. do { Payment_HandleMessage E pick msg; ret () }))
    (\<lambda>_ t. \<exists>p q. payments t = payments s @ [p, q] \<and> pa_ReferenceID p = o_ID o' \<and> pa_ReferenceID q = o_ID o' \<and> pa_ID p \<noteq> pa_ID q
       \<and> {pa_Status p, pa_Status q} = {''EXPIRED'', ''PENDING''}) s"
proof -
  let ?p = "intent_of E (o_ID o') user amount (fresh E (tick s)) (pg_time (clock E (tick s)))"
  let ?q = "intent_of E (o_ID o') user amount (fresh E (Suc (tick s))) (pg_time (clock E (Suc (tick s))))"
  have order: "uuid_Parse E (uuid_String E (o_ID o')) = Some (o_ID o')" using E(2) by (simp add: uuid_roundtrip)
  have rows: "filter (\<lambda>r. pa_ReferenceID r = o_ID o' \<and> pa_ReferenceType r = ''TICKET'') (payments s @ [?p, ?q]) = [?p, ?q]"
    using new(1) by (auto simp: filter_empty_conv)
  have found: "find_row (\<lambda>r. pa_ID r = pa_ID ?p) (payments s @ [?p, ?q]) = Some ?p"
    "find_row (\<lambda>r. pa_ID r = pa_ID ?q) ((payments s @ [?p]) @ [?q]) = Some ?q"
    by (rule find_appended; use new in force)+
  have updated: "update_rows (\<lambda>r. pa_ID r = pa_ID ?p) f (payments s @ [?p, ?q]) = payments s @ [f ?p, ?q]"
    "update_rows (\<lambda>r. pa_ID r = pa_ID ?q) f ((payments s @ [?p]) @ [?q]) = (payments s @ [?p]) @ [f ?q]" for f
    using update_appended [of ?p "payments s" f "[?q]"] update_appended [of ?q "payments s @ [?p]" f "[]"] new(2-4)
    by (auto simp: update_rows_def)
  have cancelled: "wp (Payment_HandleMessage E pick (order_cancelled_message (uuid_String E (o_ID o')))) Q
      (s\<lparr>tick := m, payments := payments s @ [?p, ?q]\<rparr>)"
    if "\<And>n now. Q (Inr ()) (s\<lparr>tick := n, payments := payments s @ [payment_row now ''EXPIRED'' ?p, ?q]\<rparr>)"
      "\<And>n now. Q (Inr ()) (s\<lparr>tick := n, payments := payments s @ [?p, payment_row now ''EXPIRED'' ?q]\<rparr>)" for Q m
    by (rule wp_order_cancelled [OF E(1) order, where rows = "[?p, ?q]"]) (use that rows found updated in auto)
  show ?thesis
    unfolding for_each.simps wp_bind
    by (rule wp_order_created [OF E amt new(2)], simp, rule wp_order_created [OF E amt])
      (use new cancelled in \<open>auto simp: payment_row_def insert_commute\<close>)
qed

section \<open>Messages that are lost\<close>

text \<open>The results of handling messages one by one, and where the group resumes after them: right behind the last success.\<close>

fun handle_all :: "(message \<Rightarrow> ('s, unit) go) \<Rightarrow> message list \<Rightarrow> ('s, (gerr + unit) list) state" where
  "handle_all handler [] = ret []"
| "handle_all handler (msg # msgs) = do { r \<leftarrow> handler msg; rs \<leftarrow> handle_all handler msgs; ret (r # rs) }"

definition resume_at :: "nat \<Rightarrow> (gerr + unit) list \<Rightarrow> nat" where
  "resume_at mark rs = mark + length (dropWhile (\<lambda>r. \<not> is_ok r) (rev rs))"

lemma resume_at_Nil: "list_all (\<lambda>r. \<not> is_ok r) rs \<Longrightarrow> resume_at mark rs = mark"
  by (simp add: resume_at_def list_all_iff)

lemma resume_at_Cons:
  "resume_at mark (r # rs) = (if list_all (\<lambda>r. \<not> is_ok r) rs then if is_ok r then Suc mark else mark else resume_at (Suc mark) rs)"
  by (auto simp: resume_at_def list_all_iff dropWhile_append)

text \<open>No success lies behind the place where it resumes, and the message before that place is one.\<close>

lemma resume_at_last:
  "i < length rs \<Longrightarrow> is_ok (rs ! i) \<Longrightarrow> mark + i < resume_at mark rs"
  "resume_at mark rs = mark \<and> list_all (\<lambda>r. \<not> is_ok r) rs \<or> (\<exists>i < length rs. is_ok (rs ! i) \<and> resume_at mark rs = Suc (mark + i))"
proof (induction rs arbitrary: mark i)
  case (Cons r rs)
  {
    case 1
    then show ?case using Cons(1) [of _ "Suc mark"] by (cases i) (force simp: resume_at_Cons list_all_length)+
  next
    case 2
    consider "list_all (\<lambda>r. \<not> is_ok r) rs" | i where "i < length rs" "is_ok (rs ! i)" "resume_at (Suc mark) rs = Suc (Suc mark + i)"
      using Cons(2) [of "Suc mark"] by blast
    then show ?case
    proof cases
      case 1
      then show ?thesis by (cases "is_ok r") (auto simp: resume_at_Cons)
    next
      case 2
      then have "\<not> list_all (\<lambda>r. \<not> is_ok r) rs" by (auto simp: list_all_length)
      then show ?thesis using 2 by (intro disjI2 exI [of _ "Suc i"]) (simp add: resume_at_Cons)
    qed
  }
qed (simp_all add: resume_at_def)

lemma ConsumeClaim_resumes:
  "ConsumeClaim handler offset msgs mark = do {
     rs \<leftarrow> handle_all handler msgs;
     ret (if list_all (\<lambda>r. \<not> is_ok r) rs then mark else resume_at offset rs) }"
proof (induction msgs arbitrary: offset mark)
  case (Cons msg msgs)
  have "(if list_all (\<lambda>r. \<not> is_ok r) rs then case r of Inl e \<Rightarrow> mark | Inr u \<Rightarrow> Suc offset else resume_at (Suc offset) rs) =
      (if list_all (\<lambda>r. \<not> is_ok r) (r # rs) then mark else resume_at offset (r # rs))" for r and rs :: "(gerr + unit) list"
    by (cases r) (simp_all add: resume_at_Cons)
  then show ?case by (simp add: Cons.IH)
qed simp

text \<open>
  C28. Failed messages are skipped: a session hands every message to the handler once and the group then resumes right behind
  the last one that succeeded, or where it was when none did. So a message that failed before it, in that or an
  earlier session, is never handled again, while those that failed after it are: a payment reported while the
  database is away is lost as soon as a later message of the partition gets through.
\<close>

theorem failed_messages_are_skipped:
  assumes "cs_Error ss = None" and "cs_ContextErr ss = None"
  shows "Consume handler msgs mark (ss # sessions) = do {
       rs \<leftarrow> handle_all handler (take (cs_Messages ss) (drop mark msgs));
       Consume handler msgs (resume_at mark rs) sessions }
    \<and> (\<forall>rs. (\<forall>i < length rs. is_ok (rs ! i) \<longrightarrow> mark + i < resume_at mark rs) \<and>
         (resume_at mark rs = mark \<and> list_all (\<lambda>r. \<not> is_ok r) rs \<or> (\<exists>i < length rs. is_ok (rs ! i) \<and> resume_at mark rs = Suc (mark + i))))"
proof -
  have "(if list_all (\<lambda>r. \<not> is_ok r) rs then mark else resume_at mark rs) = resume_at mark rs" for rs by (simp add: resume_at_Nil)
  then have "Consume handler msgs mark (ss # sessions) = do {
       rs \<leftarrow> handle_all handler (take (cs_Messages ss) (drop mark msgs));
       Consume handler msgs (resume_at mark rs) sessions }"
    using assms by (simp add: ConsumeClaim_resumes)
  then show ?thesis using resume_at_last by blast
qed

section \<open>A concrete service\<close>

definition demo_payments :: payment_db where
  "demo_payments = \<lparr>tick = 0, redis = Map.empty, kafka = [], ticket_types = [], events = [], orders = [demo_order 1], order_items = [demo_item 1],
     tickets = [], withdrawals = [], local_tickets = [], users = [], refresh_tokens = [], password_resets = [], rotations = Map.empty,
     venues = [], categories = [], payments = []\<rparr>"

lemma demo_payments_simps [simp]: "tick demo_payments = 0" "payments demo_payments = []" "orders demo_payments = [demo_order 1]"
  by (simp_all add: demo_payments_def)

theorem order_opens_intent_witness:
  "wp (do {
       Payment_HandleMessage still_env (\<lambda>n rows. n) (order_created_message still_env (demo_name 5) (demo_request 2 (Fin 4)) (demo_order 1));
       opened \<leftarrow> GetPaymentByReference still_env (\<lambda>n rows. n) (demo_name (o_ID (demo_order 1))) [] [];
       Payment_HandleMessage still_env (\<lambda>n rows. n) (order_cancelled_message (demo_name (o_ID (demo_order 1))));
       closed \<leftarrow> GetPaymentByReference still_env (\<lambda>n rows. n) (demo_name (o_ID (demo_order 1))) [] [];
       ret (opened, closed) })
    (\<lambda>(opened, closed) t. \<exists>p. resp_Data opened = Some p \<and> pa_Amount p = Num 8 \<and> length (payments t) = 1) demo_payments"
  by (rule wp_mono [OF order_opens_intent [of still_env "demo_request 2 (Fin 4)" "Num 8" demo_payments "demo_order 1" "\<lambda>n rows. n" 5, unfolded still_env_simps(4)]])
    (auto simp: demo_prices)

theorem redelivered_order_stays_payable_witness:
  "wp (for_each [order_created_message still_env (demo_name 5) (demo_request 2 (Fin 4)) (demo_order 1),
         order_created_message still_env (demo_name 5) (demo_request 2 (Fin 4)) (demo_order 1), order_cancelled_message (demo_name (o_ID (demo_order 1)))]
       (\<lambda>msg. do { Payment_HandleMessage still_env (\<lambda>n rows. n) msg; ret () }))
    (\<lambda>_ t. \<exists>q \<in> set (payments t). pa_ReferenceID q = o_ID (demo_order 1) \<and> pa_Status q = ''PENDING'') demo_payments"
proof -
  have "fresh still_env (Suc 0) \<noteq> fresh still_env 0" by (simp add: still_env_def)
  then show ?thesis
    by (intro wp_mono [OF redelivered_order_stays_payable [of still_env "demo_request 2 (Fin 4)" "Num 8" demo_payments "demo_order 1" 5 "\<lambda>n rows. n", unfolded still_env_simps(4)]])
      (auto simp: demo_prices doubleton_eq_iff)
qed

text \<open>The database is away for the first message, the second is not meant for this service.\<close>

definition paid_message :: message where
  "paid_message = \<lparr>msg_Topic = ''payment.success'', msg_Key = [],
     msg_Value = Some (JObj [(''reference_type'', JStr ''TICKET''), (''reference_id'', JStr (demo_name 1))])\<rparr>"

definition topup_message :: message where
  "topup_message = \<lparr>msg_Topic = ''payment.success'', msg_Key = [], msg_Value = Some (JObj [(''reference_type'', JStr ''TOPUP'')])\<rparr>"

theorem failed_messages_are_skipped_witness:
  "wp (Consume (PaymentConsumer_HandleMessage (still_env\<lparr>outcome := (\<lambda>n. Lost_request)\<rparr>)) [paid_message, topup_message, paid_message] 0
        [\<lparr>cs_Messages = 3, cs_Error = None, cs_ContextErr = None\<rparr>])
     (\<lambda>(mark, e) t. mark = 2 \<and> orders t = [demo_order 1]) demo_payments"
proof -
  let ?E = "still_env\<lparr>outcome := (\<lambda>n. Lost_request)\<rparr>" and ?ss = "\<lparr>cs_Messages = 3, cs_Error = None, cs_ContextErr = None\<rparr>"
  have "cs_Error ?ss = None" "cs_ContextErr ?ss = None" by simp_all
  note run = failed_messages_are_skipped [OF this, of "PaymentConsumer_HandleMessage ?E" "[paid_message, topup_message, paid_message]" 0 "[]",
      THEN conjunct1]
  show ?thesis
    unfolding run
    by (simp add: PaymentConsumer_HandleMessage_def paid_message_def topup_message_def payment_reference_def string_or_empty_def
      HandlePaymentSuccess_def GetOrder_def sql_def wp_external resume_at_def)
qed

end
