(* ===== verification/Storage_Media.thy ===== *)
theory Storage_Media
  imports Shared_Config "HOL-Library.Sublist"
begin

text \<open>
  The storage service (\<open>handler/storage_handler.go\<close>, \<open>handler/routes.go\<close>): uploads of pictures into a bucket of
  an object store and the listing of the own ones. The store is a parameter, the functions \<open>minio\<close> on the
  contents of the bucket; what the code relies on is \<open>minio_laws\<close>.
\<close>

section \<open>Files\<close>

text \<open>\<open>filepath.Ext\<close>: from the last dot of the last path element, or nothing.\<close>

definition file_Ext :: "string \<Rightarrow> string" where
  "file_Ext path = (let stop = (\<lambda>c. c = CHR ''.'' \<or> c = CHR ''/''); back = takeWhile (Not \<circ> stop) (rev path) in
     case dropWhile (Not \<circ> stop) (rev path) of
       [] \<Rightarrow> []
     | c # cs \<Rightarrow> if c = CHR ''.'' then CHR ''.'' # rev back else [])"

text \<open>\<open>http.DetectContentType\<close>, as far as the code looks at it. The signatures of the two pictures
  begin with bytes no other signature of the standard begins with.\<close>

datatype mime = Image_jpeg | Image_png | Other_type

definition png_signature :: string where
  "png_signature = map char_of [0x89, 0x50, 0x4E, 0x47, 0x0D, 0x0A, 0x1A, 0x0A :: nat]"

definition jpeg_signature :: string where
  "jpeg_signature = map char_of [0xFF, 0xD8, 0xFF :: nat]"

definition DetectContentType :: "string \<Rightarrow> mime" where
  "DetectContentType data = (if prefix png_signature data then Image_png
     else if prefix jpeg_signature data then Image_jpeg else Other_type)"

text \<open>The file of a form: opening it, reading its start and seeking back may fail.\<close>

record multipart_file =
  mf_Content :: string
  mf_ReadError :: "gerr option"
  mf_SeekError :: "gerr option"

record FileHeader =
  fh_Filename :: string
  fh_Size :: int
  fh_Open :: "gerr + multipart_file"

section \<open>The object store\<close>

record object_info =
  ob_Key :: string
  ob_Size :: int

text \<open>
  \<open>mc_Put key data size content_type\<close> and \<open>mc_List prefix\<close> (without \<open>Recursive\<close>) are the client's \<open>PutObject\<close>
  and \<open>ListObjects\<close>; \<open>mc_Get\<close> is not called by the code, it says what a bucket holds: data and content type.
\<close>

record 'b minio =
  mc_Put :: "string \<Rightarrow> string \<Rightarrow> int \<Rightarrow> string \<Rightarrow> 'b \<Rightarrow> (gerr + unit) \<times> 'b"
  mc_List :: "string \<Rightarrow> 'b \<Rightarrow> (gerr + object_info) list"
  mc_Get :: "'b \<Rightarrow> string \<Rightarrow> (string \<times> string) option"

text \<open>A key directly below a prefix: without \<open>Recursive\<close> the deeper ones are rolled up at the next slash.\<close>

definition directly_below :: "string \<Rightarrow> string \<Rightarrow> bool" where
  "directly_below pre key \<longleftrightarrow> prefix pre key \<and> CHR ''/'' \<notin> set (drop (length pre) key)"

definition minio_laws :: "'b minio \<Rightarrow> bool" where
  "minio_laws M \<longleftrightarrow>
     (\<forall>key data ct b b'. mc_Put M key data (int (length data)) ct b = (Inr (), b') \<longrightarrow> mc_Get M b' = (mc_Get M b)(key \<mapsto> (data, ct))) \<and>
     (\<forall>key data n ct b e b'. mc_Put M key data n ct b = (Inl e, b') \<longrightarrow> mc_Get M b' = mc_Get M b) \<and>
     (\<forall>pre b ob. Inr ob \<in> set (mc_List M pre b) \<longrightarrow> prefix pre (ob_Key ob)) \<and>
     (\<forall>pre b key n. directly_below pre key \<longrightarrow> (\<forall>e. Inl e \<notin> set (mc_List M pre b)) \<longrightarrow>
        (Inr \<lparr>ob_Key = key, ob_Size = n\<rparr> \<in> set (mc_List M pre b) \<longleftrightarrow> (\<exists>data ct. mc_Get M b key = Some (data, ct) \<and> n = int (length data))))"

record 'b media_db = infra +
  bucket :: 'b

definition PutObject :: "env \<Rightarrow> 'b minio \<Rightarrow> string \<Rightarrow> string \<Rightarrow> int \<Rightarrow> string \<Rightarrow> (('b, 'z) media_db_scheme, unit) go" where
  "PutObject E M key data sz ct = external E (\<lambda>n. State (\<lambda>s. case mc_Put M key data sz ct (bucket s) of (r, b) \<Rightarrow> (r, s\<lparr>bucket := b\<rparr>)))"

text \<open>The objects of the channel; a failure of the call is one more element that carries an error.\<close>

definition ListObjects :: "env \<Rightarrow> 'b minio \<Rightarrow> string \<Rightarrow> (('b, 'z) media_db_scheme, (gerr + object_info) list) state" where
  "ListObjects E M pre = do {
     r \<leftarrow> external E (\<lambda>n. State (\<lambda>s. (Inr (mc_List M pre (bucket s)), s)));
     ret (case r of Inl e \<Rightarrow> [Inl e] | Inr obs \<Rightarrow> obs) }"

section \<open>The handler\<close>

record StorageHandler =
  sh_bucketName :: string
  sh_minioEndpoint :: string
  sh_publicBaseURL :: string

text \<open>\<open>strings.TrimSuffix(v, "/")\<close> and \<open>strings.TrimPrefix\<close>.\<close>

definition TrimSuffix_slash :: "string \<Rightarrow> string" where
  "TrimSuffix_slash v = (if v \<noteq> [] \<and> last v = CHR ''/'' then butlast v else v)"

definition TrimPrefix :: "string \<Rightarrow> string \<Rightarrow> string" where
  "TrimPrefix v pre = (if prefix pre v then drop (length pre) v else v)"

definition NewStorageHandler :: "environ \<Rightarrow> string \<Rightarrow> string \<Rightarrow> string \<Rightarrow> StorageHandler" where
  "NewStorageHandler e bucketName endpoint publicBaseURL =
     (let u1 = (if publicBaseURL = [] then (let u = Getenv e ''STORAGE_PUBLIC_URL'' in
                  if u = [] then Getenv e ''MINIO_PUBLIC_URL'' else u) else publicBaseURL);
          u2 = (if u1 = [] then ''http://'' @ endpoint else u1)
      in \<lparr>sh_bucketName = bucketName, sh_minioEndpoint = endpoint, sh_publicBaseURL = TrimSuffix_slash u2\<rparr>)"

definition public_url :: "StorageHandler \<Rightarrow> string \<Rightarrow> string" where
  "public_url H key = sh_publicBaseURL H @ ''/'' @ sh_bucketName H @ ''/'' @ key"

definition content_type :: "string \<Rightarrow> string" where
  "content_type ext = (if ext = ''.jpg'' \<or> ext = ''.jpeg'' then ''image/jpeg''
     else if ext = ''.png'' then ''image/png'' else ''application/octet-stream'')"

text \<open>The answer carries the public address.\<close>

definition UploadFile ::
    "env \<Rightarrow> 'b minio \<Rightarrow> StorageHandler \<Rightarrow> session \<Rightarrow> FileHeader option \<Rightarrow> (('b, 'z) media_db_scheme, string response) state" where
  "UploadFile E M H ss form = (case form of
       None \<Rightarrow> ret (Error 400 ''No file is received'')
     | Some file \<Rightarrow>
         (let ext = ToLower (file_Ext (fh_Filename file)) in
          if ext \<noteq> ''.jpg'' \<and> ext \<noteq> ''.jpeg'' \<and> ext \<noteq> ''.png'' then ret (Error 400 ''Only JPG, JPEG, and PNG files are allowed'')
          else if 5 * 1024 * 1024 < fh_Size file then ret (Error 400 ''File size exceeds 5MB limit'')
          else case fh_Open file of
            Inl e \<Rightarrow> ret (Error 500 ''Failed to open the file'')
          | Inr opened \<Rightarrow>
              if mf_ReadError opened \<noteq> None then ret (Error 500 ''Failed to read file content'')
              else if mf_SeekError opened \<noteq> None then ret (Error 500 ''Failed to reset file read pointer'')
              else if DetectContentType (take 512 (mf_Content opened)) = Other_type
                then ret (Error 400 ''Invalid file content: only valid JPEG and PNG images are allowed'')
              else if session_user ss = [] then ret (Unauthorized ''unauthorized'')
              else do {
                n \<leftarrow> step;
                let key = session_user ss @ ''/'' @ uuid_String E (fresh E n) @ ext;
                r \<leftarrow> PutObject E M key (mf_Content opened) (fh_Size file) (content_type ext);
                ret (case r of
                    Inl e \<Rightarrow> Error 500 ''Failed to upload file to storage''
                  | Inr u \<Rightarrow> Success 200 ''File uploaded successfully'' (Some (public_url H key))) }))"

record media =
  md_ID :: string
  md_URL :: string
  md_Name :: string
  md_Size :: string

text \<open>\<open>fmt.Sprintf("%.1f", x)\<close>.\<close>

fun Sprintf_1f :: "f64 \<Rightarrow> string" where
  "Sprintf_1f (Fin q) = (let n = round_half_even (\<bar>q\<bar> * 10) in
     (if q < 0 then ''-'' else []) @ show_int (n div 10) @ ''.'' @ show_int (n mod 10))"
| "Sprintf_1f PInf = ''+Inf''"
| "Sprintf_1f NInf = ''-Inf''"
| "Sprintf_1f NaN = ''NaN''"

definition size_text :: "int \<Rightarrow> string" where
  "size_text sz = (let kb = sz sdiv 1024 in
     if 1024 < kb then Sprintf_1f (fdiv (f_of_int kb) (Fin 1024)) @ '' MB'' else show_int kb @ '' KB'')"

definition media_of :: "StorageHandler \<Rightarrow> string \<Rightarrow> object_info \<Rightarrow> media" where
  "media_of H pre ob = \<lparr>md_ID = ob_Key ob, md_URL = public_url H (ob_Key ob), md_Name = TrimPrefix (ob_Key ob) pre,
     md_Size = size_text (ob_Size ob)\<rparr>"

text \<open>An element with an error is skipped.\<close>

fun list_media :: "StorageHandler \<Rightarrow> string \<Rightarrow> (gerr + object_info) list \<Rightarrow> media list" where
  "list_media H pre [] = []"
| "list_media H pre (Inl e # obs) = list_media H pre obs"
| "list_media H pre (Inr ob # obs) = media_of H pre ob # list_media H pre obs"

definition ListFiles ::
    "env \<Rightarrow> 'b minio \<Rightarrow> StorageHandler \<Rightarrow> session \<Rightarrow> (('b, 'z) media_db_scheme, media list response) state" where
  "ListFiles E M H ss =
     (if session_user ss = [] then ret (Unauthorized ''unauthorized'')
      else (let pre = session_user ss @ ''/'' in do {
        obs \<leftarrow> ListObjects E M pre;
        ret (Success 200 ''Media retrieved'' (Some (list_media H pre obs))) }))"

section \<open>The routes\<close>

definition POST_upload ::
    "env \<Rightarrow> 'b minio \<Rightarrow> StorageHandler \<Rightarrow> jwt_lib \<Rightarrow> string \<Rightarrow> headers \<Rightarrow> FileHeader option \<Rightarrow> (('b, 'z) media_db_scheme, string response) state" where
  "POST_upload E M H J secret h form = protected_route E J secret h (\<lambda>ss. UploadFile E M H ss form)"

definition GET_media ::
    "env \<Rightarrow> 'b minio \<Rightarrow> StorageHandler \<Rightarrow> jwt_lib \<Rightarrow> string \<Rightarrow> headers \<Rightarrow> (('b, 'z) media_db_scheme, media list response) state" where
  "GET_media E M H J secret h = protected_route E J secret h (ListFiles E M H)"

section \<open>Lemmas\<close>

lemma media_update_order [simp]:
  "s\<lparr>bucket := b, tick := n\<rparr> = s\<lparr>tick := n, bucket := b\<rparr>"
  by simp

lemma set_list_media: "set (list_media H pre obs) = media_of H pre ` {ob. Inr ob \<in> set obs}"
  by (induction H pre obs rule: list_media.induct) auto

lemma media_of_fields [simp]:
  "md_ID (media_of H pre ob) = ob_Key ob" "md_URL (media_of H pre ob) = public_url H (ob_Key ob)"
  "md_Name (media_of H pre ob) = TrimPrefix (ob_Key ob) pre" "md_Size (media_of H pre ob) = size_text (ob_Size ob)"
  by (simp_all add: media_of_def)

lemma TrimPrefix_append [simp]: "TrimPrefix (pre @ v) pre = v"
  by (simp add: TrimPrefix_def)

text \<open>A put stores the object or leaves the bucket as it was, whatever becomes of the answer.\<close>

lemma wp_PutObject:
  assumes "minio_laws M" and "sz = int (length data)"
    and "\<And>r b n. mc_Get M b = (mc_Get M (bucket s))(key \<mapsto> (data, ct)) \<Longrightarrow> Q r (s\<lparr>tick := n, bucket := b\<rparr>)"
    and "\<And>e b n. mc_Get M b = mc_Get M (bucket s) \<Longrightarrow> Q (Inl e) (s\<lparr>tick := n, bucket := b\<rparr>)"
  shows "wp (PutObject E M key data sz ct) Q s"
proof -
  obtain r b where put: "mc_Put M key data sz ct (bucket s) = (r, b)" by fastforce
  have stored: "if is_ok r then mc_Get M b = (mc_Get M (bucket s))(key \<mapsto> (data, ct)) else mc_Get M b = mc_Get M (bucket s)"
    using assms(1,2) put by (cases r) (auto simp: minio_laws_def)
  have keep: "Q (Inl e) (s\<lparr>tick := n\<rparr>)" for e n using assms(4) [of "bucket s" e n] by simp
  show ?thesis
    unfolding PutObject_def wp_external using stored put keep assms(3,4)
    by (cases r) (auto split: outcome.split)
qed

end
