(* ===== verification/Storage_Spec.thy ===== *)
theory Storage_Spec
  imports Storage_Media Ticket_Handlers_Spec
begin

text \<open>
  What the storage service guarantees: only pictures are stored, each below the name of its sender, and a sender
  sees the own ones under the addresses the uploads answered with.
\<close>

section \<open>Lemmas\<close>

lemma DetectContentType_take: "DetectContentType (take 512 data) = DetectContentType data"
proof -
  have "prefix p (take 512 data) \<longleftrightarrow> prefix p data" if "length p \<le> 512" for p :: string
    using that by (auto simp: prefix_def take_append) (metis append_take_drop_id append.assoc)
  then show ?thesis by (simp add: DetectContentType_def png_signature_def jpeg_signature_def)
qed

lemma public_url_inject [simp]: "public_url H k = public_url H k' \<longleftrightarrow> k = k'"
  by (simp add: public_url_def)

text \<open>The extensions a stored picture can have.\<close>

definition picture_ext :: "string \<Rightarrow> bool" where
  "picture_ext ext \<longleftrightarrow> ext = ''.jpg'' \<or> ext = ''.jpeg'' \<or> ext = ''.png''"

lemma picture_ext_no_slash: "picture_ext ext \<Longrightarrow> CHR ''/'' \<notin> set ext"
  by (auto simp: picture_ext_def)

text \<open>The form is as the server parsed it: the size is the length of the content.\<close>

definition sound_form :: "FileHeader option \<Rightarrow> bool" where
  "sound_form form \<longleftrightarrow> (case form of None \<Rightarrow> True | Some file \<Rightarrow>
     (case fh_Open file of Inl e \<Rightarrow> True | Inr f \<Rightarrow> fh_Size file = int (length (mf_Content f))))"

text \<open>A picture of at most 5 megabytes.\<close>

definition stored_picture :: "string \<Rightarrow> string \<Rightarrow> bool" where
  "stored_picture ext data \<longleftrightarrow> picture_ext ext \<and> length data \<le> 5 * 1024 * 1024 \<and> DetectContentType data \<noteq> Other_type"

lemma wp_UploadFile:
  assumes "minio_laws M" and "sound_form form"
    and refused: "\<And>r b n. mc_Get M b = mc_Get M (bucket s) \<Longrightarrow> resp_Code r \<noteq> 200 \<Longrightarrow> Q r (s\<lparr>tick := n, bucket := b\<rparr>)"
    and stored: "\<And>r b n u ext file f key. form = Some file \<Longrightarrow> fh_Open file = Inr f \<Longrightarrow> ext = ToLower (file_Ext (fh_Filename file)) \<Longrightarrow>
      session_user ss \<noteq> [] \<Longrightarrow> stored_picture ext (mf_Content f) \<Longrightarrow> key = session_user ss @ ''/'' @ uuid_String E u @ ext \<Longrightarrow>
      mc_Get M b = (mc_Get M (bucket s))(key \<mapsto> (mf_Content f, content_type ext)) \<Longrightarrow>
      resp_Code r = 200 \<longrightarrow> resp_Data r = Some (public_url H key) \<Longrightarrow> Q r (s\<lparr>tick := n, bucket := b\<rparr>)"
  shows "wp (UploadFile E M H ss form) Q s"
proof -
  have keep: "resp_Code r \<noteq> 200 \<Longrightarrow> Q r s" for r using refused [of "bucket s" r "tick s"] by simp
  show ?thesis
  proof (cases form)
    case None
    then show ?thesis by (simp add: UploadFile_def keep response_defs)
  next
    case (Some up)
    let ?ext = "ToLower (file_Ext (fh_Filename up))"
    show ?thesis
    proof (cases "\<exists>f. fh_Open up = Inr f \<and> stored_picture ?ext (mf_Content f) \<and> session_user ss \<noteq> []")
      case False
      then show ?thesis using Some assms(2)
        by (auto simp: UploadFile_def Let_def keep response_defs Unauthorized_def stored_picture_def picture_ext_def sound_form_def
          DetectContentType_take split: sum.splits)
    next
      case True
      then obtain f where f: "fh_Open up = Inr f" "stored_picture ?ext (mf_Content f)" "session_user ss \<noteq> []" by blast
      have sz: "fh_Size up = int (length (mf_Content f))" using assms(2) Some f(1) by (simp add: sound_form_def)
      let ?key = "session_user ss @ ''/'' @ uuid_String E (fresh E (tick s)) @ ?ext"
      have put: "wp (PutObject E M ?key (mf_Content f) (fh_Size up) (content_type ?ext)) (\<lambda>r. Q (case r of
            Inl e \<Rightarrow> Error 500 ''Failed to upload file to storage''
          | Inr u \<Rightarrow> Success 200 ''File uploaded successfully'' (Some (public_url H ?key)))) (s\<lparr>tick := Suc (tick s)\<rparr>)"
      proof (rule wp_PutObject [OF assms(1) sz])
        fix r :: "gerr + unit" and b n
        assume b: "mc_Get M b = (mc_Get M (bucket (s\<lparr>tick := Suc (tick s)\<rparr>)))(?key \<mapsto> (mf_Content f, content_type ?ext))"
        have "Q (case r of Inl e \<Rightarrow> Error 500 ''Failed to upload file to storage''
          | Inr u \<Rightarrow> Success 200 ''File uploaded successfully'' (Some (public_url H ?key))) (s\<lparr>tick := n, bucket := b\<rparr>)"
          by (rule stored [OF Some f(1) refl f(3,2) refl]) (use b in \<open>auto simp: response_defs split: sum.split\<close>)
        then show "Q (case r of Inl e \<Rightarrow> Error 500 ''Failed to upload file to storage''
          | Inr u \<Rightarrow> Success 200 ''File uploaded successfully'' (Some (public_url H ?key))) (s\<lparr>tick := Suc (tick s), tick := n, bucket := b\<rparr>)"
          by simp
      qed (use refused in \<open>simp add: response_defs\<close>)
      have ext: "\<not> (?ext \<noteq> ''.jpg'' \<and> ?ext \<noteq> ''.jpeg'' \<and> ?ext \<noteq> ''.png'')" and small: "\<not> 5 * 1024 * 1024 < fh_Size up"
        using f(2) sz unfolding stored_picture_def picture_ext_def by (blast, simp)
      have content: "DetectContentType (take 512 (mf_Content f)) \<noteq> Other_type"
        using f(2) by (simp add: stored_picture_def DetectContentType_take)
      show ?thesis
        using put keep content f(3)
        by (simp only: UploadFile_def Some option.case Let_def ext small if_False f(1) sum.case) (simp add: response_defs)
    qed
  qed
qed

section \<open>What is stored\<close>

text \<open>
  C22. Whatever request arrives at the upload route and whatever fails, the bucket keeps all its objects, but for one
  that may have been put: a JPEG or PNG picture of at most 5 megabytes, in the folder of the user whose token was
  accepted, with the content type that goes with its extension. An answer 200 means that it was put
  and carries its address.
\<close>

theorem uploads_own_pictures:
  assumes "minio_laws M" and "sound_form form"
  shows "wp (POST_upload E M H J secret h form) (\<lambda>r t.
    mc_Get M (bucket t) = mc_Get M (bucket s) \<and> resp_Code r \<noteq> 200 \<or>
    (\<exists>c data ext u key. accepted J secret h c \<and> cl_UserID c \<noteq> [] \<and> stored_picture ext data \<and>
       key = cl_UserID c @ ''/'' @ uuid_String E u @ ext \<and>
       mc_Get M (bucket t) = (mc_Get M (bucket s))(key \<mapsto> (data, content_type ext)) \<and>
       (resp_Code r = 200 \<longrightarrow> resp_Data r = Some (public_url H key)))) s"
  unfolding POST_upload_def
proof (rule wp_protected_route)
  fix c n
  assume c: "accepted J secret h c"
  have user: "session_user (session_of c) = cl_UserID c" by (simp add: session_user_def session_of_def)
  show "wp (UploadFile E M H (session_of c) form) (\<lambda>r t.
    mc_Get M (bucket t) = mc_Get M (bucket s) \<and> resp_Code r \<noteq> 200 \<or>
    (\<exists>c data ext u key. accepted J secret h c \<and> cl_UserID c \<noteq> [] \<and> stored_picture ext data \<and>
       key = cl_UserID c @ ''/'' @ uuid_String E u @ ext \<and>
       mc_Get M (bucket t) = (mc_Get M (bucket s))(key \<mapsto> (data, content_type ext)) \<and>
       (resp_Code r = 200 \<longrightarrow> resp_Data r = Some (public_url H key)))) (s\<lparr>tick := n\<rparr>)"
    by (rule wp_UploadFile [OF assms], simp, rule disjI2, rule exI [of _ c]) (use c user in \<open>fastforce\<close>)
qed (simp add: Error_def)

section \<open>What is listed\<close>

text \<open>The store takes every object, and lists without errors.\<close>

definition puts_all :: "'b minio \<Rightarrow> bool" where
  "puts_all M \<longleftrightarrow> (\<forall>key data n ct b. fst (mc_Put M key data n ct b) = Inr ())"

definition lists_all :: "'b minio \<Rightarrow> bool" where
  "lists_all M \<longleftrightarrow> (\<forall>pre b e. Inl e \<notin> set (mc_List M pre b))"

lemma minio_listed:
  assumes "minio_laws M" and "lists_all M" and "directly_below pre key"
  shows "Inr \<lparr>ob_Key = key, ob_Size = n\<rparr> \<in> set (mc_List M pre b) \<longleftrightarrow> (\<exists>data ct. mc_Get M b key = Some (data, ct) \<and> n = int (length data))"
  using assms by (simp add: minio_laws_def lists_all_def)

lemma minio_stored:
  "minio_laws M \<Longrightarrow> mc_Put M key data (int (length data)) ct b = (Inr (), b') \<Longrightarrow> mc_Get M b' = (mc_Get M b)(key \<mapsto> (data, ct))"
  by (simp add: minio_laws_def)

lemma minio_listed_prefix: "minio_laws M \<Longrightarrow> Inr ob \<in> set (mc_List M pre b) \<Longrightarrow> prefix pre (ob_Key ob)"
  by (simp add: minio_laws_def)

lemma wp_ListFiles:
  assumes "reliable E" and "session_user ss \<noteq> []"
    and "\<And>n. Q (Success 200 ''Media retrieved'' (Some (list_media H (session_user ss @ ''/'') (mc_List M (session_user ss @ ''/'') (bucket s)))))
      (s\<lparr>tick := n\<rparr>)"
  shows "wp (ListFiles E M H ss) Q s"
  using assms by (simp add: ListFiles_def ListObjects_def Let_def)

lemma below_other:
  assumes "prefix (v @ ''/'') (u @ ''/'' @ w)" and "CHR ''/'' \<notin> set u" and "CHR ''/'' \<notin> set v"
  shows "u = v"
proof -
  obtain z where "v @ CHR ''/'' # z = u @ CHR ''/'' # w" using assms(1) by (auto simp: prefix_def)
  then have "takeWhile (\<lambda>c. c \<noteq> CHR ''/'') (v @ CHR ''/'' # z) = takeWhile (\<lambda>c. c \<noteq> CHR ''/'') (u @ CHR ''/'' # w)" by simp
  moreover have "takeWhile (\<lambda>c. c \<noteq> CHR ''/'') (x @ CHR ''/'' # y) = x" if "CHR ''/'' \<notin> set x" for x y
    using that by (subst takeWhile_append2) auto
  ultimately show ?thesis using assms(2,3) by simp
qed

text \<open>A form the handler accepts: a picture that can be read.\<close>

definition good_form :: "FileHeader \<Rightarrow> multipart_file \<Rightarrow> bool" where
  "good_form up f \<longleftrightarrow> fh_Open up = Inr f \<and> fh_Size up = int (length (mf_Content f)) \<and> mf_ReadError f = None \<and> mf_SeekError f = None
     \<and> stored_picture (ToLower (file_Ext (fh_Filename up))) (mf_Content f)"

lemma wp_UploadFile_good:
  assumes "reliable E" and M: "minio_laws M" "puts_all M" and f: "good_form up f" and "session_user ss \<noteq> []"
    and Q: "\<And>b n u key. key = session_user ss @ ''/'' @ uuid_String E u @ ToLower (file_Ext (fh_Filename up)) \<Longrightarrow>
      mc_Get M b = (mc_Get M (bucket s))(key \<mapsto> (mf_Content f, content_type (ToLower (file_Ext (fh_Filename up))))) \<Longrightarrow>
      Q (Success 200 ''File uploaded successfully'' (Some (public_url H key))) (s\<lparr>tick := n, bucket := b\<rparr>)"
  shows "wp (UploadFile E M H ss (Some up)) Q s"
proof -
  let ?ext = "ToLower (file_Ext (fh_Filename up))"
  let ?key = "session_user ss @ ''/'' @ uuid_String E (fresh E (tick s)) @ ?ext"
  obtain b where put: "mc_Put M ?key (mf_Content f) (int (length (mf_Content f))) (content_type ?ext) (bucket s) = (Inr (), b)"
    using M(2) by (metis puts_all_def prod.collapse)
  then have get: "mc_Get M b = (mc_Get M (bucket s))(?key \<mapsto> (mf_Content f, content_type ?ext))" by (rule minio_stored [OF M(1)])
  have ext: "\<not> (?ext \<noteq> ''.jpg'' \<and> ?ext \<noteq> ''.jpeg'' \<and> ?ext \<noteq> ''.png'')" and small: "\<not> 5 * 1024 * 1024 < fh_Size up"
    using f unfolding good_form_def stored_picture_def picture_ext_def by (blast, simp)
  show ?thesis
    using f assms(5) put Q [OF refl get]
    by (simp only: UploadFile_def option.case Let_def ext small if_False good_form_def sum.case)
      (simp add: stored_picture_def DetectContentType_take PutObject_def assms(1))
qed

text \<open>
  C34. An upload is seen where it should be: a good picture is answered with 200, the listing of the sender then shows
  an object with the address of that answer, whose identifier is the folder of the sender and its name, and
  the listing of any other user does not show it.
\<close>

theorem upload_is_listed:
  assumes "reliable E" and M: "minio_laws M" "puts_all M" "lists_all M" and "good_form up f"
    and ids: "\<And>u. CHR ''/'' \<notin> set (uuid_String E u)" "session_user ss = uuid_String E me" "session_user other = uuid_String E you"
    and "me \<noteq> you" and "uuid_laws E"
  shows "wp (do { put \<leftarrow> UploadFile E M H ss (Some up); own \<leftarrow> ListFiles E M H ss; theirs \<leftarrow> ListFiles E M H other; ret (put, own, theirs) })
    (\<lambda>(put, own, theirs) t. resp_Code put = 200 \<and> (\<exists>url rows rows'.
       resp_Data put = Some url \<and> resp_Data own = Some rows \<and> resp_Data theirs = Some rows' \<and>
       (\<exists>m \<in> set rows. md_URL m = url \<and> md_ID m = session_user ss @ ''/'' @ md_Name m) \<and>
       (\<forall>m \<in> set rows'. md_URL m \<noteq> url))) s"
proof -
  let ?ext = "ToLower (file_Ext (fh_Filename up))"
  have users: "session_user ss \<noteq> []" "session_user other \<noteq> []" "session_user ss \<noteq> session_user other"
    using assms(9,10) ids by (simp_all add: uuid_String_nonempty uuid_String_inject)
  have ext: "CHR ''/'' \<notin> set ?ext" using assms(5) picture_ext_no_slash by (simp add: good_form_def stored_picture_def)
  show ?thesis
    unfolding wp_bind
  proof (rule wp_UploadFile_good [OF assms(1) M(1,2) assms(5) users(1)])
    fix b n u key
    assume key: "key = session_user ss @ ''/'' @ uuid_String E u @ ?ext"
      and get: "mc_Get M b = (mc_Get M (bucket s))(key \<mapsto> (mf_Content f, content_type ?ext))"
    let ?mine = "session_user ss @ ''/''" and ?theirs = "session_user other @ ''/''"
    have own: "directly_below ?mine key" using ext ids key by (simp add: directly_below_def)
    have "mc_Get M b key = Some (mf_Content f, content_type ?ext)" using get by simp
    then have "Inr \<lparr>ob_Key = key, ob_Size = int (length (mf_Content f))\<rparr> \<in> set (mc_List M ?mine b)"
      unfolding minio_listed [OF M(1,3) own] by blast
    then have m: "media_of H ?mine \<lparr>ob_Key = key, ob_Size = int (length (mf_Content f))\<rparr> \<in> set (list_media H ?mine (mc_List M ?mine b))"
      unfolding set_list_media by blast
    have named: "key = session_user ss @ ''/'' @ TrimPrefix key ?mine"
      using key TrimPrefix_append [of ?mine "uuid_String E u @ ?ext"] by simp
    have hidden: "ob_Key ob \<noteq> key" if "Inr ob \<in> set (mc_List M ?theirs b)" for ob
      using that M(1) below_other [of "session_user other" "session_user ss" "uuid_String E u @ ?ext"] users(3) ids key
      by (metis append.assoc append_Cons append_Nil minio_listed_prefix)
    have shown: "\<exists>m \<in> set (list_media H ?mine (mc_List M ?mine b)). md_URL m = public_url H key \<and> md_ID m = session_user ss @ ''/'' @ md_Name m"
      by (rule bexI [OF _ m]) (use named in simp)
    have away: "\<forall>m \<in> set (list_media H ?theirs (mc_List M ?theirs b)). md_URL m \<noteq> public_url H key"
      using hidden by (auto simp: set_list_media)
    show "wp (ListFiles E M H ss) (\<lambda>own. wp (ListFiles E M H other) (\<lambda>theirs. wp (ret (Success 200 ''File uploaded successfully'' (Some (public_url H key)), own, theirs))
        (\<lambda>(put, own, theirs) t. resp_Code put = 200 \<and> (\<exists>url rows rows'.
          resp_Data put = Some url \<and> resp_Data own = Some rows \<and> resp_Data theirs = Some rows' \<and>
          (\<exists>m \<in> set rows. md_URL m = url \<and> md_ID m = session_user ss @ ''/'' @ md_Name m) \<and>
          (\<forall>m \<in> set rows'. md_URL m \<noteq> url))))) (s\<lparr>tick := n, bucket := b\<rparr>)"
      by (intro wp_ListFiles [OF assms(1)] users) (use shown away in \<open>simp add: Success_def\<close>)
  qed
qed

section \<open>A concrete store\<close>

text \<open>The objects in the order they were put; a later one hides an earlier one of the same key.\<close>

definition demo_minio :: "(string \<times> string \<times> string) list minio" where
  "demo_minio = \<lparr>mc_Put = (\<lambda>key data n ct b. (Inr (), (key, data, ct) # b)),
     mc_List = (\<lambda>pre b. map (\<lambda>k. Inr \<lparr>ob_Key = k, ob_Size = int (length (fst (the (map_of b k))))\<rparr>)
        (filter (directly_below pre) (remdups (map fst b)))),
     mc_Get = map_of\<rparr>"

lemma demo_minio_laws [simp]: "minio_laws demo_minio" "lists_all demo_minio" "puts_all demo_minio"
proof -
  have get: "k \<in> set (map fst b) \<and> n = int (length (fst (the (map_of b k)))) \<longleftrightarrow> (\<exists>data ct. map_of b k = Some (data, ct) \<and> n = int (length data))"
    for k n and b :: "(string \<times> string \<times> string) list"
    by (cases "map_of b k") (auto simp: map_of_eq_None_iff dest: map_of_SomeD intro: rev_image_eqI)
  show "minio_laws demo_minio"
    unfolding minio_laws_def
  proof (intro conjI allI impI)
    fix pre key n and b :: "(string \<times> string \<times> string) list"
    assume "directly_below pre key"
    then show "(Inr \<lparr>ob_Key = key, ob_Size = n\<rparr> \<in> set (mc_List demo_minio pre b)) =
        (\<exists>data ct. mc_Get demo_minio b key = Some (data, ct) \<and> n = int (length data))"
      using get [of key b n] by (auto simp: demo_minio_def)
  qed (auto simp: demo_minio_def directly_below_def)
  show "lists_all demo_minio" by (auto simp: lists_all_def demo_minio_def)
  show "puts_all demo_minio" by (simp add: puts_all_def demo_minio_def)
qed

definition demo_handler :: StorageHandler where
  "demo_handler = NewStorageHandler Map.empty ''entra-media'' ''localhost:9000'' []"

definition demo_upload :: FileHeader where
  "demo_upload = \<lparr>fh_Filename = ''banner.PNG'', fh_Size = 8,
     fh_Open = Inr \<lparr>mf_Content = png_signature, mf_ReadError = None, mf_SeekError = None\<rparr>\<rparr>"

definition demo_bucket :: "(string \<times> string \<times> string) list media_db" where
  "demo_bucket = \<lparr>tick = 0, redis = Map.empty, kafka = [], bucket = []\<rparr>"

lemma demo_upload_good: "good_form demo_upload \<lparr>mf_Content = png_signature, mf_ReadError = None, mf_SeekError = None\<rparr>"
proof -
  have "ToLower (file_Ext ''banner.PNG'') = ''.png''" by code_simp
  then show ?thesis
    by (simp add: good_form_def demo_upload_def stored_picture_def picture_ext_def DetectContentType_def png_signature_def)
qed

lemma demo_upload_sound [simp]: "sound_form (Some demo_upload)"
  by (simp add: sound_form_def demo_upload_def png_signature_def)

theorem uploads_own_pictures_witness:
  "wp (POST_upload still_env demo_minio demo_handler (demo_jwt \<lparr>cl_UserID = demo_name 3, cl_Role = ''organizer''\<rparr>) ''k'' demo_headers
      (Some demo_upload))
    (\<lambda>r t. \<forall>key. mc_Get demo_minio (bucket t) key \<noteq> None \<longrightarrow> prefix (demo_name 3 @ ''/'') key) demo_bucket"
  by (rule wp_mono [OF uploads_own_pictures [OF demo_minio_laws(1) demo_upload_sound]])
    (auto simp: accepted_demo demo_bucket_def demo_minio_def  split: if_splits)

theorem upload_is_listed_witness:
  "wp (do { put \<leftarrow> UploadFile still_env demo_minio demo_handler \<lparr>auth_user = Some (demo_name 3), auth_role = None\<rparr> (Some demo_upload);
            own \<leftarrow> ListFiles still_env demo_minio demo_handler \<lparr>auth_user = Some (demo_name 3), auth_role = None\<rparr>;
            theirs \<leftarrow> ListFiles still_env demo_minio demo_handler \<lparr>auth_user = Some (demo_name 4), auth_role = None\<rparr>;
            ret (put, own, theirs) })
    (\<lambda>(put, own, theirs) t. resp_Code put = 200 \<and> (\<exists>url rows rows'.
       resp_Data put = Some url \<and> resp_Data own = Some rows \<and> resp_Data theirs = Some rows' \<and>
       (\<exists>m \<in> set rows. md_URL m = url \<and> md_ID m = demo_name 3 @ ''/'' @ md_Name m) \<and>
       (\<forall>m \<in> set rows'. md_URL m \<noteq> url))) demo_bucket"
proof -
  have "CHR ''/'' \<notin> set (demo_name u)" for u by (simp add: demo_name_def)
  then show ?thesis
    using demo_upload_good upload_is_listed [of still_env demo_minio demo_upload _ "\<lparr>auth_user = Some (demo_name 3), auth_role = None\<rparr>" 3
        "\<lparr>auth_user = Some (demo_name 4), auth_role = None\<rparr>" 4 demo_handler demo_bucket]
    by (simp add: session_user_def)
qed

end
