(* ===== verification/Service_Start.thy ===== *)
theory Service_Start
  imports Storage_Media Ticket_Organizer Auth_Sessions
begin

text \<open>
  How the services read their configuration when they start: the settings each \<open>cmd/api/main.go\<close> adds to
  \<open>config.Load\<close>, what \<open>NewAuthService\<close> and \<open>NewTicketService\<close> take from the environment, and the topics
  the consumer groups subscribe to. Building the clients and servers themselves is not modelled.
\<close>

section \<open>Settings of the services\<close>

definition with_database :: "string \<Rightarrow> Config \<Rightarrow> Config" where
  "with_database name cfg = cfg\<lparr>cf_Database := (cf_Database cfg)\<lparr>dc_DBName := name\<rparr>\<rparr>"

definition with_port :: "string \<Rightarrow> Config \<Rightarrow> Config" where
  "with_port port cfg = cfg\<lparr>cf_Server := \<lparr>sv_Port = port\<rparr>\<rparr>"

type_synonym loader = "string list \<Rightarrow> environ \<Rightarrow> environ"
type_synonym float_parser = "string \<Rightarrow> gerr + f64"

definition auth_main :: "loader \<Rightarrow> float_parser \<Rightarrow> environ \<Rightarrow> Config \<times> environ" where
  "auth_main godotenv parse_float e0 =
     (let (cfg, e) = Load godotenv parse_float (godotenv [''.env'', ''auth-service/.env''] e0) in
      (with_port (getEnv e ''AUTH_SERVICE_PORT'' ''8081'')
         (with_database (getEnv e ''POSTGRES_DB_AUTH'' (getEnv e ''AUTH_DB'' ''entra_auth'')) cfg), e))"

definition event_main :: "loader \<Rightarrow> float_parser \<Rightarrow> environ \<Rightarrow> Config \<times> environ" where
  "event_main godotenv parse_float e0 = (let (cfg, e) = Load godotenv parse_float e0 in
      (with_port (getEnv e ''EVENT_SERVICE_PORT'' ''8082'')
         (with_database (getEnv e ''POSTGRES_DB_EVENT'' (getEnv e ''EVENT_DB'' ''entra_event'')) cfg), e))"

text \<open>With the address of the event service.\<close>

definition ticket_main :: "loader \<Rightarrow> float_parser \<Rightarrow> environ \<Rightarrow> (Config \<times> string) \<times> environ" where
  "ticket_main godotenv parse_float e0 = (let (cfg, e) = Load godotenv parse_float e0 in
      ((with_port (getEnv e ''TICKET_SERVICE_PORT'' ''8083'')
          (with_database (getEnv e ''POSTGRES_DB_TICKET'' (getEnv e ''TICKET_DB'' ''entra_ticket'')) cfg),
        getEnv e ''EVENT_SERVICE_URL'' ''http://localhost:8082''), e))"

definition payment_main :: "loader \<Rightarrow> float_parser \<Rightarrow> environ \<Rightarrow> Config \<times> environ" where
  "payment_main godotenv parse_float e0 = (let (cfg, e) = Load godotenv parse_float e0 in
      (with_port (getEnv e ''PAYMENT_SERVICE_PORT'' ''8084'')
         (with_database (getEnv e ''POSTGRES_DB_PAYMENT'' (getEnv e ''PAYMENT_DB'' ''entra_payment'')) cfg), e))"

text \<open>The gate service keeps its port beside the configuration.\<close>

definition gate_main :: "loader \<Rightarrow> float_parser \<Rightarrow> environ \<Rightarrow> (Config \<times> string) \<times> environ" where
  "gate_main godotenv parse_float e0 = (let (cfg, e) = Load godotenv parse_float e0 in
      ((with_database (getEnv e ''POSTGRES_DB_GATE'' (getEnv e ''GATE_DB'' ''entra_gate'')) cfg,
        getEnv e ''GATE_SERVICE_PORT'' (getEnv e ''PORT'' ''8086'')), e))"

definition storage_main :: "loader \<Rightarrow> float_parser \<Rightarrow> environ \<Rightarrow> (Config \<times> StorageHandler) \<times> environ" where
  "storage_main godotenv parse_float e0 = (let (cfg, e) = Load godotenv parse_float e0 in
      ((with_port (getEnv e ''STORAGE_SERVICE_PORT'' ''8087'') cfg,
        NewStorageHandler e ''entra-media'' (getEnv e ''MINIO_ENDPOINT'' ''localhost:9000'')
          (getEnv e ''STORAGE_PUBLIC_URL'' (getEnv e ''MINIO_PUBLIC_URL'' []))), e))"

text \<open>The groups of the consumers and their topics.\<close>

definition ticket_groups :: "(string \<times> string list) list" where
  "ticket_groups = [(''ticket-service-group'', [''payment.success'', ''payment.failed'']), (''ticket-event-group'', [''ticket.scanned''])]"

definition payment_groups :: "(string \<times> string list) list" where
  "payment_groups = [(''payment-service-group'', [''order.created'', ''order.cancelled'', ''topup.created''])]"

definition gate_groups :: "(string \<times> string list) list" where
  "gate_groups = [(''gate-service-group'', [''ticket.created''])]"

text \<open>\<open>NewAuthService\<close>: the settings the service uses; the libraries are those of \<open>L\<close>.\<close>

definition NewAuthService :: "Config \<Rightarrow> auth_lib \<Rightarrow> auth_lib" where
  "NewAuthService cfg L = L\<lparr>al_Secret := jc_Secret (cf_JWT cfg), al_AccessExpiry := jc_AccessExpiry (cf_JWT cfg),
     al_RefreshExpiry := jc_RefreshExpiry (cf_JWT cfg)\<rparr>"

text \<open>\<open>NewTicketService\<close>: the key of the payment gateway and the fee.\<close>

definition ticket_server_key :: "environ \<Rightarrow> string" where
  "ticket_server_key e = (let k = Getenv e ''MIDTRANS_SERVER_KEY'' in if k = [] then ''SB-Mid-server-dummy-key-for-dev-only'' else k)"

definition ticket_fee :: "float_parser \<Rightarrow> environ \<Rightarrow> f64" where
  "ticket_fee parse_float e = (let v = Getenv e ''PLATFORM_FEE_PERCENT'' in
     configured_fee (if v = [] then None else case parse_float v of Inl x \<Rightarrow> None | Inr f \<Rightarrow> Some f))"

end
