(* ===== verification/Service_Start_Spec.thy ===== *)
theory Service_Start_Spec
  imports Service_Start
begin

text \<open>
  What the settings come to: the durations that are understood, the fee that is charged, services that do not get in each
  other's way, and the lock-out that follows from a lifetime written without its unit.
\<close>

section \<open>Durations\<close>

lemma show_nat_first: "hd (show_nat n @ w) \<noteq> CHR ''-''" "hd (show_nat n @ w) \<noteq> CHR ''+''" "show_nat n @ w \<noteq> []"
  using show_nat_hd [of n] by simp_all

lemma ParseDuration_unsigned:
  assumes "v \<noteq> []" and "hd v \<noteq> CHR ''-''" and "hd v \<noteq> CHR ''+''" and "v \<noteq> ''0''"
  shows "ParseDuration v = (case duration_items 0 v of None \<Rightarrow> Inl ErrParse | Some d \<Rightarrow> if 2 ^ 63 - 1 < d then Inl ErrParse else Inr d)"
  using assms by (simp add: ParseDuration_def split: option.split)

lemma ParseDuration_whole:
  assumes "(u, k) \<in> set duration_units" and "int n * k < 2 ^ 63"
  shows "ParseDuration (show_nat n @ u) = Inr (int n * k)"
proof -
  note l = duration_units_laws [OF assms(1)]
  have pos: "0 \<le> int n * k" using l(4) by simp
  have "length (show_nat n @ u) \<noteq> 1" using l(1) show_nat_nonempty [of n] by (cases u; cases "show_nat n") auto
  then have not0: "show_nat n @ u \<noteq> ''0''" by (metis One_nat_def length_Cons list.size(3))
  have "duration_item (show_nat n @ u) = Some (int n * k, [])"
    using duration_item_whole [OF assms(1), of n "[]"] assms(2) by simp
  then have "duration_items 0 (show_nat n @ u) = Some (int n * k)"
    using assms(2) pos show_nat_first(3) [of n u] by (subst duration_items.simps) (simp add: Let_def duration_items.simps)
  then show ?thesis
    using ParseDuration_unsigned [OF show_nat_first(3,1,2) not0] assms(2) by simp
qed

lemma duration_bare: "duration_or_zero (show_nat n) = 0"
proof (cases "show_nat n = ''0''")
  case True
  then show ?thesis by (simp add: duration_or_zero_def ParseDuration_def)
next
  case False
  have "duration_items 0 (show_nat n) = None" by (subst duration_items.simps) (simp add: duration_item_bare)
  then show ?thesis
    using ParseDuration_unsigned [OF _ _ _ False] show_nat_first [of n "[]"] by (simp add: duration_or_zero_def)
qed

text \<open>
  A lifetime is read exactly when it names its unit: a whole number of any unit the library knows gives that many
  nanoseconds, as long as they fit 64 bits; a bare number, whatever its size, silently becomes a lifetime of zero.
\<close>

theorem lifetimes_need_units:
  assumes "(u, k) \<in> set duration_units" and "int n * k < 2 ^ 63"
  shows "duration_or_zero (show_nat n @ u) = int n * k \<and> duration_or_zero (show_nat m) = 0"
  using ParseDuration_whole [OF assms] duration_bare by (simp add: duration_or_zero_def)

theorem lifetimes_need_units_witness:
  "duration_or_zero (show_nat 15 @ ''m'') = 15 * Minute \<and> duration_or_zero (show_nat 900) = 0"
  using lifetimes_need_units [of "''m''" Minute 15 900] by (simp add: duration_units_def duration_defs)

section \<open>Sessions that are over at once\<close>

text \<open>A token is refused from the second of its expiry on.\<close>

definition jwt_expires :: "jwt_lib \<Rightarrow> bool" where
  "jwt_expires J \<longleftrightarrow> (\<forall>secret c mail iat ex tok now. jwt_sign J secret c mail iat ex = Inr tok \<longrightarrow> ex \<le> Unix now \<longrightarrow>
     jwt_verify J now secret tok = None)"

definition refused_token :: "auth_lib \<Rightarrow> string \<Rightarrow> time \<Rightarrow> bool" where
  "refused_token L tok now \<longleftrightarrow>
     JWTAuth (al_jwt L) now (al_Secret L) \<lparr>hd_Authorization = ''Bearer '' @ tok, hd_InternalSecret = []\<rparr>
       = (Inl (Error 401 ''invalid or expired token'') :: unit response + session)"

lemma wp_dead_pair:
  assumes "jwt_expires (al_jwt L)" and "al_AccessExpiry L = 0"
  shows "wp (generateTokenPair E L user agent ip)
    (\<lambda>r t. \<forall>pair now. r = Inr pair \<longrightarrow> (\<forall>m < tick t. clock E m \<le> now) \<longrightarrow> refused_token L (tp_AccessToken pair) now) s"
proof (cases "jwt_sign (al_jwt L) (al_Secret L) \<lparr>cl_UserID = uuid_String E (us_ID user), cl_Role = us_Role user\<rparr>
    (us_Email user) (Unix (clock E (tick s))) (Unix (clock E (tick s)))")
  case (Inl e)
  then show ?thesis by (simp add: generateTokenPair_def assms(2))
next
  case (Inr tok)
  have dead: "refused_token L tok now" if "clock E (tick s) \<le> now" for now
  proof -
    have "Unix (clock E (tick s)) \<le> Unix now" using that by (simp add: Unix_def zdiv_mono1 duration_defs)
    then have "jwt_verify (al_jwt L) now (al_Secret L) tok = None" using assms(1) Inr unfolding jwt_expires_def by blast
    then show ?thesis
      by (simp add: refused_token_def JWTAuth_def bearer_token_header [simplified] ParseWithClaims_def)
  qed
  then show ?thesis
    using Inr by (simp add: generateTokenPair_def assms(2) CreateRefreshToken_def sql_def wp_external Let_def split: outcome.split sum.split)
qed

text \<open>
  A lifetime without its unit locks everybody out: when the environment of the auth service gives \<open>JWT_ACCESS_EXPIRY\<close> as a
  bare number of seconds, the service starts, logins are answered with a token pair as usual, and every access token is refused
  by every service from the moment it was issued.
\<close>

theorem bare_lifetime_locks_out:
  assumes "jwt_expires (al_jwt L)" and "auth_main godotenv parse_float e0 = (cfg, e)" and "e ''JWT_ACCESS_EXPIRY'' = Some (show_nat n)"
  shows "wp (Login E (NewAuthService cfg L) req agent ip)
    (\<lambda>r t. \<forall>u pair now. r = Inr (u, pair) \<longrightarrow> (\<forall>m < tick t. clock E m \<le> now) \<longrightarrow>
       refused_token (NewAuthService cfg L) (tp_AccessToken pair) now) s"
proof -
  let ?L = "NewAuthService cfg L"
  have zero: "al_AccessExpiry ?L = 0" and lib: "jwt_expires (al_jwt ?L)"
    using assms by (auto simp: auth_main_def Load_def Let_def NewAuthService_def with_port_def with_database_def getEnv_def duration_bare)
  have pair: "wp (generateTokenPair E ?L user agent ip) (\<lambda>r t. \<forall>u pair now. r = Inr pair \<longrightarrow> (\<forall>m < tick t. clock E m \<le> now) \<longrightarrow>
      refused_token ?L (tp_AccessToken pair) now) s'" for user and s' :: "'a auth_db_scheme"
    by (rule wp_mono [OF wp_dead_pair [OF lib zero]]) blast
  show ?thesis
    unfolding Login_def wp_bindE Queries_GetUserByEmail_def sql_def wp_external
    by (auto split: outcome.split sum.split intro!: wp_mono [OF pair])
qed

text \<open>The environment of the example: the files add nothing, one setting is made.\<close>

definition demo_environ :: "string \<Rightarrow> string \<Rightarrow> environ" where
  "demo_environ key v = [key \<mapsto> v]"

lemma demo_signer_expires [simp]: "jwt_expires demo_signer"
  by (auto simp: jwt_expires_def demo_signer_def demo_sign_def demo_verify_def split: prod.splits option.splits)

theorem bare_lifetime_locks_out_witness:
  "wp (Login calm_env (NewAuthService (fst (auth_main (\<lambda>_ e. e) (\<lambda>_. Inl ErrParse) (demo_environ ''JWT_ACCESS_EXPIRY'' (show_nat 900)))) demo_auth)
      \<lparr>lg_Email = ''a@b.c'', lg_Password = ''password''\<rparr> [] ''::1'')
    (\<lambda>r t. \<forall>u pair now. r = Inr (u, pair) \<longrightarrow> (\<forall>m < tick t. clock calm_env m \<le> now) \<longrightarrow>
       refused_token (NewAuthService (fst (auth_main (\<lambda>_ e. e) (\<lambda>_. Inl ErrParse) (demo_environ ''JWT_ACCESS_EXPIRY'' (show_nat 900)))) demo_auth)
         (tp_AccessToken pair) now) demo_accounts"
  by (rule bare_lifetime_locks_out [where e = "demo_environ ''JWT_ACCESS_EXPIRY'' (show_nat 900)" and n = 900])
    (simp_all add: demo_environ_def auth_main_def Load_def Let_def)

section \<open>The fee\<close>

text \<open>
  The fee of the balances is what \<open>PLATFORM_FEE_PERCENT\<close> says when that is a number above zero, and 5 percent otherwise: also when it
  says zero, so no platform can be run without a fee. The fee \<open>config.Load\<close> computes agrees with it but for zero and for values that
  are no number.
\<close>

theorem charged_fee:
  "GetPlatformFeePercent (ticket_fee parse_float e) =
     (if Getenv e ''PLATFORM_FEE_PERCENT'' = [] then Fin 5
      else case parse_float (Getenv e ''PLATFORM_FEE_PERCENT'') of Inl x \<Rightarrow> Fin 5 | Inr f \<Rightarrow> if flt (Fin 0) f then f else Fin 5)
   \<and> flt (Fin 0) (GetPlatformFeePercent (ticket_fee parse_float e))"
proof -
  have some: "GetPlatformFeePercent (configured_fee (Some f)) = (if flt (Fin 0) f then f else Fin 5)" for f
    by (cases f) (auto simp: GetPlatformFeePercent_def configured_fee_def fle_def)
  have none: "GetPlatformFeePercent (configured_fee None) = Fin 5" by (simp add: GetPlatformFeePercent_def configured_fee_def fle_def)
  show ?thesis
    by (simp add: ticket_fee_def Let_def some none split: sum.split)
qed

section \<open>Services side by side\<close>

text \<open>Without any setting every service has a port and a database of its own, and the topics of the groups are apart.\<close>

lemma services_apart:
  "distinct [sv_Port (cf_Server (fst (auth_main (\<lambda>_ e. e) pf Map.empty))), sv_Port (cf_Server (fst (event_main (\<lambda>_ e. e) pf Map.empty))),
     sv_Port (cf_Server (fst (fst (ticket_main (\<lambda>_ e. e) pf Map.empty)))), sv_Port (cf_Server (fst (payment_main (\<lambda>_ e. e) pf Map.empty))),
     snd (fst (gate_main (\<lambda>_ e. e) pf Map.empty)), sv_Port (cf_Server (fst (fst (storage_main (\<lambda>_ e. e) pf Map.empty))))]"
  "distinct (map dc_DBName (map cf_Database [fst (auth_main (\<lambda>_ e. e) pf Map.empty), fst (event_main (\<lambda>_ e. e) pf Map.empty),
     fst (fst (ticket_main (\<lambda>_ e. e) pf Map.empty)), fst (payment_main (\<lambda>_ e. e) pf Map.empty), fst (fst (gate_main (\<lambda>_ e. e) pf Map.empty))]))"
  by (simp_all add: auth_main_def event_main_def ticket_main_def payment_main_def gate_main_def storage_main_def Load_def Let_def
    with_port_def with_database_def getEnv_def)

lemma topics_apart: "distinct (concat (map snd (ticket_groups @ payment_groups @ gate_groups)))"
  by (simp add: ticket_groups_def payment_groups_def gate_groups_def)

end
