(* ===== verification/Service_Boot.thy ===== *)
theory Service_Boot
  imports Service_Start
begin

text \<open>
  The life of a service process, \<open>cmd/api/main.go\<close> of the six services with \<open>NewPostgresPool\<close>, \<open>NewRedisClient\<close>,
  \<open>NewProducer\<close> and \<open>NewConsumerGroup\<close>: what is connected in which order, which outage ends the process and which is
  only logged, what the server is started with, and what is closed after the signal to stop.

  The libraries that connect are the record \<open>world\<close>: what each answers, given its settings. The goroutines are given by what
  starts them (\<open>pr_Groups\<close>, \<open>Worker\<close>, \<open>Server\<close>) and what stops them. \<open>os.Exit(1)\<close> is the error branch of the monad: deferred calls do
  not run there. The handlers a server runs are those of the service theories, called with the secret in \<open>up_Secret\<close>.
\<close>

section \<open>Processes\<close>

datatype resource = Pool | RedisClient | KafkaProducer | KafkaGroup string | Worker | Server

record process =
  pr_Log :: "(log_level \<times> string) list"
  pr_Open :: "resource list"
  pr_Closed :: "resource list"
  pr_Deferred :: "resource list"
  pr_Groups :: "(string \<times> string list) list"

definition started :: process where
  "started = \<lparr>pr_Log = [], pr_Open = [], pr_Closed = [], pr_Deferred = [], pr_Groups = []\<rparr>"

type_synonym 'a main = "(process, 'a) go"

definition log_at :: "log_level \<Rightarrow> string \<Rightarrow> (process, unit) state" where
  "log_at l m = State_Monad.update (\<lambda>s. s\<lparr>pr_Log := pr_Log s @ [(l, m)]\<rparr>)"

definition acquire :: "resource \<Rightarrow> (process, unit) state" where
  "acquire r = State_Monad.update (\<lambda>s. s\<lparr>pr_Open := pr_Open s @ [r]\<rparr>)"

definition release :: "resource \<Rightarrow> (process, unit) state" where
  "release r = State_Monad.update (\<lambda>s. s\<lparr>pr_Open := remove1 r (pr_Open s), pr_Closed := pr_Closed s @ [r]\<rparr>)"

text \<open>\<open>defer r.Close()\<close>: the last one deferred runs first.\<close>

definition defer_close :: "resource \<Rightarrow> (process, unit) state" where
  "defer_close r = State_Monad.update (\<lambda>s. s\<lparr>pr_Deferred := r # pr_Deferred s\<rparr>)"

definition run_deferred :: "(process, unit) state" where
  "run_deferred = do { s \<leftarrow> State_Monad.get; for_each (pr_Deferred s) release }"

text \<open>\<open>logger.Error(...); os.Exit(1)\<close>.\<close>

definition fatal :: "string \<Rightarrow> gerr \<Rightarrow> 'a main" where
  "fatal m e = do { log_at LevelError m; err e }"

section \<open>Connections\<close>

record PoolConfig =
  pc_ConnString :: string
  pc_MaxConns :: int
  pc_MinConns :: int
  pc_MaxConnLifetime :: time
  pc_MaxConnIdleTime :: time
  pc_HealthCheckPeriod :: time

record redis_Options =
  ro_Addr :: string
  ro_Password :: string
  ro_DB :: int

datatype acks = NoResponse | WaitForLocal | WaitForAll

record producer_config =
  pd_RequiredAcks :: acks
  pd_RetryMax :: int
  pd_ReturnSuccesses :: bool

datatype offset_initial = OffsetNewest | OffsetOldest

text \<open>Whether a call comes back with an error, and whether the bucket exists.\<close>

record world =
  pgxpool_ParseConfig :: "string \<Rightarrow> gerr option"
  pgxpool_NewWithConfig :: "PoolConfig \<Rightarrow> gerr option"
  pool_Ping :: "PoolConfig \<Rightarrow> gerr option"
  redis_Ping :: "redis_Options \<Rightarrow> time \<Rightarrow> gerr option"
  sarama_NewSyncProducer :: "string list \<Rightarrow> producer_config \<Rightarrow> gerr option"
  sarama_NewConsumerGroup :: "string list \<Rightarrow> string \<Rightarrow> offset_initial \<Rightarrow> gerr option"
  minio_New :: "string \<Rightarrow> string \<Rightarrow> string \<Rightarrow> bool \<Rightarrow> gerr option"
  minio_BucketExists :: "string \<Rightarrow> gerr + bool"
  ListenAndServe :: "string \<Rightarrow> gerr option"
  srv_Shutdown :: "time \<Rightarrow> gerr option"

definition pool_config :: "DatabaseConfig \<Rightarrow> PoolConfig" where
  "pool_config cfg = \<lparr>pc_ConnString = DSN cfg, pc_MaxConns = 25, pc_MinConns = 5, pc_MaxConnLifetime = 1 * Hour,
     pc_MaxConnIdleTime = 30 * Minute, pc_HealthCheckPeriod = 1 * Minute\<rparr>"

definition NewPostgresPool :: "world \<Rightarrow> DatabaseConfig \<Rightarrow> unit main" where
  "NewPostgresPool W cfg = (case pgxpool_ParseConfig W (DSN cfg) of
       Some e \<Rightarrow> err (Err_Wrap ''failed to parse database config'' e)
     | None \<Rightarrow> (case pgxpool_NewWithConfig W (pool_config cfg) of
         Some e \<Rightarrow> err (Err_Wrap ''failed to create connection pool'' e)
       | None \<Rightarrow> do {
           acquire Pool;
           case pool_Ping W (pool_config cfg) of
             Some e \<Rightarrow> do { release Pool; err (Err_Wrap ''failed to ping database'' e) }
           | None \<Rightarrow> ok () }))"

definition redis_options :: "RedisConfig \<Rightarrow> redis_Options" where
  "redis_options cfg = \<lparr>ro_Addr = rc_Host cfg @ '':'' @ rc_Port cfg, ro_Password = rc_Password cfg, ro_DB = 0\<rparr>"

text \<open>The client is not closed when the ping fails.\<close>

definition NewRedisClient :: "world \<Rightarrow> RedisConfig \<Rightarrow> unit main" where
  "NewRedisClient W cfg = do {
     acquire RedisClient;
     case redis_Ping W (redis_options cfg) (5 * Second) of
       Some e \<Rightarrow> err (Err_Wrap ''failed to connect to redis'' e)
     | None \<Rightarrow> ok () }"

text \<open>\<open>strings.Split\<close> at a comma.\<close>

fun split_commas :: "string \<Rightarrow> string list" where
  "split_commas [] = [[]]"
| "split_commas (c # cs) = (if c = CHR '','' then [] # split_commas cs
     else (case split_commas cs of [] \<Rightarrow> [[c]] | w # ws \<Rightarrow> (c # w) # ws))"

definition producer_settings :: producer_config where
  "producer_settings = \<lparr>pd_RequiredAcks = WaitForAll, pd_RetryMax = 3, pd_ReturnSuccesses = True\<rparr>"

definition NewProducer :: "world \<Rightarrow> string \<Rightarrow> unit main" where
  "NewProducer W brokers = (case sarama_NewSyncProducer W (split_commas brokers) producer_settings of
       Some e \<Rightarrow> err (Err_Wrap ''failed to create kafka producer'' e)
     | None \<Rightarrow> do { acquire KafkaProducer; ok () })"

definition NewConsumerGroup :: "world \<Rightarrow> string \<Rightarrow> string \<Rightarrow> unit main" where
  "NewConsumerGroup W brokers groupID = (case sarama_NewConsumerGroup W (split_commas brokers) groupID OffsetNewest of
       Some e \<Rightarrow> err (Err_Wrap ''failed to create kafka consumer group'' e)
     | None \<Rightarrow> do { acquire (KafkaGroup groupID); ok () })"

text \<open>\<open>go group.Consume(ctx, topics, handler)\<close>.\<close>

definition go_consume :: "string \<Rightarrow> string list \<Rightarrow> (process, unit) state" where
  "go_consume groupID topics = State_Monad.update (\<lambda>s. s\<lparr>pr_Groups := pr_Groups s @ [(groupID, topics)]\<rparr>)"

section \<open>Serving and stopping\<close>

text \<open>What the server is started with: its address, the middleware around all routes, a health route of its own, the secret the
  routes check tokens with, and whether there is a Redis client and a producer.\<close>

datatype middleware = Recovery | Cors cors_config | RequestLogger

record service_up =
  up_Addr :: string
  up_Use :: "middleware list"
  up_Health :: "(string \<times> string) list option"
  up_Secret :: string
  up_Redis :: bool
  up_Producer :: bool
  up_ReadTimeout :: time
  up_WriteTimeout :: time
  up_IdleTimeout :: time

definition service_on :: "string \<Rightarrow> (string \<times> string) list option \<Rightarrow> string \<Rightarrow> bool \<Rightarrow> bool \<Rightarrow> service_up" where
  "service_on port health secret has_cache has_kafka = \<lparr>up_Addr = '':'' @ port, up_Use = [Recovery, Cors CORS, RequestLogger],
     up_Health = health, up_Secret = secret, up_Redis = has_cache, up_Producer = has_kafka,
     up_ReadTimeout = 10 * Second, up_WriteTimeout = 15 * Second, up_IdleTimeout = 60 * Second\<rparr>"

text \<open>The goroutine of the server: an error of \<open>ListenAndServe\<close> other than \<open>ErrServerClosed\<close> ends the process.\<close>

definition serve :: "world \<Rightarrow> string \<Rightarrow> string \<Rightarrow> service_up \<Rightarrow> unit main" where
  "serve W starting failed up = do {
     log_at LevelInfo starting;
     case ListenAndServe W (up_Addr up) of
       Some e \<Rightarrow> fatal failed e
     | None \<Rightarrow> do { acquire Server; ok () } }"

text \<open>After the signal: \<open>srv.Shutdown\<close> with ten seconds. The listener is closed whether it reports an error or not. In some
  services the error is logged and the end announced, the others drop it.\<close>

definition shutdown_logged :: "world \<Rightarrow> string \<Rightarrow> unit main" where
  "shutdown_logged W stopped = do {
     log_at LevelInfo ''shutting down server...'';
     release Server;
     (case srv_Shutdown W (10 * Second) of Some e \<Rightarrow> log_at LevelError ''server forced shutdown'' | None \<Rightarrow> ret ());
     log_at LevelInfo stopped;
     run_deferred;
     ok () }"

definition shutdown_quietly :: "string \<Rightarrow> resource list \<Rightarrow> unit main" where
  "shutdown_quietly message workers = do {
     log_at LevelInfo message;
     for_each workers release;
     release Server;
     run_deferred;
     ok () }"

text \<open>\<open>Logger\<close>: the line written after a request. The text of \<open>c.Errors\<close> is there when the handler left errors behind.\<close>

record logged_request =
  lq_Method :: string
  lq_Path :: string
  lq_RawQuery :: string
  lq_ClientIP :: string
  lq_UserAgent :: string

datatype log_value = LogInt int | LogString string | LogDuration time

definition Logger :: "logged_request \<Rightarrow> time \<Rightarrow> time \<Rightarrow> nat \<Rightarrow> string option \<Rightarrow> log_level \<times> string \<times> (string \<times> log_value) list" where
  "Logger rq start finish status errors = (request_level status, ''request completed'',
     [(''status'', LogInt (int status)), (''method'', LogString (lq_Method rq)), (''path'', LogString (lq_Path rq)),
      (''query'', LogString (lq_RawQuery rq)), (''ip'', LogString (lq_ClientIP rq)), (''user_agent'', LogString (lq_UserAgent rq)),
      (''latency'', LogDuration (finish - start))]
     @ (case errors of None \<Rightarrow> [] | Some text \<Rightarrow> [(''errors'', LogString text)]))"

section \<open>The main functions\<close>

text \<open>\<open>x, err := m; if err != nil { logger.Error(message); os.Exit(1) }; defer x.Close()\<close>.\<close>

definition must_open :: "unit main \<Rightarrow> string \<Rightarrow> resource \<Rightarrow> 'a main \<Rightarrow> 'a main" where
  "must_open m message r k = do {
     opened \<leftarrow> m;
     case opened of Inl e \<Rightarrow> fatal message e | Inr u \<Rightarrow> do { defer_close r; k } }"

text \<open>\<open>x, err := m; if err != nil { logger.Error(message) } else { defer x.Close(); ... }\<close>; the answer says whether it is there.\<close>

definition may_open :: "unit main \<Rightarrow> log_level \<Rightarrow> string \<Rightarrow> resource \<Rightarrow> (process, unit) state \<Rightarrow> (process, bool) state" where
  "may_open m l message r k = do {
     opened \<leftarrow> m;
     case opened of Inl e \<Rightarrow> do { log_at l message; ret False } | Inr u \<Rightarrow> do { defer_close r; k; ret True } }"

definition auth_process :: "world \<Rightarrow> Config \<Rightarrow> service_up main" where
  "auth_process W cfg =
     must_open (NewPostgresPool W (cf_Database cfg)) ''failed to connect to database'' Pool (do {
       log_at LevelInfo ''connected to PostgreSQL'';
       let up = service_on (sv_Port (cf_Server cfg)) None (jc_Secret (cf_JWT cfg)) False False;
       check (serve W ''auth-service starting'' ''server error'' up) (\<lambda>_.
       check (shutdown_logged W ''auth-service stopped'') (\<lambda>_. ok up)) })"

text \<open>The event service ends when Redis is away.\<close>

definition event_process :: "world \<Rightarrow> Config \<Rightarrow> service_up main" where
  "event_process W cfg =
     must_open (NewPostgresPool W (cf_Database cfg)) ''failed to connect to database'' Pool (do {
       log_at LevelInfo ''connected to PostgreSQL'';
       must_open (NewRedisClient W (cf_Redis cfg)) ''failed to connect to redis'' RedisClient (do {
         log_at LevelInfo ''connected to Redis'';
         let up = service_on (sv_Port (cf_Server cfg)) None (jc_Secret (cf_JWT cfg)) True False;
         check (serve W ''event-service starting'' ''server error'' up) (\<lambda>_.
         check (shutdown_logged W ''event-service stopped'') (\<lambda>_. ok up)) }) })"

text \<open>The ticket service goes on without Kafka and without Redis.\<close>

definition ticket_process :: "world \<Rightarrow> Config \<Rightarrow> service_up main" where
  "ticket_process W cfg =
     must_open (NewPostgresPool W (cf_Database cfg)) ''failed to connect to db'' Pool (do {
       has_kafka \<leftarrow> may_open (NewProducer W (kc_Brokers (cf_Kafka cfg))) LevelError ''failed to init kafka producer'' KafkaProducer (ret ());
       has_cache \<leftarrow> may_open (NewRedisClient W (cf_Redis cfg)) LevelWarn ''failed to connect to redis, operating without redis cache'' RedisClient
         (log_at LevelInfo ''connected to Redis'');
       may_open (NewConsumerGroup W (kc_Brokers (cf_Kafka cfg)) ''ticket-service-group'') LevelError ''failed to create consumer group''
         (KafkaGroup ''ticket-service-group'') (go_consume ''ticket-service-group'' [''payment.success'', ''payment.failed'']);
       may_open (NewConsumerGroup W (kc_Brokers (cf_Kafka cfg)) ''ticket-event-group'') LevelError ''failed to create event consumer group''
         (KafkaGroup ''ticket-event-group'') (go_consume ''ticket-event-group'' [''ticket.scanned'']);
       acquire Worker;
       let up = service_on (sv_Port (cf_Server cfg)) None (jc_Secret (cf_JWT cfg)) has_cache has_kafka;
       check (serve W ''ticket-service starting'' ''server error'' up) (\<lambda>_.
       check (shutdown_quietly ''shutting down...'' [Worker]) (\<lambda>_. ok up)) })"

definition payment_process :: "world \<Rightarrow> Config \<Rightarrow> service_up main" where
  "payment_process W cfg =
     must_open (NewPostgresPool W (cf_Database cfg)) ''failed to connect to db'' Pool (do {
       has_kafka \<leftarrow> may_open (NewProducer W (kc_Brokers (cf_Kafka cfg))) LevelError ''failed to init kafka producer'' KafkaProducer (ret ());
       may_open (NewConsumerGroup W (kc_Brokers (cf_Kafka cfg)) ''payment-service-group'') LevelError ''failed to create consumer group''
         (KafkaGroup ''payment-service-group'')
         (go_consume ''payment-service-group'' [''order.created'', ''order.cancelled'', ''topup.created'']);
       let up = service_on (sv_Port (cf_Server cfg)) None (jc_Secret (cf_JWT cfg)) False has_kafka;
       check (serve W ''payment-service starting'' ''server error'' up) (\<lambda>_.
       check (shutdown_quietly ''shutting down...'' []) (\<lambda>_. ok up)) })"

text \<open>The gate service ends when Kafka is away.\<close>

definition gate_process :: "world \<Rightarrow> Config \<times> string \<Rightarrow> service_up main" where
  "gate_process W = (\<lambda>(cfg, port).
     must_open (NewPostgresPool W (cf_Database cfg)) ''Failed to connect to database'' Pool
       (must_open (NewProducer W (kc_Brokers (cf_Kafka cfg))) ''Failed to create Kafka producer'' KafkaProducer
         (must_open (NewConsumerGroup W (kc_Brokers (cf_Kafka cfg)) ''gate-service-group'') ''Failed to create Kafka consumer group''
           (KafkaGroup ''gate-service-group'') (do {
             go_consume ''gate-service-group'' [''ticket.created''];
             let up = service_on port (Some [(''status'', ''ok'')]) (jc_Secret (cf_JWT cfg)) False True;
             check (serve W ''Starting gate-service'' ''Failed to start server'' up) (\<lambda>_.
             check (shutdown_quietly ''shutting down gate-service...'' []) (\<lambda>_. ok up)) }))))"

text \<open>The storage service only reports a bucket that is missing.\<close>

definition storage_process :: "world \<Rightarrow> Config \<Rightarrow> environ \<Rightarrow> service_up main" where
  "storage_process W cfg e =
     (case minio_New W (getEnv e ''MINIO_ENDPOINT'' ''localhost:9000'') (getEnv e ''MINIO_ROOT_USER'' ''entra_minio'')
         (getEnv e ''MINIO_ROOT_PASSWORD'' ''entra_minio_secret'') False of
       Some x \<Rightarrow> fatal ''failed to connect to minio'' x
     | None \<Rightarrow> do {
         log_at LevelInfo ''connected to MinIO'';
         (case minio_BucketExists W ''entra-media'' of
            Inl x \<Rightarrow> log_at LevelError ''failed to check minio bucket''
          | Inr there \<Rightarrow> if there then ret () else log_at LevelWarn ''bucket does not exist yet'');
         let up = service_on (sv_Port (cf_Server cfg)) (Some [(''status'', ''ok''), (''service'', ''storage-service'')]) (jc_Secret (cf_JWT cfg)) False False;
         check (serve W ''storage-service starting'' ''server error'' up) (\<lambda>_.
         check (shutdown_logged W ''storage-service stopped'') (\<lambda>_. ok up)) })"

text \<open>The services by name, each started from an environment.\<close>

datatype service = AuthService | EventService | TicketService | PaymentService | GateService | StorageService

fun run_service :: "world \<Rightarrow> loader \<Rightarrow> float_parser \<Rightarrow> environ \<Rightarrow> service \<Rightarrow> service_up main" where
  "run_service W godotenv pf e0 AuthService = auth_process W (fst (auth_main godotenv pf e0))"
| "run_service W godotenv pf e0 EventService = event_process W (fst (event_main godotenv pf e0))"
| "run_service W godotenv pf e0 TicketService = ticket_process W (fst (fst (ticket_main godotenv pf e0)))"
| "run_service W godotenv pf e0 PaymentService = payment_process W (fst (payment_main godotenv pf e0))"
| "run_service W godotenv pf e0 GateService = gate_process W (fst (gate_main godotenv pf e0))"
| "run_service W godotenv pf e0 StorageService = (let ((cfg, H), e) = storage_main godotenv pf e0 in storage_process W cfg e)"

end
