(* ===== verification/Service_Boot_Spec.thy ===== *)
theory Service_Boot_Spec
  imports Service_Boot "HOL-Library.Multiset"
begin

text \<open>
  What the main functions guarantee: the outages that keep a service from coming up, what one that came up works with, and
  what is left open after it was told to stop; also the secret all services check tokens with.
\<close>

section \<open>What a service needs\<close>

datatype dependency = Postgres | Redis | Kafka | ObjectStore

fun needs :: "service \<Rightarrow> dependency set" where
  "needs EventService = {Postgres, Redis}"
| "needs GateService = {Postgres, Kafka}"
| "needs StorageService = {ObjectStore}"
| "needs sv = {Postgres}"

fun groups_of :: "service \<Rightarrow> (string \<times> string list) list" where
  "groups_of TicketService = ticket_groups"
| "groups_of PaymentService = payment_groups"
| "groups_of GateService = gate_groups"
| "groups_of sv = []"

text \<open>The configuration, the port and the environment a service is started with.\<close>

fun settings :: "loader \<Rightarrow> float_parser \<Rightarrow> environ \<Rightarrow> service \<Rightarrow> Config \<times> string \<times> environ" where
  "settings godotenv pf e0 GateService = (let ((cfg, port), e) = gate_main godotenv pf e0 in (cfg, port, e))"
| "settings godotenv pf e0 TicketService = (let ((cfg, url), e) = ticket_main godotenv pf e0 in (cfg, sv_Port (cf_Server cfg), e))"
| "settings godotenv pf e0 StorageService = (let ((cfg, H), e) = storage_main godotenv pf e0 in (cfg, sv_Port (cf_Server cfg), e))"
| "settings godotenv pf e0 AuthService = (let (cfg, e) = auth_main godotenv pf e0 in (cfg, sv_Port (cf_Server cfg), e))"
| "settings godotenv pf e0 EventService = (let (cfg, e) = event_main godotenv pf e0 in (cfg, sv_Port (cf_Server cfg), e))"
| "settings godotenv pf e0 PaymentService = (let (cfg, e) = payment_main godotenv pf e0 in (cfg, sv_Port (cf_Server cfg), e))"

definition pool_ready :: "world \<Rightarrow> DatabaseConfig \<Rightarrow> bool" where
  "pool_ready W d \<longleftrightarrow> pgxpool_ParseConfig W (DSN d) = None \<and> pgxpool_NewWithConfig W (pool_config d) = None \<and>
     pool_Ping W (pool_config d) = None"

definition redis_ready :: "world \<Rightarrow> RedisConfig \<Rightarrow> bool" where
  "redis_ready W c \<longleftrightarrow> redis_Ping W (redis_options c) (5 * Second) = None"

definition producer_ready :: "world \<Rightarrow> string \<Rightarrow> bool" where
  "producer_ready W brokers \<longleftrightarrow> sarama_NewSyncProducer W (split_commas brokers) producer_settings = None"

definition group_ready :: "world \<Rightarrow> string \<Rightarrow> string \<Rightarrow> bool" where
  "group_ready W brokers g \<longleftrightarrow> sarama_NewConsumerGroup W (split_commas brokers) g OffsetNewest = None"

definition listening :: "world \<Rightarrow> string \<Rightarrow> bool" where
  "listening W port \<longleftrightarrow> ListenAndServe W ('':'' @ port) = None"

fun available :: "world \<Rightarrow> Config \<Rightarrow> environ \<Rightarrow> service \<Rightarrow> dependency \<Rightarrow> bool" where
  "available W cfg e sv Postgres = pool_ready W (cf_Database cfg)"
| "available W cfg e sv Redis = redis_ready W (cf_Redis cfg)"
| "available W cfg e sv Kafka = (producer_ready W (kc_Brokers (cf_Kafka cfg)) \<and>
     (\<forall>(g, ts) \<in> set (groups_of sv). group_ready W (kc_Brokers (cf_Kafka cfg)) g))"
| "available W cfg e sv ObjectStore = (minio_New W (getEnv e ''MINIO_ENDPOINT'' ''localhost:9000'') (getEnv e ''MINIO_ROOT_USER'' ''entra_minio'')
     (getEnv e ''MINIO_ROOT_PASSWORD'' ''entra_minio_secret'') False = None)"

section \<open>The steps of a start\<close>

definition hold :: "resource \<Rightarrow> process \<Rightarrow> process" where
  "hold r s = s\<lparr>pr_Open := pr_Open s @ [r], pr_Deferred := r # pr_Deferred s\<rparr>"

definition logged :: "log_level \<Rightarrow> string \<Rightarrow> process \<Rightarrow> process" where
  "logged l m s = s\<lparr>pr_Log := pr_Log s @ [(l, m)]\<rparr>"

lemma held [simp]:
  "pr_Open (hold r s) = pr_Open s @ [r]" "pr_Deferred (hold r s) = r # pr_Deferred s" "pr_Closed (hold r s) = pr_Closed s"
  "pr_Groups (hold r s) = pr_Groups s" "pr_Open (logged l m s) = pr_Open s" "pr_Deferred (logged l m s) = pr_Deferred s"
  "pr_Closed (logged l m s) = pr_Closed s" "pr_Groups (logged l m s) = pr_Groups s"
  by (simp_all add: hold_def logged_def)

lemma wp_update [simp]: "wp (State_Monad.update f) Q s = Q () (f s)"
  by (simp add: State_Monad.update_def)

lemma wp_process [simp]:
  "wp (log_at l m) Q s = Q () (logged l m s)"
  "wp (acquire r) Q s = Q () (s\<lparr>pr_Open := pr_Open s @ [r]\<rparr>)"
  "wp (release r) Q s = Q () (s\<lparr>pr_Open := remove1 r (pr_Open s), pr_Closed := pr_Closed s @ [r]\<rparr>)"
  "wp (defer_close r) Q s = Q () (s\<lparr>pr_Deferred := r # pr_Deferred s\<rparr>)"
  "wp (go_consume g ts) Q s = Q () (s\<lparr>pr_Groups := pr_Groups s @ [(g, ts)]\<rparr>)"
  "wp (fatal m e) Q' s = Q' (Inl e) (logged LevelError m s)"
  by (simp_all add: log_at_def acquire_def release_def defer_close_def go_consume_def fatal_def logged_def)

lemma wp_releases: "wp (for_each rs release) Q s = Q () (s\<lparr>pr_Open := fold remove1 rs (pr_Open s), pr_Closed := pr_Closed s @ rs\<rparr>)"
  by (induction rs arbitrary: s) simp_all

lemma wp_run_deferred [simp]:
  "wp run_deferred Q s = Q () (s\<lparr>pr_Open := fold remove1 (pr_Deferred s) (pr_Open s), pr_Closed := pr_Closed s @ pr_Deferred s\<rparr>)"
  by (simp add: run_deferred_def wp_releases)

text \<open>A connection that fails ends the process with everything still open; \<open>Q\<close> is then as good as \<open>F\<close>.\<close>

lemma kept_open: "set xs \<subseteq> set (remove1 r (xs @ [r]))"
proof
  fix x assume "x \<in> set xs"
  then show "x \<in> set (remove1 r (xs @ [r]))"
    by (cases "x = r"; cases "r \<in> set xs") (auto simp: remove1_append in_set_remove1)
qed

lemma wp_must_pool:
  assumes "\<And>e t. pr_Deferred t = pr_Deferred s \<Longrightarrow> set (pr_Open s) \<subseteq> set (pr_Open t) \<Longrightarrow> Q (Inl e) t = F"
  shows "wp (must_open (NewPostgresPool W d) m Pool k) Q s = (if pool_ready W d then wp k Q (hold Pool s) else F)"
  by (auto simp: must_open_def NewPostgresPool_def pool_ready_def hold_def kept_open subset_insertI assms split: option.split)

lemma wp_must_redis:
  assumes "\<And>e t. pr_Deferred t = pr_Deferred s \<Longrightarrow> set (pr_Open s) \<subseteq> set (pr_Open t) \<Longrightarrow> Q (Inl e) t = F"
  shows "wp (must_open (NewRedisClient W c) m RedisClient k) Q s = (if redis_ready W c then wp k Q (hold RedisClient s) else F)"
  by (auto simp: must_open_def NewRedisClient_def redis_ready_def hold_def kept_open subset_insertI assms split: option.split)

lemma wp_must_produce:
  assumes "\<And>e t. pr_Deferred t = pr_Deferred s \<Longrightarrow> set (pr_Open s) \<subseteq> set (pr_Open t) \<Longrightarrow> Q (Inl e) t = F"
  shows "wp (must_open (NewProducer W b) m KafkaProducer k) Q s = (if producer_ready W b then wp k Q (hold KafkaProducer s) else F)"
  by (auto simp: must_open_def NewProducer_def producer_ready_def hold_def kept_open subset_insertI assms split: option.split)

lemma wp_must_group:
  assumes "\<And>e t. pr_Deferred t = pr_Deferred s \<Longrightarrow> set (pr_Open s) \<subseteq> set (pr_Open t) \<Longrightarrow> Q (Inl e) t = F"
  shows "wp (must_open (NewConsumerGroup W b g) m (KafkaGroup g) k) Q s = (if group_ready W b g then wp k Q (hold (KafkaGroup g) s) else F)"
  by (auto simp: must_open_def NewConsumerGroup_def group_ready_def hold_def kept_open subset_insertI assms split: option.split)

lemma wp_serve:
  "wp (serve W m m' (service_on port h k r p)) Q s =
     (if listening W port then Q (Inr ()) ((logged LevelInfo m s)\<lparr>pr_Open := pr_Open s @ [Server]\<rparr>)
      else Q (Inl (the (ListenAndServe W ('':'' @ port)))) (logged LevelError m' (logged LevelInfo m s)))"
  by (simp add: serve_def listening_def service_on_def logged_def split: option.split)

lemma wp_may_open:
  "wp (may_open (NewProducer W b) l m KafkaProducer k) Q s =
     (if producer_ready W b then wp k (\<lambda>_. Q True) (hold KafkaProducer s) else Q False (logged l m s))"
  "wp (may_open (NewRedisClient W c) l m RedisClient k) Q s =
     (if redis_ready W c then wp k (\<lambda>_. Q True) (hold RedisClient s) else Q False (logged l m (s\<lparr>pr_Open := pr_Open s @ [RedisClient]\<rparr>)))"
  "wp (may_open (NewConsumerGroup W b g) l m (KafkaGroup g) k) Q s =
     (if group_ready W b g then wp k (\<lambda>_. Q True) (hold (KafkaGroup g) s) else Q False (logged l m s))"
  by (auto simp: may_open_def NewProducer_def NewRedisClient_def NewConsumerGroup_def producer_ready_def redis_ready_def group_ready_def
      hold_def logged_def split: option.split)

lemmas wp_opens = wp_must_pool wp_must_redis wp_must_produce wp_must_group wp_may_open

lemmas process_defs = auth_process_def event_process_def ticket_process_def payment_process_def gate_process_def storage_process_def

lemmas stop_defs = shutdown_logged_def shutdown_quietly_def

text \<open>
  C36. Which outage ends which service: the auth, the ticket and the payment service come up exactly when PostgreSQL answers, the event
  service when Redis does too, the gate service when PostgreSQL and Kafka do, the storage service when its client can be
  built, and all of them only if their port can be listened on.
\<close>

theorem service_outages:
  "case settings godotenv pf e0 sv of (cfg, port, e) \<Rightarrow>
     wp (run_service W godotenv pf e0 sv) (\<lambda>r t. is_ok r \<longleftrightarrow> needs sv \<subseteq> {d. available W cfg e sv d} \<and> listening W port) started"
proof -
  have "wp (run_service W godotenv pf e0 sv) (\<lambda>r t. is_ok r \<longleftrightarrow> needs sv \<subseteq> {d. available W cfg e sv d} \<and> listening W port) started"
    if "settings godotenv pf e0 sv = (cfg, port, e)" for cfg port e
    using that
    by (cases sv) (simp_all add: process_defs wp_opens wp_serve stop_defs Let_def gate_groups_def split: option.splits prod.splits sum.split)
  then show ?thesis by (simp split: prod.split)
qed

text \<open>How a run ends: by an error with nothing closed that was to be, or stopped in good order.\<close>

definition ended_well :: "world \<Rightarrow> Config \<Rightarrow> service \<Rightarrow> gerr + service_up \<Rightarrow> process \<Rightarrow> bool" where
  "ended_well W cfg sv r t \<longleftrightarrow> (case r of
       Inl x \<Rightarrow> set (pr_Deferred t) \<subseteq> set (pr_Open t)
     | Inr up \<Rightarrow> pr_Open t = (if sv = TicketService \<and> \<not> redis_ready W (cf_Redis cfg) then [RedisClient] else [])
         \<and> takeWhile (\<lambda>x. x \<noteq> Server) (pr_Closed t) = (if sv = TicketService then [Worker] else [])
         \<and> (sv = StorageService \<or> last (pr_Closed t) = Pool)
         \<and> pr_Groups t = filter (\<lambda>(g, ts). group_ready W (kc_Brokers (cf_Kafka cfg)) g) (groups_of sv))"

lemma ended_by_error:
  fixes W cfg sv defines "Q \<equiv> ended_well W cfg sv"
  assumes s: "set (pr_Deferred s) \<subseteq> set (pr_Open s)"
  shows "wp (must_open (NewPostgresPool W d) m Pool k) Q s = (pool_ready W d \<longrightarrow> wp k Q (hold Pool s))"
    and "wp (must_open (NewRedisClient W c) m RedisClient k) Q s = (redis_ready W c \<longrightarrow> wp k Q (hold RedisClient s))"
    and "wp (must_open (NewProducer W b) m KafkaProducer k) Q s = (producer_ready W b \<longrightarrow> wp k Q (hold KafkaProducer s))"
    and "wp (must_open (NewConsumerGroup W b g) m (KafkaGroup g) k) Q s = (group_ready W b g \<longrightarrow> wp k Q (hold (KafkaGroup g) s))"
    and "wp (fatal m x) Q s"
proof -
  have Q: "Q (Inl e) t = True" if "pr_Deferred t = pr_Deferred s" "set (pr_Open s) \<subseteq> set (pr_Open t)" for e t
    unfolding Q_def ended_well_def using s that by simp
  show "wp (must_open (NewPostgresPool W d) m Pool k) Q s = (pool_ready W d \<longrightarrow> wp k Q (hold Pool s))"
    using wp_must_pool [where Q = Q and F = True and s = s] Q by simp
  show "wp (must_open (NewRedisClient W c) m RedisClient k) Q s = (redis_ready W c \<longrightarrow> wp k Q (hold RedisClient s))"
    using wp_must_redis [where Q = Q and F = True and s = s] Q by simp
  show "wp (must_open (NewProducer W b) m KafkaProducer k) Q s = (producer_ready W b \<longrightarrow> wp k Q (hold KafkaProducer s))"
    using wp_must_produce [where Q = Q and F = True and s = s] Q by simp
  show "wp (must_open (NewConsumerGroup W b g) m (KafkaGroup g) k) Q s = (group_ready W b g \<longrightarrow> wp k Q (hold (KafkaGroup g) s))"
    using wp_must_group [where Q = Q and F = True and s = s] Q by simp
  show "wp (fatal m x) Q s" using Q by simp
qed

text \<open>
  The ticket service on its way up: \<open>leak\<close> is open without a deferred call to close it, everything else that is open has one,
  and the groups \<open>gs\<close> are consumed.
\<close>

definition running :: "resource list \<Rightarrow> (string \<times> string list) list \<Rightarrow> process \<Rightarrow> bool" where
  "running leak gs s \<longleftrightarrow> pr_Closed s = [] \<and> pr_Groups s = gs \<and> pr_Deferred s \<noteq> [] \<and> last (pr_Deferred s) = Pool
     \<and> Server \<notin> set (pr_Deferred s) \<and> Worker \<notin> set (pr_Deferred s) \<and> mset (pr_Open s) = mset leak + mset (pr_Deferred s)"

lemma running_steps:
  "running leak gs s \<Longrightarrow> r \<noteq> Server \<Longrightarrow> r \<noteq> Worker \<Longrightarrow> running leak gs (hold r s)"
  "running leak gs s \<Longrightarrow> running leak gs (logged l m s)"
  "running leak gs s \<Longrightarrow> running (r # leak) gs (s\<lparr>pr_Open := pr_Open s @ [r]\<rparr>)"
  "running leak gs s \<Longrightarrow> running leak (gs @ [x]) (s\<lparr>pr_Groups := pr_Groups s @ [x]\<rparr>)"
  by (auto simp: running_def)

lemma running_deferred: "running leak gs s \<Longrightarrow> set (pr_Deferred s) \<subseteq> set (pr_Open s)"
  by (metis mset_subset_eq_add_right running_def set_mset_mono set_mset_mset)

lemma running_may:
  assumes "running leak gs s"
  shows "(\<And>x t. running leak gs t \<Longrightarrow> wp (f x) Q t) \<Longrightarrow> wp (may_open (NewProducer W b) l m KafkaProducer (ret ()) \<bind> f) Q s"
    and "(\<And>x t. running (if redis_ready W c then leak else RedisClient # leak) gs t \<Longrightarrow> wp (f x) Q t) \<Longrightarrow>
      wp (may_open (NewRedisClient W c) l m RedisClient (log_at l' m') \<bind> f) Q s"
    and "(\<And>x t. running leak (gs @ filter (\<lambda>(g, ts). group_ready W b g) [(g, ts)]) t \<Longrightarrow> wp (f x) Q t) \<Longrightarrow>
      wp (may_open (NewConsumerGroup W b g) l m (KafkaGroup g) (go_consume g ts) \<bind> f) Q s"
proof -
  note up = running_steps(1,2) [OF assms] running_steps(2) [OF running_steps(1) [OF assms]] running_steps(2) [OF running_steps(3) [OF assms]]
    running_steps(4) [OF running_steps(1) [OF assms]]
  show "wp (may_open (NewProducer W b) l m KafkaProducer (ret ()) \<bind> f) Q s" if "\<And>x t. running leak gs t \<Longrightarrow> wp (f x) Q t"
    using up by (simp add: wp_may_open that)
  show "wp (may_open (NewRedisClient W c) l m RedisClient (log_at l' m') \<bind> f) Q s"
    if "\<And>x t. running (if redis_ready W c then leak else RedisClient # leak) gs t \<Longrightarrow> wp (f x) Q t"
    using up by (cases "redis_ready W c") (simp_all add: wp_may_open that)
  show "wp (may_open (NewConsumerGroup W b g) l m (KafkaGroup g) (go_consume g ts) \<bind> f) Q s"
    if "\<And>x t. running leak (gs @ filter (\<lambda>(g, ts). group_ready W b g) [(g, ts)]) t \<Longrightarrow> wp (f x) Q t"
    using up by (cases "group_ready W b g") (simp_all add: wp_may_open that)
qed

lemma fold_remove1_mset: "mset (fold remove1 ds xs) = mset xs - mset ds"
  by (induction ds arbitrary: xs) simp_all

lemma ticket_stop:
  assumes "running (if redis_ready W (cf_Redis cfg) then [] else [RedisClient]) gs s"
    and "gs = filter (\<lambda>(g, ts). group_ready W (kc_Brokers (cf_Kafka cfg)) g) ticket_groups"
  shows "wp (check (serve W m m' (service_on port h k r p)) (\<lambda>_. check (shutdown_quietly m'' [Worker]) (\<lambda>_. ok up)))
    (ended_well W cfg TicketService) (s\<lparr>pr_Open := pr_Open s @ [Worker]\<rparr>)"
proof -
  let ?leak = "if redis_ready W (cf_Redis cfg) then [] else [RedisClient]"
  let ?left = "fold remove1 (pr_Deferred s) (remove1 Server (remove1 Worker (pr_Open s @ [Worker, Server])))"
  have r: "mset (pr_Open s) = mset ?leak + mset (pr_Deferred s)" using assms(1) by (simp add: running_def)
  have "mset ?left = mset ?leak" by (simp add: fold_remove1_mset r)
  then have left: "?left = ?leak" by (auto split: if_splits)
  have order: "takeWhile (\<lambda>x. x \<noteq> Server) (Worker # Server # pr_Deferred s) = [Worker]" "last (Worker # Server # pr_Deferred s) = Pool"
    using assms(1) by (auto simp: running_def)
  show ?thesis
    using left order running_deferred [OF assms(1)] assms
    by (auto simp: wp_serve stop_defs ended_well_def running_def)
qed

lemma ticket_ends_well: "wp (ticket_process W cfg) (ended_well W cfg TicketService) started"
proof -
  have start: "set (pr_Deferred started) \<subseteq> set (pr_Open started)" "running [] [] (hold Pool started)"
    by (simp_all add: running_def started_def)
  show ?thesis
    unfolding ticket_process_def ended_by_error(1) [OF start(1)] Let_def
    by (rule impI, rule running_may(1) [OF start(2)], rule running_may(2), assumption, rule running_may(3), assumption,
        rule running_may(3), assumption, subst wp_bind, subst wp_process(2), rule ticket_stop, simp split: if_splits)
      (simp add: ticket_groups_def)
qed

text \<open>
  C37. A service that is told to stop closes its server first (the worker of the ticket service before that), its connections after it
  and the database last, and nothing stays open, except for the Redis client of a ticket service that came up without Redis; until
  then it consumed exactly the topics of the groups that could be joined. A service that ends with an error closes nothing it
  meant to close.
\<close>

theorem service_stops_clean:
  "case settings godotenv pf e0 sv of (cfg, port, e) \<Rightarrow> wp (run_service W godotenv pf e0 sv) (ended_well W cfg sv) started"
proof -
  have start: "pr_Open started = []" "pr_Deferred started = []" "pr_Closed started = []" "pr_Groups started = []"
    by (simp_all add: started_def)
  have "wp (run_service W godotenv pf e0 sv) (ended_well W cfg sv) started"
    if "settings godotenv pf e0 sv = (cfg, port, e)" for cfg port e
  proof (cases "sv = TicketService")
    case True
    then show ?thesis using that ticket_ends_well [of W cfg] by (auto split: prod.splits)
  next
    case False
    then show ?thesis
      using that
      by (cases sv; (simp add: process_defs ended_by_error wp_may_open wp_serve stop_defs Let_def start split: option.splits prod.splits sum.split,
        simp add: ended_well_def start payment_groups_def gate_groups_def)?) simp
  qed
  then show ?thesis by (auto split: prod.split)
qed

section \<open>One secret\<close>

text \<open>\<open>godotenv.Load\<close> does not override what the environment has.\<close>

definition dotenv_laws :: "loader \<Rightarrow> bool" where
  "dotenv_laws godotenv \<longleftrightarrow> (\<forall>fs e k v. e k = Some v \<longrightarrow> godotenv fs e k = Some v)"

lemma Load_secret:
  assumes "dotenv_laws godotenv" and "e0 ''JWT_SECRET'' = Some key"
  shows "jc_Secret (cf_JWT (fst (Load godotenv pf e0))) = key"
  using assms by (auto simp: Load_def Let_def getEnv_def dotenv_laws_def)

text \<open>
  A secret set in the environment is the one of every service, whatever the files say: tokens are signed and checked with it. One
  that is set in \<open>auth-service/.env\<close> only is that of the auth service alone, as the others do not read this file.
\<close>

theorem one_secret:
  assumes "dotenv_laws godotenv" and "e0 ''JWT_SECRET'' = Some key"
  shows "wp (run_service W godotenv pf e0 sv) (\<lambda>r t. case r of Inl x \<Rightarrow> True | Inr up \<Rightarrow> up_Secret up = key) started \<and>
    al_Secret (NewAuthService (fst (auth_main godotenv pf e0)) L) = key"
proof
  have files: "godotenv fs e0 ''JWT_SECRET'' = Some key" for fs using assms by (simp add: dotenv_laws_def)
  note secrets = Load_secret [of godotenv e0, OF assms] Load_secret [of godotenv "godotenv _ e0", OF assms(1) files]
  have set: "jc_Secret (cf_JWT (fst (settings godotenv pf e0 sv))) = key" for sv
    using secrets by (cases sv) (simp_all add: auth_main_def event_main_def ticket_main_def payment_main_def gate_main_def storage_main_def
        with_port_def with_database_def Let_def case_prod_unfold)
  then show "al_Secret (NewAuthService (fst (auth_main godotenv pf e0)) L) = key"
    using set [of AuthService] by (simp add: NewAuthService_def split: prod.splits)
  obtain cfg port e where c: "settings godotenv pf e0 sv = (cfg, port, e)" by (metis prod_cases3)
  then have key: "jc_Secret (cf_JWT cfg) = key" using set [of sv] by simp
  show "wp (run_service W godotenv pf e0 sv) (\<lambda>r t. case r of Inl x \<Rightarrow> True | Inr up \<Rightarrow> up_Secret up = key) started"
    using c key by (cases sv) (simp_all add: process_defs wp_opens wp_serve stop_defs Let_def service_on_def split: option.splits prod.splits sum.split)
qed

theorem one_secret_witness:
  "al_Secret (NewAuthService (fst (auth_main (\<lambda>fs e. e) (\<lambda>_. Inl ErrParse) [''JWT_SECRET'' \<mapsto> ''k''])) L) = ''k''"
  using one_secret [of "\<lambda>fs e. e" "[''JWT_SECRET'' \<mapsto> ''k'']" "''k''"] by (simp add: dotenv_laws_def)

end
