(* ===== verification/Gate_Routes.thy ===== *)
theory Gate_Routes
  imports Ticket_Handlers_Spec
begin

text \<open>
  The gate service as a state machine: its routes (\<open>gate-service/internal/handler/routes.go\<close>), guarded by
  \<open>JWTAuth\<close> when a secret is configured, and the messages of \<open>ticket.created\<close>. A day at the gate is a sequence of
  these; it admits at most one visitor per ticket.
\<close>

section \<open>Requests and messages\<close>

datatype gate_event =
    POST_scan headers "ScanTicketRequest option"
  | GET_gate_stats headers string
  | Ticket_message message

definition gate_route ::
    "env \<Rightarrow> jwt_lib \<Rightarrow> string \<Rightarrow> headers \<Rightarrow> ('z infra_scheme, 'd response) state \<Rightarrow> ('z infra_scheme, 'd response) state" where
  "gate_route E J secret h handler = (if secret \<noteq> [] then protected_route E J secret h (\<lambda>ss. handler) else handler)"

text \<open>One of them; the answer is the code of the response, \<open>None\<close> for a message.\<close>

fun gate_serve :: "env \<Rightarrow> (gerr \<Rightarrow> string) \<Rightarrow> jwt_lib \<Rightarrow> string \<Rightarrow> gate_event \<Rightarrow> ('z gate_db_scheme, nat option) state" where
  "gate_serve E txt J secret (POST_scan h body) = do {
     r \<leftarrow> gate_route E J secret h (Handler_ScanTicket E txt body); ret (Some (resp_Code r)) }"
| "gate_serve E txt J secret (GET_gate_stats h event) = do {
     r \<leftarrow> gate_route E J secret h (Handler_GetGateStats E txt event); ret (Some (resp_Code r)) }"
| "gate_serve E txt J secret (Ticket_message m) = do { TicketConsumer_HandleMessage E m; ret None }"

text \<open>A day at the gate; the result counts the scans that were answered 200.\<close>

fun is_scan :: "gate_event \<Rightarrow> bool" where
  "is_scan (POST_scan h body) = True"
| "is_scan _ = False"

fun gate_day :: "env \<Rightarrow> (gerr \<Rightarrow> string) \<Rightarrow> jwt_lib \<Rightarrow> string \<Rightarrow> gate_event list \<Rightarrow> ('z gate_db_scheme, nat) state" where
  "gate_day E txt J secret [] = ret 0"
| "gate_day E txt J secret (e # es) = do {
     c \<leftarrow> gate_serve E txt J secret e;
     n \<leftarrow> gate_day E txt J secret es;
     ret (if is_scan e \<and> c = Some 200 then Suc n else n) }"

section \<open>One visitor per ticket\<close>

definition used_tickets :: "'z gate_db_scheme \<Rightarrow> uuid set" where
  "used_tickets s = {u. used_in u s}"

lemma finite_used [simp]: "finite (used_tickets s)"
proof (rule finite_subset)
  show "used_tickets s \<subseteq> (\<lambda>l. uuidFromPgUUID (lt_ID l)) ` set (local_tickets s)"
    by (force simp: used_tickets_def used_in_def used_up_def uuidFromPgUUID_def)
qed simp

text \<open>What one step does: used tickets stay used, and an admission uses another one.\<close>

definition admits_one :: "'z gate_db_scheme \<Rightarrow> bool \<Rightarrow> 'z gate_db_scheme \<Rightarrow> bool" where
  "admits_one s admitted t \<longleftrightarrow> used_tickets s \<subseteq> used_tickets t \<and> (admitted \<longrightarrow> used_tickets s \<noteq> used_tickets t)"

lemma admits_same [simp]: "used_tickets t = used_tickets s \<Longrightarrow> admits_one s b t \<longleftrightarrow> \<not> b"
  by (auto simp: admits_one_def)

lemma used_tick [simp]: "used_tickets (s\<lparr>tick := n\<rparr>) = used_tickets s"
  by (simp add: used_tickets_def used_in_def)

lemma scan_answer_200:
  "resp_Code (case r of Inl e \<Rightarrow> if a e then Error 409 m1 else if b e then Error 403 m2 else if c e then Error 404 m3 else Error 400 (m4 e)
     | Inr u \<Rightarrow> Success 200 m5 None) = 200 \<longleftrightarrow> r = Inr ()"
  by (cases r) (simp_all add: response_defs)

lemma scan_handler_admits: "wp (Handler_ScanTicket E txt body) (\<lambda>r t. admits_one s (resp_Code r = 200) t) s"
proof -
  have scan: "wp (ScanTicket E txt code event) (\<lambda>r t. admits_one s (r = Inr ()) t) s" for code event
    by (rule wp_mono [OF scan_admits]) (auto simp: admits_one_def used_tickets_def)
  show ?thesis
  proof (cases "body = None \<or> (\<exists>req. body = Some req \<and> scan_TicketCode req = [])")
    case True
    then show ?thesis by (auto simp: Handler_ScanTicket_def Error_def)
  next
    case False
    then obtain req where "body = Some req" "scan_TicketCode req \<noteq> []" by auto
    then show ?thesis by (simp add: Handler_ScanTicket_def scan_answer_200 scan)
  qed
qed

lemma stats_handler_keeps: "wp (Handler_GetGateStats E txt event) (\<lambda>r t. used_tickets t = used_tickets s) s"
proof -
  have f: "tick_free (used_tickets :: 'a gate_db_scheme \<Rightarrow> uuid set)" by (simp add: tick_free_def)
  have "unchanged (used_tickets :: 'a gate_db_scheme \<Rightarrow> uuid set) (Handler_GetGateStats E txt event)"
    unfolding Handler_GetGateStats_def GetGateStats_def
    by (intro frame_rules frame_http_internal frame_ticket_reads f)
  from unchangedD [OF this] show ?thesis by (rule wpI)
qed

lemma message_keeps: "wp (TicketConsumer_HandleMessage E m) (\<lambda>r t. admits_one s False t) s"
proof -
  have "keeps (used_in u) (TicketConsumer_HandleMessage E m)" for u
    unfolding TicketConsumer_HandleMessage_def by (intro keeps_rules keeps_used_Sync)
  from keepsD [OF this] show ?thesis by (intro wpI) (auto simp: admits_one_def used_tickets_def)
qed

text \<open>A scan the guard lets through.\<close>

definition authorised :: "jwt_lib \<Rightarrow> string \<Rightarrow> gate_event \<Rightarrow> bool" where
  "authorised J secret e \<longleftrightarrow> (\<exists>h body. e = POST_scan h body \<and> (secret = [] \<or> (\<exists>c. accepted J secret h c)))"

lemma gate_serve_admits:
  "wp (gate_serve E txt J secret e) (\<lambda>c t. admits_one s (is_scan e \<and> c = Some 200) t \<and>
     (is_scan e \<and> c = Some 200 \<longrightarrow> authorised J secret e)) s"
proof (cases e)
  case (POST_scan h body)
  let ?R = "\<lambda>r t. admits_one s (resp_Code (r :: unit response) = 200) t \<and> (resp_Code r = 200 \<longrightarrow> authorised J secret e)"
  have run: "wp (Handler_ScanTicket E txt body) ?R (s\<lparr>tick := n\<rparr>)" if "authorised J secret e" for n
    by (rule wp_mono [OF scan_handler_admits]) (use that in \<open>auto simp: admits_one_def\<close>)
  have "wp (gate_route E J secret h (Handler_ScanTicket E txt body)) ?R s"
  proof (cases "secret = []")
    case True
    then show ?thesis using run [of "tick s"] POST_scan by (simp add: gate_route_def authorised_def)
  next
    case False
    then show ?thesis
      unfolding gate_route_def
      by simp (rule wp_protected_route, simp add: Error_def, rule run, auto simp: authorised_def POST_scan)
  qed
  then show ?thesis by (simp add: POST_scan)
next
  case (GET_gate_stats h event)
  have "wp (gate_route E J secret h (Handler_GetGateStats E txt event)) (\<lambda>r t. used_tickets t = used_tickets s) s"
  proof (cases "secret = []")
    case False
    then show ?thesis
      unfolding gate_route_def
      by simp (rule wp_protected_route, simp, rule wp_mono [OF stats_handler_keeps], simp)
  qed (simp add: gate_route_def stats_handler_keeps)
  then show ?thesis by (simp add: GET_gate_stats) (erule wp_mono, simp)
next
  case (Ticket_message m)
  then show ?thesis using message_keeps [of E m s] by simp
qed

lemma admits_step:
  assumes "admits_one s b t" and "used_tickets t \<subseteq> used_tickets u" and "n \<le> card (used_tickets u - used_tickets t)"
  shows "used_tickets s \<subseteq> used_tickets u" and "(if b then Suc n else n) \<le> card (used_tickets u - used_tickets s)"
proof -
  from assms(1) have st: "used_tickets s \<subseteq> used_tickets t" by (simp add: admits_one_def)
  with assms(2) show "used_tickets s \<subseteq> used_tickets u" by blast
  have "used_tickets u - used_tickets s = (used_tickets u - used_tickets t) \<union> (used_tickets t - used_tickets s)"
    using st assms(2) by blast
  moreover have "(used_tickets u - used_tickets t) \<inter> (used_tickets t - used_tickets s) = {}" by blast
  ultimately have c: "card (used_tickets u - used_tickets s) = card (used_tickets u - used_tickets t) + card (used_tickets t - used_tickets s)"
    by (simp add: card_Un_disjoint)
  have "b \<Longrightarrow> used_tickets t - used_tickets s \<noteq> {}" using assms(1) by (auto simp: admits_one_def)
  then have "b \<Longrightarrow> 0 < card (used_tickets t - used_tickets s)" by (simp add: card_gt_0_iff)
  then show "(if b then Suc n else n) \<le> card (used_tickets u - used_tickets s)" using c assms(3) by auto
qed

text \<open>
  C20. A day at the gate: whatever scans, statistics requests and ticket messages arrive, in whatever order and under
  every schedule of faults, used tickets stay used, no more scans are answered 200 than tickets were newly used,
  and every one of them came with an accepted token (when a secret is configured).
\<close>

theorem gate_admits_once:
  fixes s :: "'z gate_db_scheme"
  shows "wp (gate_day E txt J secret es) (\<lambda>n t. used_tickets s \<subseteq> used_tickets t \<and>
    n \<le> card (used_tickets t - used_tickets s) \<and> n \<le> length (filter (authorised J secret) es)) s"
proof (induction es arbitrary: s)
  case (Cons e es)
  have rest: "wp (gate_day E txt J secret es) (\<lambda>n u. used_tickets s \<subseteq> used_tickets u \<and>
      (if is_scan e \<and> c = Some 200 then Suc n else n) \<le> card (used_tickets u - used_tickets s) \<and>
      (if is_scan e \<and> c = Some 200 then Suc n else n) \<le> length (filter (authorised J secret) (e # es))) t"
    if "admits_one s (is_scan e \<and> c = Some 200) t \<and> (is_scan e \<and> c = Some 200 \<longrightarrow> authorised J secret e)" for c :: "nat option" and t
  proof (rule wp_mono [OF Cons.IH])
    fix n and u :: "'z gate_db_scheme"
    assume u: "used_tickets t \<subseteq> used_tickets u \<and> n \<le> card (used_tickets u - used_tickets t) \<and>
      n \<le> length (filter (authorised J secret) es)"
    show "used_tickets s \<subseteq> used_tickets u \<and>
      (if is_scan e \<and> c = Some 200 then Suc n else n) \<le> card (used_tickets u - used_tickets s) \<and>
      (if is_scan e \<and> c = Some 200 then Suc n else n) \<le> length (filter (authorised J secret) (e # es))"
      using admits_step [OF conjunct1 [OF that], of u n] u that by auto
  qed
  show ?case
    unfolding gate_day.simps wp_bind
    by (rule wp_mono [OF gate_serve_admits]) (unfold wp_return, rule rest)
qed simp

end
