(* ===== verification/Ticket_Service.thy ===== *)
theory Ticket_Service
  imports Ticket_Attendees Gate_Routes
begin

text \<open>
  The ticket service as a state machine: the routes of \<open>handler/routes.go\<close> with their guards, the messages its
  two consumers take, and the ticks of the expiry worker. The soundness of the stock is kept by every step.
\<close>

section \<open>Requests\<close>

text \<open>What \<open>main\<close> hands to the layers: the fuel of the queue recursion, the two Midtrans clients, the fee, whether
  there is a pool, the JWT library and secret, the auth service that is asked, and the texts of library errors.\<close>

record ticket_config =
  tc_Fuel :: nat
  tc_Snap :: "nat \<Rightarrow> string \<Rightarrow> int \<Rightarrow> gerr + string"
  tc_Core :: "nat \<Rightarrow> string \<Rightarrow> gerr + string \<times> string"
  tc_Fee :: f64
  tc_Pool :: bool
  tc_JWT :: jwt_lib
  tc_Secret :: string
  tc_Auth :: auth_lib
  tc_Text :: "gerr \<Rightarrow> string"

datatype ticket_request =
    GET_health
  | POST_webhook "json option"
  | INTERNAL_code string string
  | INTERNAL_gate_stats string string
  | POST_order headers string "CreateOrderRequest option"
  | GET_orders headers
  | GET_queue headers string
  | POST_cancel headers string
  | POST_pay headers string
  | GET_tickets headers
  | GET_stats headers
  | GET_trend headers
  | GET_organizer_orders headers "string option" "string option"
  | GET_organizer_order headers string
  | GET_attendees headers string
  | GET_balance headers
  | POST_withdrawal headers "CreateWithdrawalRequest option"
  | GET_withdrawals headers "string option" "string option"
  | GET_withdrawal headers string
  | ADMIN_withdrawals headers string "string option" "string option"
  | ADMIN_decide headers string "UpdateWithdrawalStatusRequest option"
  | ADMIN_stats headers

text \<open>The code of an answer; \<open>None\<close> when the order queue did not settle within the fuel.\<close>

definition answered :: "('s, 'd response) state \<Rightarrow> ('s, nat option) state" where
  "answered m = do { r \<leftarrow> m; ret (Some (resp_Code r)) }"

definition ticket_protected ::
    "env \<Rightarrow> ticket_config \<Rightarrow> headers \<Rightarrow> (session \<Rightarrow> ('z infra_scheme, 'd response) state) \<Rightarrow> ('z infra_scheme, nat option) state" where
  "ticket_protected E K h handler = answered (protected_route E (tc_JWT K) (tc_Secret K) h handler)"

definition order_route ::
    "env \<Rightarrow> ticket_config \<Rightarrow> headers \<Rightarrow> string \<Rightarrow> CreateOrderRequest option \<Rightarrow> ('z ticket_db_scheme, nat option) state" where
  "order_route E K h idem body = do {
     now \<leftarrow> Now E;
     case JWTAuth (tc_JWT K) now (tc_Secret K) h of
       Inl r \<Rightarrow> ret (Some (resp_Code (r :: Order response)))
     | Inr ss \<Rightarrow> do {
         r \<leftarrow> Handler_CreateOrder (tc_Fuel K) E (tc_Text K) ss idem body;
         ret (map_option resp_Code r) } }"

fun ticket_serve :: "env \<Rightarrow> ticket_config \<Rightarrow> ticket_request \<Rightarrow> ('z auth_db_scheme, nat option) state" where
  "ticket_serve E K GET_health = ret (Some 200)"
| "ticket_serve E K (POST_webhook body) = answered (MidtransWebhook E (tc_Core K) body)"
| "ticket_serve E K (INTERNAL_code x code) = answered (internal_route E x (GetTicketByCodeInternal E (error_text (tc_Text K)) code))"
| "ticket_serve E K (INTERNAL_gate_stats x v) =
     answered (internal_route E x (GetEventGateStatsInternal E (error_text (tc_Text K)) v))"
| "ticket_serve E K (POST_order h idem body) = order_route E K h idem body"
| "ticket_serve E K (GET_orders h) = ticket_protected E K h (Handler_ListMyOrders E (tc_Text K))"
| "ticket_serve E K (GET_queue h v) = ticket_protected E K h (\<lambda>ss. Handler_GetOrderQueueStatus E (tc_Text K) ss v)"
| "ticket_serve E K (POST_cancel h v) = ticket_protected E K h (\<lambda>ss. Handler_CancelOrder E (tc_Text K) ss v)"
| "ticket_serve E K (POST_pay h v) = ticket_protected E K h (\<lambda>ss. Handler_CreatePaymentToken E (tc_Text K) (tc_Snap K) ss v)"
| "ticket_serve E K (GET_tickets h) = ticket_protected E K h (Handler_ListMyTickets E (tc_Text K))"
| "ticket_serve E K (GET_stats h) = ticket_protected E K h (Handler_GetOrganizerStats E (tc_Text K))"
| "ticket_serve E K (GET_trend h) = ticket_protected E K h (Handler_GetSalesTrend E (tc_Text K))"
| "ticket_serve E K (GET_organizer_orders h page per_page) =
     ticket_protected E K h (\<lambda>ss. Handler_ListOrganizerOrders E (tc_Text K) ss page per_page)"
| "ticket_serve E K (GET_organizer_order h v) = ticket_protected E K h (\<lambda>ss. Handler_GetOrganizerOrder E (tc_Text K) ss v)"
| "ticket_serve E K (GET_attendees h v) = ticket_protected E K h (\<lambda>ss. Handler_GetEventAttendees E (tc_Auth K) (tc_Text K) ss v)"
| "ticket_serve E K (GET_balance h) = ticket_protected E K h (Handler_GetOrganizerBalance E (tc_Text K) (tc_Fee K))"
| "ticket_serve E K (POST_withdrawal h body) =
     ticket_protected E K h (\<lambda>ss. Handler_RequestWithdrawal E (tc_Text K) (tc_Fee K) (tc_Pool K) ss body)"
| "ticket_serve E K (GET_withdrawals h page per_page) =
     ticket_protected E K h (\<lambda>ss. Handler_ListOrganizerWithdrawals E (tc_Text K) ss page per_page)"
| "ticket_serve E K (GET_withdrawal h v) = ticket_protected E K h (\<lambda>ss. Handler_GetOrganizerWithdrawal E (tc_Text K) ss v)"
| "ticket_serve E K (ADMIN_withdrawals h status page per_page) =
     answered (admin_route E (tc_JWT K) (tc_Secret K) h (\<lambda>ss. Handler_AdminListWithdrawals E (tc_Text K) ss status page per_page))"
| "ticket_serve E K (ADMIN_decide h v body) =
     answered (admin_route E (tc_JWT K) (tc_Secret K) h (\<lambda>ss. Handler_AdminUpdateWithdrawalStatus E (tc_Text K) ss v body))"
| "ticket_serve E K (ADMIN_stats h) =
     answered (admin_route E (tc_JWT K) (tc_Secret K) h (\<lambda>ss. Handler_GetAdminPlatformStats E (tc_Text K) (tc_Fee K) ss))"

section \<open>Steps\<close>

text \<open>\<open>ExpiryWorker.Start\<close>: a run per tick of the ticker, until the context is done after so many ticks.\<close>

definition ExpiryWorker_Start :: "env \<Rightarrow> nat \<Rightarrow> ('z ticket_db_scheme, unit) state" where
  "ExpiryWorker_Start E ticks = for_each [0..<ticks] (\<lambda>_. processExpiredOrders E)"

text \<open>A request, a message of the group \<open>ticket-service-group\<close> or \<open>ticket-event-group\<close>, some ticks of the worker.\<close>

datatype ticket_event =
    Ticket_request ticket_request
  | Payment_message message
  | Scan_message message
  | Worker_ticks nat

fun ticket_step :: "env \<Rightarrow> ticket_config \<Rightarrow> ticket_event \<Rightarrow> ('z auth_db_scheme, unit) state" where
  "ticket_step E K (Ticket_request rq) = do { ticket_serve E K rq; ret () }"
| "ticket_step E K (Payment_message m) = do { PaymentConsumer_HandleMessage E m; ret () }"
| "ticket_step E K (Scan_message m) = do { EventConsumer_HandleMessage E m; ret () }"
| "ticket_step E K (Worker_ticks n) = ExpiryWorker_Start E n"

text \<open>The user whose accepted token asks for an order, at whatever time.\<close>

definition ticket_senders :: "env \<Rightarrow> ticket_config \<Rightarrow> ticket_event \<Rightarrow> uuid set" where
  "ticket_senders E K e = {u. \<exists>h idem body c. e = Ticket_request (POST_order h idem body) \<and>
     accepted (tc_JWT K) (tc_Secret K) h c \<and> uuid_Parse E (cl_UserID c) = Some u}"

section \<open>What the steps do to an assertion\<close>

lemma keeps_statements:
  assumes "tick_free I"
  shows "keeps I (ListOrdersByEvents E ids n off)" "keeps I (ListOrdersByUser E user n off)" "keeps I (GetOrganizerStats E ids)"
    "keeps I (GetPlatformTotalGMV E)" "keeps I (GetDailySalesTrend E ids)" "keeps I (GetTicket E tid)"
    "keeps I (Queries_GetTicketByCode E code)" "keeps I (ListTicketsByEvent E event)" "keeps I (ListTicketsByOrder E oid)"
    "keeps I (ListTicketsByUser E user n off)" "keeps I (GetPlatformWithdrawalSummary E)" "keeps I (GetWithdrawal E wid)"
    "keeps I (GetWithdrawnSummaryByOrganizer E org)" "keeps I (ListAllWithdrawals E n off)"
    "keeps I (ListWithdrawalsByOrganizer E org n off)" "keeps I (ListWithdrawalsByStatus E status n off)"
  unfolding read_statements by (rule keeps_sql [OF assms]; simp add: Let_def)+

lemma keeps_neighbours:
  assumes "tick_free I"
  shows "keeps I (FetchOrganizerEventIDs E org_str)" "keeps I (fetch_profiles E L ids)"
proof -
  have "keeps I (ListEventIDsByOrganizer E org)" for org
    unfolding ListEventIDsByOrganizer_def by (rule keeps_sql [OF assms]) simp
  then show "keeps I (FetchOrganizerEventIDs E org_str)"
    unfolding FetchOrganizerEventIDs_def GetInternalEventIDs_def GetEventIDsByOrganizer_def
    by (intro keeps_rules keeps_http_internal assms)
  have "keeps I (Queries_GetUsersByIDs E us)" for us
    unfolding Queries_GetUsersByIDs_def by (rule keeps_sql [OF assms]) simp
  then show "keeps I (fetch_profiles E L ids)"
    unfolding fetch_profiles_def batch_route_def GetUsersBatch_def GetUsersByIDs_def Let_def
    by (intro keeps_rules keeps_external keeps_Now assms)
qed

lemma keeps_guards:
  assumes "tick_free I"
  shows "(\<And>ss. keeps I (handler ss)) \<Longrightarrow> keeps I (protected_route E J secret h handler)"
    "(\<And>ss. keeps I (handler ss)) \<Longrightarrow> keeps I (admin_route E J secret h handler)"
    "keeps I m \<Longrightarrow> keeps I (internal_route E x m)"
  unfolding admin_route_def role_route_def protected_route_def internal_route_def
  by (intro keeps_rules keeps_Now assms; simp)+

lemma keeps_for_user:
  "(\<And>u. keeps I (f u)) \<Longrightarrow> keeps I (with_user ss f)" "(\<And>u. keeps I (f u)) \<Longrightarrow> keeps I (with_organizer ss f)"
  "keeps I m \<Longrightarrow> keeps I (with_admin ss m)" "keeps I q \<Longrightarrow> keeps I (answer lib bad good q)"
  unfolding with_user_def with_organizer_def with_admin_def answer_def by (intro keeps_rules; simp)+

text \<open>An assertion that no step of the service can break.\<close>

locale ticket_commands = checkout_commands I G for I :: "'z auth_db_scheme \<Rightarrow> bool" and G +
  assumes ticket_writes: "keeps I (UpdateTicketStatus E tid status)"
    and withdrawals_free: "I s \<Longrightarrow> I (s\<lparr>withdrawals := ws\<rparr>)"
begin

lemma keeps_withdrawal_writes:
  "keeps I (CreateWithdrawal E org amt bank acc nm notes status)" "keeps I (UpdateWithdrawalStatus E wid status reason)"
  "keeps I (tx_Begin E)" "keeps I (tx_CreateWithdrawal E began org req)" "keeps I (tx_Commit E w)"
proof -
  show "keeps I (CreateWithdrawal E org amt bank acc nm notes status)"
    unfolding CreateWithdrawal_def by (rule keeps_sql [OF tick_free]) (simp add: withdrawals_free Let_def split: sum.split)
  show "keeps I (UpdateWithdrawalStatus E wid status reason)"
    unfolding UpdateWithdrawalStatus_def by (rule keeps_sql [OF tick_free]) (simp add: withdrawals_free Let_def)
  show "keeps I (tx_Begin E)"
    unfolding tx_Begin_def by (intro keeps_external tick_free keeps_rules)
  show "keeps I (tx_CreateWithdrawal E began org req)"
    unfolding tx_CreateWithdrawal_def by (rule keeps_sql [OF tick_free]) (simp split: sum.split)
  show "keeps I (tx_Commit E w)"
    unfolding tx_Commit_def by (intro keeps_external tick_free) (simp add: keeps_def withdrawals_free)
qed

lemmas service_rules = keeps_rules keeps_for_user keeps_reads [OF tick_free] keeps_statements [OF tick_free] keeps_neighbours [OF tick_free]
  keeps_withdrawal_writes

lemma keeps_organizer_services:
  "keeps I (GetDashboardStats E org_str)" "keeps I (GetSalesTrend E org_str)" "keeps I (ListOrganizerOrders E org_str page per_page)"
  "keeps I (GetOrganizerOrder E v org_str)" "keeps I (GetEventAttendees E L v org_str)"
  unfolding GetDashboardStats_def GetSalesTrend_def ListOrganizerOrders_def GetOrganizerOrder_def GetEventAttendees_def
  by (intro service_rules)+

lemma keeps_withdrawal_services:
  "keeps I (GetOrganizerBalance E fee org_str)" "keeps I (RequestWithdrawal E fee has_pool org_str wreq)"
  "keeps I (ListOrganizerWithdrawals E org_str page per_page)" "keeps I (GetOrganizerWithdrawalDetail E v org_str)"
  "keeps I (AdminListWithdrawals E status page per_page)" "keeps I (AdminUpdateWithdrawalStatus E v ureq)"
  "keeps I (GetAdminPlatformStats E fee)"
  unfolding GetOrganizerBalance_def RequestWithdrawal_def withdrawal_check_def withdrawal_store_def ListOrganizerWithdrawals_def
    GetOrganizerWithdrawalDetail_def AdminListWithdrawals_def AdminUpdateWithdrawalStatus_def GetAdminPlatformStats_def Let_def
  by (intro service_rules keeps_organizer_services)+

lemma keeps_order_handler:
  assumes "\<And>uid. uuid_Parse E (session_user ss) = Some uid \<Longrightarrow> uid \<in> G"
  shows "keeps I (Handler_CreateOrder fuel E lib ss idem body)"
proof (cases "bind_create_order body")
  case (Inl e)
  then show ?thesis unfolding Handler_CreateOrder_def by (auto intro!: keeps_rules)
next
  case (Inr req)
  then have "0 < sint (req_Quantity req)" by (auto simp: bind_create_order_def split: option.splits if_splits)
  then have "keeps I (CreateOrder fuel E (session_user ss) (if b then req\<lparr>req_IdempotencyKey := idem\<rparr> else req))"
    for b
    by (intro keeps_CreateOrder assms) simp_all
  then show ?thesis unfolding Handler_CreateOrder_def Inr sum.case by (intro keeps_rules)
qed

lemma keeps_handlers:
  "keeps I (MidtransWebhook E core body)" "keeps I (Handler_CreatePaymentToken E lib snap ss v)"
  "keeps I (Handler_GetOrderQueueStatus E lib ss v)" "keeps I (Handler_CancelOrder E lib ss v)"
  "keeps I (Handler_ListMyOrders E lib ss)" "keeps I (Handler_ListMyTickets E lib ss)" "keeps I (Handler_GetOrganizerStats E lib ss)"
  "keeps I (Handler_GetSalesTrend E lib ss)" "keeps I (Handler_ListOrganizerOrders E lib ss page per_page)"
  "keeps I (Handler_GetOrganizerOrder E lib ss v)" "keeps I (Handler_GetEventAttendees E L lib ss v)"
  "keeps I (GetTicketByCodeInternal E txt v)" "keeps I (GetEventGateStatsInternal E txt v)"
  unfolding MidtransWebhook_def Handler_CreatePaymentToken_def Handler_GetOrderQueueStatus_def Handler_CancelOrder_def
    Handler_ListMyOrders_def ListMyOrders_def Handler_ListMyTickets_def ListMyTickets_def Handler_GetOrganizerStats_def
    Handler_GetSalesTrend_def Handler_ListOrganizerOrders_def Handler_GetOrganizerOrder_def Handler_GetEventAttendees_def
    GetTicketByCodeInternal_def GetTicketByCode_def GetEventGateStatsInternal_def GetEventGateStats_def Let_def
  by (intro service_rules keeps_Notification keeps_token keeps_GetOrderQueueStatus keeps_CancelOrderInQueue keeps_organizer_services)+

lemma keeps_withdrawal_handlers:
  "keeps I (Handler_GetOrganizerBalance E lib fee ss)" "keeps I (Handler_RequestWithdrawal E lib fee has_pool ss wbody)"
  "keeps I (Handler_ListOrganizerWithdrawals E lib ss page per_page)" "keeps I (Handler_GetOrganizerWithdrawal E lib ss v)"
  "keeps I (Handler_AdminListWithdrawals E lib ss status page per_page)" "keeps I (Handler_AdminUpdateWithdrawalStatus E lib ss v ubody)"
  "keeps I (Handler_GetAdminPlatformStats E lib fee ss)"
  unfolding Handler_GetOrganizerBalance_def Handler_RequestWithdrawal_def Handler_ListOrganizerWithdrawals_def
    Handler_GetOrganizerWithdrawal_def Handler_AdminListWithdrawals_def Handler_AdminUpdateWithdrawalStatus_def
    Handler_GetAdminPlatformStats_def
  by (intro service_rules keeps_withdrawal_services)+

lemma keeps_order_route:
  assumes "\<And>c u. accepted (tc_JWT K) (tc_Secret K) h c \<Longrightarrow> uuid_Parse E (cl_UserID c) = Some u \<Longrightarrow> u \<in> G"
  shows "keeps I (order_route E K h idem body)"
proof -
  have handler: "keeps I (case JWTAuth (tc_JWT K) now (tc_Secret K) h of Inl r \<Rightarrow> ret (Some (resp_Code (r :: Order response)))
     | Inr ss \<Rightarrow> do { r \<leftarrow> Handler_CreateOrder (tc_Fuel K) E (tc_Text K) ss idem body; ret (map_option resp_Code r) })" for now
  proof (cases "JWTAuth (tc_JWT K) now (tc_Secret K) h :: Order response + session")
    case (Inr ss)
    have "keeps I (Handler_CreateOrder fuel E lib ss idem body)" for fuel lib
      using JWTAuth_Inr [OF Inr] assms by (intro keeps_order_handler) (auto simp: session_user_def session_of_def)
    then show ?thesis unfolding Inr sum.case by (intro keeps_rules)
  qed (simp add: keeps_return)
  show ?thesis unfolding order_route_def by (intro keeps_rules keeps_Now tick_free handler)
qed

lemma keeps_ticket_serve:
  assumes "ticket_senders E K (Ticket_request rq) \<subseteq> G"
  shows "keeps I (ticket_serve E K rq)"
proof -
  have order: "keeps I (order_route E K h idem body)" if "rq = POST_order h idem body" for h idem body
    using assms that by (intro keeps_order_route) (auto simp: ticket_senders_def)
  have code: "keeps I m \<Longrightarrow> keeps I (answered m)" for m
    unfolding answered_def by (intro keeps_rules)
  show ?thesis
    by (cases rq; simp only: ticket_serve.simps ticket_protected_def;
        intro code keeps_guards tick_free order keeps_handlers keeps_withdrawal_handlers keeps_rules)
qed

lemma keeps_ticket_step:
  assumes "ticket_senders E K e \<subseteq> G"
  shows "keeps I (ticket_step E K e)"
proof -
  have pay: "keeps I (PaymentConsumer_HandleMessage E m)" for m
    unfolding PaymentConsumer_HandleMessage_def HandlePaymentFailed_def by (intro keeps_rules payment_free keeps_CancelOrder)
  have scan: "keeps I (EventConsumer_HandleMessage E m)" for m
    unfolding EventConsumer_HandleMessage_def by (intro service_rules ticket_writes)
  show ?thesis
    using assms by (cases e; simp only: ticket_step.simps ExpiryWorker_Start_def; intro keeps_rules keeps_ticket_serve pay scan keeps_worker; simp)
qed

lemma keeps_ticket_steps: "(\<Union>e \<in> set es. ticket_senders E K e) \<subseteq> G \<Longrightarrow> keeps I (for_each es (ticket_step E K))"
  by (induction es) (auto intro!: keeps_rules keeps_ticket_step)

end

section \<open>The stock stays sound\<close>

lemma keeps_store_tickets: "keeps store_ok (UpdateTicketStatus E tid status)"
  unfolding UpdateTicketStatus_def
  by (rule keeps_sql [OF store_ok_tick_free]) (simp add: store_ok_def stock_ok_def inventory_ok_def split: option.split)

interpretation service: ticket_commands store_ok UNIV
  by unfold_locales (simp_all add: keeps_store_tickets store_ok_def stock_ok_def inventory_ok_def)

end
