(* ===== verification/Ticket_Service_Spec.thy ===== *)
theory Ticket_Service_Spec
  imports Ticket_Service
begin

text \<open>
  What the ticket service guarantees over every sequence of requests, messages and worker ticks, whatever
  fails on the way: the stock stays sound, the ledger of orders and tickets stays sound, and orders are placed
  by their owners only.
\<close>

section \<open>Stock\<close>

text \<open>A shop of the event 2 with the ticket type 1, and a buyer with a token of the user \<open>u\<close>.\<close>

definition demo_config :: "uuid \<Rightarrow> ticket_config" where
  "demo_config u = \<lparr>tc_Fuel = 3, tc_Snap = (\<lambda>n mid amt. Inr ''token''), tc_Core = (\<lambda>n raw. Inl ErrTransport), tc_Fee = Fin 5,
     tc_Pool = True, tc_JWT = demo_jwt \<lparr>cl_UserID = demo_name u, cl_Role = ''customer''\<rparr>, tc_Secret = ''k'', tc_Auth = demo_auth,
     tc_Text = (\<lambda>e. [])\<rparr>"

definition demo_store :: auth_db where
  "demo_store = \<lparr>tick = 0, redis = Map.empty, kafka = [], ticket_types = [demo_type], events = [demo_event], orders = [], order_items = [],
     tickets = [], withdrawals = [], local_tickets = [], users = [], refresh_tokens = [], password_resets = [], rotations = Map.empty\<rparr>"

text \<open>
  C11. The stock stays sound: whatever requests, payment and scan messages and worker ticks the ticket service
  takes, in whatever order and under every schedule of faults, the stock counters in Redis stay non-negative
  numbers without a deadline, no ticket type has sold less than nothing or more than its quantity, and
  no order item is of fewer than one ticket.
\<close>

theorem stock_stays_sound:
  fixes s :: "'z auth_db_scheme"
  assumes "store_ok s"
  shows "wp (for_each es (ticket_step E K)) (\<lambda>_. store_ok) s"
  by (rule keeps_wp [OF service.keeps_ticket_steps assms]) simp

theorem stock_stays_sound_witness:
  "wp (for_each [Ticket_request (POST_order demo_headers ''k'' (Some (demo_request 2 (Fin 5)))), Worker_ticks 2] (ticket_step calm_env (demo_config 6)))
    (\<lambda>_. store_ok) demo_store"
proof (rule stock_stays_sound)
  show "store_ok demo_store"
    by (simp add: store_ok_def stock_ok_def inventory_ok_def row_ok_def demo_store_def demo_type_def)
qed

section \<open>The ledger of orders and tickets\<close>

definition order_owner :: "Order \<Rightarrow> uuid \<times> uuid \<times> uuid" where
  "order_owner r = (o_ID r, o_UserID r, o_EventID r)"

definition ticket_owner :: "Ticket \<Rightarrow> uuid \<times> uuid \<times> uuid" where
  "ticket_owner k = (tk_OrderID k, tk_UserID k, tk_EventID k)"

text \<open>Unique identifiers and codes; every item has its order; every ticket is of the buyer and the event of its order.\<close>

definition ledger_ok :: "'z ticket_db_scheme \<Rightarrow> bool" where
  "ledger_ok s \<longleftrightarrow> distinct (map o_ID (orders s)) \<and> oi_OrderID ` set (order_items s) \<subseteq> o_ID ` set (orders s)
     \<and> distinct (map oi_ID (order_items s)) \<and> (\<forall>i \<in> set (order_items s). 0 < sint (oi_Quantity i))
     \<and> distinct (map tk_ID (tickets s)) \<and> distinct (map tk_TicketCode (tickets s))
     \<and> ticket_owner ` set (tickets s) \<subseteq> order_owner ` set (orders s)"

text \<open>Besides, an order is among \<open>old\<close> or of a user among \<open>G\<close>, and the orders \<open>must\<close> are there.\<close>

definition ledger_inv :: "uuid set \<Rightarrow> (uuid \<times> uuid \<times> uuid) set \<Rightarrow> (uuid \<times> uuid \<times> uuid) set \<Rightarrow> 'z ticket_db_scheme \<Rightarrow> bool" where
  "ledger_inv G old must s \<longleftrightarrow> ledger_ok s \<and> (\<forall>r \<in> set (orders s). order_owner r \<in> old \<or> o_UserID r \<in> G) \<and> must \<subseteq> order_owner ` set (orders s)"

lemmas ledger_defs = ledger_inv_def ledger_ok_def

lemma ledger_free [simp]: "tick_free (ledger_inv G old must)"
  by (simp add: tick_free_def ledger_defs)

lemma owner_rows [simp]:
  "order_owner (status_row now st r) = order_owner r" "order_owner (expires_row now x r) = order_owner r"
  "ticket_owner (ticket_status_row now st k) = ticket_owner k" "tk_ID (ticket_status_row now st k) = tk_ID k"
  "tk_TicketCode (ticket_status_row now st k) = tk_TicketCode k"
  by (simp_all add: order_owner_def ticket_owner_def ticket_status_row_def)

text \<open>Updates of rows that leave the owners alone.\<close>

lemma ledger_update_orders:
  assumes "ledger_inv G old must s" and "\<And>r. order_owner (f r) = order_owner r"
  shows "ledger_inv G old must (s\<lparr>orders := update_rows p f (orders s)\<rparr>)"
proof -
  have "o_ID (f r) = o_ID r" "o_UserID (f r) = o_UserID r" for r using assms(2) [of r] by (simp_all add: order_owner_def)
  then show ?thesis
    using assms by (auto simp: ledger_defs map_update_rows image_update_rows) (auto simp: update_rows_def)
qed

lemma ledger_update_tickets:
  assumes "ledger_inv G old must s"
  shows "ledger_inv G old must (s\<lparr>tickets := update_rows p (ticket_status_row now st) (tickets s)\<rparr>)"
  using assms by (simp add: ledger_defs map_update_rows image_update_rows)

lemma keeps_ledger_order: "user \<in> G \<Longrightarrow> keeps (ledger_inv G old must) (Queries_CreateOrder E user event amt status expires)"
  unfolding Queries_CreateOrder_def
  by (rule keeps_sql) (auto simp: ledger_defs order_owner_def Let_def split: sum.split)

lemma keeps_ledger_status: "keeps (ledger_inv G old must) (UpdateOrderStatus E oid status)"
  unfolding UpdateOrderStatus_def by (rule keeps_sql) (simp_all add: ledger_update_orders)

lemma keeps_ledger_item: "0 < sint q \<Longrightarrow> keeps (ledger_inv G old must) (CreateOrderItem E oid tid q p t)"
  unfolding CreateOrderItem_def
  by (rule keeps_sql) (auto simp: ledger_defs Let_def split: sum.split)

lemma keeps_ledger_scan: "keeps (ledger_inv G old must) (UpdateTicketStatus E tid status)"
  unfolding UpdateTicketStatus_def by (rule keeps_sql) (simp_all add: ledger_update_tickets)

lemma keeps_ledger_stock:
  "keeps (ledger_inv G old must) (ReserveTicketStock E v q)" "keeps (ledger_inv G old must) (ReleaseTicketStock E v q)"
  "keeps (ledger_inv G old must) (Client_GetTicketType E v)"
  by (rule unchanged_keeps [where f = "ledger_inv G old must" and P = "\<lambda>b. b"], rule frame_redis_only; simp add: ledger_defs)+

interpretation ledger: queue_frame "ledger_inv G old must" for G old must
  by unfold_locales (simp, simp add: ledger_defs, simp add: ledger_update_orders)

text \<open>The tickets of a payment go to the buyer of the order that was read.\<close>

lemma keeps_issue:
  assumes "order_owner order \<in> must"
  shows "keeps (ledger_inv G old must) (issue_tickets E (o_ID order) order items)"
proof -
  have "keeps (ledger_inv G old must) (CreateTicket E (o_ID order) (o_UserID order) (o_EventID order) tid code)" for tid code
    unfolding CreateTicket_def
    by (rule keeps_sql) (use assms in \<open>auto simp: ledger_defs Let_def ticket_owner_def order_owner_def\<close>)
  then show ?thesis
    unfolding issue_tickets_def issue_ticket_def New_uuid_def
    by (intro keeps_rules keeps_step keeps_Publish ledger_free) (simp_all add: ledger_defs)
qed

lemma wp_GetOrder_owner:
  fixes s :: "'z ticket_db_scheme"
  assumes "ledger_inv G old must s"
  shows "wp (GetOrder E oid) (\<lambda>r t. ledger_inv G old must t \<and>
    (\<forall>order. r = Inr order \<longrightarrow> o_ID order = oid \<and> ledger_inv G old (insert (order_owner order) must) t)) s"
proof -
  obtain Q where Q: "Q = (\<lambda>(r :: gerr + Order) (t :: 'z ticket_db_scheme). ledger_inv G old must t \<and>
    (\<forall>order. r = Inr order \<longrightarrow> o_ID order = oid \<and> ledger_inv G old (insert (order_owner order) must) t))" by blast
  have t: "ledger_inv G old must (s\<lparr>tick := n\<rparr>)" for n using assms by (simp add: ledger_defs)
  then have lost: "Q (Inl e) (s\<lparr>tick := n\<rparr>)" for e n by (simp add: Q)
  have row: "Q (row_result (find_row (\<lambda>r. o_ID r = oid) (orders s))) (s\<lparr>tick := n\<rparr>)" for n
  proof (cases "find_row (\<lambda>r. o_ID r = oid) (orders s)")
    case (Some order)
    from find_row_Some [OF Some] have "o_ID order = oid" "order \<in> set (orders s)" by simp_all
    moreover from this(2) have "ledger_inv G old (insert (order_owner order) must) (s\<lparr>tick := n\<rparr>)"
      using t [of n] by (simp add: ledger_inv_def)
    ultimately show ?thesis using t by (simp add: Q Some row_result_def)
  qed (simp add: row_result_def lost)
  have "wp (GetOrder E oid) Q s"
    by (cases "outcome E (tick s)") (simp_all add: GetOrder_def sql_def wp_external lost row)
  then show ?thesis by (simp add: Q)
qed

lemma ledger_inv_weaken: "ledger_inv G old (insert w must) s \<Longrightarrow> ledger_inv G old must s"
  by (simp add: ledger_inv_def)

lemma keeps_ledger_payment: "keeps (ledger_inv G old must) (HandlePaymentSuccess E v)"
proof (cases "uuid_Parse E v")
  case (Some oid)
  have paid: "keeps (ledger_inv G old (insert (order_owner order) must)) (if o_Status order = ''PAID'' then ok ()
      else check (UpdateOrderStatus E oid ''PAID'') (\<lambda>_. check (ListOrderItems E oid) (\<lambda>items. do {
        issue_tickets E oid order items; AdvanceQueue E (o_EventID order); ok () })))" if "o_ID order = oid" for order
    unfolding that [symmetric]
    by (intro keeps_rules keeps_ledger_status keeps_reads ledger_free keeps_issue ledger.keeps_AdvanceQueue) simp
  show ?thesis
    unfolding HandlePaymentSuccess_def Some option.case keeps_iff_wp wp_bindE
  proof (intro allI impI, rule wp_mono [OF wp_GetOrder_owner], assumption)
    fix s t and r :: "gerr + Order"
    assume t: "ledger_inv G old must t \<and>
      (\<forall>order. r = Inr order \<longrightarrow> o_ID order = oid \<and> ledger_inv G old (insert (order_owner order) must) t)"
    show "case r of Inl e \<Rightarrow> ledger_inv G old must t | Inr order \<Rightarrow> wp (if o_Status order = ''PAID'' then ok ()
      else check (UpdateOrderStatus E oid ''PAID'') (\<lambda>_. check (ListOrderItems E oid) (\<lambda>items. do {
        issue_tickets E oid order items; AdvanceQueue E (o_EventID order); ok () }))) (\<lambda>_. ledger_inv G old must) t"
    proof (cases r)
      case (Inr order)
      with t have o': "o_ID order = oid" and i: "ledger_inv G old (insert (order_owner order) must) t" by simp_all
      show ?thesis
        unfolding Inr sum.case by (rule wp_mono [OF keeps_wp [OF paid [OF o'] i]]) (rule ledger_inv_weaken)
    qed (use t in simp)
  qed
qed (simp add: HandlePaymentSuccess_def keeps_return)

interpretation ledger_service: ticket_commands "ledger_inv G old must" G for G old must
  by unfold_locales
    (simp_all add: ledger_update_orders keeps_ledger_stock keeps_ledger_order keeps_ledger_status keeps_ledger_item
      keeps_ledger_payment keeps_ledger_scan, simp_all add: ledger_defs)

text \<open>
  C12. Orders are placed by their owners: whatever requests, messages and worker ticks the ticket service takes, in
  whatever order and under every schedule of faults, the ledger stays sound (unique identifiers and ticket codes, no
  item without its order, every ticket in the name of the buyer and for the event of its order), no order
  is lost or changes its buyer or event, and every new order belongs to a user whose accepted token came with a
  request to order.
\<close>

theorem orders_placed_by_owner:
  fixes s :: "'z auth_db_scheme"
  assumes "ledger_ok s"
  shows "wp (for_each es (ticket_step E K))
    (\<lambda>_ t. ledger_ok t \<and> order_owner ` set (orders s) \<subseteq> order_owner ` set (orders t) \<and>
       (\<forall>r \<in> set (orders t). order_owner r \<notin> order_owner ` set (orders s) \<longrightarrow> o_UserID r \<in> (\<Union>e \<in> set es. ticket_senders E K e))) s"
proof -
  let ?G = "\<Union>e \<in> set es. ticket_senders E K e" and ?old = "order_owner ` set (orders s)"
  have "wp (for_each es (ticket_step E K)) (\<lambda>_. ledger_inv ?G ?old ?old) s"
    by (rule keeps_wp [OF ledger_service.keeps_ticket_steps]) (use assms in \<open>auto simp: ledger_inv_def\<close>)
  then show ?thesis by (rule wp_mono) (auto simp: ledger_inv_def)
qed

theorem orders_placed_by_owner_witness:
  "wp (for_each [Ticket_request (POST_order demo_headers ''k'' (Some (demo_request 2 (Fin 5)))), Worker_ticks 2] (ticket_step calm_env (demo_config 6)))
    (\<lambda>_ t. ledger_ok t \<and> (\<forall>r \<in> set (orders t). o_UserID r = 6)) demo_store"
proof -
  have "ledger_ok demo_store" by (simp add: ledger_ok_def demo_store_def)
  from orders_placed_by_owner [OF this] show ?thesis
    by (rule wp_mono) (auto simp: ticket_senders_def demo_config_def accepted_demo demo_store_def)
qed

end
