(* ===== verification/Entra_System.thy ===== *)
theory Entra_System
  imports Ticket_Service_Spec Event_Catalog_Spec
begin

text \<open>
  The two services that share Redis, the ticket service and the event service, and the gate service that asks the
  former, taken together: their requests, messages and ticks in one sequence. The names they use in Redis never hold
  a value of the wrong type.
\<close>

section \<open>Typed names\<close>

text \<open>The waiting lists hold lists, every other name holds a string.\<close>

definition typed_store :: "rstore \<Rightarrow> bool" where
  "typed_store rd \<longleftrightarrow> (\<forall>k v d. rd k = Some (v, d) \<longrightarrow> (list_name k \<longleftrightarrow> (\<exists>xs. v = RList xs)))"

definition typed_ok :: "'z ticket_db_scheme \<Rightarrow> bool" where
  "typed_ok s \<longleftrightarrow> typed_store (redis s) \<and> (\<forall>i \<in> set (order_items s). 0 < sint (oi_Quantity i))"

lemma typed_free [simp]: "tick_free typed_ok"
  by (simp add: tick_free_def typed_ok_def)

lemma typed_updates:
  "typed_store rd \<Longrightarrow> \<not> list_name k \<Longrightarrow> typed_store (rd(k \<mapsto> (RStr v, d)))"
  "typed_store rd \<Longrightarrow> typed_store (rd(k := None))"
  "typed_store rd \<Longrightarrow> list_name k \<Longrightarrow> typed_store (put_list k xs t rd)"
  "typed_store rd \<Longrightarrow> \<not> list_name k \<Longrightarrow> typed_store (snd (do_set k v ttl t rd))"
  "typed_store rd \<Longrightarrow> typed_store (snd (do_del ks t rd))"
  by (auto simp: typed_store_def put_list_def do_set_def do_del_def)

lemma typed_scripts:
  assumes "typed_store rd"
  shows "typed_store (snd (do_reserve (stock_key v) q t rd))" "typed_store (snd (do_release (stock_key v) q t rd))"
proof -
  have i: "typed_store (snd (incr_by (stock_key v) n t rd))" for n
    using assms by (auto simp: incr_by_def typed_updates split: option.split rval.split prod.split)
  show "typed_store (snd (do_reserve (stock_key v) q t rd))"
    using i [of "- sint q"] assms by (auto simp: do_reserve_def split: option.split rval.split prod.split sum.split)
  show "typed_store (snd (do_release (stock_key v) q t rd))"
    using i [of "sint q"] assms by (auto simp: do_release_def split: prod.split sum.split)
qed

lemma keeps_typed_scripts:
  "keeps typed_ok (redis_cmd E (do_reserve (stock_key v) q))" "keeps typed_ok (redis_cmd E (do_release (stock_key v) q))"
  "keeps typed_ok (redis_cmd E (do_set (stock_key v) w ttl))"
  by (rule keeps_redis_cmd; simp add: typed_ok_def typed_scripts typed_updates)+

lemma keeps_typed_Client:
  "keeps typed_ok (Client_GetTicketType E v)" "keeps typed_ok (Client_ReserveTickets E v q)" "keeps typed_ok (Client_ReleaseTickets E v q)"
  by (rule unchanged_keeps [where f = typed_ok and P = "\<lambda>b. b"];
      intro frame_Client frame_Client_GetTicketType; simp add: typed_ok_def)+

lemma keeps_typed_stock: "keeps typed_ok (ReserveTicketStock E v q)" "keeps typed_ok (ReleaseTicketStock E v q)"
  unfolding ReserveTicketStock_def ReleaseTicketStock_def load_stock_def confirm_reserve_def Let_def
  by (intro keeps_rules keeps_typed_scripts keeps_typed_Client keeps_Now typed_free)+

interpretation typed: stock_commands typed_ok
  by unfold_locales
    (simp_all add: typed_ok_def [abs_def] typed_updates keeps_typed_stock [unfolded typed_ok_def [abs_def]]
      keeps_typed_Client [unfolded typed_ok_def [abs_def]] typed_free [unfolded typed_ok_def [abs_def]])

lemma keeps_typed_scan: "keeps typed_ok (UpdateTicketStatus E tid status)"
  unfolding UpdateTicketStatus_def by (rule keeps_sql) (simp_all add: typed_ok_def)

interpretation typed_service: ticket_commands typed_ok UNIV
  by unfold_locales (rule keeps_typed_scan, simp add: typed_ok_def)

text \<open>No statement of the catalogue touches Redis or the items.\<close>

lemma keeps_typed_catalog:
  "keeps typed_ok (Queries_CreateEvent E org p)" "keeps typed_ok (Queries_UpdateEvent E eid org p)" "keeps typed_ok (Queries_DeleteEvent E eid org)"
  "keeps typed_ok (Queries_CreateTicketType E eid tp)" "keeps typed_ok (Queries_UpdateTicketType E tid tp)"
  "keeps typed_ok (Queries_DeleteTicketType E tid)" "keeps typed_ok (IncrementTicketSold E tid q)"
  "keeps typed_ok (DecrementTicketSold E tid q)" "keeps typed_ok (Queries_CreateVenue E org vp)"
  unfolding Queries_CreateEvent_def Queries_UpdateEvent_def Queries_DeleteEvent_def Queries_CreateTicketType_def
    Queries_UpdateTicketType_def Queries_DeleteTicketType_def IncrementTicketSold_def DecrementTicketSold_def Queries_CreateVenue_def Let_def
  by (rule keeps_sql; simp add: typed_ok_def case_prod_beta split: option.split sum.split)+

interpretation typed_catalog: catalog_commands typed_ok UNIV
  by unfold_locales
    (simp_all add: keeps_typed_catalog, simp_all add: typed_ok_def typed_updates list_name_def)

text \<open>The gate writes its own table only.\<close>

lemma keeps_typed_gate: "keeps typed_ok (gate_serve E txt J secret g)"
proof -
  have stmts: "keeps typed_ok (CreateLocalTicket E l)" "keeps typed_ok (UpdateLocalTicketStatus E k status)"
    "keeps typed_ok (GetLocalTicketByCode E code)" "keeps typed_ok (GetLocalTicketByID E k)" for l k status code
    unfolding CreateLocalTicket_def UpdateLocalTicketStatus_def GetLocalTicketByCode_def GetLocalTicketByID_def
    by (rule keeps_sql; simp add: typed_ok_def case_prod_beta)+
  have sync: "keeps typed_ok (SyncTicket E u v code status)" for u v code status
    unfolding SyncTicket_def by (intro keeps_rules stmts)
  have pub: "keeps typed_ok (Publish E topic key body)" for topic key body
    by (rule keeps_Publish) (simp_all add: typed_ok_def)
  have asked: "keeps typed_ok (http_internal (gate_env E) (GetTicketByCodeInternal E err_text code))"
    "keeps typed_ok (http_internal (gate_env E) (GetEventGateStatsInternal E err_text event))" for err_text code event
    by (rule unchanged_keeps [where f = typed_ok and P = "\<lambda>b. b"]; intro frame_http_internal frame_ticket_reads typed_free)+
  have scan: "keeps typed_ok (Handler_ScanTicket E txt body)" for body
    unfolding Handler_ScanTicket_def ScanTicket_def refresh_ticket_def copy_ticket_def check_in_def local_ticket_def Let_def
    by (intro keeps_rules asked sync stmts pub)
  have stats: "keeps typed_ok (Handler_GetGateStats E txt event)" for event
    unfolding Handler_GetGateStats_def GetGateStats_def by (intro keeps_rules asked)
  have msg: "keeps typed_ok (TicketConsumer_HandleMessage E m)" for m
    unfolding TicketConsumer_HandleMessage_def by (intro keeps_rules sync)
  show ?thesis
    by (cases g; simp only: gate_serve.simps gate_route_def; intro keeps_rules keeps_guards typed_free scan stats msg)
qed

section \<open>The services together\<close>

datatype shared_event = At_tickets ticket_event | At_catalog catalog_request | At_gate gate_event

fun shared_step ::
    "env \<Rightarrow> ticket_config \<Rightarrow> catalog_lib \<Rightarrow> (gerr \<Rightarrow> string) \<Rightarrow> shared_event \<Rightarrow> ('z catalog_db_scheme, unit) state" where
  "shared_step E K C lib (At_tickets e) = ticket_step E K e"
| "shared_step E K C lib (At_catalog rq) = do { catalog_serve E C lib (tc_JWT K) (tc_Secret K) rq; ret () }"
| "shared_step E K C lib (At_gate g) = do { gate_serve E (error_text (tc_Text K)) (tc_JWT K) (tc_Secret K) g; ret () }"

lemma keeps_typed_step: "keeps typed_ok (shared_step E K C lib e)"
  by (cases e) (auto intro!: keeps_rules typed_service.keeps_ticket_step typed_catalog.catalog_serve_ok keeps_typed_gate)

lemma typed_reads:
  assumes "typed_store rd"
  shows "list_name k \<Longrightarrow> \<exists>xs. rlist rd t k = Inr xs" and "\<not> list_name k \<Longrightarrow> fst (do_get k t rd) \<noteq> Inl ErrWrongType"
  using assms by (auto simp: typed_store_def rlist_def do_get_def rlookup_def split: option.split rval.split)

text \<open>
  C33. Redis stays typed: whatever requests the ticket service, the event service and the gate take, with the messages
  and the worker ticks between them and under every schedule of faults, a name of a waiting list holds a list and
  every other name a string, so that no list command meets a string (the waiting lists) and no GET meets a list
  (the slot and its deadline, the stock counters, the idempotency keys and the caches of the catalogue).
\<close>

theorem redis_stays_typed:
  fixes s :: "'z catalog_db_scheme"
  assumes "typed_ok s"
  shows "wp (for_each es (shared_step E K C lib)) (\<lambda>_ t. typed_ok t \<and>
    (\<forall>now eid. \<exists>xs. rlist (redis t) now (waiting_key E eid) = Inr xs) \<and>
    (\<forall>now eid v i j. \<forall>k \<in> {active_key E eid, expires_key E eid, stock_key v, idempotency_key v, event_key v, page_key i j}.
       fst (do_get k now (redis t)) \<noteq> Inl ErrWrongType)) s"
proof -
  have "wp (for_each es (shared_step E K C lib)) (\<lambda>_. typed_ok) s"
    by (rule keeps_wp [OF keeps_for_each [OF keeps_typed_step] assms])
  then show ?thesis
  proof (rule wp_mono, intro conjI allI ballI)
    fix t :: "'z catalog_db_scheme" and now eid v i j k
    assume t: "typed_ok t"
    then show "typed_ok t" .
    from t have rd: "typed_store (redis t)" by (simp add: typed_ok_def)
    show "\<exists>xs. rlist (redis t) now (waiting_key E eid) = Inr xs" by (rule typed_reads [OF rd]) simp
    assume "k \<in> {active_key E eid, expires_key E eid, stock_key v, idempotency_key v, event_key v, page_key i j}"
    then have "\<not> list_name k" by (auto dest: list_name_queue)
    then show "fst (do_get k now (redis t)) \<noteq> Inl ErrWrongType" by (rule typed_reads [OF rd])
  qed
qed

theorem redis_stays_typed_witness:
  "wp (for_each [At_tickets (Ticket_request (POST_order demo_headers [] (Some (demo_request 2 (Fin 5))))),
       At_catalog (GET_event (demo_name 2)), At_tickets (Worker_ticks 2)] (shared_step still_env (demo_config 6) demo_lib (\<lambda>e. [])))
    (\<lambda>_ t. \<exists>xs. rlist (redis t) 0 (waiting_key still_env 2) = Inr xs) demo_catalog"
proof -
  have "typed_ok demo_catalog" by (simp add: typed_ok_def typed_store_def) (simp add: demo_catalog_def)
  from redis_stays_typed [OF this] show ?thesis by (rule wp_mono) blast
qed

end
