(* ===== verification/Load_Test.thy ===== *)
theory Load_Test
  imports Http_Session Ticket_Stock
begin

text \<open>
  The load test (\<open>scripts/loadtest/loadtest_ticket_war.go\<close>): two thousand buyers run the reservation script of the ticket
  service on one stock key of a hundred tickets, all at once. A script is one atomic command of Redis and the buyers are
  alike, so that whatever order Redis takes them in is the sequence below; what the test prints and times is left out.
  A fatal log line is an error with its text.
\<close>

section \<open>The test\<close>

record tally =
  successCount :: int
  soldOutCount :: int
  errorCount :: int

definition rival :: "env \<Rightarrow> string \<Rightarrow> tally \<Rightarrow> ('z infra_scheme, tally) state" where
  "rival E key c = do {
     res \<leftarrow> redis_cmd E (do_reserve key 1);
     ret (case res of
         Inl e \<Rightarrow> c\<lparr>errorCount := errorCount c + 1\<rparr>
       | Inr r \<Rightarrow> if r = 1 then c\<lparr>successCount := successCount c + 1\<rparr>
                 else if r = 0 then c\<lparr>soldOutCount := soldOutCount c + 1\<rparr> else c) }"

primrec rivals :: "env \<Rightarrow> string \<Rightarrow> nat \<Rightarrow> tally \<Rightarrow> ('z infra_scheme, tally) state" where
  "rivals E key 0 c = ret c"
| "rivals E key (Suc n) c = do { c' \<leftarrow> rival E key c; rivals E key n c' }"

text \<open>\<open>rdb.Get(ctx, key).Int()\<close> with its error dropped: zero when the command fails.\<close>

definition get_int :: "env \<Rightarrow> string \<Rightarrow> ('z infra_scheme, int) state" where
  "get_int E key = do { r \<leftarrow> redis_cmd E (do_get key); ret (case r of Inl e \<Rightarrow> 0 | Inr v \<Rightarrow> Atoi v) }"

text \<open>The second half of \<open>main\<close>: give twenty tickets back. The key is deleted when \<open>main\<close> returns; \<open>log.Fatalf\<close>
  leaves it behind.\<close>

definition rollback_test :: "env \<Rightarrow> string \<Rightarrow> tally \<Rightarrow> ('z infra_scheme, tally) go" where
  "rollback_test E key c = do {
     redis_cmd E (do_release key 20);
     reloaded \<leftarrow> get_int E key;
     if reloaded = 20 then do { redis_cmd E (do_del [key]); ok c }
     else err (Err_New ''[FAIL] Rollback verification failed!'') }"

definition load_test :: "env \<Rightarrow> int \<Rightarrow> nat \<Rightarrow> ('z infra_scheme, tally) go" where
  "load_test E ticketQuota concurrentRivals =
     bindE (Err_Wrap ''Redis connection failed on localhost:6379'') (external E (\<lambda>n. ok ())) (\<lambda>pong. do {
       n \<leftarrow> step;
       let key = stock_key (uuid_String E (fresh E n));
       bindE (Err_Wrap ''Failed to pre-warm stock in Redis'') (redis_cmd E (do_set key (show_int ticketQuota) None)) (\<lambda>u. do {
         c \<leftarrow> rivals E key concurrentRivals \<lparr>successCount = 0, soldOutCount = 0, errorCount = 0\<rparr>;
         remaining \<leftarrow> get_int E key;
         if successCount c = ticketQuota \<and> soldOutCount c = int concurrentRivals - ticketQuota \<and> remaining = 0 then rollback_test E key c
         else err (Err_New (CHR 0x0A # ''[FAIL] Race condition / overselling anomaly detected!'')) }) })"

section \<open>It passes\<close>

text \<open>The buyers one after the other: while the counter lasts each is granted one ticket.\<close>

lemma wp_rivals:
  assumes "reliable E"
    and "counter (redis s) key = Some (int left)"
    and post: "\<And>t. counter (redis t) key = Some (int (left - n)) \<Longrightarrow> (\<forall>k. k \<noteq> key \<longrightarrow> redis t k = redis s k) \<Longrightarrow>
      Q (c\<lparr>successCount := successCount c + int (min n left), soldOutCount := soldOutCount c + int (n - left)\<rparr>) t"
  shows "wp (rivals E key n c) Q s"
  using assms(2) post
proof (induction n arbitrary: c left s)
  case 0
  then show ?case using "0.prems"(2) [of s] by simp
next
  case (Suc n)
  let ?now = "clock E (tick s)"
  show ?case
  proof (cases left)
    case 0
    have r: "do_reserve key 1 ?now (redis s) = (Inr 0, redis s)"
      using do_reserve_counter [OF Suc.prems(1), of 1 ?now] 0 by simp
    show ?thesis
      using assms(1) r
      by (simp add: rival_def) (rule Suc.IH [where left = left], use Suc.prems 0 in \<open>simp_all add: algebra_simps\<close>)
  next
    case (Suc m)
    let ?rd = "(redis s)(key \<mapsto> (RStr (show_int (int m)), None))"
    have r: "do_reserve key 1 ?now (redis s) = (Inr 1, ?rd)"
      using do_reserve_counter [OF Suc.prems(1), of 1 ?now] Suc by simp
    have "in_int64 (int m)"
      using Suc.prems(1) Suc by (simp add: counter_Some_iff in_int64_def)
    then show ?thesis
      using assms(1) r Suc
      by (simp add: rival_def) (rule Suc.IH [where left = m], use Suc.prems in \<open>simp_all add: counter_Some_iff algebra_simps\<close>)
  qed
qed

text \<open>
  C38. The load test passes when Redis answers every command: with a quota of no more than the buyers and below 2^63, whatever
  Redis held before and whatever name the ticket type gets, exactly the quota is granted, everyone else is told
  that it is sold out, nobody meets an error, and afterwards Redis is as it was but for the key, which is gone.
\<close>

theorem load_test_passes:
  assumes "reliable E" and "0 \<le> quota" and "quota \<le> int n" and "quota < 2 ^ 63"
  shows "wp (load_test E quota n) (\<lambda>r t. r = Inr \<lparr>successCount = quota, soldOutCount = int n - quota, errorCount = 0\<rparr> \<and>
    (\<exists>u. redis t = (redis s)(stock_key (uuid_String E u) := None))) s"
proof -
  obtain left where left: "quota = int left" using assms(2) nonneg_int_cases by blast
  define key where "key = stock_key (uuid_String E (fresh E (Suc (tick s))))"
  let ?Q = "\<lambda>r t. r = Inr \<lparr>successCount = quota, soldOutCount = int n - quota, errorCount = 0\<rparr> \<and>
    (\<exists>u. redis t = (redis s)(stock_key (uuid_String E u) := None))"
  let ?c = "\<lparr>successCount = 0, soldOutCount = 0, errorCount = 0 :: int\<rparr>"
  have rollback: "wp (rollback_test E key \<lparr>successCount = quota, soldOutCount = int n - quota, errorCount = 0\<rparr>) ?Q t"
    if t: "counter (redis t) key = Some 0" "\<forall>k. k \<noteq> key \<longrightarrow> redis t k = redis s k" for t
  proof -
    have r: "do_release key 20 now (redis t) = (Inr 1, (redis t)(key \<mapsto> (RStr (show_int 20), None)))" for now
      using do_release_counter [OF t(1), of 20] by (simp add: in_int64_def)
    have g: "do_get key now ((redis t)(key \<mapsto> (RStr (show_int 20), None))) = (Inr (show_int 20), (redis t)(key \<mapsto> (RStr (show_int 20), None)))" for now
      by (simp add: do_get_def rlookup_def)
    have "(\<lambda>k. if k = key then None else ((redis t)(key \<mapsto> (RStr (show_int 20), None))) k) = (redis s)(key := None)"
      using t(2) by (auto simp: fun_eq_iff)
    then show ?thesis
      using assms(1) by (simp add: rollback_test_def get_int_def r g Atoi_def ParseInt_show_int do_del_def) (auto simp: key_def)
  qed
  have core: "wp (rivals E key n ?c) (\<lambda>c. wp (get_int E key) (\<lambda>m. wp (if successCount c = quota \<and> soldOutCount c = int n - quota \<and> m = 0
      then rollback_test E key c else err (Err_New (CHR 0x0A # ''[FAIL] Race condition / overselling anomaly detected!''))) ?Q)) t"
    if t: "counter (redis t) key = Some quota" "\<forall>k. k \<noteq> key \<longrightarrow> redis t k = redis s k" for t
  proof (rule wp_rivals [OF assms(1)])
    show "counter (redis t) key = Some (int left)" using t(1) left by simp
    fix u
    assume u: "counter (redis u) key = Some (int (left - n))" "\<forall>k. k \<noteq> key \<longrightarrow> redis u k = redis t k"
    have "do_get key now (redis u) = (Inr (show_int 0), redis u)" for now
      using u(1) assms(3) left by (simp add: do_get_def rlookup_counter)
    moreover have "\<And>m. wp (rollback_test E key \<lparr>successCount = quota, soldOutCount = int n - quota, errorCount = 0\<rparr>) ?Q (u\<lparr>tick := m\<rparr>)"
      by (rule rollback) (use u t(2) assms(3) left in simp_all)
    ultimately show "wp (get_int E key) (\<lambda>m. wp (if successCount (?c\<lparr>successCount := successCount ?c + int (min n left),
          soldOutCount := soldOutCount ?c + int (n - left)\<rparr>) = quota \<and>
        soldOutCount (?c\<lparr>successCount := successCount ?c + int (min n left), soldOutCount := soldOutCount ?c + int (n - left)\<rparr>) = int n - quota \<and> m = 0
      then rollback_test E key (?c\<lparr>successCount := successCount ?c + int (min n left), soldOutCount := soldOutCount ?c + int (n - left)\<rparr>)
      else err (Err_New (CHR 0x0A # ''[FAIL] Race condition / overselling anomaly detected!''))) ?Q) u"
      using assms(1,3) left by (simp add: get_int_def Atoi_def ParseInt_show_int of_nat_diff)
  qed
  have "in_int64 quota" using assms(2,4) by (simp add: in_int64_def)
  with assms(1,2) show ?thesis
    by (simp add: load_test_def Let_def do_set_def flip: key_def cong: if_cong) (rule core, simp_all add: counter_Some_iff)
qed

theorem load_test_passes_witness:
  "wp (load_test calm_env 100 2000) (\<lambda>r t. r = Inr \<lparr>successCount = 100, soldOutCount = 1900, errorCount = 0\<rparr>)
     \<lparr>tick = 0, redis = Map.empty, kafka = []\<rparr>"
  by (rule wp_mono [OF load_test_passes]) simp_all

end
