(* ===== verification/Spec2Isabelle.thy ===== *)
theory Spec2Isabelle
  imports Auth_Passwords Event_Stock_Spec Event_Cache_Spec Payment_Intents_Spec Storage_Spec Service_Start_Spec Service_Boot_Spec Entra_System Load_Test
begin

text \<open>
  A verification development of the entra-api services: event ticketing as a set of Go services that talk over HTTP and
  Kafka and share Redis. The theories are translated from the Go sources; every property is a numbered claim \<open>C1\<close> to
  \<open>C40\<close> in the text before its theorem.

  \<^bold>\<open>The program.\<close> An organizer publishes an event and its ticket types at the \<open>event-service\<close>, which keeps them in
  PostgreSQL, caches events in Redis and publishes the number of tickets left as a Redis counter. A buyer, logged in at the
  \<open>auth-service\<close>, places an order at the \<open>ticket-service\<close>: it takes the tickets from the Redis counter by a Lua script (loading
  the counter from the event service when it is cold), tells the event service, stores the order and puts it into
  the payment queue of the event. The \<open>payment-service\<close> makes an intent of the order message. A Midtrans notification, a payment
  message or the expiry worker ends the order: tickets are issued, or the stock is given back. The \<open>gate-service\<close> copies tickets,
  admits each once and tells the ticket service. The \<open>storage-service\<close> keeps pictures.

  \<^bold>\<open>How a service is modelled.\<close> A handler or service function is a value of the state monad (\<open>State_Monad\<close>); \<open>('s, 'a) go\<close>
  returns \<open>gerr + 'a\<close>, so that every early return is a branch, and errors keep what \<open>errors.Is\<close> and \<open>err.Error()\<close> can see
  (\<open>gerr\<close>, \<open>errors_Is\<close>, \<open>error_text\<close>). The state is one record per database, each extending the one below it: \<open>infra\<close> (a tick,
  Redis, the Kafka log), \<open>event_db\<close>, \<open>ticket_db\<close>, \<open>gate_db\<close>, \<open>auth_db\<close>, \<open>catalog_db\<close>, \<open>payment_db\<close>, and \<open>media_db\<close> beside them; an
  operation is typed with the smallest record it needs and keeps to its own tables. A table is the list of its rows. Every call that
  leaves the process (SQL, Redis, Kafka, HTTP, the clock) consumes a tick of the environment \<open>env\<close>, whose \<open>outcome\<close>
  decides per tick whether the call is delivered, lost before it took effect or lost after; a theorem for all \<open>E\<close> holds under
  every schedule of such faults, one with \<open>reliable E\<close> when nothing fails. A call to another service runs the modelled handler
  of that service behind its secret check. Integers keep their width (\<open>int32\<close> is \<open>32 word\<close>), \<open>float64\<close> is exact rounding
  over the rationals (\<open>Float64\<close>), \<open>numeric\<close> columns are decimals with their NaN and infinities.

  \<^bold>\<open>Program logics\<close> (\<open>Entra_Prelude\<close>): weakest preconditions \<open>wp\<close> with simplification rules, \<open>keeps I m\<close> (an assertion that a run
  cannot break, rules in \<open>keeps_rules\<close>), \<open>unchanged f m\<close> (a projection a run leaves alone, \<open>frame_rules\<close>), \<open>yields\<close> for
  results, and \<open>reads\<close> for calls that only read.

  \<^bold>\<open>The theories\<close>, in the order they build on each other:
  \<^item> \<open>Entra_Prelude\<close>, \<open>Float64\<close>, \<open>Entra_Infra\<close>: types, logics, numbers, the world outside (\<open>env\<close>, Redis commands, JSON, \<open>Publish\<close>
    of \<open>shared/kafka/producer.go\<close>, the envelope of \<open>shared/response\<close>, \<open>RequireInternalSecret\<close>).
  \<^item> \<open>Entra_Faults\<close>: one lost call in the middle of a request whose other calls succeed (\<open>faulty_at\<close>), used by C15.
  \<^item> \<open>Entra_Ledger\<close>: the locale \<open>stock_ledger\<close>, the contract of a reservation counter, interpreted by the SQL columns
    (\<open>Event_Inventory\<close>) and by the Lua scripts (\<open>Ticket_Stock\<close>); C1 and C7 are its consequences.
  \<^item> \<open>Event_Inventory\<close>: the reservation side of the event service (\<open>handler/internal_ticket_handler.go\<close>, its statements) and
    the HTTP client (\<open>client/event_client.go\<close>). \<open>Ticket_Stock\<close>: \<open>ReserveTicketStock\<close> and \<open>ReleaseTicketStock\<close> of
    \<open>service/ticket_service.go\<close>, with C3. \<open>Load_Test\<close>: the script \<open>scripts/loadtest\<close> that races two thousand buyers (C38).
  \<^item> \<open>Ticket_Store\<close>: the statements of the ticket service. \<open>Ticket_Queue\<close>: \<open>queue_service.go\<close> and \<open>CancelOrder\<close>, with the locales
    \<open>queue_commands\<close>, \<open>queue_frame\<close> and \<open>cancel_commands\<close> of what these operations do to an assertion, and the abstract queue
    \<open>advance_spec\<close>; \<open>Ticket_Queue_Spec\<close>: the refinement (C6), termination (C39), expiry and cancellation.
  \<^item> \<open>Ticket_Checkout\<close>: \<open>CreateOrder\<close>, payment, Midtrans, the consumers and the worker; \<open>Ticket_Checkout_Spec\<close>,
    \<open>Ticket_Payment_Spec\<close>, \<open>Ticket_Midtrans_Spec\<close>: what they achieve and where they fall short; the locales \<open>checkout_commands\<close>
    and \<open>stock_commands\<close>.
  \<^item> \<open>Gate_Scan\<close>, \<open>Gate_Scan_Spec\<close>, \<open>Gate_Routes\<close>: the gate; interleaved statements (C2, an \<open>inductive\<close> step relation), two gates
    and a day of requests and messages (C20).
  \<^item> \<open>Ticket_Organizer\<close>, \<open>Ticket_Withdrawal_Spec\<close>: \<open>order_service.go\<close> and \<open>withdrawal_service.go\<close>. \<open>Http_Session\<close>: the
    middleware of \<open>shared/middleware/auth.go\<close> and paging. \<open>Ticket_Handlers\<close>, \<open>Ticket_Handlers_Spec\<close>, \<open>Ticket_Attendees\<close>: the handlers.
  \<^item> \<open>Ticket_Service\<close>, \<open>Ticket_Service_Spec\<close>: all routes, messages and worker ticks of the ticket service as \<open>ticket_step\<close>; the locale
    \<open>ticket_commands\<close> carries an assertion through every step and is interpreted for the stock (C11) and for the
    ledger of orders and tickets (C12).
  \<^item> \<open>Auth_Store\<close>, \<open>Auth_Service\<close>, \<open>Auth_Handlers\<close>, \<open>Auth_Spec\<close>, \<open>Auth_Sessions\<close>, \<open>Auth_Passwords\<close>: the auth service from its statements
    to its routes (\<open>auth_serve\<close>), roles, sessions, password resets.
  \<^item> \<open>Event_Store\<close>, \<open>Event_Catalog\<close>, \<open>Event_Handlers\<close>, \<open>Event_Catalog_Spec\<close>, \<open>Event_Stock_Spec\<close>, \<open>Event_Cache_Spec\<close>: the catalogue from its
    statements to its routes (\<open>catalog_serve\<close>, locale \<open>catalog_commands\<close>), ownership of events, the published counters and the
    cache after a change.
  \<^item> \<open>Entra_System\<close>: the services that share Redis as one machine \<open>shared_step\<close>, whose names in Redis stay typed (C33).
  \<^item> \<open>Kafka_Claim\<close>, \<open>Payment_Intents\<close>, \<open>Payment_Intents_Spec\<close>: \<open>shared/kafka/consumer.go\<close> and the payment service.
    \<open>Storage_Media\<close>, \<open>Storage_Spec\<close>: the storage service. \<open>Shared_Config\<close>, \<open>Service_Start\<close>, \<open>Service_Start_Spec\<close>:
    configuration and what the \<open>main\<close> functions make of it. \<open>Service_Boot\<close>, \<open>Service_Boot_Spec\<close>: the six \<open>main\<close> functions as
    processes that open connections, serve and stop, the outages they survive (C36) and what they leave open (C37).

  \<^bold>\<open>Bounds and fuel.\<close> \<open>AdvanceQueue\<close> terminates because its loop shortens the waiting list (a \<open>function\<close> with the measure
  \<open>waiting_len\<close>). \<open>EnqueueOrder\<close> calls itself after it has thrown out an expired order and nothing in the code bounds that when
  the clearing commands keep failing, so it takes fuel and a run out of fuel is the result \<open>None\<close>; C39 proves that
  two levels more than the waiting list is long are enough when nothing fails. Everything else is total without fuel.

  \<^bold>\<open>Parameters.\<close> Code that is not in the repository is an argument: uuid printing and parsing and the clock in \<open>env\<close>,
  the JWT library (\<open>jwt_lib\<close>), bcrypt, SHA-256, the random source and address validation (\<open>auth_lib\<close>), \<open>time.Parse\<close>,
  \<open>strconv.ParseFloat\<close>, the cache codecs, \<open>SCAN\<close>, \<open>ILIKE\<close> and collation (\<open>catalog_lib\<close>), the object store (\<open>minio\<close>), the Midtrans
  clients, which of several matching rows PostgreSQL answers with when a query has no order (\<open>row_choice\<close>), \<open>godotenv\<close>, what the connecting libraries answer (\<open>world\<close>), and the texts of library errors.
  What the code relies on is a named hypothesis (\<open>uuid_laws\<close>, \<open>jwt_laws\<close>, \<open>bcrypt_laws\<close> and so on), and the witnesses
  instantiate it.

  \<^bold>\<open>Not modelled.\<close> Requests of one service run one after the other, with faults between their calls; interleavings are
  modelled where a property is about them (the scripts, the guarded updates, two withdrawals, an edit during a checkout).
  \<open>singleflight\<close>: every caller runs the load itself. The ticker of the worker and the sessions of a Kafka group
  are given as the number of ticks and the list of sessions. Sending a mail (a mail is a value), writing logs (the
  request line and what a start logs are values), decoding of bodies from bytes (a body that does not decode is \<open>None\<close>), panics of a nil Kafka producer.
  In the processes of \<open>Service_Boot\<close> the goroutines are values, the server of a process runs the routes modelled as \<open>auth_serve\<close>,
  \<open>catalog_serve\<close>, \<open>ticket_serve\<close>, \<open>gate_serve\<close> and so on, and the attributes of log lines other than the request line are left
  out; \<open>db.go\<close> and \<open>querier.go\<close> are generated interfaces without behaviour. What the load test
  prints and times is left out.
\<close>

end
